(* ===== verification/Prelude.thy ===== *)
theory Prelude
  imports Main "HOL-Library.Word" "HOL-Library.Code_Target_Nat"
begin

text \<open>
  The part of the Go language and its standard library that the node uses, shared by every
  component of the development:
  \<^item> error values: sentinel errors, formatted errors and wrapped errors, with \<open>errors.Is\<close>;
  \<^item> fallible calls as \<open>error + 'a\<close>, and \<open>int64\<close> arithmetic with its wrap-around;
  \<^item> package \<open>strings\<close> on byte strings (case mapping and white space are the ASCII ones);
  \<^item> package \<open>strconv\<close>: decimal printing and parsing with the range check, \<open>ParseBool\<close>, \<open>Quote\<close>;
  \<^item> package \<open>encoding/hex\<close>.
  The lemmas here are the algebra of these operations; the component theories use them through
  the simp set and the collection \<open>go_str\<close>.
\<close>

named_theorems go_str \<open>definitions of the string operations, for evaluating closed terms\<close>


section \<open>Errors\<close>

text \<open>
  A Go error is a sentinel variable (\<open>errors.New\<close> at package level), a formatted message
  (\<open>fmt.Errorf\<close> without \<open>%w\<close>), or the text before and after an inner error (\<open>%w\<close>).
\<close>

datatype sentinel =
    ErrNotFound | ErrSubnetExhausted | ErrNoRows
  | ErrByteLimit | ErrSizeMismatch | ErrHashMismatch
  | ErrDisabled | ErrUnavailable | ErrStorageFull | ErrIdentityConflict

datatype error =
    Sentinel sentinel
  | Errorf string
  | Wrapf string error string

fun sentinel_msg :: "sentinel \<Rightarrow> string" where
  "sentinel_msg ErrNotFound = ''not found''"
| "sentinel_msg ErrSubnetExhausted = ''wireguard subnet exhausted''"
| "sentinel_msg ErrNoRows = ''sql: no rows in result set''"
| "sentinel_msg ErrByteLimit = ''Drop byte limit exceeded''"
| "sentinel_msg ErrSizeMismatch = ''uploaded size does not match reservation''"
| "sentinel_msg ErrHashMismatch = ''uploaded SHA-256 does not match reservation''"
| "sentinel_msg ErrDisabled = ''Drop is disabled''"
| "sentinel_msg ErrUnavailable = ''Drop is unavailable''"
| "sentinel_msg ErrStorageFull = ''Drop storage reservation exceeds capacity''"
| "sentinel_msg ErrIdentityConflict =
     ''existing Kubo identity conflicts with the mnemonic-derived Drop identity''"

fun Error :: "error \<Rightarrow> string" where
  "Error (Sentinel e) = sentinel_msg e"
| "Error (Errorf m) = m"
| "Error (Wrapf a e b) = a @ Error e @ b"

fun errors_Is :: "error \<Rightarrow> sentinel \<Rightarrow> bool" where
  "errors_Is (Sentinel e) t = (e = t)"
| "errors_Is (Errorf m) t = False"
| "errors_Is (Wrapf a e b) t = errors_Is e t"

type_synonym 'a result = "error + 'a"

definition is_ok :: "'a result \<Rightarrow> bool" where
  "is_ok r = (case r of Inl _ \<Rightarrow> False | Inr _ \<Rightarrow> True)"

lemma is_ok_simps [simp]: "is_ok (Inr x)" "\<not> is_ok (Inl e)"
  by (simp_all add: is_ok_def)

lemma is_okE [elim]: "is_ok r \<Longrightarrow> (\<And>x. r = Inr x \<Longrightarrow> P) \<Longrightarrow> P"
  by (cases r) auto


section \<open>Fixed-width integers\<close>

type_synonym u8 = "8 word"

text \<open>
  \<open>int64\<close> (and \<open>int\<close>, which has 64 bits on the node's platforms) is an integer reduced to
  the signed 64-bit range after each operation that can leave it.
\<close>

definition int64 :: "int \<Rightarrow> int" where
  "int64 x = (x + 9223372036854775808) mod 18446744073709551616 - 9223372036854775808"

definition in_int64 :: "int \<Rightarrow> bool" where
  "in_int64 x \<longleftrightarrow> - 9223372036854775808 \<le> x \<and> x \<le> 9223372036854775807"

lemma in_int64_int64 [simp]: "in_int64 (int64 x)"
proof -
  have "0 \<le> (x + 9223372036854775808) mod 18446744073709551616"
    and "(x + 9223372036854775808) mod 18446744073709551616 < 18446744073709551616"
    by simp_all
  then show ?thesis by (simp add: in_int64_def int64_def)
qed

lemma int64_id [simp]: "in_int64 x \<Longrightarrow> int64 x = x"
  by (simp add: in_int64_def int64_def)

lemma int64_sub_nonneg:
  "in_int64 a \<Longrightarrow> in_int64 b \<Longrightarrow> 0 \<le> a \<Longrightarrow> 0 \<le> b \<Longrightarrow> int64 (a - b) = a - b"
  by (rule int64_id) (simp add: in_int64_def)


section \<open>Package strings\<close>

definition IsSpace :: "char \<Rightarrow> bool" where
  "IsSpace c \<longleftrightarrow>
     c = CHR '' '' \<or> c = CHR 0x09 \<or> c = CHR 0x0A \<or> c = CHR 0x0B \<or> c = CHR 0x0C \<or> c = CHR 0x0D"

definition TrimRightFunc :: "(char \<Rightarrow> bool) \<Rightarrow> string \<Rightarrow> string" where
  "TrimRightFunc p s = rev (dropWhile p (rev s))"

definition TrimSpace :: "string \<Rightarrow> string" where
  "TrimSpace s = TrimRightFunc IsSpace (dropWhile IsSpace s)"

definition TrimRight :: "string \<Rightarrow> string \<Rightarrow> string" where
  "TrimRight s cutset = TrimRightFunc (\<lambda>c. c \<in> set cutset) s"

definition lower_char :: "char \<Rightarrow> char" where
  "lower_char c =
     (let n = (of_char c :: nat) in if 65 \<le> n \<and> n \<le> 90 then char_of (n + 32) else c)"

definition upper_char :: "char \<Rightarrow> char" where
  "upper_char c =
     (let n = (of_char c :: nat) in if 97 \<le> n \<and> n \<le> 122 then char_of (n - 32) else c)"

definition ToLower :: "string \<Rightarrow> string" where
  "ToLower s = map lower_char s"

definition ToUpper :: "string \<Rightarrow> string" where
  "ToUpper s = map upper_char s"

definition EqualFold :: "string \<Rightarrow> string \<Rightarrow> bool" where
  "EqualFold s t \<longleftrightarrow> ToLower s = ToLower t"

definition HasPrefix :: "string \<Rightarrow> string \<Rightarrow> bool" where
  "HasPrefix s p \<longleftrightarrow> take (length p) s = p"

definition HasSuffix :: "string \<Rightarrow> string \<Rightarrow> bool" where
  "HasSuffix s p \<longleftrightarrow> HasPrefix (rev s) (rev p)"

definition TrimPrefix :: "string \<Rightarrow> string \<Rightarrow> string" where
  "TrimPrefix s p = (if HasPrefix s p then drop (length p) s else s)"

definition TrimSuffix :: "string \<Rightarrow> string \<Rightarrow> string" where
  "TrimSuffix s p = (if HasSuffix s p then take (length s - length p) s else s)"

fun Contains :: "string \<Rightarrow> string \<Rightarrow> bool" where
  "Contains [] p = (p = [])"
| "Contains (c # s) p = (HasPrefix (c # s) p \<or> Contains s p)"

text \<open>\<open>strings.Split\<close> with a one-byte separator.\<close>

fun Split :: "string \<Rightarrow> char \<Rightarrow> string list" where
  "Split [] sep = [[]]"
| "Split (c # s) sep =
     (if c = sep then [] # Split s sep
      else (case Split s sep of [] \<Rightarrow> [[c]] | w # ws \<Rightarrow> (c # w) # ws))"

fun Join :: "string list \<Rightarrow> string \<Rightarrow> string" where
  "Join [] sep = []"
| "Join [w] sep = w"
| "Join (w # v # ws) sep = w @ sep @ Join (v # ws) sep"

text \<open>\<open>s[:i]\<close> for \<open>i = strings.Index(s, c)\<close>, or all of \<open>s\<close> when \<open>c\<close> does not occur.\<close>

definition upto_first :: "char \<Rightarrow> string \<Rightarrow> string" where
  "upto_first c s = takeWhile (\<lambda>x. x \<noteq> c) s"

definition ReplaceAllChar :: "string \<Rightarrow> char \<Rightarrow> char \<Rightarrow> string" where
  "ReplaceAllChar s a b = map (\<lambda>c. if c = a then b else c) s"

text \<open>\<open>strings.Replace(s, old, new, 1)\<close>: the first occurrence only.\<close>

fun ReplaceFirst :: "string \<Rightarrow> string \<Rightarrow> string \<Rightarrow> string" where
  "ReplaceFirst [] p q = (if p = [] then q else [])"
| "ReplaceFirst (c # s) p q =
     (if HasPrefix (c # s) p then q @ drop (length p) (c # s) else c # ReplaceFirst s p q)"

text \<open>
  \<open>strings.LastIndex(s, c)\<close> as the pair of the text before and the text after the last
  occurrence; \<open>None\<close> for index \<open>-1\<close>.
\<close>

definition cut_last :: "char \<Rightarrow> string \<Rightarrow> (string \<times> string) option" where
  "cut_last c s =
     (if c \<in> set s
      then Some (rev (tl (dropWhile (\<lambda>x. x \<noteq> c) (rev s))), rev (takeWhile (\<lambda>x. x \<noteq> c) (rev s)))
      else None)"

lemmas [go_str] = IsSpace_def TrimRightFunc_def TrimSpace_def TrimRight_def lower_char_def
  upper_char_def ToLower_def ToUpper_def EqualFold_def HasPrefix_def HasSuffix_def
  TrimPrefix_def TrimSuffix_def upto_first_def ReplaceAllChar_def cut_last_def


subsection \<open>Trimming\<close>

lemma TrimRightFunc_Nil [simp]: "TrimRightFunc p [] = []"
  by (simp add: TrimRightFunc_def)

lemma TrimRightFunc_snoc [simp]:
  "TrimRightFunc p (s @ [c]) = (if p c then TrimRightFunc p s else s @ [c])"
  by (simp add: TrimRightFunc_def)

lemma TrimRightFunc_idem [simp]: "TrimRightFunc p (TrimRightFunc p s) = TrimRightFunc p s"
  by (induction s rule: rev_induct) auto

lemma TrimRightFunc_last: "TrimRightFunc p s \<noteq> [] \<Longrightarrow> \<not> p (last (TrimRightFunc p s))"
  by (induction s rule: rev_induct) (auto split: if_splits)

lemma TrimRightFunc_id: "s = [] \<or> \<not> p (last s) \<Longrightarrow> TrimRightFunc p s = s"
  by (cases s rule: rev_cases) auto

lemma TrimRightFunc_set: "set (TrimRightFunc p s) \<subseteq> set s"
  by (auto simp: TrimRightFunc_def dest: set_dropWhileD)

lemma TrimRightFunc_hd: "TrimRightFunc p s \<noteq> [] \<Longrightarrow> hd (TrimRightFunc p s) = hd s"
  by (induction s rule: rev_induct) (auto split: if_splits simp: hd_append)

lemma TrimSpace_Nil [simp]: "TrimSpace [] = []"
  by (simp add: TrimSpace_def)

lemma TrimSpace_hd: "TrimSpace s \<noteq> [] \<Longrightarrow> \<not> IsSpace (hd (TrimSpace s))"
proof -
  assume ne: "TrimSpace s \<noteq> []"
  then have "dropWhile IsSpace s \<noteq> []" unfolding TrimSpace_def by (metis TrimRightFunc_Nil)
  then have "\<not> IsSpace (hd (dropWhile IsSpace s))" by (rule hd_dropWhile)
  with ne show ?thesis by (simp add: TrimSpace_def TrimRightFunc_hd)
qed

lemma TrimSpace_last: "TrimSpace s \<noteq> [] \<Longrightarrow> \<not> IsSpace (last (TrimSpace s))"
  by (simp add: TrimSpace_def TrimRightFunc_last)

lemma TrimSpace_id:
  assumes "s = [] \<or> (\<not> IsSpace (hd s) \<and> \<not> IsSpace (last s))"
  shows "TrimSpace s = s"
proof -
  have "dropWhile IsSpace s = s" using assms by (cases s) auto
  then show ?thesis using assms by (auto simp: TrimSpace_def intro: TrimRightFunc_id)
qed

lemma TrimSpace_idem [simp]: "TrimSpace (TrimSpace s) = TrimSpace s"
  by (rule TrimSpace_id) (blast dest: TrimSpace_hd TrimSpace_last)

lemma TrimSpace_nospace: "(\<And>c. c \<in> set s \<Longrightarrow> \<not> IsSpace c) \<Longrightarrow> TrimSpace s = s"
  by (rule TrimSpace_id) (cases "s = []"; simp)

lemma TrimSpace_set: "set (TrimSpace s) \<subseteq> set s"
  unfolding TrimSpace_def using TrimRightFunc_set set_dropWhileD by fast


subsection \<open>Prefixes, suffixes, occurrences\<close>

lemma HasPrefix_iff: "HasPrefix s p \<longleftrightarrow> (\<exists>t. s = p @ t)"
proof
  assume "HasPrefix s p"
  then have "s = p @ drop (length p) s"
    by (metis HasPrefix_def append_take_drop_id)
  then show "\<exists>t. s = p @ t" ..
qed (auto simp: HasPrefix_def)

lemma HasPrefix_append [simp]: "HasPrefix (p @ t) p"
  by (simp add: HasPrefix_def)

lemma HasSuffix_iff: "HasSuffix s p \<longleftrightarrow> (\<exists>t. s = t @ p)"
proof
  assume "HasSuffix s p"
  then obtain t where "rev s = rev p @ t" by (auto simp: HasSuffix_def HasPrefix_iff)
  then have "s = rev t @ p" by (metis rev_append rev_rev_ident)
  then show "\<exists>t. s = t @ p" ..
qed (auto simp: HasSuffix_def)

lemma HasSuffix_append [simp]: "HasSuffix (t @ p) p"
  by (auto simp: HasSuffix_iff)

lemma TrimPrefix_append [simp]: "TrimPrefix (p @ t) p = t"
  by (simp add: TrimPrefix_def)

lemma TrimSuffix_append [simp]: "TrimSuffix (t @ p) p = t"
  by (simp add: TrimSuffix_def)

lemma TrimPrefix_other: "\<not> HasPrefix s p \<Longrightarrow> TrimPrefix s p = s"
  by (simp add: TrimPrefix_def)

lemma TrimSuffix_other: "\<not> HasSuffix s p \<Longrightarrow> TrimSuffix s p = s"
  by (simp add: TrimSuffix_def)

lemma Contains_iff: "Contains s p \<longleftrightarrow> (\<exists>a b. s = a @ p @ b)"
proof (induction s)
  case Nil
  then show ?case by auto
next
  case (Cons c s)
  show ?case
  proof
    assume "Contains (c # s) p"
    then consider "HasPrefix (c # s) p" | "Contains s p" by auto
    then show "\<exists>a b. c # s = a @ p @ b"
    proof cases
      case 1
      then show ?thesis by (metis HasPrefix_iff append_Nil)
    next
      case 2
      then show ?thesis using Cons.IH by (metis append_Cons)
    qed
  next
    assume "\<exists>a b. c # s = a @ p @ b"
    then obtain a b where ab: "c # s = a @ p @ b" by blast
    show "Contains (c # s) p"
    proof (cases a)
      case Nil
      then have "HasPrefix (c # s) p" using ab by simp
      then show ?thesis by simp
    next
      case (Cons x xs)
      then show ?thesis using ab Cons.IH by auto
    qed
  qed
qed

lemma Contains_char: "Contains s [c] \<longleftrightarrow> c \<in> set s"
  by (auto simp: Contains_iff in_set_conv_decomp)

lemma cut_last_append: "c \<notin> set b \<Longrightarrow> cut_last c (a @ c # b) = Some (a, b)"
proof -
  assume "c \<notin> set b"
  then have n: "\<forall>x \<in> set (rev b). x \<noteq> c" by auto
  have "dropWhile (\<lambda>x. x \<noteq> c) (rev b @ c # rev a) = c # rev a"
    "takeWhile (\<lambda>x. x \<noteq> c) (rev b @ c # rev a) = rev b"
    using n by (simp_all add: dropWhile_append takeWhile_append)
  then show ?thesis by (simp add: cut_last_def)
qed

lemma Split_not_Nil [simp]: "Split s sep \<noteq> []"
  by (cases s) (auto split: list.splits)

lemma Split_append_sep:
  "sep \<notin> set w \<Longrightarrow> Split (w @ sep # s) sep = w # Split s sep"
  by (induction w) auto

lemma Split_nosep: "sep \<notin> set s \<Longrightarrow> Split s sep = [s]"
  by (induction s) auto

lemma Split_pieces: "w \<in> set (Split s sep) \<Longrightarrow> sep \<notin> set w"
  by (induction s arbitrary: w) (auto split: if_splits list.splits)

lemma Join_Cons: "ws \<noteq> [] \<Longrightarrow> Join (w # ws) sep = w @ sep @ Join ws sep"
  by (cases ws) auto

lemma Join_Split: "Join (Split s sep) [sep] = s"
proof (induction s)
  case (Cons c s)
  show ?case
  proof (cases "c = sep")
    case True
    with Cons show ?thesis by (simp add: Join_Cons)
  next
    case False
    obtain w ws where "Split s sep = w # ws" by (cases "Split s sep") auto
    with False Cons show ?thesis by (cases ws) auto
  qed
qed simp

lemma hd_Split: "hd (Split s sep) = upto_first sep s"
  by (induction s) (auto simp: upto_first_def split: list.splits)


subsection \<open>Case mapping\<close>

lemma lower_char_idem [simp]: "lower_char (lower_char c) = lower_char c"
  by (auto simp: lower_char_def Let_def)

lemma ToLower_idem [simp]: "ToLower (ToLower s) = ToLower s"
  by (simp add: ToLower_def)

lemma length_ToLower [simp]: "length (ToLower s) = length s"
  by (simp add: ToLower_def)

lemma ToLower_append [simp]: "ToLower (s @ t) = ToLower s @ ToLower t"
  by (simp add: ToLower_def)

lemma EqualFold_refl [simp]: "EqualFold s s"
  by (simp add: EqualFold_def)


section \<open>Package strconv\<close>

definition digit_char :: "nat \<Rightarrow> char" where
  "digit_char d = char_of (48 + d)"

definition is_digit :: "char \<Rightarrow> bool" where
  "is_digit c \<longleftrightarrow> 48 \<le> (of_char c :: nat) \<and> (of_char c :: nat) \<le> 57"

definition digit_val :: "char \<Rightarrow> nat" where
  "digit_val c = of_char c - 48"

text \<open>\<open>strconv.Itoa\<close>, and \<open>%d\<close> of \<open>fmt\<close>.\<close>

fun dec_nat :: "nat \<Rightarrow> string" where
  "dec_nat n = (if n < 10 then [digit_char n] else dec_nat (n div 10) @ [digit_char (n mod 10)])"

declare dec_nat.simps [simp del]

definition Itoa :: "int \<Rightarrow> string" where
  "Itoa i = (if i < 0 then CHR ''-'' # dec_nat (nat (- i)) else dec_nat (nat i))"

text \<open>
  \<open>strconv.ParseUint(s, 10, 64)\<close>: the first byte that is no digit is a syntax error, the
  first digit that passes \<open>2^64 - 1\<close> a range error.
\<close>

datatype num_result = NumOk nat | NumSyntax | NumRange

fun parse_digits :: "nat \<Rightarrow> string \<Rightarrow> num_result" where
  "parse_digits acc [] = NumOk acc"
| "parse_digits acc (c # s) =
     (if \<not> is_digit c then NumSyntax
      else if 18446744073709551615 < acc * 10 + digit_val c then NumRange
      else parse_digits (acc * 10 + digit_val c) s)"

definition ParseUint :: "string \<Rightarrow> num_result" where
  "ParseUint s = (if s = [] then NumSyntax else parse_digits 0 s)"

text \<open>
  \<open>strconv.ParseInt(s, 10, 64)\<close> and \<open>strconv.Atoi\<close>: the value and whether there was an
  error. On a range error the value is the nearest bound, on a syntax error it is 0.
\<close>

definition ParseInt :: "string \<Rightarrow> int \<times> bool" where
  "ParseInt s =
     (let neg = (s \<noteq> [] \<and> hd s = CHR ''-'');
          digits = (if s \<noteq> [] \<and> (hd s = CHR ''-'' \<or> hd s = CHR ''+'') then tl s else s)
      in case ParseUint digits of
           NumSyntax \<Rightarrow> (0, True)
         | NumRange \<Rightarrow>
             (if neg then (- 9223372036854775808, True) else (9223372036854775807, True))
         | NumOk n \<Rightarrow>
             (if \<not> neg \<and> 9223372036854775808 \<le> n then (9223372036854775807, True)
              else if neg \<and> 9223372036854775808 < n then (- 9223372036854775808, True)
              else ((if neg then - int n else int n), False)))"

definition Atoi :: "string \<Rightarrow> int \<times> bool" where
  "Atoi s = ParseInt s"

definition ParseBool :: "string \<Rightarrow> bool option" where
  "ParseBool s =
     (if s \<in> set [''1'', ''t'', ''T'', ''TRUE'', ''true'', ''True''] then Some True
      else if s \<in> set [''0'', ''f'', ''F'', ''FALSE'', ''false'', ''False''] then Some False
      else None)"

lemma of_char_digit_char: "d < 10 \<Longrightarrow> (of_char (digit_char d) :: nat) = 48 + d"
  by (simp add: digit_char_def of_char_of)

lemma is_digit_digit_char [simp]: "d < 10 \<Longrightarrow> is_digit (digit_char d)"
  by (simp add: is_digit_def of_char_digit_char)

lemma digit_val_digit_char [simp]: "d < 10 \<Longrightarrow> digit_val (digit_char d) = d"
  by (simp add: digit_val_def of_char_digit_char)

lemma digit_char_inj: "a < 10 \<Longrightarrow> b < 10 \<Longrightarrow> digit_char a = digit_char b \<Longrightarrow> a = b"
  by (metis digit_val_digit_char)

lemma dec_nat_not_Nil [simp]: "dec_nat n \<noteq> []"
  by (subst dec_nat.simps) simp

lemma dec_nat_digits: "c \<in> set (dec_nat n) \<Longrightarrow> is_digit c"
proof (induction n rule: dec_nat.induct)
  case (1 n)
  show ?case
  proof (cases "n < 10")
    case True
    with "1.prems" show ?thesis by (simp add: dec_nat.simps [of n])
  next
    case False
    with "1" show ?thesis by (auto simp: dec_nat.simps [of n])
  qed
qed

lemma parse_digits_append_ok:
  "parse_digits acc s = NumOk n \<Longrightarrow> parse_digits acc (s @ t) = parse_digits n t"
  by (induction acc s rule: parse_digits.induct) (auto split: if_splits)

lemma parse_digits_dec_nat:
  "n \<le> 18446744073709551615 \<Longrightarrow> parse_digits 0 (dec_nat n) = NumOk n"
proof (induction n rule: dec_nat.induct)
  case (1 n)
  show ?case
  proof (cases "n < 10")
    case True
    then show ?thesis by (simp add: dec_nat.simps [of n])
  next
    case False
    with "1" have "parse_digits 0 (dec_nat (n div 10)) = NumOk (n div 10)" by simp
    then have "parse_digits 0 (dec_nat n) = parse_digits (n div 10) [digit_char (n mod 10)]"
      using False by (simp add: dec_nat.simps [of n] parse_digits_append_ok)
    moreover have "n div 10 * 10 + n mod 10 = n" by simp
    ultimately show ?thesis using "1.prems" by simp
  qed
qed

lemma dec_nat_inj: "dec_nat a = dec_nat b \<Longrightarrow> a = b"
proof (induction a arbitrary: b rule: dec_nat.induct)
  case (1 a)
  show ?case
  proof (cases "a < 10")
    case True
    then have "[digit_char a] = dec_nat b" using "1.prems" by (simp add: dec_nat.simps [of a])
    then have "length (dec_nat b) = 1" by (metis length_Cons list.size(3) One_nat_def)
    then have "b < 10" by (subst (asm) dec_nat.simps) (simp split: if_splits)
    then show ?thesis using "1.prems" True
      by (simp add: dec_nat.simps [of a] dec_nat.simps [of b] digit_char_inj)
  next
    case False
    have "\<not> b < 10"
    proof
      assume "b < 10"
      then have "dec_nat (a div 10) @ [digit_char (a mod 10)] = [digit_char b]"
        using "1.prems" False by (simp add: dec_nat.simps [of a] dec_nat.simps [of b])
      then show False by simp
    qed
    then have eq: "dec_nat (a div 10) = dec_nat (b div 10)"
      "digit_char (a mod 10) = digit_char (b mod 10)"
      using "1.prems" False by (simp_all add: dec_nat.simps [of a] dec_nat.simps [of b])
    then have "a div 10 = b div 10" "a mod 10 = b mod 10"
      using "1.IH" [OF False eq(1)] by (auto intro: digit_char_inj)
    then show ?thesis by (metis div_mult_mod_eq)
  qed
qed

lemma hd_dec_nat_digit: "is_digit (hd (dec_nat n))"
  by (rule dec_nat_digits [of _ n]) simp

lemma is_digit_not_sign: "is_digit c \<Longrightarrow> c \<noteq> CHR ''-'' \<and> c \<noteq> CHR ''+''"
  by (auto simp: is_digit_def)

lemma ParseUint_dec_nat: "n \<le> 18446744073709551615 \<Longrightarrow> ParseUint (dec_nat n) = NumOk n"
  by (simp add: ParseUint_def parse_digits_dec_nat)

text \<open>Printing a 64-bit integer and parsing it again gives the integer back.\<close>

lemma ParseInt_Itoa:
  assumes "in_int64 i"
  shows "ParseInt (Itoa i) = (i, False)"
proof (cases "i < 0")
  case True
  have "nat (- i) \<le> 18446744073709551615" using assms unfolding in_int64_def by linarith
  then show ?thesis using True assms
    by (simp add: ParseInt_def Itoa_def ParseUint_dec_nat in_int64_def Let_def)
next
  case False
  have "nat i \<le> 18446744073709551615" using assms unfolding in_int64_def by linarith
  then show ?thesis using False assms is_digit_not_sign [OF hd_dec_nat_digit [of "nat i"]]
    by (simp add: ParseInt_def Itoa_def ParseUint_dec_nat in_int64_def Let_def)
qed

lemma ParseInt_range: "in_int64 (fst (ParseInt s))"
  by (auto simp: ParseInt_def in_int64_def Let_def split: num_result.splits)


subsection \<open>Quoting and hexadecimal\<close>

definition hex_char :: "nat \<Rightarrow> char" where
  "hex_char d = (if d < 10 then char_of (48 + d) else char_of (87 + d))"

definition hex_val :: "char \<Rightarrow> nat option" where
  "hex_val c =
     (let n = (of_char c :: nat) in
      if 48 \<le> n \<and> n \<le> 57 then Some (n - 48)
      else if 97 \<le> n \<and> n \<le> 102 then Some (n - 87)
      else if 65 \<le> n \<and> n \<le> 70 then Some (n - 55)
      else None)"

text \<open>\<open>%q\<close> of \<open>fmt\<close> (\<open>strconv.Quote\<close>) on an ASCII string.\<close>

definition quote_char :: "char \<Rightarrow> string" where
  "quote_char c =
     (let n = (of_char c :: nat) in
      if n = 34 then [CHR 0x5C, CHR 0x22]
      else if n = 92 then [CHR 0x5C, CHR 0x5C]
      else if n = 7 then [CHR 0x5C, CHR ''a'']
      else if n = 8 then [CHR 0x5C, CHR ''b'']
      else if n = 12 then [CHR 0x5C, CHR ''f'']
      else if n = 10 then [CHR 0x5C, CHR ''n'']
      else if n = 13 then [CHR 0x5C, CHR ''r'']
      else if n = 9 then [CHR 0x5C, CHR ''t'']
      else if n = 11 then [CHR 0x5C, CHR ''v'']
      else if n < 32 \<or> n = 127 then [CHR 0x5C, CHR ''x'', hex_char (n div 16), hex_char (n mod 16)]
      else [c])"

definition Quote :: "string \<Rightarrow> string" where
  "Quote s = CHR 0x22 # concat (map quote_char s) @ [CHR 0x22]"

fun hex_encode :: "u8 list \<Rightarrow> string" where
  "hex_encode [] = []"
| "hex_encode (b # bs) = hex_char (unat b div 16) # hex_char (unat b mod 16) # hex_encode bs"

fun hex_decode :: "string \<Rightarrow> u8 list option" where
  "hex_decode [] = Some []"
| "hex_decode [c] = None"
| "hex_decode (c # d # s) =
     (case (hex_val c, hex_val d, hex_decode s) of
        (Some h, Some l, Some bs) \<Rightarrow> Some (of_nat (16 * h + l) # bs)
      | _ \<Rightarrow> None)"

lemma hex_val_hex_char [simp]: "d < 16 \<Longrightarrow> hex_val (hex_char d) = Some d"
  by (auto simp: hex_val_def hex_char_def of_char_of Let_def)

lemma hex_decode_encode: "hex_decode (hex_encode bs) = Some bs"
proof (induction bs)
  case (Cons b bs)
  have b: "unat b < 256" using unsigned_less [of b, where ?'a = nat] by simp
  then have "unat b div 16 < 16" "unat b mod 16 < 16" by simp_all
  then show ?case using Cons by simp
qed simp

lemma length_hex_encode [simp]: "length (hex_encode bs) = 2 * length bs"
  by (induction bs) auto

lemma hex_decode_length: "hex_decode s = Some bs \<Longrightarrow> length s = 2 * length bs"
  by (induction s arbitrary: bs rule: hex_decode.induct) (auto split: option.splits)

text \<open>A quoted string never holds a raw line break: it cannot end the line it is printed on.\<close>

lemma hex_char_not_newline: "d < 16 \<Longrightarrow> CHR 0x0A \<noteq> hex_char d"
proof
  assume d: "d < 16" and "CHR 0x0A = hex_char d"
  then have "(of_char (hex_char d) :: nat) = of_char (CHR 0x0A)" by simp
  then show False using d by (auto simp: hex_char_def of_char_of split: if_splits)
qed

lemma quote_char_no_newline: "CHR 0x0A \<notin> set (quote_char c)"
proof -
  have "(of_char c :: nat) < 256" by simp
  then have "(of_char c :: nat) div 16 < 16" by linarith
  then have "CHR 0x0A \<noteq> hex_char (of_char c div 16)" "CHR 0x0A \<noteq> hex_char (of_char c mod 16)"
    by (simp_all add: hex_char_not_newline)
  moreover have "c = CHR 0x0A \<Longrightarrow> (of_char c :: nat) = 10" by simp
  ultimately show ?thesis by (auto simp: quote_char_def Let_def)
qed

lemma Quote_no_newline: "CHR 0x0A \<notin> set (Quote s)"
  using quote_char_no_newline by (auto simp: Quote_def)


section \<open>Paths\<close>

text \<open>\<open>filepath.Clean\<close> and \<open>filepath.Join\<close> on Unix.\<close>

fun clean_parts :: "bool \<Rightarrow> string list \<Rightarrow> string list \<Rightarrow> string list" where
  "clean_parts rooted out [] = rev out"
| "clean_parts rooted out (c # cs) =
     (if c = [] \<or> c = ''.'' then clean_parts rooted out cs
      else if c = ''..'' then
        (case out of
           [] \<Rightarrow> clean_parts rooted (if rooted then [] else [''..'']) cs
         | d # ds \<Rightarrow> if d = ''..'' then clean_parts rooted (''..'' # out) cs else clean_parts rooted ds cs)
      else clean_parts rooted (c # out) cs)"

definition Clean :: "string \<Rightarrow> string" where
  "Clean path =
     (let rooted = HasPrefix path ''/'';
          body = Join (clean_parts rooted [] (Split path CHR ''/'')) ''/'';
          out = (if rooted then ''/'' else []) @ body
      in if out = [] then ''.'' else out)"

definition JoinPath :: "string list \<Rightarrow> string" where
  "JoinPath elems =
     (let es = filter (\<lambda>e. e \<noteq> []) elems in if es = [] then [] else Clean (Join es ''/''))"

abbreviation NL :: string where
  "NL \<equiv> [CHR 0x0A]"

lemma map_sum_eq_Inr: "map_sum f g x = Inr y \<longleftrightarrow> (\<exists>z. x = Inr z \<and> g z = y)"
  by (cases x) auto

end
