(* ===== verification/NetIP.thy ===== *)
theory NetIP
  imports Prelude
begin

unbundle bit_operations_syntax

text \<open>
  The part of Go's package \<open>net\<close> the node uses: addresses as byte lists (4 or 16 bytes),
  \<open>ParseIP\<close>, \<open>ParseCIDR\<close>, masks, \<open>IPNet.Contains\<close>, printing and \<open>JoinHostPort\<close>, and the three address
  helpers of \<open>src/internal/store/ipalloc.go\<close> (\<open>cloneIP\<close>, \<open>incIP\<close>, \<open>broadcastAddr\<close>).
  The lemmas read an address as a number (\<open>ip_val\<close>): \<open>incIP\<close> is successor modulo the size of
  the address space, membership in a network is equality of the leading bits, and printing an
  IPv4 address and parsing it again gives the address back.
\<close>

type_synonym IP = "u8 list"

record IPNet =
  net_IP :: IP
  net_Mask :: "u8 list"


section \<open>Addresses and masks\<close>

definition v4InV6Prefix :: "u8 list" where
  "v4InV6Prefix = [0, 0, 0, 0, 0, 0, 0, 0, 0, 0, 255, 255]"

definition To4 :: "IP \<Rightarrow> IP option" where
  "To4 ip =
     (if length ip = 4 then Some ip
      else if length ip = 16 \<and> take 12 ip = v4InV6Prefix then Some (drop 12 ip)
      else None)"

text \<open>\<open>net.CIDRMask\<close>: \<open>cidr_bytes l n\<close> is the mask of \<open>l\<close> bytes with \<open>n\<close> leading ones.\<close>

fun cidr_bytes :: "nat \<Rightarrow> nat \<Rightarrow> u8 list" where
  "cidr_bytes 0 n = []"
| "cidr_bytes (Suc l) n =
     (if 8 \<le> n then 255 # cidr_bytes l (n - 8) else NOT (drop_bit n 255) # cidr_bytes l 0)"

definition CIDRMask :: "nat \<Rightarrow> nat \<Rightarrow> u8 list" where
  "CIDRMask ones bits = cidr_bytes (bits div 8) ones"

text \<open>\<open>IP.Mask\<close>; the empty list is the nil address a length mismatch gives.\<close>

definition IP_Mask :: "IP \<Rightarrow> u8 list \<Rightarrow> IP" where
  "IP_Mask ip m =
     (let m' = (if length m = 16 \<and> length ip = 4 \<and> take 12 m = replicate 12 255
                then drop 12 m else m);
          ip' = (if length m' = 4 \<and> length ip = 16 \<and> take 12 ip = v4InV6Prefix
                 then drop 12 ip else ip)
      in if length ip' = length m' then map2 (AND) ip' m' else [])"

definition networkNumberAndMask :: "IPNet \<Rightarrow> IP \<times> u8 list" where
  "networkNumberAndMask n =
     (let ip = (case To4 (net_IP n) of Some x \<Rightarrow> x | None \<Rightarrow> net_IP n); m = net_Mask n
      in if length ip \<noteq> 4 \<and> length ip \<noteq> 16 then ([], [])
         else if length m = 4 then (if length ip = 4 then (ip, m) else ([], []))
         else if length m = 16 then (ip, if length ip = 4 then drop 12 m else m)
         else ([], []))"

definition IPNet_Contains :: "IPNet \<Rightarrow> IP \<Rightarrow> bool" where
  "IPNet_Contains n ip =
     (let (nn, m) = networkNumberAndMask n; ip' = (case To4 ip of Some x \<Rightarrow> x | None \<Rightarrow> ip)
      in length ip' = length nn \<and> map2 (AND) nn m = map2 (AND) ip' m)"

text \<open>\<open>IPMask.Size\<close>: the number of leading ones of a mask that is ones followed by zeros.\<close>

fun mask_ones :: "u8 list \<Rightarrow> nat" where
  "mask_ones [] = 0"
| "mask_ones (b # bs) =
     (if b = 255 then 8 + mask_ones bs
      else length (takeWhile id (map (\<lambda>i. bit b (7 - i)) [0..<8])))"


section \<open>Printing\<close>

fun hex_nat :: "nat \<Rightarrow> string" where
  "hex_nat n = (if n < 16 then [hex_char n] else hex_nat (n div 16) @ [hex_char (n mod 16)])"

declare hex_nat.simps [simp del]

fun v6_groups :: "u8 list \<Rightarrow> nat list" where
  "v6_groups (a # b # bs) = (256 * unat a + unat b) # v6_groups bs"
| "v6_groups _ = []"

text \<open>The first longest run of at least two zero groups, as start and end.\<close>

definition zero_run :: "nat list \<Rightarrow> nat \<times> nat" where
  "zero_run gs =
     foldl (\<lambda>(zs, ze) i.
        let l = length (takeWhile (\<lambda>g. g = 0) (drop i gs))
        in if 2 \<le> l \<and> ze - zs < l then (i, i + l) else (zs, ze))
       (255, 255) [0..<length gs]"

definition v6_string :: "IP \<Rightarrow> string" where
  "v6_string ip =
     (let gs = v6_groups ip; (zs, ze) = zero_run gs
      in if zs = 255 then Join (map hex_nat gs) '':''
         else Join (map hex_nat (take zs gs)) '':'' @ ''::'' @ Join (map hex_nat (drop ze gs)) '':'')"

definition v4_string :: "IP \<Rightarrow> string" where
  "v4_string ip = Join (map (\<lambda>b. dec_nat (unat b)) ip) ''.''"

definition IP_String :: "IP \<Rightarrow> string" where
  "IP_String ip =
     (if ip = [] then ''<nil>''
      else case To4 ip of
             Some p4 \<Rightarrow> v4_string p4
           | None \<Rightarrow> if length ip = 16 then v6_string ip else ''?'' @ hex_encode ip)"

text \<open>\<open>net.JoinHostPort\<close>: a host that holds a colon is put in brackets.\<close>

definition JoinHostPort :: "string \<Rightarrow> string \<Rightarrow> string" where
  "JoinHostPort host port =
     (if CHR '':'' \<in> set host then ''['' @ host @ '']:'' @ port else host @ '':'' @ port)"


section \<open>Parsing\<close>

fun parse_v4_fields :: "nat \<Rightarrow> nat \<Rightarrow> u8 list \<Rightarrow> string \<Rightarrow> IP option" where
  "parse_v4_fields val dig fs [] =
     (if length fs < 3 then None else Some (fs @ [of_nat val]))"
| "parse_v4_fields val dig fs (c # s) =
     (if is_digit c then
        (if dig = 1 \<and> val = 0 then None
         else if 255 < val * 10 + digit_val c then None
         else parse_v4_fields (val * 10 + digit_val c) (Suc dig) fs s)
      else if c = CHR ''.'' then
        (if dig = 0 \<or> s = [] then None
         else if length fs = 3 then None
         else parse_v4_fields 0 0 (fs @ [of_nat val]) s)
      else None)"

text \<open>One group of an IPv6 address: its value, its number of digits and the rest.\<close>

fun v6_hex :: "nat \<Rightarrow> nat \<Rightarrow> string \<Rightarrow> (nat \<times> nat \<times> string) option" where
  "v6_hex acc off [] = Some (acc, off, [])"
| "v6_hex acc off (c # s) =
     (case hex_val c of
        None \<Rightarrow> Some (acc, off, c # s)
      | Some h \<Rightarrow>
          if 3 < off then None
          else if 65535 < 16 * acc + h then None
          else v6_hex (16 * acc + h) (Suc off) s)"

text \<open>
  The loop of the IPv6 parser: groups left, bytes so far, position of the ellipsis, input.
\<close>

fun v6_loop :: "nat \<Rightarrow> u8 list \<Rightarrow> nat option \<Rightarrow> string \<Rightarrow> (u8 list \<times> nat option \<times> string) option" where
  "v6_loop 0 bs ell s = Some (bs, ell, s)"
| "v6_loop (Suc k) bs ell s =
     (case v6_hex 0 0 s of
        None \<Rightarrow> None
      | Some (acc, off, rest) \<Rightarrow>
          if off = 0 then None
          else if rest \<noteq> [] \<and> hd rest = CHR ''.'' then
            (if ell = None \<and> length bs \<noteq> 12 then None
             else if 16 < length bs + 4 then None
             else map_option (\<lambda>v4. (bs @ v4, ell, [])) (parse_v4_fields 0 0 [] s))
          else
            (let bs' = bs @ [of_nat (acc div 256), of_nat acc] in
             case rest of
               [] \<Rightarrow> Some (bs', ell, [])
             | c # rest' \<Rightarrow>
                 if c \<noteq> CHR '':'' \<or> rest' = [] then None
                 else if hd rest' = CHR '':'' then
                   (if ell \<noteq> None then None
                    else if tl rest' = [] then Some (bs', Some (length bs'), [])
                    else v6_loop k bs' (Some (length bs')) (tl rest'))
                 else v6_loop k bs' ell rest'))"

definition parse_v6 :: "string \<Rightarrow> IP option" where
  "parse_v6 s =
     (let lead = HasPrefix s ''::''; s' = (if lead then drop 2 s else s)
      in if lead \<and> s' = [] then Some (replicate 16 0)
         else case v6_loop 8 [] (if lead then Some 0 else None) s' of
                None \<Rightarrow> None
              | Some (bs, ell, rest) \<Rightarrow>
                  if rest \<noteq> [] then None
                  else if length bs < 16 then
                    (case ell of None \<Rightarrow> None
                     | Some e \<Rightarrow> Some (take e bs @ replicate (16 - length bs) 0 @ drop e bs))
                  else if ell \<noteq> None then None
                  else Some bs)"

text \<open>
  \<open>netip.ParseAddr\<close> for the callers here, which refuse an address with a zone: the first
  of \<open>.\<close>, \<open>:\<close>, \<open>%\<close> in the text decides the family. The result is 4 or 16 bytes.
\<close>

definition ParseAddr :: "string \<Rightarrow> IP option" where
  "ParseAddr s =
     (if CHR ''%'' \<in> set s then None
      else case dropWhile (\<lambda>c. c \<noteq> CHR ''.'' \<and> c \<noteq> CHR '':'') s of
             [] \<Rightarrow> None
           | c # _ \<Rightarrow> if c = CHR ''.'' then parse_v4_fields 0 0 [] s else parse_v6 s)"

definition As16 :: "IP \<Rightarrow> IP" where
  "As16 ip = (if length ip = 4 then v4InV6Prefix @ ip else ip)"

definition ParseIP :: "string \<Rightarrow> IP option" where
  "ParseIP s = map_option As16 (ParseAddr s)"

text \<open>The prefix length after the slash: all digits, below \<open>0xFFFFFF\<close>.\<close>

fun dtoi_from :: "nat \<Rightarrow> string \<Rightarrow> nat option" where
  "dtoi_from acc [] = Some acc"
| "dtoi_from acc (c # s) =
     (if \<not> is_digit c then None
      else if 16777215 \<le> acc * 10 + digit_val c then None
      else dtoi_from (acc * 10 + digit_val c) s)"

definition dtoi :: "string \<Rightarrow> nat option" where
  "dtoi s = (if s = [] then None else dtoi_from 0 s)"

definition ParseCIDR :: "string \<Rightarrow> (IP \<times> IPNet) option" where
  "ParseCIDR s =
     (if CHR ''/'' \<notin> set s then None
      else case ParseAddr (upto_first CHR ''/'' s) of
             None \<Rightarrow> None
           | Some addr \<Rightarrow>
               (case dtoi (tl (dropWhile (\<lambda>c. c \<noteq> CHR ''/'') s)) of
                  None \<Rightarrow> None
                | Some n \<Rightarrow>
                    if 8 * length addr < n then None
                    else let m = CIDRMask n (8 * length addr); a16 = As16 addr
                         in Some (a16, \<lparr>net_IP = IP_Mask a16 m, net_Mask = m\<rparr>)))"


section \<open>The address helpers of the allocator\<close>

definition cloneIP :: "IP \<Rightarrow> IP" where
  "cloneIP ip = ip"

fun inc_le :: "u8 list \<Rightarrow> u8 list" where
  "inc_le [] = []"
| "inc_le (b # bs) = (if 0 < b + 1 then (b + 1) # bs else (b + 1) # inc_le bs)"

text \<open>The loop of \<open>incIP\<close> runs from the last byte down to the first.\<close>

definition incIP :: "IP \<Rightarrow> IP" where
  "incIP ip = rev (inc_le (rev ip))"

definition broadcastAddr :: "IPNet \<Rightarrow> IP" where
  "broadcastAddr n =
     (let b = (if length (net_IP n) = 4 then replicate 4 0 else replicate 16 (0 :: u8))
      in map2 (\<lambda>i m. i OR NOT m) (net_IP n) (net_Mask n) @ drop (length (net_IP n)) b)"


section \<open>Addresses as numbers\<close>

fun ip_val :: "IP \<Rightarrow> nat" where
  "ip_val [] = 0"
| "ip_val (b # bs) = unat b * 256 ^ length bs + ip_val bs"

fun le_val :: "u8 list \<Rightarrow> nat" where
  "le_val [] = 0"
| "le_val (b # bs) = unat b + 256 * le_val bs"

lemma unat_u8_less [simp]: "unat (b :: u8) < 256"
  using unsigned_less [of b, where ?'a = nat] by simp

lemma le_val_snoc: "le_val (bs @ [b]) = le_val bs + unat b * 256 ^ length bs"
  by (induction bs) (auto simp: algebra_simps)

lemma ip_val_le_val: "ip_val ip = le_val (rev ip)"
  by (induction ip) (simp_all add: le_val_snoc)

lemma ip_val_less: "ip_val ip < 256 ^ length ip"
proof (induction ip)
  case (Cons b bs)
  have "unat b * 256 ^ length bs + ip_val bs < unat b * 256 ^ length bs + 256 ^ length bs"
    using Cons by simp
  also have "\<dots> = Suc (unat b) * 256 ^ length bs" by simp
  also have "\<dots> \<le> 256 * 256 ^ length bs"
    using unat_u8_less [of b] by (intro mult_le_mono1) linarith
  finally show ?case by simp
qed simp

lemma ip_val_inj:
  "length a = length b \<Longrightarrow> ip_val a = ip_val b \<Longrightarrow> a = b"
proof (induction a b rule: list_induct2)
  case (Cons x xs y ys)
  let ?B = "256 ^ length xs"
  have eq: "unat x * ?B + ip_val xs = unat y * ?B + ip_val ys"
    using Cons.prems Cons.hyps by simp
  have lt: "ip_val xs < ?B" "ip_val ys < ?B"
    using ip_val_less [of xs] ip_val_less [of ys] Cons.hyps by simp_all
  have "unat x = (unat x * ?B + ip_val xs) div ?B" using lt(1) by simp
  also have "\<dots> = (unat y * ?B + ip_val ys) div ?B" using eq by simp
  also have "\<dots> = unat y" using lt(2) by simp
  finally have "unat x = unat y" .
  then show ?case using eq Cons.IH by (simp add: word_unat_eq_iff)
qed simp

lemma length_inc_le [simp]: "length (inc_le bs) = length bs"
  by (induction bs) auto

lemma length_incIP [simp]: "length (incIP ip) = length ip"
  by (simp add: incIP_def)

lemma le_val_less: "le_val bs < 256 ^ length bs"
  using ip_val_less [of "rev bs"] by (simp add: ip_val_le_val)

lemma unat_succ_u8: "unat (b + 1 :: u8) = (unat b + 1) mod 256"
  by (simp add: unat_word_ariths)

lemma le_val_inc: "le_val (inc_le bs) = (le_val bs + 1) mod 256 ^ length bs"
proof (induction bs)
  case (Cons b bs)
  have lt: "le_val bs < 256 ^ length bs" by (rule le_val_less)
  show ?case
  proof (cases "b + 1 = 0")
    case True
    then have "b = - 1" by (simp add: eq_neg_iff_add_eq_0)
    moreover have "(- 1 :: u8) = 255" by simp
    ultimately have b: "unat b = 255" by simp
    have "le_val (inc_le (b # bs)) = 256 * ((le_val bs + 1) mod 256 ^ length bs)"
      using True Cons by simp
    also have "\<dots> = (256 * (le_val bs + 1)) mod (256 * 256 ^ length bs)"
      by (simp add: mult_mod_right)
    finally show ?thesis using b by (simp add: algebra_simps)
  next
    case False
    have "unat b \<noteq> 255"
    proof
      assume "unat b = 255"
      then have "b = 255" by (simp add: word_unat_eq_iff)
      with False show False by simp
    qed
    then have "unat b + 1 < 256" using unat_u8_less [of b] by linarith
    then have u: "unat (b + 1) = unat b + 1" by (simp add: unat_succ_u8)
    have "unat b + 256 * le_val bs + 1 < 256 * 256 ^ length bs"
      using lt \<open>unat b + 1 < 256\<close> by linarith
    then show ?thesis using False u by (simp add: word_gt_0)
  qed
qed simp

lemma ip_val_incIP: "ip_val (incIP ip) = (ip_val ip + 1) mod 256 ^ length ip"
  by (simp add: ip_val_le_val incIP_def le_val_inc)


section \<open>Membership in a network\<close>

lemma and_not_mask_eq_iff:
  "(a AND NOT (mask j) = b AND NOT (mask j)) \<longleftrightarrow> unat a div 2 ^ j = unat b div 2 ^ j" for a b :: u8
proof -
  have "(a AND NOT (mask j) = b AND NOT (mask j)) \<longleftrightarrow> drop_bit j a = drop_bit j b"
  proof
    assume eq: "a AND NOT (mask j) = b AND NOT (mask j)"
    show "drop_bit j a = drop_bit j b"
    proof (rule bit_word_eqI)
      fix n assume "n < LENGTH(8)"
      have "bit (a AND NOT (mask j)) (j + n) = bit (b AND NOT (mask j)) (j + n)" using eq by simp
      then show "bit (drop_bit j a) n = bit (drop_bit j b) n"
        by (auto simp: bit_simps dest: bit_imp_le_length)
    qed
  next
    assume eq: "drop_bit j a = drop_bit j b"
    show "a AND NOT (mask j) = b AND NOT (mask j)"
    proof (rule bit_word_eqI)
      fix n assume "n < LENGTH(8)"
      have "bit (drop_bit j a) (n - j) = bit (drop_bit j b) (n - j)" using eq by simp
      then show "bit (a AND NOT (mask j)) n = bit (b AND NOT (mask j)) n"
        by (auto simp: bit_simps)
    qed
  qed
  also have "\<dots> \<longleftrightarrow> unat a div 2 ^ j = unat b div 2 ^ j"
    by (simp only: word_unat_eq_iff unat_drop_bit_eq) (simp add: drop_bit_eq_div)
  finally show ?thesis .
qed

lemma mask_byte: "n \<le> 8 \<Longrightarrow> drop_bit n (255 :: u8) = mask (8 - n)"
proof -
  assume n: "n \<le> 8"
  have "(255 :: u8) = mask 8" by (simp add: mask_eq_decr_exp)
  then show ?thesis using n by (simp add: bit_eq_iff bit_simps) auto
qed

lemma length_cidr_bytes [simp]: "length (cidr_bytes l n) = l"
  by (induction l n rule: cidr_bytes.induct) auto

lemma cidr_bytes_0: "cidr_bytes l 0 = replicate l 0"
  by (induction l) simp_all

lemma map2_and_zero: "map2 (AND) xs (replicate (length xs) (0 :: u8)) = replicate (length xs) 0"
  by (induction xs) auto

text \<open>
  Agreeing on the bytes of a mask with \<open>n\<close> leading ones is agreeing on the \<open>n\<close> leading bits
  of the number.
\<close>

lemma cidr_bytes_agree:
  "length a = length b \<Longrightarrow> n \<le> 8 * length a \<Longrightarrow>
   (map2 (AND) a (cidr_bytes (length a) n) = map2 (AND) b (cidr_bytes (length a) n)) \<longleftrightarrow>
   ip_val a div 2 ^ (8 * length a - n) = ip_val b div 2 ^ (8 * length a - n)"
proof (induction a b arbitrary: n rule: list_induct2)
  case Nil
  then show ?case by simp
next
  case (Cons x xs y ys)
  let ?l = "length xs"
  let ?B = "(256 :: nat) ^ ?l"
  have B: "?B = 2 ^ (8 * ?l)" by (simp add: power_mult)
  have lx: "ip_val xs < ?B" and ly: "ip_val ys < ?B"
    using ip_val_less [of xs] ip_val_less [of ys] Cons.hyps by simp_all
  show ?case
  proof (cases "8 \<le> n")
    case True
    let ?d = "8 * ?l - (n - 8)"
    have e: "8 * length (x # xs) - n = ?d" using True Cons.prems by simp
    have dle: "?d \<le> 8 * ?l" by simp
    have Bd: "?B = 2 ^ (n - 8) * 2 ^ ?d"
      using True Cons.prems by (simp add: B flip: power_add)
    have split: "(u * ?B + v) div 2 ^ ?d = u * 2 ^ (n - 8) + v div 2 ^ ?d" for u v :: nat
      by (simp add: Bd mult.assoc [symmetric])
    have small: "v < ?B \<Longrightarrow> v div 2 ^ ?d < 2 ^ (n - 8)" for v :: nat
      by (simp add: Bd less_mult_imp_div_less)
    have head: "(unat x * 2 ^ (n - 8) + ip_val xs div 2 ^ ?d = unat y * 2 ^ (n - 8) + ip_val ys div 2 ^ ?d)
      \<longleftrightarrow> x = y \<and> ip_val xs div 2 ^ ?d = ip_val ys div 2 ^ ?d"
    proof
      assume eq: "unat x * 2 ^ (n - 8) + ip_val xs div 2 ^ ?d = unat y * 2 ^ (n - 8) + ip_val ys div 2 ^ ?d"
      have "unat x = (unat x * 2 ^ (n - 8) + ip_val xs div 2 ^ ?d) div 2 ^ (n - 8)"
        using small [OF lx] by simp
      also have "\<dots> = (unat y * 2 ^ (n - 8) + ip_val ys div 2 ^ ?d) div 2 ^ (n - 8)"
        using eq by simp
      also have "\<dots> = unat y" using small [OF ly] by simp
      finally have "unat x = unat y" .
      then show "x = y \<and> ip_val xs div 2 ^ ?d = ip_val ys div 2 ^ ?d"
        using eq by (simp add: word_unat_eq_iff)
    qed simp
    have ff: "z AND 255 = z" for z :: u8
    proof -
      have "(255 :: u8) = - 1" by simp
      then show ?thesis by (metis word_and_max)
    qed
    show ?thesis
      using True Cons.IH [of "n - 8"] Cons.prems Cons.hyps split [of "unat x" "ip_val xs"]
        split [of "unat y" "ip_val ys"] head
      by (simp add: e ff add.commute)
  next
    case False
    let ?j = "8 - n"
    have "8 + 8 * ?l - n = 8 * ?l + ?j" using False by simp
    then have e: "2 ^ (8 + 8 * ?l - n) = ?B * 2 ^ ?j"
      by (simp only: B power_add)
    have split: "v < ?B \<Longrightarrow> (u * ?B + v) div (?B * 2 ^ ?j) = u div 2 ^ ?j" for u v :: nat
      by (simp add: div_mult2_eq)
    have z: "map2 (AND) xs (cidr_bytes ?l 0) = map2 (AND) ys (cidr_bytes ?l 0)"
      using Cons.hyps map2_and_zero [of xs] map2_and_zero [of ys] by (simp add: cidr_bytes_0)
    show ?thesis
      using False Cons.hyps z split [OF lx, of "unat x"] split [OF ly, of "unat y"]
        and_not_mask_eq_iff [of x "8 - n" y]
      by (simp add: e [unfolded Cons.hyps] mask_byte)
  qed
qed


section \<open>Printing and parsing IPv4\<close>

lemma parse_v4_field:
  assumes "n < 256" "rest = [] \<or> \<not> is_digit (hd rest)"
  shows "parse_v4_fields 0 0 fs (dec_nat n @ rest) = parse_v4_fields n (length (dec_nat n)) fs rest"
proof -
  consider "n < 10" | "10 \<le> n" "n < 100" | "100 \<le> n" by linarith
  then show ?thesis
  proof cases
    case 1
    then show ?thesis by (simp add: dec_nat.simps [of n])
  next
    case 2
    then have d: "n div 10 < 10" "n div 10 \<noteq> 0" by auto
    then show ?thesis using 2 by (simp add: dec_nat.simps [of n] dec_nat.simps [of "n div 10"])
  next
    case 3
    have d: "n div 10 div 10 < 10" "n div 10 div 10 \<noteq> 0" "\<not> n div 10 < 10" using 3 assms by auto
    have e: "n div 10 div 10 * 10 + n div 10 mod 10 = n div 10"
      by (rule div_mult_mod_eq)
    have l: "n div 10 \<le> 255" "(n div 10 < 10) = False" using assms 3 by auto
    show ?thesis using 3 d e l assms
      by (simp add: dec_nat.simps [of n] dec_nat.simps [of "n div 10"] dec_nat.simps [of "n div 10 div 10"])
  qed
qed

lemma length4E:
  assumes "length ip = 4"
  obtains a b c d where "ip = [a, b, c, d]"
proof -
  from assms obtain a b c d where "ip = [a, b, c, d]"
    by (auto simp: numeral_eq_Suc length_Suc_conv)
  then show thesis by (rule that)
qed

lemma not_digit_dot [simp]: "\<not> is_digit CHR ''.''"
  by code_simp

lemma not_digit_slash [simp]: "\<not> is_digit CHR ''/''"
  by code_simp

lemma v4_string_parts:
  "v4_string [a, b, c, d] =
     dec_nat (unat a) @ ''.'' @ dec_nat (unat b) @ ''.'' @ dec_nat (unat c) @ ''.'' @ dec_nat (unat d)"
  by (simp add: v4_string_def)

lemma parse_v4_string:
  assumes "length ip = 4"
  shows "parse_v4_fields 0 0 [] (v4_string ip) = Some ip"
proof -
  from assms obtain a b c d where ip: "ip = [a, b, c, d]" by (rule length4E)
  show ?thesis
    using parse_v4_field [of "unat d" "[]" "[a, b, c]"]
    by (simp add: ip v4_string_parts parse_v4_field)
qed

lemma v4_string_inj: "length ip = 4 \<Longrightarrow> length ip' = 4 \<Longrightarrow> v4_string ip = v4_string ip' \<Longrightarrow> ip = ip'"
  by (metis option.inject parse_v4_string)

lemma IP_String_v4 [simp]: "length ip = 4 \<Longrightarrow> IP_String ip = v4_string ip"
  by (cases ip) (simp_all add: IP_String_def To4_def)

lemma To4_As16: "length ip = 4 \<Longrightarrow> To4 (As16 ip) = Some ip"
  by (simp add: To4_def As16_def v4InV6Prefix_def)

lemma As16_not_Nil: "length ip = 4 \<Longrightarrow> As16 ip \<noteq> []"
  by (simp add: As16_def v4InV6Prefix_def)

lemma IP_String_As16 [simp]: "length ip = 4 \<Longrightarrow> IP_String (As16 ip) = v4_string ip"
  by (simp add: IP_String_def To4_As16 As16_not_Nil)

lemma dec_nat_no_char: "\<not> is_digit c \<Longrightarrow> c \<notin> set (dec_nat n)"
  using dec_nat_digits by blast

lemma v4_string_chars:
  assumes "length ip = 4" "c \<in> set (v4_string ip)"
  shows "is_digit c \<or> c = CHR ''.''"
proof -
  from assms obtain a b x d where "ip = [a, b, x, d]" by (auto elim: length4E)
  then show ?thesis using assms(2) by (auto simp: v4_string_parts dest: dec_nat_digits)
qed

lemma ParseAddr_v4_string:
  assumes "length ip = 4"
  shows "ParseAddr (v4_string ip) = Some ip"
proof -
  from assms obtain a b c d where ip: "ip = [a, b, c, d]" by (rule length4E)
  have pc: "CHR ''%'' \<notin> set (v4_string ip)"
    using v4_string_chars [OF assms, of "CHR ''%''"] by (auto simp: is_digit_def)
  have nd: "x \<noteq> CHR ''.'' \<and> x \<noteq> CHR '':''" if "x \<in> set (dec_nat (unat a))" for x
    using dec_nat_digits [OF that] by (auto simp: is_digit_def)
  have "dropWhile (\<lambda>c. c \<noteq> CHR ''.'' \<and> c \<noteq> CHR '':'') (v4_string ip)
      = ''.'' @ dec_nat (unat b) @ ''.'' @ dec_nat (unat c) @ ''.'' @ dec_nat (unat d)"
    unfolding ip v4_string_parts using nd by (subst dropWhile_append2) auto
  then show ?thesis
    using pc parse_v4_string [OF assms] by (simp add: ParseAddr_def)
qed

lemma ParseIP_v4_string: "length ip = 4 \<Longrightarrow> ParseIP (v4_string ip) = Some (As16 ip)"
  by (simp add: ParseIP_def ParseAddr_v4_string)

lemma dtoi_dec_nat:
  assumes "n < 100"
  shows "dtoi (dec_nat n) = Some n"
proof (cases "n < 10")
  case True
  then show ?thesis by (simp add: dtoi_def dec_nat.simps [of n])
next
  case False
  then have "n div 10 < 10" using assms by auto
  then show ?thesis using False assms
    by (simp add: dtoi_def dec_nat.simps [of n] dec_nat.simps [of "n div 10"])
qed

lemma ParseCIDR_v4_string:
  assumes "length ip = 4" "n \<le> 32"
  shows "ParseCIDR (v4_string ip @ ''/'' @ dec_nat n) =
    Some (As16 ip, \<lparr>net_IP = IP_Mask (As16 ip) (CIDRMask n 32), net_Mask = CIDRMask n 32\<rparr>)"
proof -
  have ns: "x \<noteq> CHR ''/''" if "x \<in> set (v4_string ip)" for x
    using v4_string_chars [OF assms(1) that] by auto
  have u: "upto_first CHR ''/'' (v4_string ip @ ''/'' @ dec_nat n) = v4_string ip"
    using ns by (auto simp: upto_first_def takeWhile_append2)
  have d: "dropWhile (\<lambda>c. c \<noteq> CHR ''/'') (v4_string ip @ ''/'' @ dec_nat n) = ''/'' @ dec_nat n"
    using ns by (subst dropWhile_append2) auto
  have "dtoi (dec_nat n) = Some n" using assms by (intro dtoi_dec_nat) simp
  then show ?thesis
    using assms d u by (simp add: ParseCIDR_def ParseAddr_v4_string Let_def)
qed

lemma ParseCIDR_v4_host:
  assumes "length ip = 4"
  shows "\<exists>net. ParseCIDR (v4_string ip @ ''/32'') = Some (As16 ip, net)"
proof -
  have "dec_nat 32 = ''32''" by code_simp
  then show ?thesis using ParseCIDR_v4_string [OF assms, of 32] by simp
qed


section \<open>IPv4 networks as number ranges\<close>

definition v4_net :: "IP \<Rightarrow> nat \<Rightarrow> IPNet" where
  "v4_net a n = \<lparr>net_IP = map2 (AND) a (cidr_bytes 4 n), net_Mask = cidr_bytes 4 n\<rparr>"

lemma v4_net_simps [simp]:
  "net_IP (v4_net a n) = map2 (AND) a (cidr_bytes 4 n)"
  "net_Mask (v4_net a n) = cidr_bytes 4 n"
  by (simp_all add: v4_net_def)

lemma IP_Mask_As16: "length a = 4 \<Longrightarrow> IP_Mask (As16 a) (cidr_bytes 4 n) = map2 (AND) a (cidr_bytes 4 n)"
  by (simp add: IP_Mask_def As16_def v4InV6Prefix_def Let_def)

lemma ParseCIDR_v4_net:
  assumes "ParseCIDR s = Some (srv, net)" "length (net_Mask net) = 4"
  obtains a n where "length a = 4" "n \<le> 32" "srv = As16 a" "net = v4_net a n"
proof -
  from assms(1) obtain a n where an: "n \<le> 8 * length a" "srv = As16 a"
    "net = \<lparr>net_IP = IP_Mask (As16 a) (CIDRMask n (8 * length a)), net_Mask = CIDRMask n (8 * length a)\<rparr>"
    by (clarsimp simp: ParseCIDR_def Let_def split: if_splits option.splits) (metis not_le)
  then have l: "length a = 4" using assms(2) by (simp add: CIDRMask_def)
  then have "net = v4_net a n" using an by (simp add: CIDRMask_def IP_Mask_As16 v4_net_def)
  then show thesis using that [of a n] l an by simp
qed

lemma map2_and_idem: "map2 (AND) (map2 (AND) a m) m = map2 (AND) a (m :: u8 list)"
proof (induction a arbitrary: m)
  case (Cons x xs)
  then show ?case by (cases m) (simp_all add: and.assoc)
qed simp

lemma Contains_v4_net:
  assumes "length a = 4" "length ip = 4" "n \<le> 32"
  shows "IPNet_Contains (v4_net a n) ip \<longleftrightarrow> ip_val ip div 2 ^ (32 - n) = ip_val a div 2 ^ (32 - n)"
proof -
  have "networkNumberAndMask (v4_net a n) = (map2 (AND) a (cidr_bytes 4 n), cidr_bytes 4 n)"
    using assms by (simp add: networkNumberAndMask_def To4_def Let_def)
  then show ?thesis
    using assms cidr_bytes_agree [of a ip n]
    by (auto simp: IPNet_Contains_def To4_def map2_and_idem Let_def)
qed

lemma unat_and_not_mask: "unat (x AND NOT (mask j)) = unat x div 2 ^ j * 2 ^ j" for x :: u8
proof -
  have "(x AND NOT (mask j)) AND NOT (mask j) = x AND NOT (mask j)" by (simp add: and.assoc)
  then have d: "unat (x AND NOT (mask j)) div 2 ^ j = unat x div 2 ^ j"
    by (simp only: and_not_mask_eq_iff)
  have "take_bit j (x AND NOT (mask j)) = 0"
    by (simp add: take_bit_eq_mask and.assoc)
  then have "take_bit j (unat (x AND NOT (mask j))) = 0"
    by (metis unsigned_take_bit_eq unsigned_0)
  then have m: "unat (x AND NOT (mask j)) mod 2 ^ j = 0" by (simp add: take_bit_eq_mod)
  show ?thesis
    using div_mult_mod_eq [of "unat (x AND NOT (mask j))" "2 ^ j"] by (simp only: d m)
qed

lemma unat_or_mask:
  fixes x :: u8
  assumes "j \<le> 8"
  shows "unat ((x AND NOT (mask j)) OR mask j) = unat x div 2 ^ j * 2 ^ j + (2 ^ j - 1)"
proof -
  have "(x AND NOT (mask j)) AND mask j = 0" by (simp add: and.assoc)
  then have "(x AND NOT (mask j)) OR mask j = (x AND NOT (mask j)) + mask j"
    by (simp add: disjunctive_add_eq_or)
  moreover have m: "unat (mask j :: u8) = 2 ^ j - 1"
  proof -
    have "j = 0 \<or> j = 1 \<or> j = 2 \<or> j = 3 \<or> j = 4 \<or> j = 5 \<or> j = 6 \<or> j = 7 \<or> j = 8"
      using assms by arith
    then show ?thesis by (elim disjE) (simp_all add: mask_eq_decr_exp)
  qed
  moreover have "unat x div 2 ^ j * 2 ^ j + (2 ^ j - 1) < 256"
  proof -
    have "unat x div 2 ^ j < 2 ^ (8 - j)"
      using assms unat_u8_less [of x] by (intro less_mult_imp_div_less) (simp flip: power_add)
    then have "(unat x div 2 ^ j + 1) * 2 ^ j \<le> 2 ^ (8 - j) * 2 ^ j" by (intro mult_right_mono) auto
    also have "\<dots> = (256 :: nat)" using assms by (simp flip: power_add)
    finally have "unat x div 2 ^ j * 2 ^ j + 2 ^ j \<le> 256" by (simp add: algebra_simps)
    moreover have "(0 :: nat) < 2 ^ j" by simp
    ultimately show ?thesis by linarith
  qed
  ultimately show ?thesis
    by (simp add: unat_word_ariths unat_and_not_mask)
qed

lemma ip_val_range_step:
  fixes u v B :: nat
  assumes "B = p * d" "v < B" "0 < d"
  shows "(u * B + v) div d * d = u * B + v div d * d"
proof -
  have "(u * B + v) div d = u * p + v div d"
    using assms by (simp flip: mult.assoc)
  then show ?thesis using assms by (simp add: add_mult_distrib)
qed

lemma ip_val_masked_0:
  "ip_val (map2 (AND) xs (cidr_bytes (length xs) 0)) = 0"
  "ip_val (map2 (\<lambda>i m. i OR NOT m) (map2 (AND) xs (cidr_bytes (length xs) 0)) (cidr_bytes (length xs) 0))
     = 256 ^ length xs - 1"
proof -
  have "ip_val (replicate l 0) = 0" for l by (induction l) simp_all
  then show "ip_val (map2 (AND) xs (cidr_bytes (length xs) 0)) = 0"
    by (simp add: cidr_bytes_0 map2_and_zero)
  have m1: "(- 1 :: u8) = 255" by simp
  have u: "unat (255 :: u8) = 255" by simp
  have o: "unat (- 1 :: u8) = 255" by (simp only: m1 u)
  have "ip_val (map2 (\<lambda>i m. i OR NOT m) (replicate l 0) (replicate l 0)) = 256 ^ l - 1" for l
    by (induction l) (simp_all add: o)
  then show "ip_val (map2 (\<lambda>i m. i OR NOT m) (map2 (AND) xs (cidr_bytes (length xs) 0)) (cidr_bytes (length xs) 0))
     = 256 ^ length xs - 1"
    by (simp add: cidr_bytes_0 map2_and_zero)
qed

lemma block_last:
  fixes q P B :: nat
  assumes "0 < P" "0 < B"
  shows "(q * P + (P - 1)) * B + (B - 1) = q * (B * P) + (B * P - 1)"
proof -
  obtain p b where "P = Suc p" "B = Suc b" using assms gr0_conv_Suc by metis
  then show ?thesis by (simp add: algebra_simps)
qed

text \<open>
  The network address is the address with its host bits cleared and the broadcast address the
  last of the block.
\<close>

lemma ip_val_masked:
  "n \<le> 8 * length a \<Longrightarrow>
   ip_val (map2 (AND) a (cidr_bytes (length a) n)) = ip_val a div 2 ^ (8 * length a - n) * 2 ^ (8 * length a - n) \<and>
   ip_val (map2 (\<lambda>i m. i OR NOT m) (map2 (AND) a (cidr_bytes (length a) n)) (cidr_bytes (length a) n))
     = ip_val a div 2 ^ (8 * length a - n) * 2 ^ (8 * length a - n) + (2 ^ (8 * length a - n) - 1)"
proof (induction a arbitrary: n)
  case Nil
  then show ?case by simp
next
  case (Cons x xs)
  let ?l = "length xs"
  let ?B = "(256 :: nat) ^ ?l"
  have B: "?B = 2 ^ (8 * ?l)" by (simp add: power_mult)
  have lx: "ip_val xs < ?B" by (rule ip_val_less)
  show ?case
  proof (cases "8 \<le> n")
    case True
    let ?d = "8 * ?l - (n - 8)"
    have e: "8 * length (x # xs) - n = ?d" using True Cons.prems by simp
    have Bd: "?B = 2 ^ (n - 8) * 2 ^ ?d"
      using True Cons.prems by (simp add: B flip: power_add)
    have s: "(unat x * ?B + ip_val xs) div 2 ^ ?d * 2 ^ ?d = unat x * ?B + ip_val xs div 2 ^ ?d * 2 ^ ?d"
      by (rule ip_val_range_step [OF Bd lx]) simp
    have ff: "z AND 255 = z" "z OR - 256 = z" for z :: u8
    proof -
      have m1: "(255 :: u8) = - 1" "(- 256 :: u8) = 0" by simp_all
      show "z AND 255 = z" "z OR - 256 = z" unfolding m1 by simp_all
    qed
    have ar: "u + (v + 2 ^ k - Suc 0) = u + v + 2 ^ k - Suc 0" for u v k :: nat
      by (simp add: Suc_leI trans_le_add2)
    have ih: "n - 8 \<le> 8 * ?l" using Cons.prems by simp
    show ?thesis
      unfolding e using True Cons.IH [OF ih] s by (simp add: ff ar)
  next
    case False
    let ?j = "8 - n"
    have "8 * length (x # xs) - n = 8 * ?l + ?j" using False by simp
    then have e: "2 ^ (8 * length (x # xs) - n) = ?B * 2 ^ ?j"
      by (simp only: B power_add)
    have s: "(unat x * ?B + ip_val xs) div (?B * 2 ^ ?j) = unat x div 2 ^ ?j"
      using lx by (simp add: div_mult2_eq)
    have b: "(unat x div 2 ^ ?j * 2 ^ ?j + (2 ^ ?j - 1)) * ?B + (?B - 1)
        = unat x div 2 ^ ?j * (?B * 2 ^ ?j) + (?B * 2 ^ ?j - 1)"
      by (rule block_last) simp_all
    show ?thesis
      unfolding e using False s b unat_or_mask [of ?j x]
      by (simp add: ip_val_masked_0 mask_byte unat_and_not_mask)
  qed
qed

end
