(* ===== verification/IPAlloc.thy ===== *)
theory IPAlloc
  imports NetIP
begin

text \<open>
  The address search of \<open>txAllocateIP\<close> (\<open>src/internal/store/ipalloc.go\<close>): starting at the
  network address, the loop steps through the network and takes the first address whose text is
  not reserved. The loop is a \<open>partial_function\<close>, so a search that never ends is the value
  \<open>None\<close>. The lemmas show that it ends whenever the prefix is not empty or an address is free,
  that it returns the lowest free address, and that it reports exhaustion exactly when no address
  of the network is free.
\<close>

partial_function (option) alloc_loop :: "IPNet \<Rightarrow> string list \<Rightarrow> IP \<Rightarrow> string result option" where
  "alloc_loop ipnet reserved ip =
     (if \<not> IPNet_Contains ipnet ip then Some (Inl (Sentinel ErrSubnetExhausted))
      else let addr = IP_String ip
           in if addr \<in> set reserved then alloc_loop ipnet reserved (incIP ip)
              else Some (Inr (addr @ ''/32'')))"

declare alloc_loop.simps [code]


section \<open>Addresses of a network by number\<close>

fun be_bytes :: "nat \<Rightarrow> nat \<Rightarrow> u8 list" where
  "be_bytes 0 v = []"
| "be_bytes (Suc l) v = of_nat (v div 256 ^ l) # be_bytes l (v mod 256 ^ l)"

lemma length_be_bytes [simp]: "length (be_bytes l v) = l"
  by (induction l v rule: be_bytes.induct) simp_all

lemma ip_val_be_bytes: "v < 256 ^ l \<Longrightarrow> ip_val (be_bytes l v) = v"
proof (induction l arbitrary: v)
  case (Suc l)
  have "v div 256 ^ l < 256" using Suc.prems by (simp add: less_mult_imp_div_less)
  then have "unat (of_nat (v div 256 ^ l) :: u8) = v div 256 ^ l"
    by (simp add: unat_of_nat)
  then show ?case using Suc.IH [of "v mod 256 ^ l"] by (simp add: div_mult_mod_eq)
qed simp

text \<open>\<open>in_net a n v\<close>: the number \<open>v\<close> is the number of an address of the network \<open>a/n\<close>.\<close>

definition net_size :: "nat \<Rightarrow> nat" where
  "net_size n = 2 ^ (32 - n)"

definition net_base :: "IP \<Rightarrow> nat \<Rightarrow> nat" where
  "net_base a n = ip_val a div net_size n * net_size n"

lemma net_size_pos [simp]: "0 < net_size n"
  by (simp add: net_size_def)

lemma div_eq_range:
  fixes v w s :: nat
  assumes "0 < s"
  shows "(v div s = w div s) \<longleftrightarrow> w div s * s \<le> v \<and> v < w div s * s + s"
proof
  assume "v div s = w div s"
  then have "v = w div s * s + v mod s" using div_mult_mod_eq [of v s] by simp
  moreover have "v mod s < s" using assms by simp
  ultimately show "w div s * s \<le> v \<and> v < w div s * s + s" by linarith
next
  assume "w div s * s \<le> v \<and> v < w div s * s + s"
  then show "v div s = w div s" by (intro div_nat_eqI) (simp_all add: mult.commute)
qed

lemma Contains_range:
  assumes "length a = 4" "length ip = 4" "n \<le> 32"
  shows "IPNet_Contains (v4_net a n) ip \<longleftrightarrow> net_base a n \<le> ip_val ip \<and> ip_val ip < net_base a n + net_size n"
  using Contains_v4_net [OF assms] div_eq_range [of "2 ^ (32 - n)" "ip_val ip" "ip_val a"]
  by (simp add: net_base_def net_size_def)

lemma net_top: "length a = 4 \<Longrightarrow> n \<le> 32 \<Longrightarrow> net_base a n + net_size n \<le> 256 ^ 4"
proof -
  assume a: "length a = 4" "n \<le> 32"
  have "ip_val a < 2 ^ n * net_size n"
    using ip_val_less [of a] a by (simp add: net_size_def flip: power_add)
  then have "ip_val a div net_size n < 2 ^ n" by (rule less_mult_imp_div_less)
  then have "(ip_val a div net_size n + 1) * net_size n \<le> 2 ^ n * net_size n"
    by (intro mult_right_mono) auto
  also have "\<dots> = 256 ^ 4" using a by (simp add: net_size_def flip: power_add)
  finally show ?thesis by (simp add: net_base_def algebra_simps)
qed

lemma net_base_pos:
  assumes "length a = 4" "1 \<le> n" "n \<le> 32" "net_base a n + net_size n = 256 ^ 4"
  shows "0 < net_base a n"
proof -
  have "net_size n \<le> 2 ^ 31" using assms(2)
    unfolding net_size_def by (intro power_increasing) auto
  then show ?thesis using assms(4) by simp
qed


section \<open>The search\<close>

text \<open>\<open>lowest_free net R v ip\<close>: among the addresses of the network from number \<open>v\<close> on, \<open>ip\<close> is the lowest one not in \<open>R\<close>.\<close>

definition lowest_free :: "IPNet \<Rightarrow> string list \<Rightarrow> nat \<Rightarrow> IP \<Rightarrow> bool" where
  "lowest_free net R v ip \<longleftrightarrow>
     length ip = 4 \<and> IPNet_Contains net ip \<and> v \<le> ip_val ip \<and> v4_string ip \<notin> set R \<and>
     (\<forall>j. length j = 4 \<and> IPNet_Contains net j \<and> v \<le> ip_val j \<and> ip_val j < ip_val ip \<longrightarrow> v4_string j \<in> set R)"

lemma alloc_loop_step:
  "length ip = 4 \<Longrightarrow> IPNet_Contains net ip \<Longrightarrow> v4_string ip \<in> set R \<Longrightarrow>
   alloc_loop net R ip = alloc_loop net R (incIP ip)"
  by (subst alloc_loop.simps) (simp add: Let_def)

lemma alloc_loop_hit:
  "length ip = 4 \<Longrightarrow> IPNet_Contains net ip \<Longrightarrow> v4_string ip \<notin> set R \<Longrightarrow>
   alloc_loop net R ip = Some (Inr (v4_string ip @ ''/32''))"
  by (subst alloc_loop.simps) (simp add: Let_def)

lemma alloc_loop_out:
  "\<not> IPNet_Contains net ip \<Longrightarrow> alloc_loop net R ip = Some (Inl (Sentinel ErrSubnetExhausted))"
  by (subst alloc_loop.simps) simp

lemma lowest_free_step:
  assumes "length ip = 4" "v4_string ip \<in> set R" "lowest_free net R (ip_val ip + 1) x"
  shows "lowest_free net R (ip_val ip) x"
proof -
  have "v4_string j \<in> set R"
    if "length j = 4" "IPNet_Contains net j" "ip_val ip \<le> ip_val j" "ip_val j < ip_val x" for j
  proof (cases "ip_val j = ip_val ip")
    case True
    then have "j = ip" using ip_val_inj that(1) assms(1) by simp
    then show ?thesis using assms(2) by simp
  next
    case False
    then show ?thesis using assms(3) that by (simp add: lowest_free_def)
  qed
  then show ?thesis using assms(3) by (auto simp: lowest_free_def)
qed

text \<open>With a free address at or above the start, the search finds the lowest one.\<close>

lemma alloc_loop_finds:
  assumes "length a = 4" "n \<le> 32"
  assumes "length f = 4" "IPNet_Contains (v4_net a n) f" "v4_string f \<notin> set R"
  shows "length ip = 4 \<Longrightarrow> IPNet_Contains (v4_net a n) ip \<Longrightarrow> ip_val ip \<le> ip_val f \<Longrightarrow>
    \<exists>x. lowest_free (v4_net a n) R (ip_val ip) x \<and>
        alloc_loop (v4_net a n) R ip = Some (Inr (v4_string x @ ''/32''))"
proof (induction "ip_val f - ip_val ip" arbitrary: ip)
  case 0
  then have "ip = f" using ip_val_inj assms(3) by simp
  then have "lowest_free (v4_net a n) R (ip_val ip) ip" using assms by (auto simp: lowest_free_def)
  then show ?case using \<open>ip = f\<close> assms(3-5) by (auto simp: alloc_loop_hit)
next
  case (Suc k)
  show ?case
  proof (cases "v4_string ip \<in> set R")
    case False
    then have "lowest_free (v4_net a n) R (ip_val ip) ip" using Suc.prems by (auto simp: lowest_free_def)
    then show ?thesis using Suc.prems False by (auto simp: alloc_loop_hit)
  next
    case True
    let ?i = "incIP ip"
    have lt: "ip_val ip + 1 \<le> ip_val f" using Suc.hyps(2) by simp
    have "ip_val f < 256 ^ 4" using ip_val_less [of f] assms(3) by simp
    then have v: "ip_val ?i = ip_val ip + 1" using lt Suc.prems(1) by (simp add: ip_val_incIP)
    have li: "length ?i = 4" using Suc.prems(1) by simp
    have c: "IPNet_Contains (v4_net a n) ?i"
      using Contains_range assms Suc.prems v lt li by auto
    have "k = ip_val f - ip_val ?i" using Suc.hyps(2) v by simp
    from Suc.hyps(1) [OF this li c] lt v obtain x where
      x: "lowest_free (v4_net a n) R (ip_val ip + 1) x"
         "alloc_loop (v4_net a n) R ?i = Some (Inr (v4_string x @ ''/32''))" by auto
    then show ?thesis
      using lowest_free_step [OF Suc.prems(1) True] alloc_loop_step [OF Suc.prems(1,2) True] by auto
  qed
qed

text \<open>With nothing free the search ends with the exhaustion error, unless the prefix is empty.\<close>

lemma alloc_loop_exhausts:
  assumes "length a = 4" "1 \<le> n" "n \<le> 32"
  assumes full: "\<And>j. length j = 4 \<Longrightarrow> IPNet_Contains (v4_net a n) j \<Longrightarrow> v4_string j \<in> set R"
  shows "length ip = 4 \<Longrightarrow> IPNet_Contains (v4_net a n) ip \<Longrightarrow>
    alloc_loop (v4_net a n) R ip = Some (Inl (Sentinel ErrSubnetExhausted))"
proof (induction "net_base a n + net_size n - ip_val ip" arbitrary: ip rule: less_induct)
  case less
  let ?i = "incIP ip"
  let ?top = "net_base a n + net_size n"
  have r: "net_base a n \<le> ip_val ip" "ip_val ip < ?top"
    using Contains_range [OF assms(1) less.prems(1) assms(3)] less.prems(2) by auto
  have step: "alloc_loop (v4_net a n) R ip = alloc_loop (v4_net a n) R ?i"
    using less.prems full by (intro alloc_loop_step)
  have li: "length ?i = 4" using less.prems by simp
  show ?case
  proof (cases "IPNet_Contains (v4_net a n) ?i")
    case False
    then show ?thesis using step alloc_loop_out by simp
  next
    case True
    have v: "ip_val ?i = (ip_val ip + 1) mod 256 ^ 4" using less.prems(1) by (simp add: ip_val_incIP)
    have top: "?top \<le> 256 ^ 4" using net_top assms by simp
    have "ip_val ip + 1 < ?top"
    proof (rule ccontr)
      assume "\<not> ip_val ip + 1 < ?top"
      then have e: "ip_val ip + 1 = ?top" using r by simp
      show False
      proof (cases "?top = 256 ^ 4")
        case True
        then have "ip_val ?i = 0" using v e by simp
        then show False
          using \<open>IPNet_Contains (v4_net a n) ?i\<close> Contains_range [OF assms(1) li assms(3)]
            net_base_pos [OF assms(1-3) True] by simp
      next
        case False
        then have "ip_val ?i = ?top" using v e top by simp
        then show False
          using \<open>IPNet_Contains (v4_net a n) ?i\<close> Contains_range [OF assms(1) li assms(3)] by simp
      qed
    qed
    then have "ip_val ?i = ip_val ip + 1" using v top by simp
    then show ?thesis using less.hyps [OF _ li True] r step by simp
  qed
qed


section \<open>The search from the network address\<close>

lemma alloc_loop_result:
  assumes "alloc_loop net R ip = Some r"
  shows "r = Inl (Sentinel ErrSubnetExhausted) \<or>
    (\<exists>f. length f = length ip \<and> IPNet_Contains net f \<and> IP_String f \<notin> set R \<and> r = Inr (IP_String f @ ''/32''))"
proof (rule alloc_loop.raw_induct [OF _ assms])
  fix loop ipnet reserved ip y
  assume 1: "\<And>ipnet reserved ip y. loop ipnet reserved ip = Some y \<Longrightarrow>
      y = Inl (Sentinel ErrSubnetExhausted) \<or>
      (\<exists>f. length f = length ip \<and> IPNet_Contains ipnet f \<and> IP_String f \<notin> set reserved \<and>
           y = Inr (IP_String f @ ''/32''))"
    and 2: "(if \<not> IPNet_Contains ipnet ip then Some (Inl (Sentinel ErrSubnetExhausted))
      else let addr = IP_String ip
           in if addr \<in> set reserved then loop ipnet reserved (incIP ip)
              else Some (Inr (addr @ ''/32''))) = Some y"
  show "y = Inl (Sentinel ErrSubnetExhausted) \<or>
      (\<exists>f. length f = length ip \<and> IPNet_Contains ipnet f \<and> IP_String f \<notin> set reserved \<and>
           y = Inr (IP_String f @ ''/32''))"
  proof (cases "IPNet_Contains ipnet ip")
    case False
    then show ?thesis using 2 by simp
  next
    case True
    show ?thesis
    proof (cases "IP_String ip \<in> set reserved")
      case True
      then have "loop ipnet reserved (incIP ip) = Some y"
        using 2 \<open>IPNet_Contains ipnet ip\<close> by (simp add: Let_def)
      from 1 [OF this] show ?thesis by simp
    next
      case False
      then show ?thesis using 2 True by (auto simp: Let_def)
    qed
  qed
qed

lemma length_network [simp]: "length a = 4 \<Longrightarrow> length (net_IP (v4_net a n)) = 4"
  by simp

lemma ip_val_network:
  "length a = 4 \<Longrightarrow> n \<le> 32 \<Longrightarrow> ip_val (map2 (AND) a (cidr_bytes 4 n)) = net_base a n"
  using ip_val_masked [of n a] by (simp add: net_base_def net_size_def)

lemma broadcast_v4:
  assumes "length a = 4" "n \<le> 32"
  shows "length (broadcastAddr (v4_net a n)) = 4"
    "ip_val (broadcastAddr (v4_net a n)) = net_base a n + net_size n - 1"
  using ip_val_masked [of n a] assms
  by (simp_all add: broadcastAddr_def Let_def net_base_def net_size_def)

lemma Contains_network: "length a = 4 \<Longrightarrow> n \<le> 32 \<Longrightarrow> IPNet_Contains (v4_net a n) (map2 (AND) a (cidr_bytes 4 n))"
  using Contains_range [of a "map2 (AND) a (cidr_bytes 4 n)" n] by (simp add: ip_val_network)

lemma IP_Mask_network: "length a = 4 \<Longrightarrow> IP_Mask (net_IP (v4_net a n)) (net_Mask (v4_net a n)) = net_IP (v4_net a n)"
  by (simp add: IP_Mask_def Let_def map2_and_idem)

text \<open>Fewer reserved texts than addresses leave an address free.\<close>

lemma free_exists:
  assumes "length a = 4" "n \<le> 32" "length R < net_size n"
  shows "\<exists>f. length f = 4 \<and> IPNet_Contains (v4_net a n) f \<and> v4_string f \<notin> set R"
proof (rule ccontr)
  assume none: "\<not> ?thesis"
  let ?f = "\<lambda>v. v4_string (be_bytes 4 v)"
  let ?V = "{net_base a n ..< net_base a n + net_size n}"
  have v: "ip_val (be_bytes 4 v) = v" if "v \<in> ?V" for v
    using that net_top [OF assms(1,2)] by (intro ip_val_be_bytes) simp
  have "inj_on ?f ?V"
    by (rule inj_onI) (metis length_be_bytes v v4_string_inj)
  moreover have "?f ` ?V \<subseteq> set R"
  proof
    fix s assume "s \<in> ?f ` ?V"
    then obtain w where w: "w \<in> ?V" "s = ?f w" by auto
    then have "IPNet_Contains (v4_net a n) (be_bytes 4 w)"
      using Contains_range [of a "be_bytes 4 w" n] assms v by simp
    then show "s \<in> set R" using none w by auto
  qed
  ultimately have "card ?V \<le> card (set R)" by (metis List.finite_set card_inj_on_le)
  then show False using card_length [of R] assms(3) by simp
qed

lemma alloc_search:
  fixes R :: "string list"
  assumes "length a = 4" "n \<le> 32"
  defines "net \<equiv> v4_net a n"
  defines "search \<equiv> alloc_loop net R (IP_Mask (net_IP net) (net_Mask net))"
  shows alloc_search_ok: "search = Some (Inr c) \<Longrightarrow> \<exists>x. lowest_free net R (net_base a n) x \<and> c = v4_string x @ ''/32''"
    and alloc_search_err: "search = Some (Inl e) \<Longrightarrow> e = Sentinel ErrSubnetExhausted \<and>
          (\<forall>j. length j = 4 \<and> IPNet_Contains net j \<longrightarrow> v4_string j \<in> set R)"
    and alloc_search_ends: "1 \<le> n \<Longrightarrow> \<exists>r. search = Some r"
    and alloc_search_room: "length R < net_size n \<Longrightarrow> \<exists>c. search = Some (Inr c)"
proof -
  let ?s = "net_IP net"
  have s: "search = alloc_loop net R ?s" "length ?s = 4" "ip_val ?s = net_base a n" "IPNet_Contains net ?s"
    using assms IP_Mask_network [of a n] Contains_network [of a n] ip_val_network [of a n]
    by (simp_all add: search_def net_def)
  have finds: "\<exists>x. lowest_free net R (net_base a n) x \<and> search = Some (Inr (v4_string x @ ''/32''))"
    if "length f = 4" "IPNet_Contains net f" "v4_string f \<notin> set R" for f
  proof -
    have "net_base a n \<le> ip_val f"
      using Contains_range [OF assms(1) that(1) assms(2)] that(2) by (simp add: net_def)
    then show ?thesis
      using alloc_loop_finds [OF assms(1,2), of f R ?s] that s by (simp add: net_def)
  qed
  show "\<exists>x. lowest_free net R (net_base a n) x \<and> c = v4_string x @ ''/32''" if c: "search = Some (Inr c)"
  proof -
    obtain f where "length f = 4" "IPNet_Contains net f" "v4_string f \<notin> set R"
      using alloc_loop_result [of net R ?s "Inr c"] c s by auto
    from finds [OF this] show ?thesis using c by auto
  qed
  show "e = Sentinel ErrSubnetExhausted \<and> (\<forall>j. length j = 4 \<and> IPNet_Contains net j \<longrightarrow> v4_string j \<in> set R)"
    if "search = Some (Inl e)"
    using alloc_loop_result [of net R ?s "Inl e"] that s finds by fastforce
  show "\<exists>c. search = Some (Inr c)" if "length R < net_size n"
    using free_exists [OF assms(1,2) that] finds by (auto simp: net_def)
  show "\<exists>r. search = Some r" if "1 \<le> n"
  proof (cases "\<exists>f. length f = 4 \<and> IPNet_Contains net f \<and> v4_string f \<notin> set R")
    case True
    then show ?thesis using finds by blast
  next
    case False
    then show ?thesis
      using alloc_loop_exhausts [OF assms(1) that assms(2), of R ?s] s by (auto simp: net_def)
  qed
qed

end
