(* ===== verification/Store.thy ===== *)
theory Store
  imports IPAlloc "HOL-Library.List_Lexorder" "HOL-Library.Char_ord"
begin

text \<open>
  The node-local database (\<open>src/internal/store/\<close>): its tables as lists of rows, the settings
  table as a map, and every exported operation with its SQL statement written as an operation on
  the tables. The UNIQUE and FOREIGN KEY constraints of \<open>migrations/*.sql\<close> are the guards of the
  inserts and updates. A database call may fail: \<open>db_faults\<close> is the schedule of the calls that
  do (each call consumes one entry; after the last entry every call succeeds), so an error of the
  driver is a branch of every operation. Clock, \<open>uuid.NewString\<close> and the generated credentials
  are arguments.
\<close>

section \<open>Tables\<close>

record Peer =
  peer_ID :: string
  peer_Name :: string
  peer_Wallet :: string
  peer_WGPublicKey :: string
  peer_WGAllowedIP :: string
  peer_WGPresharedKey :: string
  peer_ProxyUUID :: string
  peer_ProxyPassword :: string
  peer_Enabled :: bool
  peer_CreatedAt :: int
  peer_UpdatedAt :: int
  peer_ExpiresAt :: int

record GeneratedCreds =
  gen_ProxyUUID :: string
  gen_ProxyPassword :: string

text \<open>A row of the table \<open>peers\<close>; \<open>enabled\<close> is an INTEGER column.\<close>

record peer_row =
  col_id :: string
  col_name :: string
  col_wallet :: string
  col_wg_public_key :: string
  col_wg_allowed_ip :: string
  col_wg_preshared_key :: string
  col_proxy_uuid :: string
  col_proxy_password :: string
  col_enabled :: int
  col_created_at :: int
  col_updated_at :: int
  col_expires_at :: int

record ServiceRow =
  svc_ID :: string
  svc_Name :: string
  svc_Type :: string
  svc_Protocol :: string
  svc_InternalAddr :: string
  svc_Port :: int
  svc_OwnerPeerID :: string
  svc_OwnerDID :: string
  svc_Visibility :: string
  svc_AuthMode :: string
  svc_Tags :: string
  svc_CreatedAt :: int
  svc_UpdatedAt :: int

record ServiceACL =
  acl_ID :: string
  acl_ServiceID :: string
  acl_Subject :: string
  acl_Action :: string
  acl_CreatedAt :: int

record CarrierCredential =
  cc_ID :: string
  cc_Transport :: string
  cc_SecretHash :: string
  cc_CreatedAt :: int
  cc_ExpiresAt :: int
  cc_Active :: bool
  cc_Scope :: string
  cc_PeerID :: string

record Store =
  db_peers :: "peer_row list"
  db_settings :: "string \<rightharpoonup> string"
  db_carriers :: "CarrierCredential list"
  db_services :: "ServiceRow list"
  db_acls :: "ServiceACL list"
  db_faults :: "string option list"

definition db_call :: "Store \<Rightarrow> error option \<times> Store" where
  "db_call s =
     (case db_faults s of
        [] \<Rightarrow> (None, s)
      | f # fs \<Rightarrow> (map_option Errorf f, s\<lparr>db_faults := fs\<rparr>))"

text \<open>A freshly migrated database.\<close>

definition fresh_store :: "string option list \<Rightarrow> Store" where
  "fresh_store fs = \<lparr>db_peers = [], db_settings = Map.empty, db_carriers = [], db_services = [],
     db_acls = [], db_faults = fs\<rparr>"


section \<open>Settings\<close>

definition GetSetting :: "Store \<Rightarrow> string \<Rightarrow> string result \<times> Store" where
  "GetSetting s key =
     (case db_call s of
        (Some e, s') \<Rightarrow> (Inl e, s')
      | (None, s') \<Rightarrow> (Inr (case db_settings s' key of None \<Rightarrow> [] | Some v \<Rightarrow> v), s'))"

definition SetSetting :: "Store \<Rightarrow> string \<Rightarrow> string \<Rightarrow> error option \<times> Store" where
  "SetSetting s key v =
     (case db_call s of
        (Some e, s') \<Rightarrow> (Some e, s')
      | (None, s') \<Rightarrow> (None, s'\<lparr>db_settings := (db_settings s')(key \<mapsto> v)\<rparr>))"


section \<open>Peers\<close>

definition boolToInt :: "bool \<Rightarrow> int" where
  "boolToInt b = (if b then 1 else 0)"

definition scanPeer :: "peer_row \<Rightarrow> Peer" where
  "scanPeer r = \<lparr>peer_ID = col_id r, peer_Name = col_name r, peer_Wallet = col_wallet r,
     peer_WGPublicKey = col_wg_public_key r, peer_WGAllowedIP = col_wg_allowed_ip r,
     peer_WGPresharedKey = col_wg_preshared_key r, peer_ProxyUUID = col_proxy_uuid r,
     peer_ProxyPassword = col_proxy_password r, peer_Enabled = (col_enabled r \<noteq> 0),
     peer_CreatedAt = col_created_at r, peer_UpdatedAt = col_updated_at r,
     peer_ExpiresAt = col_expires_at r\<rparr>"

definition queryPeer :: "(peer_row \<Rightarrow> bool) \<Rightarrow> Store \<Rightarrow> Peer result \<times> Store" where
  "queryPeer P s =
     (case db_call s of
        (Some e, s') \<Rightarrow> (Inl e, s')
      | (None, s') \<Rightarrow> (case find P (db_peers s') of
            None \<Rightarrow> (Inl (Sentinel ErrNoRows), s')
          | Some r \<Rightarrow> (Inr (scanPeer r), s')))"

definition txGetPeer :: "Store \<Rightarrow> string \<Rightarrow> Peer result \<times> Store" where
  "txGetPeer s pid = queryPeer (\<lambda>r. col_id r = pid) s"

definition txGetPeerByWGPublicKey :: "Store \<Rightarrow> string \<Rightarrow> Peer result \<times> Store" where
  "txGetPeerByWGPublicKey s wgPub = queryPeer (\<lambda>r. col_wg_public_key r = wgPub) s"

definition GetPeer :: "Store \<Rightarrow> string \<Rightarrow> Peer result \<times> Store" where
  "GetPeer s pid =
     (case queryPeer (\<lambda>r. col_id r = pid) s of
        (Inl e, s') \<Rightarrow> (if errors_Is e ErrNoRows then (Inl (Sentinel ErrNotFound), s') else (Inl e, s'))
      | (Inr p, s') \<Rightarrow> (Inr p, s'))"

definition ListPeers :: "Store \<Rightarrow> Peer list result \<times> Store" where
  "ListPeers s =
     (case db_call s of
        (Some e, s') \<Rightarrow> (Inl e, s')
      | (None, s') \<Rightarrow> (Inr (map scanPeer (sort_key col_created_at (db_peers s'))), s'))"

definition DeletePeer :: "Store \<Rightarrow> string \<Rightarrow> error option \<times> Store" where
  "DeletePeer s pid =
     (case db_call s of
        (Some e, s') \<Rightarrow> (Some e, s')
      | (None, s') \<Rightarrow> (None, s'\<lparr>db_peers := filter (\<lambda>r. col_id r \<noteq> pid) (db_peers s')\<rparr>))"

text \<open>The texts that take an address out of the search: network, broadcast, server, peers.\<close>

definition peer_addrs :: "peer_row list \<Rightarrow> string list" where
  "peer_addrs rows =
     concat (map (\<lambda>r. case ParseCIDR (col_wg_allowed_ip r) of
                        None \<Rightarrow> [] | Some (ip, _) \<Rightarrow> [IP_String ip]) rows)"

definition reserved_addrs :: "IP \<Rightarrow> IPNet \<Rightarrow> peer_row list \<Rightarrow> string list" where
  "reserved_addrs serverIP ipnet rows =
     [IP_String (net_IP ipnet), IP_String (broadcastAddr ipnet), IP_String serverIP] @ peer_addrs rows"

definition txAllocateIP :: "Store \<Rightarrow> string \<Rightarrow> (string result \<times> Store) option" where
  "txAllocateIP s subnet =
     (case ParseCIDR subnet of
        None \<Rightarrow> Some (Inl (Errorf (''invalid CIDR address: '' @ subnet)), s)
      | Some (serverIP, ipnet) \<Rightarrow>
          (case db_call s of
             (Some e, s') \<Rightarrow> Some (Inl e, s')
           | (None, s') \<Rightarrow>
               map_option (\<lambda>r. (r, s'))
                 (alloc_loop ipnet (reserved_addrs serverIP ipnet (db_peers s'))
                    (cloneIP (IP_Mask (net_IP ipnet) (net_Mask ipnet))))))"

definition errUnique :: error where
  "errUnique = Errorf ''UNIQUE constraint failed''"

text \<open>\<open>UPDATE peers SET ... WHERE id=?\<close>, refused when another row holds the public key.\<close>

definition update_row :: "Peer \<Rightarrow> peer_row \<Rightarrow> peer_row" where
  "update_row p r =
     (if col_id r = peer_ID p
      then r\<lparr>col_name := peer_Name p, col_wallet := peer_Wallet p,
             col_wg_public_key := peer_WGPublicKey p, col_wg_preshared_key := peer_WGPresharedKey p,
             col_enabled := boolToInt (peer_Enabled p), col_updated_at := peer_UpdatedAt p,
             col_expires_at := peer_ExpiresAt p\<rparr>
      else r)"

definition exec_update_peer :: "Store \<Rightarrow> Peer \<Rightarrow> error option \<times> Store" where
  "exec_update_peer s p =
     (case db_call s of
        (Some e, s') \<Rightarrow> (Some e, s')
      | (None, s') \<Rightarrow>
          (if \<exists>r \<in> set (db_peers s'). col_id r \<noteq> peer_ID p \<and> col_wg_public_key r = peer_WGPublicKey p
           then (Some errUnique, s')
           else (None, s'\<lparr>db_peers := map (update_row p) (db_peers s')\<rparr>)))"

definition row_of :: "Peer \<Rightarrow> peer_row" where
  "row_of p = \<lparr>col_id = peer_ID p, col_name = peer_Name p, col_wallet = peer_Wallet p,
     col_wg_public_key = peer_WGPublicKey p, col_wg_allowed_ip = peer_WGAllowedIP p,
     col_wg_preshared_key = peer_WGPresharedKey p, col_proxy_uuid = peer_ProxyUUID p,
     col_proxy_password = peer_ProxyPassword p, col_enabled = boolToInt (peer_Enabled p),
     col_created_at = peer_CreatedAt p, col_updated_at = peer_UpdatedAt p,
     col_expires_at = peer_ExpiresAt p\<rparr>"

definition exec_insert_peer :: "Store \<Rightarrow> Peer \<Rightarrow> error option \<times> Store" where
  "exec_insert_peer s p =
     (case db_call s of
        (Some e, s') \<Rightarrow> (Some e, s')
      | (None, s') \<Rightarrow>
          (if \<exists>r \<in> set (db_peers s'). col_id r = peer_ID p \<or> col_wg_public_key r = peer_WGPublicKey p \<or>
                col_wg_allowed_ip r = peer_WGAllowedIP p \<or> col_proxy_uuid r = peer_ProxyUUID p
           then (Some errUnique, s')
           else (None, s'\<lparr>db_peers := db_peers s' @ [row_of p]\<rparr>)))"

text \<open>The peer an upsert finds: by id, and failing that by public key.\<close>

definition txFindExisting :: "Store \<Rightarrow> Peer \<Rightarrow> Peer option result \<times> Store" where
  "txFindExisting s inp =
     (case txGetPeer s (peer_ID inp) of
        (Inr p, s1) \<Rightarrow> (Inr (Some p), s1)
      | (Inl e, s1) \<Rightarrow>
          if \<not> errors_Is e ErrNoRows then (Inl e, s1)
          else if peer_WGPublicKey inp = [] then (Inr None, s1)
          else (case txGetPeerByWGPublicKey s1 (peer_WGPublicKey inp) of
                  (Inr p, s2) \<Rightarrow> (Inr (Some p), s2)
                | (Inl e', s2) \<Rightarrow> if errors_Is e' ErrNoRows then (Inr None, s2) else (Inl e', s2)))"

definition updated_peer :: "Peer \<Rightarrow> Peer \<Rightarrow> int \<Rightarrow> Peer" where
  "updated_peer existing inp now =
     existing\<lparr>peer_Name := peer_Name inp, peer_Wallet := peer_Wallet inp,
       peer_WGPublicKey := peer_WGPublicKey inp, peer_WGPresharedKey := peer_WGPresharedKey inp,
       peer_Enabled := peer_Enabled inp, peer_ExpiresAt := peer_ExpiresAt inp, peer_UpdatedAt := now\<rparr>"

definition created_peer :: "Peer \<Rightarrow> string \<Rightarrow> GeneratedCreds \<Rightarrow> int \<Rightarrow> Peer" where
  "created_peer inp allocated gen now =
     \<lparr>peer_ID = peer_ID inp, peer_Name = peer_Name inp, peer_Wallet = peer_Wallet inp,
      peer_WGPublicKey = peer_WGPublicKey inp, peer_WGAllowedIP = allocated,
      peer_WGPresharedKey = peer_WGPresharedKey inp, peer_ProxyUUID = gen_ProxyUUID gen,
      peer_ProxyPassword = gen_ProxyPassword gen, peer_Enabled = peer_Enabled inp,
      peer_CreatedAt = now, peer_UpdatedAt = now, peer_ExpiresAt = peer_ExpiresAt inp\<rparr>"

text \<open>Leaving the transaction: an error rolls the tables back, success commits (which may fail).\<close>

definition rollback :: "Store \<Rightarrow> Store \<Rightarrow> Store" where
  "rollback s0 s = s0\<lparr>db_faults := db_faults s\<rparr>"

definition exec_commit :: "Store \<Rightarrow> Peer \<Rightarrow> error option \<times> Store \<Rightarrow> Peer result \<times> Store" where
  "exec_commit s0 p r =
     (case r of
        (Some e, s) \<Rightarrow> (Inl e, rollback s0 s)
      | (None, s) \<Rightarrow> (case db_call s of
            (Some e, s') \<Rightarrow> (Inl e, rollback s0 s')
          | (None, s') \<Rightarrow> (Inr p, s')))"

definition UpsertPeer :: "Store \<Rightarrow> Peer \<Rightarrow> string \<Rightarrow> GeneratedCreds \<Rightarrow> int \<Rightarrow> (Peer result \<times> Store) option" where
  "UpsertPeer s0 inp subnet gen now =
     (case db_call s0 of
        (Some e, s1) \<Rightarrow> Some (Inl e, s1)
      | (None, s1) \<Rightarrow>
          (case txFindExisting s1 inp of
             (Inl e, s2) \<Rightarrow> Some (Inl e, rollback s0 s2)
           | (Inr (Some existing), s2) \<Rightarrow>
               (let p = updated_peer existing inp now in Some (exec_commit s0 p (exec_update_peer s2 p)))
           | (Inr None, s2) \<Rightarrow>
               (case txAllocateIP s2 subnet of
                  None \<Rightarrow> None
                | Some (Inl e, s3) \<Rightarrow> Some (Inl e, rollback s0 s3)
                | Some (Inr allocated, s3) \<Rightarrow>
                    (let p = created_peer inp allocated gen now
                     in Some (exec_commit s0 p (exec_insert_peer s3 p))))))"


section \<open>Services and access rules\<close>

definition UpsertService :: "Store \<Rightarrow> ServiceRow \<Rightarrow> error option \<times> Store" where
  "UpsertService s row =
     (case db_call s of
        (Some e, s') \<Rightarrow> (Some e, s')
      | (None, s') \<Rightarrow>
          (None, s'\<lparr>db_services :=
             (if \<exists>r \<in> set (db_services s'). svc_ID r = svc_ID row
              then map (\<lambda>r. if svc_ID r = svc_ID row
                            then r\<lparr>svc_Name := svc_Name row, svc_Type := svc_Type row,
                                   svc_Protocol := svc_Protocol row,
                                   svc_InternalAddr := svc_InternalAddr row, svc_Port := svc_Port row,
                                   svc_Visibility := svc_Visibility row,
                                   svc_AuthMode := svc_AuthMode row, svc_Tags := svc_Tags row,
                                   svc_UpdatedAt := svc_UpdatedAt row\<rparr>
                            else r) (db_services s')
              else db_services s' @ [row])\<rparr>))"

definition ListServices :: "Store \<Rightarrow> ServiceRow list result \<times> Store" where
  "ListServices s =
     (case db_call s of
        (Some e, s') \<Rightarrow> (Inl e, s')
      | (None, s') \<Rightarrow> (Inr (sort_key svc_Name (db_services s')), s'))"

definition errService :: error where
  "errService = Wrapf [] (Sentinel ErrNotFound) '': service''"

definition GetService :: "Store \<Rightarrow> string \<Rightarrow> ServiceRow result \<times> Store" where
  "GetService s sid =
     (case db_call s of
        (Some e, s') \<Rightarrow> (Inl e, s')
      | (None, s') \<Rightarrow> (case find (\<lambda>r. svc_ID r = sid) (db_services s') of
            None \<Rightarrow> (Inl errService, s') | Some r \<Rightarrow> (Inr r, s')))"

definition GetServiceByName :: "Store \<Rightarrow> string \<Rightarrow> ServiceRow result \<times> Store" where
  "GetServiceByName s nm =
     (case db_call s of
        (Some e, s') \<Rightarrow> (Inl e, s')
      | (None, s') \<Rightarrow> (case find (\<lambda>r. svc_Name r = nm) (db_services s') of
            None \<Rightarrow> (Inl errService, s') | Some r \<Rightarrow> (Inr r, s')))"

text \<open>Deleting a service deletes its access rules (\<open>ON DELETE CASCADE\<close>).\<close>

definition DeleteService :: "Store \<Rightarrow> string \<Rightarrow> error option \<times> Store" where
  "DeleteService s sid =
     (case db_call s of
        (Some e, s') \<Rightarrow> (Some e, s')
      | (None, s') \<Rightarrow>
          (let s'' = s'\<lparr>db_services := filter (\<lambda>r. svc_ID r \<noteq> sid) (db_services s'),
                        db_acls := filter (\<lambda>a. acl_ServiceID a \<noteq> sid) (db_acls s')\<rparr>
           in if length (db_services s'') = length (db_services s') then (Some errService, s'')
              else (None, s'')))"

definition InsertServiceACL :: "Store \<Rightarrow> ServiceACL \<Rightarrow> string \<Rightarrow> int \<Rightarrow> error option \<times> Store" where
  "InsertServiceACL s acl newid now =
     (let a1 = (if acl_ID acl = [] then acl\<lparr>acl_ID := newid\<rparr> else acl);
          a2 = (if acl_CreatedAt a1 = 0 then a1\<lparr>acl_CreatedAt := now\<rparr> else a1)
      in case db_call s of
           (Some e, s') \<Rightarrow> (Some e, s')
         | (None, s') \<Rightarrow>
             (if \<exists>a \<in> set (db_acls s'). acl_ID a = acl_ID a2 then (Some errUnique, s')
              else if \<forall>r \<in> set (db_services s'). svc_ID r \<noteq> acl_ServiceID a2
              then (Some (Errorf ''FOREIGN KEY constraint failed''), s')
              else (None, s'\<lparr>db_acls := db_acls s' @ [a2]\<rparr>)))"

definition ListServiceACLs :: "Store \<Rightarrow> string \<Rightarrow> ServiceACL list result \<times> Store" where
  "ListServiceACLs s sid =
     (case db_call s of
        (Some e, s') \<Rightarrow> (Inl e, s')
      | (None, s') \<Rightarrow> (Inr (filter (\<lambda>a. acl_ServiceID a = sid) (db_acls s')), s'))"


section \<open>Carrier credentials\<close>

definition InsertCarrierCredential :: "Store \<Rightarrow> CarrierCredential \<Rightarrow> string \<Rightarrow> int \<Rightarrow> error option \<times> Store" where
  "InsertCarrierCredential s c newid now =
     (let c1 = (if cc_ID c = [] then c\<lparr>cc_ID := newid\<rparr> else c);
          c2 = (if cc_CreatedAt c1 = 0 then c1\<lparr>cc_CreatedAt := now\<rparr> else c1)
      in case db_call s of
           (Some e, s') \<Rightarrow> (Some e, s')
         | (None, s') \<Rightarrow>
             (if \<exists>x \<in> set (db_carriers s'). cc_ID x = cc_ID c2 then (Some errUnique, s')
              else (None, s'\<lparr>db_carriers := db_carriers s' @ [c2]\<rparr>)))"

definition cc_expired :: "int \<Rightarrow> CarrierCredential \<Rightarrow> bool" where
  "cc_expired now c \<longleftrightarrow> cc_Active c \<and> 0 < cc_ExpiresAt c \<and> cc_ExpiresAt c \<le> now"

definition DeactivateExpiredCarrierCredentials :: "Store \<Rightarrow> int \<Rightarrow> nat result \<times> Store" where
  "DeactivateExpiredCarrierCredentials s now =
     (case db_call s of
        (Some e, s') \<Rightarrow> (Inl e, s')
      | (None, s') \<Rightarrow>
          (Inr (length (filter (cc_expired now) (db_carriers s'))),
           s'\<lparr>db_carriers := map (\<lambda>c. if cc_expired now c then c\<lparr>cc_Active := False\<rparr> else c) (db_carriers s')\<rparr>))"

definition ListActiveCarrierCredentials :: "Store \<Rightarrow> CarrierCredential list result \<times> Store" where
  "ListActiveCarrierCredentials s =
     (case db_call s of
        (Some e, s') \<Rightarrow> (Inl e, s')
      | (None, s') \<Rightarrow> (Inr (sort_key (\<lambda>c. - cc_CreatedAt c) (filter cc_Active (db_carriers s'))), s'))"


section \<open>Database calls\<close>

lemma db_callE:
  assumes "db_call s = (oe, s')"
  obtains fs where "s' = s\<lparr>db_faults := fs\<rparr>"
proof (cases "db_faults s")
  case Nil
  then have "s' = s\<lparr>db_faults := db_faults s\<rparr>" using assms by (simp add: db_call_def)
  then show thesis by (rule that)
next
  case (Cons f fs)
  then have "s' = s\<lparr>db_faults := fs\<rparr>" using assms by (simp add: db_call_def)
  then show thesis by (rule that)
qed

lemma db_call_ok [simp]: "db_faults s = [] \<Longrightarrow> db_call s = (None, s)"
  by (simp add: db_call_def)

lemma rollback_eq [simp]: "rollback s (s\<lparr>db_faults := fs\<rparr>) = s\<lparr>db_faults := fs\<rparr>"
  by (simp add: rollback_def)

lemma rollback_faults: "rollback s t = s\<lparr>db_faults := db_faults t\<rparr>"
  by (simp add: rollback_def)

lemma queryPeerE:
  assumes "queryPeer P s = (r, s')"
  obtains (fault) m fs where "r = Inl (Errorf m)" "s' = s\<lparr>db_faults := fs\<rparr>"
  | (missing) fs where "r = Inl (Sentinel ErrNoRows)" "\<forall>x \<in> set (db_peers s). \<not> P x" "s' = s\<lparr>db_faults := fs\<rparr>"
  | (found) row fs where "r = Inr (scanPeer row)" "row \<in> set (db_peers s)" "P row" "s' = s\<lparr>db_faults := fs\<rparr>"
proof -
  obtain oe s1 where c: "db_call s = (oe, s1)" by (cases "db_call s")
  from c obtain fs where s1: "s1 = s\<lparr>db_faults := fs\<rparr>" by (rule db_callE)
  show thesis
  proof (cases oe)
    case (Some e)
    then obtain m where "e = Errorf m" using c by (auto simp: db_call_def split: list.splits)
    then show thesis using assms c s1 Some fault [of m fs] by (simp add: queryPeer_def)
  next
    case None
    show thesis
    proof (cases "find P (db_peers s)")
      case None
      then have "\<forall>x \<in> set (db_peers s). \<not> P x" by (simp add: find_None_iff)
      then show thesis
        using assms c s1 \<open>oe = None\<close> None missing [of fs] by (simp add: queryPeer_def)
    next
      case (Some row)
      then have "row \<in> set (db_peers s)" "P row" by (auto simp: find_Some_iff)
      then show thesis
        using assms c s1 \<open>oe = None\<close> Some found [of row fs] by (simp add: queryPeer_def)
    qed
  qed
qed

lemma txFindExistingE:
  assumes "txFindExisting s inp = (r, s')"
  obtains (fault) e fs where "r = Inl e" "s' = s\<lparr>db_faults := fs\<rparr>"
  | (missing) fs where "r = Inr None" "s' = s\<lparr>db_faults := fs\<rparr>"
      "\<forall>x \<in> set (db_peers s). col_id x \<noteq> peer_ID inp"
      "peer_WGPublicKey inp \<noteq> [] \<longrightarrow> (\<forall>x \<in> set (db_peers s). col_wg_public_key x \<noteq> peer_WGPublicKey inp)"
  | (found) row fs where "r = Inr (Some (scanPeer row))" "row \<in> set (db_peers s)" "s' = s\<lparr>db_faults := fs\<rparr>"
      "col_id row = peer_ID inp \<or>
       (\<forall>x \<in> set (db_peers s). col_id x \<noteq> peer_ID inp) \<and> peer_WGPublicKey inp \<noteq> [] \<and>
       col_wg_public_key row = peer_WGPublicKey inp"
proof -
  obtain r1 s1 where q1: "queryPeer (\<lambda>r. col_id r = peer_ID inp) s = (r1, s1)"
    by (cases "queryPeer (\<lambda>r. col_id r = peer_ID inp) s")
  obtain r2 s2 where q2: "queryPeer (\<lambda>r. col_wg_public_key r = peer_WGPublicKey inp) s1 = (r2, s2)"
    by (cases "queryPeer (\<lambda>r. col_wg_public_key r = peer_WGPublicKey inp) s1")
  note d = txFindExisting_def txGetPeer_def txGetPeerByWGPublicKey_def
  from q1 show thesis
  proof (cases rule: queryPeerE)
    case (fault m fs)
    show thesis by (rule that(1)) (use assms q1 fault in \<open>auto simp: d\<close>)
  next
    case (found row fs)
    show thesis by (rule that(3)) (use assms q1 found in \<open>auto simp: d\<close>)
  next
    case 1: (missing fs)
    show thesis
    proof (cases "peer_WGPublicKey inp = []")
      case True
      show thesis by (rule that(2)) (use assms q1 1 True in \<open>auto simp: d\<close>)
    next
      case False
      from q2 show thesis
      proof (cases rule: queryPeerE)
        case (fault m fs')
        show thesis by (rule that(1)) (use assms q1 q2 1 False fault in \<open>auto simp: d\<close>)
      next
        case (missing fs')
        show thesis by (rule that(2)) (use assms q1 q2 1 False missing in \<open>auto simp: d\<close>)
      next
        case (found row fs')
        show thesis by (rule that(3)) (use assms q1 q2 1 False found in \<open>auto simp: d\<close>)
      qed
    qed
  qed
qed


text \<open>How an upsert can end: unchanged tables on an error, one row updated, or one row added.\<close>

lemma exec_commitE:
  assumes "exec_commit s0 p (oe, s) = (r, s')"
  obtains (failed) e fs where "r = Inl e" "s' = s0\<lparr>db_faults := fs\<rparr>"
  | (committed) fs where "r = Inr p" "oe = None" "s' = s\<lparr>db_faults := fs\<rparr>"
proof (cases oe)
  case (Some e)
  show thesis by (rule failed) (use assms Some in \<open>auto simp: exec_commit_def rollback_def\<close>)
next
  case None
  obtain oe' s1 where c: "db_call s = (oe', s1)" by (cases "db_call s")
  from c obtain fs where s1: "s1 = s\<lparr>db_faults := fs\<rparr>" by (rule db_callE)
  show thesis
  proof (cases oe')
    case Some
    show thesis by (rule failed) (use assms None Some c in \<open>auto simp: exec_commit_def rollback_def\<close>)
  next
    case None
    show thesis by (rule committed) (use assms None \<open>oe = None\<close> c s1 in \<open>auto simp: exec_commit_def\<close>)
  qed
qed

lemma exec_update_peerE:
  assumes "exec_update_peer s p = (None, s')"
  obtains fs where "s' = s\<lparr>db_peers := map (update_row p) (db_peers s), db_faults := fs\<rparr>"
    "\<forall>r \<in> set (db_peers s). col_id r \<noteq> peer_ID p \<longrightarrow> col_wg_public_key r \<noteq> peer_WGPublicKey p"
proof -
  obtain oe s1 where c: "db_call s = (oe, s1)" by (cases "db_call s")
  from c obtain fs where "s1 = s\<lparr>db_faults := fs\<rparr>" by (rule db_callE)
  then show thesis
    by (intro that [of fs]) (use assms c in \<open>auto simp: exec_update_peer_def split: option.splits if_splits\<close>)
qed

lemma commit_updateE:
  assumes "exec_commit s p (exec_update_peer (s\<lparr>db_faults := fs2\<rparr>) p) = (r, s')"
  obtains (failed) e fs where "r = Inl e" "s' = s\<lparr>db_faults := fs\<rparr>"
  | (updated) fs where "r = Inr p" "s' = s\<lparr>db_peers := map (update_row p) (db_peers s), db_faults := fs\<rparr>"
      "\<forall>r \<in> set (db_peers s). col_id r \<noteq> peer_ID p \<longrightarrow> col_wg_public_key r \<noteq> peer_WGPublicKey p"
proof -
  let ?s2 = "s\<lparr>db_faults := fs2\<rparr>"
  obtain oe s3 where u: "exec_update_peer ?s2 p = (oe, s3)" by (cases "exec_update_peer ?s2 p")
  have "exec_commit s p (oe, s3) = (r, s')" using assms u by simp
  then show thesis
  proof (cases rule: exec_commitE)
    case (failed e fs)
    then show thesis by (rule that(1))
  next
    case (committed fs)
    with u obtain fs3 where
      "s3 = ?s2\<lparr>db_peers := map (update_row p) (db_peers ?s2), db_faults := fs3\<rparr>"
      "\<forall>r \<in> set (db_peers ?s2). col_id r \<noteq> peer_ID p \<longrightarrow> col_wg_public_key r \<noteq> peer_WGPublicKey p"
      by (auto elim: exec_update_peerE)
    then show thesis by (intro that(2) [of fs]) (use committed in simp_all)
  qed
qed

lemma exec_insert_peerE:
  assumes "exec_insert_peer s p = (None, s')"
  obtains fs where "s' = s\<lparr>db_peers := db_peers s @ [row_of p], db_faults := fs\<rparr>"
    "\<forall>r \<in> set (db_peers s). col_id r \<noteq> peer_ID p \<and> col_wg_public_key r \<noteq> peer_WGPublicKey p \<and>
       col_wg_allowed_ip r \<noteq> peer_WGAllowedIP p \<and> col_proxy_uuid r \<noteq> peer_ProxyUUID p"
proof -
  obtain oe s1 where c: "db_call s = (oe, s1)" by (cases "db_call s")
  from c obtain fs where "s1 = s\<lparr>db_faults := fs\<rparr>" by (rule db_callE)
  then show thesis
    by (intro that [of fs]) (use assms c in \<open>auto simp: exec_insert_peer_def split: option.splits if_splits\<close>)
qed

lemma commit_insertE:
  assumes "exec_commit s p (exec_insert_peer (s\<lparr>db_faults := fs2\<rparr>) p) = (r, s')"
  obtains (failed) e fs where "r = Inl e" "s' = s\<lparr>db_faults := fs\<rparr>"
  | (inserted) fs where "r = Inr p" "s' = s\<lparr>db_peers := db_peers s @ [row_of p], db_faults := fs\<rparr>"
      "\<forall>r \<in> set (db_peers s). col_id r \<noteq> peer_ID p \<and> col_wg_public_key r \<noteq> peer_WGPublicKey p \<and>
         col_wg_allowed_ip r \<noteq> peer_WGAllowedIP p \<and> col_proxy_uuid r \<noteq> peer_ProxyUUID p"
proof -
  let ?s2 = "s\<lparr>db_faults := fs2\<rparr>"
  obtain oe s3 where u: "exec_insert_peer ?s2 p = (oe, s3)" by (cases "exec_insert_peer ?s2 p")
  have "exec_commit s p (oe, s3) = (r, s')" using assms u by simp
  then show thesis
  proof (cases rule: exec_commitE)
    case (failed e fs)
    then show thesis by (rule that(1))
  next
    case (committed fs)
    with u obtain fs3 where
      "s3 = ?s2\<lparr>db_peers := db_peers ?s2 @ [row_of p], db_faults := fs3\<rparr>"
      "\<forall>r \<in> set (db_peers ?s2). col_id r \<noteq> peer_ID p \<and> col_wg_public_key r \<noteq> peer_WGPublicKey p \<and>
         col_wg_allowed_ip r \<noteq> peer_WGAllowedIP p \<and> col_proxy_uuid r \<noteq> peer_ProxyUUID p"
      by (auto elim: exec_insert_peerE)
    then show thesis by (intro that(2) [of fs]) (use committed in simp_all)
  qed
qed

lemma txAllocateIPE:
  assumes "txAllocateIP s subnet = Some (r, s')"
  obtains (invalid) e where "ParseCIDR subnet = None" "r = Inl e" "s' = s"
  | (fault) e fs where "r = Inl e" "s' = s\<lparr>db_faults := fs\<rparr>"
  | (searched) serverIP ipnet fs where "ParseCIDR subnet = Some (serverIP, ipnet)" "s' = s\<lparr>db_faults := fs\<rparr>"
      "alloc_loop ipnet (reserved_addrs serverIP ipnet (db_peers s))
         (IP_Mask (net_IP ipnet) (net_Mask ipnet)) = Some r"
proof (cases "ParseCIDR subnet")
  case None
  show thesis by (rule invalid) (use assms None in \<open>auto simp: txAllocateIP_def\<close>)
next
  case (Some x)
  obtain serverIP ipnet where x: "x = (serverIP, ipnet)" by (cases x)
  obtain oe s1 where c: "db_call s = (oe, s1)" by (cases "db_call s")
  from c obtain fs where s1: "s1 = s\<lparr>db_faults := fs\<rparr>" by (rule db_callE)
  show thesis
  proof (cases oe)
    case e: (Some e)
    show thesis by (rule fault) (use assms Some x c s1 e in \<open>auto simp: txAllocateIP_def\<close>)
  next
    case None
    show thesis
      by (rule searched) (use assms Some x c s1 None in \<open>auto simp: txAllocateIP_def cloneIP_def\<close>)
  qed
qed

lemma UpsertPeerE:
  assumes "UpsertPeer s inp subnet gen now = Some (r, s')"
  obtains (failed) e fs where "r = Inl e" "s' = s\<lparr>db_faults := fs\<rparr>"
  | (updated) row p fs where "row \<in> set (db_peers s)" "p = updated_peer (scanPeer row) inp now" "r = Inr p"
      "col_id row = peer_ID inp \<or>
       (\<forall>x \<in> set (db_peers s). col_id x \<noteq> peer_ID inp) \<and> peer_WGPublicKey inp \<noteq> [] \<and>
       col_wg_public_key row = peer_WGPublicKey inp"
      "\<forall>x \<in> set (db_peers s). col_id x \<noteq> col_id row \<longrightarrow> col_wg_public_key x \<noteq> peer_WGPublicKey inp"
      "s' = s\<lparr>db_peers := map (update_row p) (db_peers s), db_faults := fs\<rparr>"
  | (created) allocated serverIP ipnet p fs where "ParseCIDR subnet = Some (serverIP, ipnet)"
      "alloc_loop ipnet (reserved_addrs serverIP ipnet (db_peers s))
         (IP_Mask (net_IP ipnet) (net_Mask ipnet)) = Some (Inr allocated)"
      "p = created_peer inp allocated gen now" "r = Inr p"
      "\<forall>x \<in> set (db_peers s). col_id x \<noteq> peer_ID inp \<and> col_wg_public_key x \<noteq> peer_WGPublicKey inp \<and>
         col_wg_allowed_ip x \<noteq> allocated \<and> col_proxy_uuid x \<noteq> gen_ProxyUUID gen"
      "s' = s\<lparr>db_peers := db_peers s @ [row_of p], db_faults := fs\<rparr>"
proof -
  obtain oe s1 where c: "db_call s = (oe, s1)" by (cases "db_call s")
  from c obtain fs1 where s1: "s1 = s\<lparr>db_faults := fs1\<rparr>" by (rule db_callE)
  show thesis
  proof (cases oe)
    case (Some e)
    show thesis by (rule failed) (use assms c s1 Some in \<open>auto simp: UpsertPeer_def\<close>)
  next
    case oe: None
    obtain r2 s2 where f: "txFindExisting s1 inp = (r2, s2)" by (cases "txFindExisting s1 inp")
    note u = assms [unfolded UpsertPeer_def c oe] f s1
    from f show thesis
    proof (cases rule: txFindExistingE)
      case (fault e fs)
      show thesis by (rule failed) (use u fault in \<open>auto simp: rollback_def\<close>)
    next
      case (found row fs)
      define p where "p = updated_peer (scanPeer row) inp now"
      have "exec_commit s p (exec_update_peer (s\<lparr>db_faults := fs\<rparr>) p) = (r, s')"
        using u found by (simp add: p_def Let_def)
      then show thesis
      proof (cases rule: commit_updateE)
        case (updated fs')
        show thesis
          by (rule that(2) [of row p fs'])
            (use s1 found updated in \<open>auto simp: p_def updated_peer_def scanPeer_def\<close>)
      qed (rule that(1))
    next
      case (missing fs)
      obtain r3 s3 where a: "txAllocateIP s2 subnet = Some (r3, s3)"
        using u missing by (auto split: option.splits)
      show thesis
      proof (cases r3)
        case (Inl e)
        show thesis by (rule failed) (use u missing a Inl in \<open>auto simp: rollback_def\<close>)
      next
        case (Inr allocated)
        define p where "p = created_peer inp allocated gen now"
        from a obtain serverIP ipnet fs3 where
          al: "ParseCIDR subnet = Some (serverIP, ipnet)" "s3 = s\<lparr>db_faults := fs3\<rparr>"
            "alloc_loop ipnet (reserved_addrs serverIP ipnet (db_peers s))
               (IP_Mask (net_IP ipnet) (net_Mask ipnet)) = Some (Inr allocated)"
          by (cases rule: txAllocateIPE) (use Inr missing s1 in auto)
        have "exec_commit s p (exec_insert_peer (s\<lparr>db_faults := fs3\<rparr>) p) = (r, s')"
          using u missing a Inr al by (simp add: p_def Let_def)
        then show thesis
        proof (cases rule: commit_insertE)
          case (inserted fs')
          show thesis
            by (rule that(3) [of serverIP ipnet allocated p fs'])
              (use s1 missing inserted al in \<open>auto simp: p_def created_peer_def\<close>)
        qed (rule that(1))
      qed
    qed
  qed
qed


section \<open>The invariant of the tables\<close>

definition ipv4_subnet :: "string \<Rightarrow> bool" where
  "ipv4_subnet subnet = (case ParseCIDR subnet of None \<Rightarrow> False | Some (_, net) \<Rightarrow> length (net_Mask net) = 4)"

text \<open>\<open>host_cidr subnet c\<close>: the text \<open>c\<close> is one address of the subnet with \<open>/32\<close>, and neither the
  network address nor the broadcast address nor the server's.\<close>

definition host_cidr :: "string \<Rightarrow> string \<Rightarrow> bool" where
  "host_cidr subnet c \<longleftrightarrow>
     (\<exists>srv net ip. ParseCIDR subnet = Some (srv, net) \<and> length ip = 4 \<and> c = IP_String ip @ ''/32'' \<and>
        IPNet_Contains net ip \<and> ip \<noteq> net_IP net \<and> ip \<noteq> broadcastAddr net \<and> As16 ip \<noteq> srv)"

definition peers_unique :: "peer_row list \<Rightarrow> bool" where
  "peers_unique rows \<longleftrightarrow>
     distinct (map col_id rows) \<and> distinct (map col_wg_public_key rows) \<and>
     distinct (map col_wg_allowed_ip rows) \<and> distinct (map col_proxy_uuid rows)"

definition acls_inv :: "ServiceRow list \<Rightarrow> ServiceACL list \<Rightarrow> bool" where
  "acls_inv svcs acls \<longleftrightarrow>
     distinct (map svc_ID svcs) \<and> distinct (map acl_ID acls) \<and>
     (\<forall>a \<in> set acls. \<exists>r \<in> set svcs. svc_ID r = acl_ServiceID a)"

definition store_inv :: "string \<Rightarrow> Store \<Rightarrow> bool" where
  "store_inv subnet s \<longleftrightarrow>
     peers_unique (db_peers s) \<and>
     (\<forall>r \<in> set (db_peers s). host_cidr subnet (col_wg_allowed_ip r) \<and> col_enabled r \<in> {0, 1}) \<and>
     acls_inv (db_services s) (db_acls s) \<and> distinct (map cc_ID (db_carriers s))"

lemma store_inv_faults [simp]: "store_inv subnet (s\<lparr>db_faults := fs\<rparr>) = store_inv subnet s"
  by (simp add: store_inv_def)

lemma store_inv_peers:
  "store_inv subnet s \<Longrightarrow> peers_unique rows \<Longrightarrow>
   (\<And>r. r \<in> set rows \<Longrightarrow> host_cidr subnet (col_wg_allowed_ip r) \<and> col_enabled r \<in> {0, 1}) \<Longrightarrow>
   store_inv subnet (s\<lparr>db_peers := rows, db_faults := fs\<rparr>)"
  by (simp add: store_inv_def)

lemma update_row_simps [simp]:
  "col_id (update_row p r) = col_id r"
  "col_wg_allowed_ip (update_row p r) = col_wg_allowed_ip r"
  "col_proxy_uuid (update_row p r) = col_proxy_uuid r"
  "col_proxy_password (update_row p r) = col_proxy_password r"
  "col_created_at (update_row p r) = col_created_at r"
  "col_wg_public_key (update_row p r) = (if col_id r = peer_ID p then peer_WGPublicKey p else col_wg_public_key r)"
  by (simp_all add: update_row_def)

lemma distinct_update_key:
  assumes "distinct (map col_id rows)" "distinct (map col_wg_public_key rows)"
    and "\<forall>r \<in> set rows. col_id r \<noteq> peer_ID p \<longrightarrow> col_wg_public_key r \<noteq> peer_WGPublicKey p"
  shows "distinct (map (\<lambda>r. col_wg_public_key (update_row p r)) rows)"
  using assms
proof (induction rows)
  case (Cons r rows)
  then show ?case by (cases "col_id r = peer_ID p") force+
qed simp

lemma peers_unique_update:
  assumes "peers_unique rows"
    and "\<forall>r \<in> set rows. col_id r \<noteq> peer_ID p \<longrightarrow> col_wg_public_key r \<noteq> peer_WGPublicKey p"
  shows "peers_unique (map (update_row p) rows)"
  using assms distinct_update_key [of rows p] by (simp add: peers_unique_def comp_def)

lemma peers_unique_insert:
  "peers_unique rows \<Longrightarrow>
   \<forall>r \<in> set rows. col_id r \<noteq> peer_ID p \<and> col_wg_public_key r \<noteq> peer_WGPublicKey p \<and>
     col_wg_allowed_ip r \<noteq> peer_WGAllowedIP p \<and> col_proxy_uuid r \<noteq> peer_ProxyUUID p \<Longrightarrow>
   peers_unique (rows @ [row_of p])"
  by (auto simp: peers_unique_def row_of_def)

text \<open>What the search returns for the reserved texts of the table.\<close>

lemma allocated_lowest:
  assumes "ParseCIDR subnet = Some (srv, net)" "length (net_Mask net) = 4"
    and "alloc_loop net (reserved_addrs srv net rows) (IP_Mask (net_IP net) (net_Mask net)) = Some (Inr c)"
  shows "\<exists>ip. lowest_free net (reserved_addrs srv net rows) (ip_val (net_IP net)) ip \<and> c = IP_String ip @ ''/32''"
proof -
  from assms(1,2) obtain a n where a: "length a = 4" "n \<le> 32" "srv = As16 a" "net = v4_net a n"
    by (rule ParseCIDR_v4_net)
  with alloc_search_ok [OF a(1,2), of "reserved_addrs srv net rows" c] assms(3) obtain x where
    "lowest_free net (reserved_addrs srv net rows) (net_base a n) x" "c = v4_string x @ ''/32''" by auto
  then show ?thesis using a ip_val_network [of a n] by (auto simp: lowest_free_def)
qed

lemma reserved_v4:
  assumes "ParseCIDR subnet = Some (srv, net)" "length (net_Mask net) = 4"
    and "length ip = 4" "v4_string ip \<notin> set (reserved_addrs srv net rows)"
  shows "ip \<noteq> net_IP net \<and> ip \<noteq> broadcastAddr net \<and> As16 ip \<noteq> srv"
proof -
  from assms(1,2) obtain a n where a: "length a = 4" "n \<le> 32" "srv = As16 a" "net = v4_net a n"
    by (rule ParseCIDR_v4_net)
  have "As16 ip = As16 a \<Longrightarrow> ip = a" using a(1) assms(3) by (simp add: As16_def)
  then show ?thesis
    using assms(3,4) a broadcast_v4 [OF a(1,2)] by (auto simp: reserved_addrs_def)
qed

lemma allocated_host_cidr:
  assumes "ipv4_subnet subnet" "ParseCIDR subnet = Some (srv, net)"
    and "alloc_loop net (reserved_addrs srv net rows) (IP_Mask (net_IP net) (net_Mask net)) = Some (Inr c)"
  shows "host_cidr subnet c"
proof -
  have m: "length (net_Mask net) = 4" using assms(1,2) by (simp add: ipv4_subnet_def)
  from allocated_lowest [OF assms(2) m assms(3)] obtain ip where
    ip: "lowest_free net (reserved_addrs srv net rows) (ip_val (net_IP net)) ip" "c = IP_String ip @ ''/32''" by blast
  then have "length ip = 4" "v4_string ip \<notin> set (reserved_addrs srv net rows)" by (simp_all add: lowest_free_def)
  from reserved_v4 [OF assms(2) m this] show ?thesis
    using assms(2) ip unfolding lowest_free_def host_cidr_def by blast
qed


subsection \<open>Every operation keeps the invariant\<close>

lemma UpsertPeer_inv:
  assumes "ipv4_subnet subnet" "store_inv subnet s" "UpsertPeer s inp subnet gen now = Some (r, s')"
  shows "store_inv subnet s'"
  using assms(3)
proof (cases rule: UpsertPeerE)
  case (failed e fs)
  then show ?thesis using assms(2) by simp
next
  case (updated row p fs)
  have id: "peer_ID p = col_id row" "peer_WGPublicKey p = peer_WGPublicKey inp"
    using updated by (simp_all add: updated_peer_def scanPeer_def)
  have "peers_unique (map (update_row p) (db_peers s))"
    using assms(2) updated id by (intro peers_unique_update) (auto simp: store_inv_def)
  then show ?thesis
    unfolding updated using assms(2)
    by (intro store_inv_peers) (auto simp: store_inv_def update_row_def boolToInt_def)
next
  case (created allocated srv net p fs)
  have h: "host_cidr subnet allocated"
    using allocated_host_cidr [OF assms(1) created(1,2)] .
  have "peers_unique (db_peers s @ [row_of p])"
    using assms(2) created(3,5) by (intro peers_unique_insert) (auto simp: store_inv_def created_peer_def)
  then show ?thesis
    unfolding created(6) using assms(2) h
    by (intro store_inv_peers) (auto simp: store_inv_def row_of_def created_peer_def boolToInt_def created(3))
qed

lemma distinct_map_filter_key: "distinct (map f xs) \<Longrightarrow> distinct (map f (filter P xs))"
  by (rule distinct_map_filter)

lemma DeletePeer_inv: "store_inv subnet s \<Longrightarrow> DeletePeer s pid = (oe, s') \<Longrightarrow> store_inv subnet s'"
  by (auto simp: DeletePeer_def store_inv_def peers_unique_def distinct_map_filter
      split: prod.splits option.splits elim!: db_callE)

lemma SetSetting_inv: "store_inv subnet s \<Longrightarrow> SetSetting s k v = (oe, s') \<Longrightarrow> store_inv subnet s'"
  by (auto simp: SetSetting_def store_inv_def split: prod.splits option.splits elim!: db_callE)

lemma acls_inv_update:
  assumes "acls_inv svcs acls" "\<And>r. svc_ID (f r) = svc_ID r"
  shows "acls_inv (map f svcs) acls"
  using assms by (auto simp: acls_inv_def comp_def)

lemma acls_inv_add: "acls_inv svcs acls \<Longrightarrow> \<forall>r \<in> set svcs. svc_ID r \<noteq> svc_ID row \<Longrightarrow> acls_inv (svcs @ [row]) acls"
  by (auto simp: acls_inv_def)

lemma acls_inv_delete:
  "acls_inv svcs acls \<Longrightarrow>
   acls_inv (filter (\<lambda>r. svc_ID r \<noteq> sid) svcs) (filter (\<lambda>a. acl_ServiceID a \<noteq> sid) acls)"
  by (auto simp: acls_inv_def distinct_map_filter) metis

lemma acls_inv_grant:
  "acls_inv svcs acls \<Longrightarrow> \<forall>x \<in> set acls. acl_ID x \<noteq> acl_ID a \<Longrightarrow>
   r \<in> set svcs \<Longrightarrow> svc_ID r = acl_ServiceID a \<Longrightarrow> acls_inv svcs (acls @ [a])"
  by (auto simp: acls_inv_def)

lemma UpsertService_inv: "store_inv subnet s \<Longrightarrow> UpsertService s row = (oe, s') \<Longrightarrow> store_inv subnet s'"
  by (auto simp: UpsertService_def store_inv_def intro!: acls_inv_update acls_inv_add
      split: prod.splits option.splits if_splits elim!: db_callE)

lemma DeleteService_inv: "store_inv subnet s \<Longrightarrow> DeleteService s sid = (oe, s') \<Longrightarrow> store_inv subnet s'"
  by (auto simp: DeleteService_def store_inv_def Let_def intro: acls_inv_delete
      split: prod.splits option.splits if_splits elim!: db_callE)

lemma InsertServiceACL_inv:
  assumes "store_inv subnet s" "InsertServiceACL s acl newid now = (oe, s')"
  shows "store_inv subnet s'"
proof -
  define a1 where "a1 = (if acl_ID acl = [] then acl\<lparr>acl_ID := newid\<rparr> else acl)"
  define a2 where "a2 = (if acl_CreatedAt a1 = 0 then a1\<lparr>acl_CreatedAt := now\<rparr> else a1)"
  show ?thesis
    using assms unfolding InsertServiceACL_def a1_def [symmetric] Let_def a2_def [symmetric]
    by (auto simp: store_inv_def intro: acls_inv_grant
        split: prod.splits option.splits if_splits elim!: db_callE)
qed

lemma InsertCarrierCredential_inv:
  assumes "store_inv subnet s" "InsertCarrierCredential s cc newid now = (oe, s')"
  shows "store_inv subnet s'"
proof -
  define c1 where "c1 = (if cc_ID cc = [] then cc\<lparr>cc_ID := newid\<rparr> else cc)"
  define c2 where "c2 = (if cc_CreatedAt c1 = 0 then c1\<lparr>cc_CreatedAt := now\<rparr> else c1)"
  have "distinct (map cc_ID cs) \<Longrightarrow> \<forall>x \<in> set cs. cc_ID x \<noteq> cc_ID c2 \<Longrightarrow> distinct (map cc_ID (cs @ [c2]))"
    for cs by auto
  then show ?thesis
    using assms unfolding InsertCarrierCredential_def c1_def [symmetric] Let_def c2_def [symmetric]
    by (auto simp: store_inv_def split: prod.splits option.splits if_splits elim!: db_callE)
qed

lemma Deactivate_inv:
  "store_inv subnet s \<Longrightarrow> DeactivateExpiredCarrierCredentials s now = (n, s') \<Longrightarrow> store_inv subnet s'"
proof -
  let ?d = "\<lambda>c. if cc_expired now c then c\<lparr>cc_Active := False\<rparr> else c"
  have "map cc_ID (map ?d cs) = map cc_ID cs" for cs by (induction cs) auto
  then show "store_inv subnet s \<Longrightarrow> DeactivateExpiredCarrierCredentials s now = (n, s') \<Longrightarrow> store_inv subnet s'"
    by (auto simp: DeactivateExpiredCarrierCredentials_def store_inv_def simp del: map_map
        split: prod.splits option.splits elim!: db_callE)
qed

lemmas store_invs = UpsertPeer_inv DeletePeer_inv SetSetting_inv UpsertService_inv DeleteService_inv
  InsertServiceACL_inv InsertCarrierCredential_inv Deactivate_inv


subsection \<open>Reachable databases\<close>

text \<open>
  The steps the database can take while the node runs with one subnet: any write with any
  arguments, and any number of reads, which only consume entries of the fault schedule.
\<close>

inductive store_step :: "string \<Rightarrow> Store \<Rightarrow> Store \<Rightarrow> bool" for subnet where
  upsert: "UpsertPeer s inp subnet gen now = Some (r, s') \<Longrightarrow> store_step subnet s s'"
| delete: "DeletePeer s pid = (oe, s') \<Longrightarrow> store_step subnet s s'"
| setting: "SetSetting s k v = (oe, s') \<Longrightarrow> store_step subnet s s'"
| service: "UpsertService s row = (oe, s') \<Longrightarrow> store_step subnet s s'"
| unservice: "DeleteService s sid = (oe, s') \<Longrightarrow> store_step subnet s s'"
| acl: "InsertServiceACL s a newid now = (oe, s') \<Longrightarrow> store_step subnet s s'"
| carrier: "InsertCarrierCredential s cc newid now = (oe, s') \<Longrightarrow> store_step subnet s s'"
| deactivate: "DeactivateExpiredCarrierCredentials s now = (n, s') \<Longrightarrow> store_step subnet s s'"
| reads: "store_step subnet s (s\<lparr>db_faults := fs\<rparr>)"

definition store_reachable :: "string \<Rightarrow> Store \<Rightarrow> bool" where
  "store_reachable subnet s \<longleftrightarrow> (\<exists>fs. (store_step subnet)\<^sup>*\<^sup>* (fresh_store fs) s)"

lemma store_step_inv: "ipv4_subnet subnet \<Longrightarrow> store_step subnet s s' \<Longrightarrow> store_inv subnet s \<Longrightarrow> store_inv subnet s'"
  by (erule store_step.cases) (auto dest: store_invs)

lemma fresh_store_inv: "store_inv subnet (fresh_store fs)"
  by (simp add: store_inv_def fresh_store_def peers_unique_def acls_inv_def)

lemma reachable_inv:
  assumes "ipv4_subnet subnet" "store_reachable subnet s"
  shows "store_inv subnet s"
proof -
  from assms(2) obtain fs where "(store_step subnet)\<^sup>*\<^sup>* (fresh_store fs) s" by (auto simp: store_reachable_def)
  then show ?thesis
    by (induction rule: rtranclp_induct) (auto intro: fresh_store_inv store_step_inv [OF assms(1)])
qed


section \<open>Lookups\<close>

lemma find_unique:
  "distinct (map f xs) \<Longrightarrow> x \<in> set xs \<Longrightarrow> find (\<lambda>y. f y = f x) xs = Some x"
proof (induction xs)
  case (Cons y ys)
  then show ?case by (cases "f y = f x") (auto simp: image_iff)
qed simp

lemma GetPeer_row:
  assumes "peers_unique (db_peers s)" "row \<in> set (db_peers s)" "db_faults s = []"
  shows "GetPeer s (col_id row) = (Inr (scanPeer row), s)"
  using assms find_unique [of col_id "db_peers s" row]
  by (simp add: GetPeer_def queryPeer_def peers_unique_def)

lemma GetPeer_missing:
  assumes "\<forall>r \<in> set (db_peers s). col_id r \<noteq> pid" "db_faults s = []"
  shows "GetPeer s pid = (Inl (Sentinel ErrNotFound), s)"
proof -
  have "find (\<lambda>r. col_id r = pid) (db_peers s) = None" using assms(1) by (simp add: find_None_iff)
  then show ?thesis using assms(2) by (simp add: GetPeer_def queryPeer_def)
qed

lemma scanPeer_row_of [simp]: "scanPeer (row_of p) = p"
  by (simp add: scanPeer_def row_of_def boolToInt_def)

lemma col_id_row_of [simp]: "col_id (row_of p) = peer_ID p"
  by (simp add: row_of_def)

lemma scanPeer_update_row:
  "col_id row = peer_ID p \<Longrightarrow> p = updated_peer (scanPeer row) inp now \<Longrightarrow> scanPeer (update_row p row) = p"
  by (simp add: scanPeer_def update_row_def updated_peer_def boolToInt_def)

lemma updated_peer_ID [simp]: "peer_ID (updated_peer e inp now) = peer_ID e"
  by (simp add: updated_peer_def)

lemma scanPeer_ID [simp]: "peer_ID (scanPeer r) = col_id r"
  by (simp add: scanPeer_def)

lemma allocated_fresh:
  assumes "ParseCIDR subnet = Some (srv, net)" "length (net_Mask net) = 4"
    and "alloc_loop net (reserved_addrs srv net rows) (IP_Mask (net_IP net) (net_Mask net)) = Some (Inr c)"
  shows "\<forall>r \<in> set rows. col_wg_allowed_ip r \<noteq> c"
proof
  fix r assume r: "r \<in> set rows"
  from allocated_lowest [OF assms] obtain ip where
    ip: "length ip = 4" "v4_string ip \<notin> set (reserved_addrs srv net rows)" "c = v4_string ip @ ''/32''"
    by (auto simp: lowest_free_def)
  show "col_wg_allowed_ip r \<noteq> c"
  proof
    assume "col_wg_allowed_ip r = c"
    then have "v4_string ip \<in> set (peer_addrs rows)"
      using ParseCIDR_v4_host [OF ip(1)] ip r by (force simp: peer_addrs_def)
    then show False using ip(2) by (simp add: reserved_addrs_def)
  qed
qed

lemma network_lowest:
  assumes "ParseCIDR subnet = Some (srv, net)" "length (net_Mask net) = 4" "length j = 4" "IPNet_Contains net j"
  shows "ip_val (net_IP net) \<le> ip_val j"
proof -
  from assms(1,2) obtain a n where "length a = 4" "n \<le> 32" "net = v4_net a n"
    by (rule ParseCIDR_v4_net)
  then show ?thesis using Contains_range [of a j n] assms(3,4) by (simp add: ip_val_network)
qed

lemma length_peer_addrs: "length (peer_addrs rows) \<le> length rows"
  by (induction rows) (auto simp: peer_addrs_def split: option.splits prod.splits)

lemma mask_ones_cidr: "n \<le> 32 \<Longrightarrow> mask_ones (cidr_bytes 4 n) = n"
proof -
  have "list_all (\<lambda>n. mask_ones (cidr_bytes 4 n) = n) [0..<33]" by code_simp
  then show "n \<le> 32 \<Longrightarrow> mask_ones (cidr_bytes 4 n) = n" by (auto simp: list_all_iff)
qed

lemma alloc_ends:
  assumes "ParseCIDR subnet = Some (srv, net)" "length (net_Mask net) = 4"
    and "0 < mask_ones (net_Mask net) \<or> length rows + 3 < 2 ^ 32"
  shows "\<exists>r. alloc_loop net (reserved_addrs srv net rows) (IP_Mask (net_IP net) (net_Mask net)) = Some r"
proof -
  from assms(1,2) obtain a n where a: "length a = 4" "n \<le> 32" "srv = As16 a" "net = v4_net a n"
    by (rule ParseCIDR_v4_net)
  show ?thesis
  proof (cases "1 \<le> n")
    case True
    then show ?thesis using alloc_search_ends [OF a(1,2)] a(4) by simp
  next
    case False
    then have "n = 0" by simp
    then have "length (reserved_addrs srv net rows) < net_size n"
      using assms(3) a mask_ones_cidr [of 0] length_peer_addrs [of rows]
      by (simp add: reserved_addrs_def net_size_def)
    then show ?thesis using alloc_search_room [OF a(1,2)] a(4) by blast
  qed
qed

lemma alloc_room:
  assumes "ParseCIDR subnet = Some (srv, net)" "length (net_Mask net) = 4"
    and "length rows + 3 < 2 ^ (32 - mask_ones (net_Mask net))"
  shows "\<exists>c. alloc_loop net (reserved_addrs srv net rows) (IP_Mask (net_IP net) (net_Mask net)) = Some (Inr c)"
proof -
  from assms(1,2) obtain a n where a: "length a = 4" "n \<le> 32" "srv = As16 a" "net = v4_net a n"
    by (rule ParseCIDR_v4_net)
  have "length (reserved_addrs srv net rows) < net_size n"
    using assms(3) a mask_ones_cidr [of n] length_peer_addrs [of rows]
    by (simp add: reserved_addrs_def net_size_def)
  then show ?thesis using alloc_search_room [OF a(1,2)] a(4) by blast
qed

lemma txFindExisting_ok:
  assumes "db_faults s = []"
    and "\<forall>r \<in> set (db_peers s). col_id r \<noteq> peer_ID inp \<and> col_wg_public_key r \<noteq> peer_WGPublicKey inp"
  shows "txFindExisting s inp = (Inr None, s)"
proof -
  have "find (\<lambda>r. col_id r = peer_ID inp) (db_peers s) = None"
    "find (\<lambda>r. col_wg_public_key r = peer_WGPublicKey inp) (db_peers s) = None"
    using assms(2) by (simp_all add: find_None_iff)
  then show ?thesis
    using assms(1)
    by (simp add: txFindExisting_def txGetPeer_def txGetPeerByWGPublicKey_def queryPeer_def)
qed


section \<open>Properties\<close>

text \<open>
  C7. Whatever sequence of reads and writes the node makes, with whatever database failures,
  starting from a fresh database and serving one IPv4 subnet: peer ids, public keys, tunnel
  addresses and proxy UUIDs are pairwise distinct, every peer's address is a host address of the
  subnet other than the network, broadcast and server address, every access rule belongs to a
  service, and ids of services, rules and carrier credentials are unique.
\<close>

theorem reachable_store_inv:
  assumes "ipv4_subnet subnet" "store_reachable subnet s"
  shows "store_inv subnet s"
  using assms by (rule reachable_inv)

text \<open>
  C5. A new peer gets the lowest free address: an address of the subnet that is not the network,
  broadcast or server address and that no peer holds, while every lower address of the subnet is
  one of these or parses out of some peer's row.
\<close>

theorem UpsertPeer_lowest_free:
  assumes "ParseCIDR subnet = Some (srv, net)" "length (net_Mask net) = 4"
    and "\<forall>r \<in> set (db_peers s). col_id r \<noteq> peer_ID inp \<and> col_wg_public_key r \<noteq> peer_WGPublicKey inp"
    and "UpsertPeer s inp subnet gen now = Some (Inr p, s')"
  shows "\<exists>ip. length ip = 4 \<and> peer_WGAllowedIP p = IP_String ip @ ''/32'' \<and> IPNet_Contains net ip \<and>
     ip \<noteq> net_IP net \<and> ip \<noteq> broadcastAddr net \<and> As16 ip \<noteq> srv \<and>
     (\<forall>r \<in> set (db_peers s). col_wg_allowed_ip r \<noteq> peer_WGAllowedIP p) \<and>
     (\<forall>j. length j = 4 \<and> IPNet_Contains net j \<and> ip_val j < ip_val ip \<longrightarrow>
        IP_String j \<in> set (reserved_addrs srv net (db_peers s)))"
  using assms(4)
proof (cases rule: UpsertPeerE)
  case (created allocated srv' net' p' fs)
  have al: "alloc_loop net (reserved_addrs srv net (db_peers s)) (IP_Mask (net_IP net) (net_Mask net)) = Some (Inr allocated)"
    using created(1,2) assms(1) by simp
  from allocated_lowest [OF assms(1,2) al] obtain ip where
    ip: "lowest_free net (reserved_addrs srv net (db_peers s)) (ip_val (net_IP net)) ip"
        "allocated = IP_String ip @ ''/32''" by blast
  have "peer_WGAllowedIP p = allocated" using created by (simp add: created_peer_def)
  then show ?thesis
    using ip reserved_v4 [OF assms(1,2), of ip "db_peers s"] allocated_fresh [OF assms(1,2) al]
      network_lowest [OF assms(1,2)] by (intro exI [of _ ip]) (simp add: lowest_free_def)
qed (use assms(3) in auto)


text \<open>
  Updating a known peer keeps its tunnel address, its proxy credentials and its creation
  time, takes name, wallet, keys, enabled flag and expiry from the request, and changes no other
  row; no row is added or removed.
\<close>

theorem UpsertPeer_update:
  assumes "row \<in> set (db_peers s)" "col_id row = peer_ID inp" "peers_unique (db_peers s)"
    and "UpsertPeer s inp subnet gen now = Some (Inr p, s')"
  shows "peer_ID p = peer_ID inp \<and> peer_WGAllowedIP p = col_wg_allowed_ip row \<and>
     peer_ProxyUUID p = col_proxy_uuid row \<and> peer_ProxyPassword p = col_proxy_password row \<and>
     peer_CreatedAt p = col_created_at row \<and> peer_Name p = peer_Name inp \<and>
     peer_WGPublicKey p = peer_WGPublicKey inp \<and> peer_Enabled p = peer_Enabled inp \<and>
     peer_ExpiresAt p = peer_ExpiresAt inp \<and> peer_UpdatedAt p = now \<and>
     map scanPeer (db_peers s') = map (\<lambda>r. if col_id r = peer_ID inp then p else scanPeer r) (db_peers s)"
  using assms(4)
proof (cases rule: UpsertPeerE)
  case (updated row' p' fs)
  have rr: "row' = row" if "col_id row' = col_id row"
    using that assms updated(1) find_unique [of col_id "db_peers s" row] find_unique [of col_id "db_peers s" row']
    by (auto simp: peers_unique_def)
  have r: "row' = row" using updated assms rr by auto
  have p: "p = updated_peer (scanPeer row) inp now" "p' = p" using updated r by simp_all
  have u: "scanPeer (update_row p x) = (if col_id x = peer_ID inp then p else scanPeer x)"
    if "x \<in> set (db_peers s)" for x
  proof (cases "col_id x = col_id row")
    case True
    then have "x = row"
      using that assms find_unique [of col_id "db_peers s" row] find_unique [of col_id "db_peers s" x]
      by (auto simp: peers_unique_def)
    then show ?thesis using p assms(2) scanPeer_update_row [of row p inp now] by simp
  next
    case False
    then show ?thesis using p assms(2) by (simp add: update_row_def)
  qed
  then have "map scanPeer (db_peers s') = map (\<lambda>r. if col_id r = peer_ID inp then p else scanPeer r) (db_peers s)"
    using updated p by simp
  then show ?thesis using p assms(2) by (simp add: updated_peer_def scanPeer_def)
qed (use assms in auto)

text \<open>
  A known public key under an unknown peer id is a reconnect: the upsert updates the peer
  that holds the key, answers with that peer's id and address, and adds no row.
\<close>

theorem UpsertPeer_reconnect:
  assumes "row \<in> set (db_peers s)" "peers_unique (db_peers s)" "peer_WGPublicKey inp \<noteq> []"
    and "col_wg_public_key row = peer_WGPublicKey inp" "\<forall>r \<in> set (db_peers s). col_id r \<noteq> peer_ID inp"
    and "UpsertPeer s inp subnet gen now = Some (Inr p, s')"
  shows "peer_ID p = col_id row \<and> peer_WGAllowedIP p = col_wg_allowed_ip row \<and>
     map col_id (db_peers s') = map col_id (db_peers s)"
  using assms(6)
proof (cases rule: UpsertPeerE)
  case (updated row' p' fs)
  then have "col_wg_public_key row' = col_wg_public_key row" using assms by auto
  then have "row' = row"
    using updated(1) assms find_unique [of col_wg_public_key "db_peers s" row]
      find_unique [of col_wg_public_key "db_peers s" row'] by (auto simp: peers_unique_def)
  then show ?thesis using updated by (simp add: updated_peer_def scanPeer_def)
qed (use assms in auto)

text \<open>
  What an upsert answered is what a later lookup reads back.
\<close>

theorem UpsertPeer_GetPeer:
  assumes "peers_unique (db_peers s)" "UpsertPeer s inp subnet gen now = Some (Inr p, s')" "db_faults s' = []"
  shows "GetPeer s' (peer_ID p) = (Inr p, s')"
  using assms(2)
proof (cases rule: UpsertPeerE)
  case (updated row p' fs)
  have p: "p = updated_peer (scanPeer row) inp now" "p' = p" using updated by simp_all
  have "peers_unique (db_peers s')"
    using updated assms(1) p by (auto intro!: peers_unique_update simp: updated_peer_def scanPeer_def)
  moreover have "update_row p row \<in> set (db_peers s')" using updated p by simp
  ultimately show ?thesis
    using GetPeer_row [of s' "update_row p row"] scanPeer_update_row [of row p inp now] p assms(3) by simp
next
  case (created allocated srv net p' fs)
  have "peers_unique (db_peers s')"
    using created assms(1) by (auto intro!: peers_unique_insert simp: created_peer_def)
  moreover have "row_of p \<in> set (db_peers s')" using created by simp
  ultimately show ?thesis
    using GetPeer_row [of s' "row_of p"] assms(3) by simp
qed simp

text \<open>
  C25. Provisioning always answers: for an IPv4 subnet the address search ends, unless the prefix
  is empty and the table holds \<open>2 ^ 32 - 3\<close> peers or more.
\<close>

theorem UpsertPeer_returns:
  assumes "ParseCIDR subnet = Some (srv, net)" "length (net_Mask net) = 4"
    and "0 < mask_ones (net_Mask net) \<or> length (db_peers s) + 3 < 2 ^ 32"
  shows "\<exists>r s'. UpsertPeer s inp subnet gen now = Some (r, s')"
proof -
  have a: "\<exists>r. txAllocateIP t subnet = Some r" if "db_peers t = db_peers s" for t
  proof -
    obtain oe t1 where c: "db_call t = (oe, t1)" by (cases "db_call t")
    then obtain fs where "t1 = t\<lparr>db_faults := fs\<rparr>" by (rule db_callE)
    then show ?thesis
      using alloc_ends [OF assms(1,2), of "db_peers s"] assms(1,3) c that
      by (auto simp: txAllocateIP_def cloneIP_def split: option.splits)
  qed
  obtain oe s1 where c: "db_call s = (oe, s1)" by (cases "db_call s")
  from c obtain fs where s1: "s1 = s\<lparr>db_faults := fs\<rparr>" by (rule db_callE)
  obtain r2 s2 where f: "txFindExisting s1 inp = (r2, s2)" by (cases "txFindExisting s1 inp")
  from f s1 have "db_peers s2 = db_peers s" by (auto elim!: txFindExistingE)
  with a [of s2] obtain r3 where "txAllocateIP s2 subnet = Some r3" by blast
  then show ?thesis
    using c f by (auto simp: UpsertPeer_def Let_def exec_commit_def
        split: option.splits sum.splits prod.splits)
qed

text \<open>
  C26. Provisioning a new peer succeeds while there is room: with a working database, unused id,
  key and proxy UUID, and fewer peers than the subnet has addresses besides the three reserved
  ones, the upsert answers with a peer.
\<close>

theorem UpsertPeer_room:
  assumes "ParseCIDR subnet = Some (srv, net)" "length (net_Mask net) = 4" "db_faults s = []"
    and "length (db_peers s) + 3 < 2 ^ (32 - mask_ones (net_Mask net))"
    and "\<forall>r \<in> set (db_peers s). col_id r \<noteq> peer_ID inp \<and> col_wg_public_key r \<noteq> peer_WGPublicKey inp \<and>
           col_proxy_uuid r \<noteq> gen_ProxyUUID gen"
  shows "\<exists>p. UpsertPeer s inp subnet gen now = Some (Inr p, s\<lparr>db_peers := db_peers s @ [row_of p]\<rparr>)"
proof -
  from alloc_room [OF assms(1,2,4)] obtain c where
    c: "alloc_loop net (reserved_addrs srv net (db_peers s)) (IP_Mask (net_IP net) (net_Mask net)) = Some (Inr c)"
    by blast
  have f: "txFindExisting s inp = (Inr None, s)" using assms(3,5) by (intro txFindExisting_ok) auto
  have u: "\<not> (\<exists>r \<in> set (db_peers s). col_id r = peer_ID inp \<or> col_wg_public_key r = peer_WGPublicKey inp \<or>
      col_wg_allowed_ip r = c \<or> col_proxy_uuid r = gen_ProxyUUID gen)"
    using assms(5) allocated_fresh [OF assms(1,2) c] by auto
  have "exec_insert_peer s (created_peer inp c gen now) =
      (None, s\<lparr>db_peers := db_peers s @ [row_of (created_peer inp c gen now)]\<rparr>)"
    using u assms(3) by (simp add: exec_insert_peer_def created_peer_def)
  then show ?thesis
    using assms(1,3) c f
    by (simp add: UpsertPeer_def txAllocateIP_def cloneIP_def exec_commit_def Let_def)
qed


section \<open>Witnesses\<close>

definition ex_subnet :: string where
  "ex_subnet = ''10.0.0.1/24''"

definition ex_row :: peer_row where
  "ex_row = \<lparr>col_id = ''a'', col_name = ''laptop'', col_wallet = [], col_wg_public_key = ''ka'',
     col_wg_allowed_ip = ''10.0.0.2/32'', col_wg_preshared_key = [], col_proxy_uuid = ''ua'',
     col_proxy_password = ''pa'', col_enabled = 1, col_created_at = 5, col_updated_at = 5,
     col_expires_at = 0\<rparr>"

definition ex_store :: Store where
  "ex_store = (fresh_store [])\<lparr>db_peers := [ex_row]\<rparr>"

definition ex_peer :: "string \<Rightarrow> string \<Rightarrow> Peer" where
  "ex_peer pid key = \<lparr>peer_ID = pid, peer_Name = ''phone'', peer_Wallet = [], peer_WGPublicKey = key,
     peer_WGAllowedIP = [], peer_WGPresharedKey = [], peer_ProxyUUID = [], peer_ProxyPassword = [],
     peer_Enabled = True, peer_CreatedAt = 0, peer_UpdatedAt = 0, peer_ExpiresAt = 0\<rparr>"

definition ex_gen :: GeneratedCreds where
  "ex_gen = \<lparr>gen_ProxyUUID = ''ub'', gen_ProxyPassword = ''pb''\<rparr>"

definition ex_net :: IPNet where
  "ex_net = \<lparr>net_IP = [10, 0, 0, 0], net_Mask = [255, 255, 255, 0]\<rparr>"

definition ex_upsert :: "Store \<Rightarrow> string \<Rightarrow> string \<Rightarrow> (Peer result \<times> Store) option" where
  "ex_upsert s pid key = UpsertPeer s (ex_peer pid key) ex_subnet ex_gen 9"

lemma ex_parse: "ParseCIDR ex_subnet = Some (As16 [10, 0, 0, 1], ex_net)"
  by code_simp

lemma ex_unique: "peers_unique (db_peers ex_store)"
  by code_simp

lemma ex_upsert_ok:
  "map_option (\<lambda>(r, s). (r, db_faults s)) (ex_upsert ex_store ''b'' ''kb'')
     = Some (Inr ((ex_peer ''b'' ''kb'')\<lparr>peer_WGAllowedIP := ''10.0.0.3/32'', peer_ProxyUUID := ''ub'',
         peer_ProxyPassword := ''pb'', peer_CreatedAt := 9, peer_UpdatedAt := 9\<rparr>), [])"
  by code_simp

lemma ex_upsert_same:
  "map_option fst (ex_upsert ex_store ''a'' ''kb'')
     = Some (Inr ((ex_peer ''a'' ''kb'')\<lparr>peer_WGAllowedIP := ''10.0.0.2/32'', peer_ProxyUUID := ''ua'',
         peer_ProxyPassword := ''pa'', peer_CreatedAt := 5, peer_UpdatedAt := 9\<rparr>))"
  by code_simp

lemma ex_upsert_key:
  "map_option fst (ex_upsert ex_store ''b'' ''ka'')
     = Some (Inr ((ex_peer ''a'' ''ka'')\<lparr>peer_WGAllowedIP := ''10.0.0.2/32'', peer_ProxyUUID := ''ua'',
         peer_ProxyPassword := ''pa'', peer_CreatedAt := 5, peer_UpdatedAt := 9\<rparr>))"
  by code_simp

lemma ex_upsert_fault:
  "map_option fst (ex_upsert (ex_store\<lparr>db_faults := [None, None, None, None, None, Some ''disk full'']\<rparr>) ''b'' ''kb'')
     = Some (Inl (Errorf ''disk full''))"
  by code_simp

theorem reachable_store_inv_witness:
  "\<exists>r s. ex_upsert (fresh_store []) ''b'' ''kb'' = Some (r, s) \<and> db_peers s \<noteq> [] \<and> store_inv ex_subnet s"
proof -
  have "map_option (\<lambda>(r, s). length (db_peers s)) (ex_upsert (fresh_store []) ''b'' ''kb'') = Some 1" by code_simp
  then obtain r s where u: "ex_upsert (fresh_store []) ''b'' ''kb'' = Some (r, s)" "length (db_peers s) = 1" by auto
  then have "store_step ex_subnet (fresh_store []) s" unfolding ex_upsert_def by (blast intro: store_step.upsert)
  then have "store_reachable ex_subnet s" unfolding store_reachable_def by blast
  moreover have "ipv4_subnet ex_subnet" by code_simp
  ultimately have "store_inv ex_subnet s" by (rule reachable_store_inv [rotated])
  then show ?thesis using u by auto
qed

theorem UpsertPeer_lowest_free_witness:
  "\<exists>p s' ip. ex_upsert ex_store ''b'' ''kb'' = Some (Inr p, s') \<and>
     peer_WGAllowedIP p = ''10.0.0.3/32'' \<and> peer_WGAllowedIP p = IP_String ip @ ''/32'' \<and> IPNet_Contains ex_net ip"
proof -
  from ex_upsert_ok obtain p s' where u: "ex_upsert ex_store ''b'' ''kb'' = Some (Inr p, s')"
      "peer_WGAllowedIP p = ''10.0.0.3/32''" by auto
  have n: "\<forall>r \<in> set (db_peers ex_store). col_id r \<noteq> peer_ID (ex_peer ''b'' ''kb'') \<and>
      col_wg_public_key r \<noteq> peer_WGPublicKey (ex_peer ''b'' ''kb'')" by code_simp
  have m: "length (net_Mask ex_net) = 4" by code_simp
  from UpsertPeer_lowest_free [OF ex_parse m n u(1) [unfolded ex_upsert_def]] u show ?thesis by blast
qed


theorem UpsertPeer_update_witness:
  "\<exists>p s'. ex_upsert ex_store ''a'' ''kb'' = Some (Inr p, s') \<and> peer_WGAllowedIP p = ''10.0.0.2/32'' \<and>
     map scanPeer (db_peers s') = [p]"
proof -
  from ex_upsert_same obtain p s' where u: "ex_upsert ex_store ''a'' ''kb'' = Some (Inr p, s')" by auto
  have r: "ex_row \<in> set (db_peers ex_store)" "col_id ex_row = peer_ID (ex_peer ''a'' ''kb'')"
    by (simp_all add: ex_store_def ex_row_def ex_peer_def)
  from UpsertPeer_update [OF r ex_unique u [unfolded ex_upsert_def]] u show ?thesis
    by (auto simp: ex_store_def ex_row_def ex_peer_def)
qed

theorem UpsertPeer_reconnect_witness:
  "\<exists>p s'. ex_upsert ex_store ''b'' ''ka'' = Some (Inr p, s') \<and> peer_ID p = ''a'' \<and> map col_id (db_peers s') = [''a'']"
proof -
  from ex_upsert_key obtain p s' where u: "ex_upsert ex_store ''b'' ''ka'' = Some (Inr p, s')" by auto
  have r: "ex_row \<in> set (db_peers ex_store)" "peer_WGPublicKey (ex_peer ''b'' ''ka'') \<noteq> []"
    "col_wg_public_key ex_row = peer_WGPublicKey (ex_peer ''b'' ''ka'')"
    "\<forall>r \<in> set (db_peers ex_store). col_id r \<noteq> peer_ID (ex_peer ''b'' ''ka'')"
    by (simp_all add: ex_store_def ex_row_def ex_peer_def)
  from UpsertPeer_reconnect [OF r(1) ex_unique r(2-4) u [unfolded ex_upsert_def]] u show ?thesis
    by (auto simp: ex_store_def ex_row_def)
qed

theorem UpsertPeer_GetPeer_witness:
  "\<exists>p s'. ex_upsert ex_store ''b'' ''kb'' = Some (Inr p, s') \<and> peer_ID p = ''b'' \<and> GetPeer s' ''b'' = (Inr p, s')"
proof -
  from ex_upsert_ok obtain p s' where
    u: "ex_upsert ex_store ''b'' ''kb'' = Some (Inr p, s')" "db_faults s' = []" "peer_ID p = ''b''"
    by (auto simp: ex_peer_def)
  from UpsertPeer_GetPeer [OF ex_unique u(1) [unfolded ex_upsert_def] u(2)] u show ?thesis by auto
qed

theorem UpsertPeer_returns_witness:
  "\<exists>r s'. ex_upsert ex_store ''b'' ''kb'' = Some (r, s')"
proof -
  have m: "length (net_Mask ex_net) = 4" by code_simp
  have "0 < mask_ones (net_Mask ex_net)" by code_simp
  then show ?thesis unfolding ex_upsert_def by (intro UpsertPeer_returns [OF ex_parse m]) simp
qed

theorem UpsertPeer_room_witness:
  "\<exists>p. ex_upsert ex_store ''b'' ''kb'' = Some (Inr p, ex_store\<lparr>db_peers := db_peers ex_store @ [row_of p]\<rparr>)"
proof -
  have m: "length (net_Mask ex_net) = 4" by code_simp
  have o: "mask_ones (net_Mask ex_net) = 24" by code_simp
  show ?thesis unfolding ex_upsert_def
    by (rule UpsertPeer_room [OF ex_parse m])
      (simp_all add: o ex_store_def fresh_store_def ex_row_def ex_peer_def ex_gen_def)
qed

end
