(* ===== verification/Settings.thy ===== *)
theory Settings
  imports Store
begin

text \<open>
  The interface \<open>SettingsStore\<close> (\<open>src/internal/stealth/secrets.go\<close>) through which the key managers
  use the database: reading and writing named settings. The locale states what the managers rely
  on; the database of theory \<open>Store\<close> is shown to provide it. \<open>getOrSet\<close> is the one operation of the
  package that is written against the interface alone.
\<close>

definition getOrSet ::
  "('s \<Rightarrow> string \<Rightarrow> string result \<times> 's) \<Rightarrow> ('s \<Rightarrow> string \<Rightarrow> string \<Rightarrow> error option \<times> 's) \<Rightarrow>
   's \<Rightarrow> string \<Rightarrow> string \<Rightarrow> string result \<times> 's" where
  "getOrSet get put st key dflt =
     (case get st key of
        (Inl e, st') \<Rightarrow> (Inl e, st')
      | (Inr v, st') \<Rightarrow>
          if v \<noteq> [] then (Inr v, st')
          else (case put st' key dflt of
                  (Some e, st'') \<Rightarrow> (Inl e, st'')
                | (None, st'') \<Rightarrow> (Inr dflt, st'')))"

text \<open>
  \<open>look st k\<close> is the value a successful read returns, the empty string when there is none. A read
  changes nothing; a write that succeeds changes one key; a write that fails changes nothing.
\<close>

locale settings_store =
  fixes get :: "'s \<Rightarrow> string \<Rightarrow> string result \<times> 's"
    and put :: "'s \<Rightarrow> string \<Rightarrow> string \<Rightarrow> error option \<times> 's"
    and look :: "'s \<Rightarrow> string \<Rightarrow> string"
  assumes get_ok: "get st k = (Inr v, st') \<Longrightarrow> v = look st k"
    and get_keeps: "get st k = (r, st') \<Longrightarrow> look st' = look st"
    and put_ok: "put st k v = (None, st') \<Longrightarrow> look st' = (look st)(k := v)"
    and put_failed: "put st k v = (Some e, st') \<Longrightarrow> look st' = look st"
begin

lemma getOrSet_ok:
  assumes "getOrSet get put st k d = (Inr v, st')"
  shows "v = (if look st k \<noteq> [] then look st k else d) \<and> look st' = (look st)(k := v)"
proof -
  obtain r s1 where g: "get st k = (r, s1)" by (rule prod.exhaust)
  then have keeps: "look s1 = look st" by (rule get_keeps)
  show ?thesis
  proof (cases r)
    case (Inl e)
    then show ?thesis using assms g by (simp add: getOrSet_def)
  next
    case (Inr w)
    have w: "w = look st k" using g Inr get_ok by simp
    show ?thesis
    proof (cases "w = []")
      case False
      then show ?thesis using assms g Inr w keeps by (auto simp: getOrSet_def fun_eq_iff)
    next
      case True
      obtain oe s2 where p: "put s1 k d = (oe, s2)" by (rule prod.exhaust)
      then show ?thesis
        using assms g Inr w keeps True put_ok [of s1 k d s2] by (cases oe) (auto simp: getOrSet_def)
    qed
  qed
qed

lemma getOrSet_keeps:
  assumes "getOrSet get put st k d = (r, st')" "k' \<noteq> k"
  shows "look st' k' = look st k'"
proof -
  obtain r1 s1 where g: "get st k = (r1, s1)" by (rule prod.exhaust)
  then have keeps: "look s1 = look st" by (rule get_keeps)
  obtain oe s2 where p: "put s1 k d = (oe, s2)" by (rule prod.exhaust)
  have "look s2 k' = look st k'"
    using p keeps put_ok [of s1 k d s2] put_failed [of s1 k d _ s2] assms(2) by (cases oe) auto
  then show ?thesis
    using assms g p keeps by (auto simp: getOrSet_def split: sum.splits if_splits option.splits)
qed

text \<open>A value once stored is what every later call answers, whatever default it brings.\<close>

lemma getOrSet_again:
  assumes "getOrSet get put st k d = (Inr v, st1)" "d \<noteq> []"
    and "look st2 k = look st1 k" "getOrSet get put st2 k d' = (Inr v', st3)"
  shows "v' = v"
  using getOrSet_ok [OF assms(1)] getOrSet_ok [OF assms(4)] assms(2,3) by (auto split: if_splits)

end

definition db_look :: "Store \<Rightarrow> string \<Rightarrow> string" where
  "db_look s k = (case db_settings s k of None \<Rightarrow> [] | Some v \<Rightarrow> v)"

interpretation db: settings_store GetSetting SetSetting db_look
proof
  show "v = db_look st k" if "GetSetting st k = (Inr v, st')" for st k v st'
    using that by (auto simp: GetSetting_def db_look_def split: prod.splits option.splits elim!: db_callE)
  show "db_look st' = db_look st" if "GetSetting st k = (r, st')" for st k r st'
    using that by (auto simp: GetSetting_def db_look_def split: prod.splits option.splits elim!: db_callE)
  show "db_look st' = (db_look st)(k := v)" if "SetSetting st k v = (None, st')" for st k v st'
    using that by (auto simp: SetSetting_def db_look_def fun_eq_iff split: prod.splits option.splits elim!: db_callE)
  show "db_look st' = db_look st" if "SetSetting st k v = (Some e, st')" for st k v e st'
    using that by (auto simp: SetSetting_def db_look_def split: prod.splits option.splits elim!: db_callE)
qed

end
