(* ===== verification/Config.thy ===== *)
theory Config
  imports NetIP
begin

text \<open>
  The configuration of the node (\<open>src/internal/config/\<close>): the record \<open>Config\<close> with the fields of the
  Go struct, \<open>Load\<close> from the environment, the access mode and network profile, the deployment
  profile defaults, byte sizes and \<open>Validate\<close>. The environment is a function from names to values
  (unset is the empty string, as \<open>os.Getenv\<close> has it) and the host name an argument.
\<close>

section \<open>Access mode\<close>

abbreviation ModePrivate :: string where "ModePrivate \<equiv> ''private''"
abbreviation ModePublic :: string where "ModePublic \<equiv> ''public''"
abbreviation NetworkBridge :: string where "NetworkBridge \<equiv> ''bridge''"
abbreviation NetworkHostNetwork :: string where "NetworkHostNetwork \<equiv> ''host-network''"
abbreviation NetworkNative :: string where "NetworkNative \<equiv> ''native''"
abbreviation legacyModeGateway :: string where "legacyModeGateway \<equiv> ''gateway''"

record ModeSettings =
  mode_RuntimeMode :: string
  mode_NetworkProfile :: string
  mode_Warnings :: "string list"

definition isAccessToken :: "string \<Rightarrow> bool" where
  "isAccessToken s = (if s \<in> {[], ModePrivate, ModePublic, legacyModeGateway} then s \<noteq> [] else False)"

definition normalizeAccessToken :: "string \<Rightarrow> string" where
  "normalizeAccessToken s = (if s = legacyModeGateway then ModePublic else s)"

definition parseAccess :: "string \<Rightarrow> (string \<times> string list) result" where
  "parseAccess raw =
     (if raw = [] then Inr (ModePublic, [])
      else if raw = ModePrivate then Inr (ModePrivate, [])
      else if raw = ModePublic then Inr (ModePublic, [])
      else if raw = legacyModeGateway
      then Inr (ModePublic, [''WARNING: access '' @ Quote legacyModeGateway @
             '' is deprecated. Use EREBRUS_ACCESS='' @ ModePublic @ ''.''])
      else Inl (Errorf (''EREBRUS_ACCESS must be private or public (got '' @ Quote raw @ '')'')))"

definition parseNetworkProfile :: "string \<Rightarrow> (string \<times> string list) result" where
  "parseNetworkProfile raw =
     (if raw = [] then Inr (NetworkBridge, [])
      else if raw \<in> {NetworkBridge, NetworkHostNetwork, NetworkNative} then Inr (raw, [])
      else Inl (Errorf (''EREBRUS_NETWORK_PROFILE must be bridge, host-network, or native (got '' @
             Quote raw @ '')'')))"

definition nativeWarning :: string where
  "nativeWarning = ''WARNING: EREBRUS_NETWORK_PROFILE=native is experimental; container deployment is recommended.''"

definition ParseModeSettings :: "string \<Rightarrow> string \<Rightarrow> ModeSettings result" where
  "ParseModeSettings accessRaw0 profileRaw0 =
     (let accessRaw1 = ToLower (TrimSpace accessRaw0);
          profileRaw1 = ToLower (TrimSpace profileRaw0);
          (warnings, accessRaw, profileRaw) =
            (if accessRaw1 = [] \<and> isAccessToken profileRaw1
             then ([''WARNING: EREBRUS_MODE='' @ Quote profileRaw1 @
                     '' is deprecated for access. Use EREBRUS_ACCESS='' @
                     normalizeAccessToken profileRaw1 @ ''.''], profileRaw1, [])
             else ([], accessRaw1, profileRaw1))
      in case parseAccess accessRaw of
           Inl e \<Rightarrow> Inl e
         | Inr (access, accessWarnings) \<Rightarrow>
             (case parseNetworkProfile profileRaw of
                Inl e \<Rightarrow> Inl e
              | Inr (profile, profileWarnings) \<Rightarrow>
                  Inr \<lparr>mode_RuntimeMode = access, mode_NetworkProfile = profile,
                       mode_Warnings = warnings @ accessWarnings @ profileWarnings @
                         (if profile = NetworkNative then [nativeWarning] else [])\<rparr>))"

definition ParseModeSettingsFromEnv :: "(string \<Rightarrow> string) \<Rightarrow> ModeSettings result" where
  "ParseModeSettingsFromEnv getenv =
     ParseModeSettings (getenv ''EREBRUS_ACCESS'') (getenv ''EREBRUS_NETWORK_PROFILE'')"

definition IsPrivate :: "ModeSettings \<Rightarrow> bool" where
  "IsPrivate m = (mode_RuntimeMode m = ModePrivate)"

definition IsPublic :: "ModeSettings \<Rightarrow> bool" where
  "IsPublic m = (mode_RuntimeMode m = ModePublic)"

definition GatewayAccessMode :: "ModeSettings \<Rightarrow> string" where
  "GatewayAccessMode m = (if mode_RuntimeMode m = ModePublic then ''public'' else ''private'')"


section \<open>The configuration record\<close>

record Config =
  cfg_RunType :: string
  cfg_BindAddr :: string
  cfg_HTTPPort :: string
  cfg_NodeName :: string
  cfg_Region :: string
  cfg_Zone :: string
  cfg_Version :: string
  cfg_Mode :: ModeSettings
  cfg_UnsafePublicAPI :: bool
  cfg_Mnemonic :: string
  cfg_GatewayURL :: string
  cfg_GatewayPeerMultiaddr :: string
  cfg_P2PListenPort :: string
  cfg_NodeID :: string
  cfg_NodeToken :: string
  cfg_WalletChain :: string
  cfg_NodeRegistrationToken :: string
  cfg_APIPublicURL :: string
  cfg_GatewayAutoRegister :: bool
  cfg_GatewayPublicKey :: string
  cfg_NodeKey :: string
  cfg_NodeAPIToken :: string
  cfg_WGConfDir :: string
  cfg_WGInterface :: string
  cfg_WGEndpointHost :: string
  cfg_WGEndpointPort :: string
  cfg_StealthTCPPort :: string
  cfg_StealthUDPPort :: string
  cfg_WGIPv4Subnet :: string
  cfg_WGDNS :: string
  cfg_WGPostUp :: string
  cfg_WGPostDown :: string
  cfg_WGPreUp :: string
  cfg_WGPreDown :: string
  cfg_EnableStealth :: bool
  cfg_VLESSPort :: string
  cfg_Hysteria2Port :: string
  cfg_RealityServerNames :: "string list"
  cfg_RealityHandshakeServer :: string
  cfg_Hysteria2ObfsPassword :: string
  cfg_EnableTUIC :: bool
  cfg_StateDir :: string
  cfg_DropEnabled :: bool
  cfg_DropStorageMax :: string
  cfg_DropStorageMaxBytes :: int
  cfg_DropSwarmPort :: string
  cfg_DropWebUIEnabled :: bool
  cfg_ChainRegistration :: string
  cfg_PrivateDNSEnabled :: bool
  cfg_PrivateDNSDomain :: string
  cfg_PrivateDNSAddr :: string
  cfg_UpstreamDNS :: string
  cfg_DNSQueryLogs :: bool
  cfg_ErebrusProfile :: string
  cfg_FirewallProvider :: string
  cfg_FirewallDNSAddr :: string
  cfg_ShieldAdminURL :: string
  cfg_ShieldAdminUser :: string
  cfg_ShieldAdminPassword :: string
  cfg_ShieldUpstreamDNS :: string
  cfg_SentinelAPIURL :: string
  cfg_SentinelImage :: string
  cfg_SentinelLicensed :: bool


section \<open>Reading the environment\<close>

abbreviation ProfileStandard :: string where "ProfileStandard \<equiv> ''standard''"
abbreviation ProfileShield :: string where "ProfileShield \<equiv> ''shield''"
abbreviation ProfileSentinel :: string where "ProfileSentinel \<equiv> ''sentinel''"
abbreviation FirewallNone :: string where "FirewallNone \<equiv> ''none''"
abbreviation FirewallAdGuardHome :: string where "FirewallAdGuardHome \<equiv> ''adguard_home''"
abbreviation FirewallUnboundErebrus :: string where "FirewallUnboundErebrus \<equiv> ''unbound_erebrus''"

definition Version :: string where
  "Version = ''2.0.0''"

definition env :: "(string \<Rightarrow> string) \<Rightarrow> string \<Rightarrow> string \<Rightarrow> string" where
  "env getenv key dflt = (if getenv key \<noteq> [] then getenv key else dflt)"

definition firstEnv :: "(string \<Rightarrow> string) \<Rightarrow> string list \<Rightarrow> string" where
  "firstEnv getenv ks =
     (if ks = [] then []
      else case find (\<lambda>k. getenv k \<noteq> []) (butlast ks) of Some k \<Rightarrow> getenv k | None \<Rightarrow> last ks)"

definition boolEnv :: "(string \<Rightarrow> string) \<Rightarrow> string \<Rightarrow> bool \<Rightarrow> bool" where
  "boolEnv getenv key dflt =
     (if getenv key = [] then dflt else case ParseBool (getenv key) of None \<Rightarrow> dflt | Some b \<Rightarrow> b)"

text \<open>The loop over the units of \<open>parseByteSize\<close>: the first suffix that fits decides.\<close>

definition byteUnits :: "(string \<times> int) list" where
  "byteUnits = [(''TB'', 1000000000000), (''GB'', 1000000000), (''MB'', 1000000), (''KB'', 1000), (''B'', 1)]"

fun parseUnits :: "string \<Rightarrow> string \<Rightarrow> (string \<times> int) list \<Rightarrow> int result" where
  "parseUnits v s [] =
     (let (n, err) = ParseInt s
      in if err \<or> n \<le> 0 then Inl (Errorf (''invalid byte size '' @ Quote v)) else Inr n)"
| "parseUnits v s ((suffix, scale) # us) =
     (if \<not> HasSuffix s suffix then parseUnits v s us
      else let raw = TrimSpace (TrimSuffix s suffix); (n, err) = ParseInt raw
           in if err \<or> n \<le> 0 \<or> n > 9223372036854775807 div scale
              then Inl (Errorf (''invalid byte size '' @ Quote v))
              else Inr (int64 (n * scale)))"

definition parseByteSize :: "string \<Rightarrow> int result" where
  "parseByteSize v =
     (let s = ToUpper (TrimSpace v)
      in if s = [] then Inl (Errorf ''empty byte size'') else parseUnits v s byteUnits)"

definition splitCSV :: "string \<Rightarrow> string list" where
  "splitCSV s = (if s = [] then [] else filter (\<lambda>t. t \<noteq> []) (map TrimSpace (Split s CHR '','')))"

definition normalizeInterface :: "string \<Rightarrow> string" where
  "normalizeInterface s = TrimSuffix s ''.conf''"

definition hostnameOr :: "string result \<Rightarrow> string \<Rightarrow> string" where
  "hostnameOr hostname dflt = (case hostname of Inr h \<Rightarrow> if h \<noteq> [] then h else dflt | Inl _ \<Rightarrow> dflt)"

definition isLoopbackAddr :: "string \<Rightarrow> bool" where
  "isLoopbackAddr addr \<longleftrightarrow> addr \<in> {''127.0.0.1'', ''::1'', ''localhost''} \<or> HasPrefix addr ''127.''"

definition tunnelGatewayIP :: "string \<Rightarrow> string \<Rightarrow> string" where
  "tunnelGatewayIP subnet override =
     (let ov = TrimSpace override
      in if ov \<noteq> [] then hd (Split ov CHR '':'')
         else case ParseCIDR subnet of None \<Rightarrow> ''10.0.0.1'' | Some (ip, _) \<Rightarrow> IP_String ip)"

definition HasFirewallService :: "Config \<Rightarrow> bool" where
  "HasFirewallService c = (let p = TrimSpace (cfg_FirewallProvider c) in p \<noteq> [] \<and> p \<noteq> FirewallNone)"

text \<open>Setting a field that is still empty.\<close>

definition orElse :: "string \<Rightarrow> string \<Rightarrow> string" where
  "orElse v dflt = (if v = [] then dflt else v)"

definition ApplyProfileDefaults :: "Config \<Rightarrow> Config" where
  "ApplyProfileDefaults c0 =
     (let p0 = ToLower (TrimSpace (cfg_ErebrusProfile c0));
          profile = (if p0 = [] then ProfileStandard else p0);
          c = c0\<lparr>cfg_ErebrusProfile := profile\<rparr>;
          tunnelDNS = tunnelGatewayIP (cfg_WGIPv4Subnet c) (cfg_PrivateDNSAddr c)
      in if profile = ProfileShield
         then c\<lparr>cfg_FirewallProvider := orElse (cfg_FirewallProvider c) FirewallAdGuardHome,
                cfg_FirewallDNSAddr := orElse (cfg_FirewallDNSAddr c) ''adguardhome:53'',
                cfg_ShieldAdminURL := orElse (cfg_ShieldAdminURL c) ''http://adguardhome:3000'',
                cfg_WGDNS := (if cfg_WGDNS c = [] \<or> cfg_WGDNS c = ''1.1.1.1'' then tunnelDNS else cfg_WGDNS c),
                cfg_PrivateDNSAddr := orElse (cfg_PrivateDNSAddr c) tunnelDNS\<rparr>
         else if profile = ProfileSentinel
         then c\<lparr>cfg_FirewallProvider := orElse (cfg_FirewallProvider c) FirewallUnboundErebrus,
                cfg_FirewallDNSAddr := orElse (cfg_FirewallDNSAddr c) ''erebrus-sentinel:53'',
                cfg_SentinelAPIURL := orElse (cfg_SentinelAPIURL c) ''http://erebrus-sentinel:8788'',
                cfg_SentinelImage := orElse (cfg_SentinelImage c) ''ghcr.io/netsepio/erebrus-sentinel:latest'',
                cfg_WGDNS := (if cfg_WGDNS c = [] \<or> cfg_WGDNS c = ''1.1.1.1'' then tunnelDNS else cfg_WGDNS c),
                cfg_PrivateDNSAddr := orElse (cfg_PrivateDNSAddr c) tunnelDNS\<rparr>
         else if profile = ProfileStandard
         then c\<lparr>cfg_FirewallProvider := orElse (cfg_FirewallProvider c) FirewallNone\<rparr>
         else c)"

text \<open>The dash of the warning is the three bytes of its UTF-8 encoding.\<close>

definition bindWarning :: "Config \<Rightarrow> string" where
  "bindWarning c =
     ''WARNING: management API bound to '' @ cfg_BindAddr c @ '':'' @ cfg_HTTPPort c @ '' '' @
     [CHR 0xE2, CHR 0x80, CHR 0x94] @ '' the token-gated peer API is reachable off-host. '' @
     ''Firewall this port to the gateway/trusted sources, or set API_BIND_ADDR=127.0.0.1.''"

definition envConfig :: "(string \<Rightarrow> string) \<Rightarrow> string result \<Rightarrow> Config" where
  "envConfig getenv hostname =
     (let bindAddr0 = env getenv ''API_BIND_ADDR'' [];
          bindAddr = (if bindAddr0 = [] then env getenv ''SERVER'' ''0.0.0.0'' else bindAddr0)
      in \<lparr>cfg_RunType = env getenv ''RUNTYPE'' ''release'',
        cfg_BindAddr = bindAddr,
        cfg_HTTPPort = env getenv ''HTTP_PORT'' ''9080'',
        cfg_NodeName = env getenv ''NODE_NAME'' (hostnameOr hostname ''erebrus-node''),
        cfg_Region = env getenv ''REGION'' ''unknown'',
        cfg_Zone = env getenv ''ZONE'' [],
        cfg_Version = Version,
        cfg_Mode = \<lparr>mode_RuntimeMode = [], mode_NetworkProfile = [], mode_Warnings = []\<rparr>,
        cfg_UnsafePublicAPI = boolEnv getenv ''UNSAFE_PUBLIC_API'' False,
        cfg_Mnemonic = getenv ''MNEMONIC'',
        cfg_GatewayURL = env getenv ''GATEWAY_URL'' [],
        cfg_GatewayPeerMultiaddr = env getenv ''GATEWAY_PEER_MULTIADDR'' [],
        cfg_P2PListenPort = env getenv ''P2P_LISTEN_PORT'' ''9002'',
        cfg_NodeID = getenv ''NODE_ID'',
        cfg_NodeToken = getenv ''NODE_TOKEN'',
        cfg_WalletChain = env getenv ''WALLET_CHAIN'' ''SOLANA'',
        cfg_NodeRegistrationToken = firstEnv getenv [''EREBRUS_NODE_REGISTRATION_TOKEN'', ''EREBRUS_ORG_ENROLLMENT_SECRET'', ''ORG_ENROLLMENT_SECRET'', []],
        cfg_APIPublicURL = getenv ''API_PUBLIC_URL'',
        cfg_GatewayAutoRegister = boolEnv getenv ''GATEWAY_AUTO_REGISTER'' True,
        cfg_GatewayPublicKey = getenv ''GATEWAY_PUBLIC_KEY'',
        cfg_NodeKey = firstEnv getenv [''NODE_KEY'', ''NODE_API_TOKEN'', []],
        cfg_NodeAPIToken = firstEnv getenv [''NODE_KEY'', ''NODE_API_TOKEN'', []],
        cfg_WGConfDir = env getenv ''WG_CONF_DIR'' ''/etc/wireguard'',
        cfg_WGInterface = normalizeInterface (env getenv ''WG_INTERFACE_NAME'' ''wg0''),
        cfg_WGEndpointHost = getenv ''WG_ENDPOINT_HOST'',
        cfg_WGEndpointPort = firstEnv getenv [''WG_PORT'', ''WG_ENDPOINT_PORT'', ''51820''],
        cfg_StealthTCPPort = firstEnv getenv [''STEALTH_TCP_PORT'', ''VLESS_PORT'', ''443''],
        cfg_StealthUDPPort = firstEnv getenv [''STEALTH_UDP_PORT'', ''HYSTERIA2_PORT'', ''443''],
        cfg_WGIPv4Subnet = env getenv ''WG_IPv4_SUBNET'' ''10.0.0.1/16'',
        cfg_WGDNS = env getenv ''WG_DNS'' ''1.1.1.1'',
        cfg_WGPostUp = getenv ''WG_POST_UP'',
        cfg_WGPostDown = getenv ''WG_POST_DOWN'',
        cfg_WGPreUp = getenv ''WG_PRE_UP'',
        cfg_WGPreDown = getenv ''WG_PRE_DOWN'',
        cfg_EnableStealth = boolEnv getenv ''ENABLE_STEALTH'' True,
        cfg_VLESSPort = [],
        cfg_Hysteria2Port = [],
        cfg_RealityServerNames = splitCSV (env getenv ''REALITY_SERVER_NAMES'' ''www.microsoft.com''),
        cfg_RealityHandshakeServer = env getenv ''REALITY_HANDSHAKE_SERVER'' [],
        cfg_Hysteria2ObfsPassword = getenv ''HYSTERIA2_OBFS_PASSWORD'',
        cfg_EnableTUIC = boolEnv getenv ''ENABLE_TUIC'' False,
        cfg_StateDir = env getenv ''STATE_DIR'' ''/var/lib/erebrus'',
        cfg_DropEnabled = boolEnv getenv ''DROP_ENABLED'' False,
        cfg_DropStorageMax = env getenv ''DROP_STORAGE_MAX'' ''10GB'',
        cfg_DropStorageMaxBytes = 0,
        cfg_DropSwarmPort = env getenv ''DROP_SWARM_PORT'' ''4001'',
        cfg_DropWebUIEnabled = boolEnv getenv ''DROP_WEBUI_ENABLED'' False,
        cfg_ChainRegistration = env getenv ''CHAIN_REGISTRATION'' ''off'',
        cfg_PrivateDNSEnabled = boolEnv getenv ''PRIVATE_DNS_ENABLED'' False,
        cfg_PrivateDNSDomain = env getenv ''PRIVATE_DNS_DOMAIN'' ''ere'',
        cfg_PrivateDNSAddr = getenv ''PRIVATE_DNS_ADDR'',
        cfg_UpstreamDNS = env getenv ''UPSTREAM_DNS'' ''1.1.1.1'',
        cfg_DNSQueryLogs = boolEnv getenv ''DNS_QUERY_LOGS'' False,
        cfg_ErebrusProfile = env getenv ''EREBRUS_PROFILE'' ProfileStandard,
        cfg_FirewallProvider = env getenv ''FIREWALL_PROVIDER'' [],
        cfg_FirewallDNSAddr = getenv ''FIREWALL_DNS_ADDR'',
        cfg_ShieldAdminURL = getenv ''SHIELD_ADMIN_URL'',
        cfg_ShieldAdminUser = env getenv ''SHIELD_ADMIN_USER'' ''admin'',
        cfg_ShieldAdminPassword = getenv ''SHIELD_ADMIN_PASSWORD'',
        cfg_ShieldUpstreamDNS = env getenv ''SHIELD_UPSTREAM_DNS'' ''1.1.1.1,1.0.0.1'',
        cfg_SentinelAPIURL = getenv ''SENTINEL_API_URL'',
        cfg_SentinelImage = env getenv ''SENTINEL_IMAGE'' ''ghcr.io/netsepio/erebrus-sentinel:latest'',
        cfg_SentinelLicensed = False\<rparr>)"

definition addWarning :: "string \<Rightarrow> Config \<Rightarrow> Config" where
  "addWarning w c = c\<lparr>cfg_Mode := (cfg_Mode c)\<lparr>mode_Warnings := mode_Warnings (cfg_Mode c) @ [w]\<rparr>\<rparr>"

definition Load :: "(string \<Rightarrow> string) \<Rightarrow> string result \<Rightarrow> Config" where
  "Load getenv hostname =
     (let c1 = ApplyProfileDefaults (envConfig getenv hostname);
          c2 = (case ParseModeSettingsFromEnv getenv of Inr m \<Rightarrow> c1\<lparr>cfg_Mode := m\<rparr> | Inl _ \<Rightarrow> c1);
          c3 = c2\<lparr>cfg_VLESSPort := cfg_StealthTCPPort c2, cfg_Hysteria2Port := cfg_StealthUDPPort c2,
                  cfg_DropStorageMaxBytes :=
                    (case parseByteSize (cfg_DropStorageMax c2) of Inr n \<Rightarrow> n | Inl _ \<Rightarrow> 0)\<rparr>
      in if \<not> isLoopbackAddr (cfg_BindAddr c3) then addWarning (bindWarning c3) c3 else c3)"


section \<open>Validation\<close>

definition ValidateProfile :: "Config \<Rightarrow> error option" where
  "ValidateProfile c =
     (if cfg_ErebrusProfile c \<notin> {ProfileStandard, ProfileShield, ProfileSentinel}
      then Some (Errorf (''invalid EREBRUS_PROFILE '' @ Quote (cfg_ErebrusProfile c) @
             '' (expected standard, shield, or sentinel)''))
      else if cfg_FirewallProvider c \<notin> {FirewallNone, FirewallAdGuardHome, FirewallUnboundErebrus}
      then Some (Errorf (''invalid FIREWALL_PROVIDER '' @ Quote (cfg_FirewallProvider c)))
      else if HasFirewallService c \<and> TrimSpace (cfg_FirewallDNSAddr c) = []
      then Some (Errorf (''FIREWALL_DNS_ADDR is required when FIREWALL_PROVIDER='' @ cfg_FirewallProvider c))
      else None)"

definition stealthWarning :: string where
  "stealthWarning = ''WARNING: Stealth should expose 443/tcp and 443/udp (STEALTH_TCP_PORT/STEALTH_UDP_PORT) '' @
     ''for reachability through restrictive networks.''"

definition checkDrop :: "Config \<Rightarrow> error option" where
  "checkDrop c =
     (if \<not> cfg_DropEnabled c then None
      else if cfg_DropStorageMaxBytes c \<le> 0
      then Some (Errorf ''DROP_STORAGE_MAX must be a positive byte size'')
      else let (port, err) = Atoi (cfg_DropSwarmPort c)
           in if err \<or> port < 1 \<or> port > 65535
              then Some (Errorf ''DROP_SWARM_PORT must be a valid port'')
              else if cfg_DropWebUIEnabled c \<and> IsPublic (cfg_Mode c)
              then Some (Errorf ''DROP_WEBUI_ENABLED is allowed only for private nodes'')
              else None)"

definition Validate :: "(string \<Rightarrow> string) \<Rightarrow> Config \<Rightarrow> error option \<times> Config" where
  "Validate getenv c0 =
     (case ParseModeSettingsFromEnv getenv of
        Inl e \<Rightarrow> (Some e, c0)
      | Inr mode \<Rightarrow>
          (let c1 = c0\<lparr>cfg_Mode := mode\<rparr>;
               missing = (if cfg_Mnemonic c1 = [] then [''MNEMONIC''] else []) @
                         (if cfg_WGEndpointHost c1 = [] then [''WG_ENDPOINT_HOST''] else [])
           in if missing \<noteq> []
              then (Some (Errorf (''missing required config: '' @ Join missing '', '')), c1)
              else let c = (if cfg_StealthTCPPort c1 \<noteq> ''443'' \<or> cfg_StealthUDPPort c1 \<noteq> ''443''
                            then addWarning stealthWarning c1 else c1)
                   in case checkDrop c of
                        Some e \<Rightarrow> (Some e, c)
                      | None \<Rightarrow> (ValidateProfile c, c)))"


section \<open>Derived settings\<close>

definition DBPath :: "Config \<Rightarrow> string" where
  "DBPath c = cfg_StateDir c @ ''/erebrus.db''"

definition PublicAPIBaseURL :: "Config \<Rightarrow> string" where
  "PublicAPIBaseURL c =
     (if cfg_APIPublicURL c \<noteq> [] then TrimRight (cfg_APIPublicURL c) ''/''
      else let host = (if cfg_WGEndpointHost c = [] then ''127.0.0.1'' else cfg_WGEndpointHost c)
           in ''http://'' @ host @ '':'' @ cfg_HTTPPort c)"

definition GatewayEnabled :: "Config \<Rightarrow> bool" where
  "GatewayEnabled c = (TrimSpace (cfg_GatewayURL c) \<noteq> [])"

definition EffectiveRegistrationToken :: "Config \<Rightarrow> string" where
  "EffectiveRegistrationToken c = TrimSpace (cfg_NodeRegistrationToken c)"

definition EffectiveNodeKey :: "Config \<Rightarrow> string" where
  "EffectiveNodeKey c =
     (let k = TrimSpace (cfg_NodeKey c) in if k \<noteq> [] then k else TrimSpace (cfg_NodeAPIToken c))"

definition WGEndpointPortInt :: "Config \<Rightarrow> int" where
  "WGEndpointPortInt c = fst (Atoi (cfg_WGEndpointPort c))"

definition VLESSPortInt :: "Config \<Rightarrow> int" where
  "VLESSPortInt c = fst (Atoi (cfg_VLESSPort c))"

definition Hysteria2PortInt :: "Config \<Rightarrow> int" where
  "Hysteria2PortInt c = fst (Atoi (cfg_Hysteria2Port c))"

definition DropSwarmPortInt :: "Config \<Rightarrow> int" where
  "DropSwarmPortInt c = fst (Atoi (cfg_DropSwarmPort c))"

definition DropAcceptsPublicUploads :: "Config \<Rightarrow> bool" where
  "DropAcceptsPublicUploads c = (cfg_DropEnabled c \<and> IsPublic (cfg_Mode c))"

definition DropWebUIAvailable :: "Config \<Rightarrow> bool" where
  "DropWebUIAvailable c = (cfg_DropEnabled c \<and> cfg_DropWebUIEnabled c \<and> \<not> IsPublic (cfg_Mode c))"

definition RealitySNI :: "Config \<Rightarrow> string" where
  "RealitySNI c = (case cfg_RealityServerNames c of [] \<Rightarrow> ''www.microsoft.com'' | n # _ \<Rightarrow> n)"

definition RealityHandshakeTarget :: "Config \<Rightarrow> string" where
  "RealityHandshakeTarget c =
     (if cfg_RealityHandshakeServer c \<noteq> [] then cfg_RealityHandshakeServer c else RealitySNI c @ '':443'')"


section \<open>Byte sizes\<close>

lemma parseUnits_ok:
  assumes "parseUnits v s us = Inr b" "\<forall>(u, k) \<in> set us. u \<noteq> [] \<and> 0 < k"
  shows "\<exists>u k n. (u, k) \<in> insert ([], 1) (set us) \<and> HasSuffix s u \<and> b = n * k \<and> 0 < n \<and>
    b \<le> 9223372036854775807 \<and> (n, False) = ParseInt (if u = [] then s else TrimSpace (TrimSuffix s u))"
  using assms
proof (induction v s us rule: parseUnits.induct)
  case (1 v s)
  then have "(b, False) = ParseInt s" "0 < b" by (auto simp: Let_def split: prod.splits if_splits)
  moreover have "b \<le> 9223372036854775807"
    using ParseInt_range [of s] calculation by (auto simp: in_int64_def dest: arg_cong [where f = fst])
  ultimately show ?case by (intro exI [of _ "[]"] exI [of _ 1] exI [of _ b]) (simp add: HasSuffix_iff)
next
  case (2 v s u k us)
  show ?case
  proof (cases "HasSuffix s u")
    case False
    then have "parseUnits v s us = Inr b" using 2(2) by (simp only: parseUnits.simps not_False_eq_True if_True)
    moreover have "\<forall>(u, k) \<in> set us. u \<noteq> [] \<and> 0 < k" using 2(3) by simp
    ultimately obtain u' k' n where "(u', k') \<in> insert ([], 1) (set us)" "HasSuffix s u'" "b = n * k'" "0 < n"
        "b \<le> 9223372036854775807" "(n, False) = ParseInt (if u' = [] then s else TrimSpace (TrimSuffix s u'))"
      using 2(1) [OF False] by blast
    then show ?thesis by (metis insert_iff list.simps(15))
  next
    case True
    obtain n err where p: "ParseInt (TrimSpace (TrimSuffix s u)) = (n, err)"
      by (rule prod.exhaust)
    let ?bad = "err \<or> n \<le> 0 \<or> n > 9223372036854775807 div k"
    have e: "(if ?bad then Inl (Errorf (''invalid byte size '' @ Quote v)) else Inr (int64 (n * k))) = Inr b"
      using 2(2) True p by (simp only: parseUnits.simps Let_def prod.case not_True_eq_False if_False)
    then have "\<not> ?bad" by (cases ?bad) simp_all
    with e p have n: "ParseInt (TrimSpace (TrimSuffix s u)) = (n, False)" "0 < n"
        "n \<le> 9223372036854775807 div k" "b = int64 (n * k)"
      by (simp_all only: if_False de_Morgan_disj not_le not_less sum.inject refl)
    have k: "0 < k" "u \<noteq> []" using 2(3) by simp_all
    have "n * k \<le> 9223372036854775807 div k * k" using n(3) k(1) by (intro mult_right_mono) simp_all
    also have "\<dots> \<le> 9223372036854775807"
      using div_mult_mod_eq [of 9223372036854775807 k] pos_mod_sign [OF k(1), of 9223372036854775807]
      by linarith
    finally have le: "n * k \<le> 9223372036854775807" .
    moreover have "0 < n * k" using n(2) k(1) by simp
    ultimately have "b = n * k" using n(4) by (simp add: in_int64_def)
    moreover have "(u, k) \<in> insert ([], 1) (set ((u, k) # us))" by simp
    moreover have "(n, False) = ParseInt (if u = [] then s else TrimSpace (TrimSuffix s u))" using n k by simp
    ultimately show ?thesis using True n(2) le by metis
  qed
qed

lemma is_digit_upper: "is_digit c \<Longrightarrow> upper_char c = c"
  by (auto simp: is_digit_def upper_char_def)

lemma is_digit_not_space: "is_digit c \<Longrightarrow> \<not> IsSpace c"
  by (auto simp: is_digit_def IsSpace_def)

lemma ToUpper_digits: "(\<And>c. c \<in> set s \<Longrightarrow> is_digit c) \<Longrightarrow> ToUpper s = s"
  by (simp add: ToUpper_def is_digit_upper map_idI)

lemma parseUnits_skip: "\<not> HasSuffix s u \<Longrightarrow> parseUnits v s ((u, k) # us) = parseUnits v s us"
  by (simp only: parseUnits.simps not_False_eq_True if_True)

lemma parseUnits_hit:
  assumes "ParseInt d = (n, False)" "TrimSpace d = d" "0 < n" "n \<le> 9223372036854775807 div k"
  shows "parseUnits v (d @ u) ((u, k) # us) = Inr (int64 (n * k))"
proof -
  have "\<not> (False \<or> n \<le> 0 \<or> n > 9223372036854775807 div k)"
    using assms(3,4) by (auto simp only: not_less not_le)
  then show ?thesis
    by (simp only: parseUnits.simps HasSuffix_append TrimSuffix_append assms(1,2) Let_def prod.case
        not_True_eq_False if_False)
qed

text \<open>A number followed by a unit is read as the number times the unit.\<close>

lemma parseByteSize_unit:
  assumes "(u, k) \<in> set byteUnits" "0 < n" "n * k \<le> 9223372036854775807"
  shows "parseByteSize (Itoa n @ u) = Inr (n * k)"
proof -
  define d where "d = dec_nat (nat n)"
  have it: "Itoa n = d" using assms(2) by (simp add: Itoa_def d_def)
  have dig: "is_digit c" if "c \<in> set d" for c using that dec_nat_digits unfolding d_def by blast
  have d0: "d \<noteq> []" by (simp add: d_def)
  have u: "ToUpper u = u" "\<forall>c \<in> set u. \<not> IsSpace c" "u \<noteq> []"
    using assms(1) by (auto simp: byteUnits_def go_str)
  have k: "k \<in> {1000000000000, 1000000000, 1000000, 1000, 1}" using assms(1) by (auto simp: byteUnits_def)
  have "TrimSpace (d @ u) = d @ u"
    using dig is_digit_not_space u(2) by (intro TrimSpace_nospace) auto
  moreover have "ToUpper (d @ u) = d @ u"
    using ToUpper_digits [of d] dig u(1) by (simp add: ToUpper_def)
  ultimately have s: "ToUpper (TrimSpace (Itoa n @ u)) = d @ u" using it by simp
  have nle: "n \<le> 9223372036854775807" using assms(2,3) k by auto
  have p: "ParseInt d = (n, False)"
    using ParseInt_Itoa [of n] it nle assms(2) by (simp add: in_int64_def)
  have t: "TrimSpace d = d" using dig is_digit_not_space by (intro TrimSpace_nospace) auto
  have le: "n \<le> 9223372036854775807 div k" using assms(3) k by auto
  have i: "int64 (n * k) = n * k" using assms(2,3) k by (intro int64_id) (auto simp: in_int64_def)
  obtain d' c where dc: "d = d' @ [c]" using d0 by (cases d rule: rev_cases) auto
  have c: "is_digit c" using dig dc by simp
  then have nc: "c \<noteq> CHR ''T''" "c \<noteq> CHR ''G''" "c \<noteq> CHR ''M''" "c \<noteq> CHR ''K''"
    by (auto simp: is_digit_def)
  have sfx: "HasSuffix (d @ u) x \<longleftrightarrow> x = u" if "x \<in> {''TB'', ''GB'', ''MB'', ''KB''}" for x
    using assms(1) that nc unfolding dc byteUnits_def by (auto simp: HasSuffix_iff append_eq_append_conv2 Cons_eq_append_conv)
  note hit = parseUnits_hit [OF p t assms(2) le, where u = u and v = "Itoa n @ u"]
  have skip: "parseUnits (Itoa n @ u) (d @ u) ((x, k') # us) = parseUnits (Itoa n @ u) (d @ u) us"
    if "x \<in> {''TB'', ''GB'', ''MB'', ''KB''}" "x \<noteq> u" for x k' us
    using that sfx by (intro parseUnits_skip) blast
  have "u \<in> {''TB'', ''GB'', ''MB'', ''KB'', ''B''}" using assms(1) by (auto simp: byteUnits_def)
  then have "parseUnits (Itoa n @ u) (d @ u) byteUnits = parseUnits (Itoa n @ u) (d @ u) (dropWhile (\<lambda>(x, _). x \<noteq> u) byteUnits)"
    unfolding byteUnits_def by (auto simp: skip simp del: parseUnits.simps)
  also have "\<dots> = Inr (n * k)"
    using assms(1) hit unfolding byteUnits_def by (auto simp: i simp del: parseUnits.simps)
  finally show ?thesis using d0 unfolding parseByteSize_def s Let_def by (simp del: parseUnits.simps)
qed


section \<open>Properties\<close>

text \<open>
  A byte size that parses is positive, fits in an \<open>int64\<close>, and is exactly the number
  written before the unit times the unit: the multiplication never wraps.
\<close>

theorem parseByteSize_exact:
  assumes "parseByteSize v = Inr b"
  shows "0 < b \<and> b \<le> 9223372036854775807 \<and>
    (\<exists>u k n. (u, k) \<in> insert ([], 1) (set byteUnits) \<and> HasSuffix (ToUpper (TrimSpace v)) u \<and> b = n * k \<and>
       (n, False) = ParseInt (if u = [] then ToUpper (TrimSpace v) else TrimSpace (TrimSuffix (ToUpper (TrimSpace v)) u)))"
proof -
  let ?s = "ToUpper (TrimSpace v)"
  have p: "parseUnits v ?s byteUnits = Inr b"
    using assms unfolding parseByteSize_def Let_def by (simp split: if_splits del: parseUnits.simps)
  have units: "\<forall>(u, k) \<in> set byteUnits. u \<noteq> [] \<and> 0 < k" by (simp add: byteUnits_def)
  from parseUnits_ok [OF p units] obtain u k n where *: "(u, k) \<in> insert ([], 1) (set byteUnits)"
      "HasSuffix ?s u" "b = n * k" "0 < n" "b \<le> 9223372036854775807"
      "(n, False) = ParseInt (if u = [] then ?s else TrimSpace (TrimSuffix ?s u))"
    by (elim exE conjE)
  have "0 < k" using *(1) units by auto
  then have "0 < b" using *(3,4) by simp
  then show ?thesis using * by blast
qed

theorem parseByteSize_exact_witness:
  "parseByteSize '' 10 gb '' = Inr 10000000000 \<and> (0 :: int) < 10000000000 \<and> (10000000000 :: int) \<le> 9223372036854775807"
proof -
  have p: "parseByteSize '' 10 gb '' = Inr 10000000000" by code_simp
  from parseByteSize_exact [OF p] p show ?thesis by blast
qed

text \<open>
  The access policy is never guessed: parsing succeeds only for the documented words, the
  node is private exactly when \<open>private\<close> was asked for (in either variable, in any case, padded or
  not) and public otherwise, and the network profile is one of the three known ones.
\<close>

theorem ParseModeSettings_access:
  assumes "ParseModeSettings a p = Inr m"
  shows "IsPrivate m = (ToLower (TrimSpace a) = ''private'' \<or>
           ToLower (TrimSpace a) = [] \<and> ToLower (TrimSpace p) = ''private'') \<and>
     IsPublic m = (\<not> IsPrivate m) \<and>
     ToLower (TrimSpace a) \<in> {[], ''private'', ''public'', ''gateway''} \<and>
     mode_NetworkProfile m \<in> {''bridge'', ''host-network'', ''native''}"
  using assms
  by (auto simp: ParseModeSettings_def parseAccess_def parseNetworkProfile_def isAccessToken_def
      normalizeAccessToken_def IsPrivate_def IsPublic_def Let_def split: if_splits prod.splits sum.splits)

theorem ParseModeSettings_access_witness:
  "\<exists>m. ParseModeSettings '' Private '' ''native'' = Inr m \<and> IsPrivate m \<and> \<not> IsPublic m"
proof -
  have "(case ParseModeSettings '' Private '' ''native'' of Inr m \<Rightarrow> True | Inl _ \<Rightarrow> False)" by code_simp
  then obtain m where m: "ParseModeSettings '' Private '' ''native'' = Inr m" by (auto split: sum.splits)
  have "ToLower (TrimSpace '' Private '') = ''private''" by code_simp
  then show ?thesis using ParseModeSettings_access [OF m] m by auto
qed

lemma checkDrop_None:
  assumes "checkDrop c = None" "cfg_DropEnabled c"
  shows "0 < cfg_DropStorageMaxBytes c \<and> 1 \<le> DropSwarmPortInt c \<and> DropSwarmPortInt c \<le> 65535 \<and>
    \<not> (cfg_DropWebUIEnabled c \<and> IsPublic (cfg_Mode c))"
  using assms by (auto simp: checkDrop_def DropSwarmPortInt_def Let_def split: if_splits prod.splits)

lemma ValidateProfile_None:
  assumes "ValidateProfile c = None"
  shows "cfg_ErebrusProfile c \<in> {''standard'', ''shield'', ''sentinel''} \<and>
    cfg_FirewallProvider c \<in> {''none'', ''adguard_home'', ''unbound_erebrus''} \<and>
    (HasFirewallService c \<longrightarrow> TrimSpace (cfg_FirewallDNSAddr c) \<noteq> [])"
  using assms unfolding ValidateProfile_def by (simp only: option.distinct split: if_splits) blast+

lemma Validate_None:
  assumes "Validate getenv c = (None, c')"
  shows "cfg_Mnemonic c' \<noteq> [] \<and> cfg_WGEndpointHost c' \<noteq> [] \<and> checkDrop c' = None \<and> ValidateProfile c' = None"
proof -
  obtain m where m: "ParseModeSettingsFromEnv getenv = Inr m"
    using assms by (cases "ParseModeSettingsFromEnv getenv") (simp_all add: Validate_def)
  define c1 where "c1 = c\<lparr>cfg_Mode := m\<rparr>"
  define c2 where "c2 = (if cfg_StealthTCPPort c1 \<noteq> ''443'' \<or> cfg_StealthUDPPort c1 \<noteq> ''443''
                        then addWarning stealthWarning c1 else c1)"
  have e: "cfg_Mnemonic c2 = cfg_Mnemonic c1" "cfg_WGEndpointHost c2 = cfg_WGEndpointHost c1"
    by (simp_all add: c2_def addWarning_def)
  have "cfg_Mnemonic c1 \<noteq> []" "cfg_WGEndpointHost c1 \<noteq> []" "checkDrop c2 = None" "ValidateProfile c2 = None" "c' = c2"
    using assms unfolding Validate_def m sum.case Let_def c1_def [symmetric] c2_def [symmetric]
    by (auto split: if_splits option.splits)
  then show ?thesis using e by simp
qed


definition ex_env :: "string \<Rightarrow> string" where
  "ex_env k =
     (if k = ''MNEMONIC'' then ''word list'' else if k = ''WG_ENDPOINT_HOST'' then ''vpn.example.org''
      else if k = ''DROP_ENABLED'' then ''true'' else [])"

definition ex_config :: Config where
  "ex_config = Load ex_env (Inr ''host'')"

text \<open>The configuration of this environment, which is the defaults but for three settings, in full; evaluation uses it.\<close>

lemma ex_config_value [code]:
  "ex_config =
     \<lparr>cfg_RunType = ''release'', cfg_BindAddr = ''0.0.0.0'', cfg_HTTPPort = ''9080'', cfg_NodeName = ''host'',
      cfg_Region = ''unknown'', cfg_Zone = [], cfg_Version = ''2.0.0'',
      cfg_Mode = \<lparr>mode_RuntimeMode = ModePublic, mode_NetworkProfile = NetworkBridge,
        mode_Warnings = [''WARNING: management API bound to 0.0.0.0:9080 '' @ [CHR 0xE2, CHR 0x80, CHR 0x94] @
          '' the token-gated peer API is reachable off-host. Firewall this port to the gateway/trusted sources, or set API_BIND_ADDR=127.0.0.1.'']\<rparr>,
      cfg_UnsafePublicAPI = False, cfg_Mnemonic = ''word list'', cfg_GatewayURL = [], cfg_GatewayPeerMultiaddr = [],
      cfg_P2PListenPort = ''9002'', cfg_NodeID = [], cfg_NodeToken = [], cfg_WalletChain = ''SOLANA'', cfg_NodeRegistrationToken = [],
      cfg_APIPublicURL = [], cfg_GatewayAutoRegister = True, cfg_GatewayPublicKey = [], cfg_NodeKey = [], cfg_NodeAPIToken = [],
      cfg_WGConfDir = ''/etc/wireguard'', cfg_WGInterface = ''wg0'', cfg_WGEndpointHost = ''vpn.example.org'',
      cfg_WGEndpointPort = ''51820'', cfg_StealthTCPPort = ''443'', cfg_StealthUDPPort = ''443'', cfg_WGIPv4Subnet = ''10.0.0.1/16'',
      cfg_WGDNS = ''1.1.1.1'', cfg_WGPostUp = [], cfg_WGPostDown = [], cfg_WGPreUp = [], cfg_WGPreDown = [], cfg_EnableStealth = True,
      cfg_VLESSPort = ''443'', cfg_Hysteria2Port = ''443'', cfg_RealityServerNames = [''www.microsoft.com''],
      cfg_RealityHandshakeServer = [], cfg_Hysteria2ObfsPassword = [], cfg_EnableTUIC = False, cfg_StateDir = ''/var/lib/erebrus'',
      cfg_DropEnabled = True, cfg_DropStorageMax = ''10GB'', cfg_DropStorageMaxBytes = 10000000000, cfg_DropSwarmPort = ''4001'',
      cfg_DropWebUIEnabled = False, cfg_ChainRegistration = ''off'', cfg_PrivateDNSEnabled = False, cfg_PrivateDNSDomain = ''ere'',
      cfg_PrivateDNSAddr = [], cfg_UpstreamDNS = ''1.1.1.1'', cfg_DNSQueryLogs = False, cfg_ErebrusProfile = ProfileStandard,
      cfg_FirewallProvider = FirewallNone, cfg_FirewallDNSAddr = [], cfg_ShieldAdminURL = [], cfg_ShieldAdminUser = ''admin'',
      cfg_ShieldAdminPassword = [], cfg_ShieldUpstreamDNS = ''1.1.1.1,1.0.0.1'', cfg_SentinelAPIURL = [],
      cfg_SentinelImage = ''ghcr.io/netsepio/erebrus-sentinel:latest'', cfg_SentinelLicensed = False\<rparr>"
  by code_simp


text \<open>
  The warning of \<open>Load\<close> about an API reachable off-host does not survive \<open>Validate\<close>, which
  parses the mode again: with default settings the first call has it and the second loses it.
\<close>

lemma bind_warning_lost:
  "bindWarning ex_config \<in> set (mode_Warnings (cfg_Mode ex_config)) \<and>
   mode_Warnings (cfg_Mode (snd (Validate ex_env ex_config))) = []"
  by code_simp

text \<open>
  Byte sizes round-trip: the decimal number followed by any of the units parses to the
  product, as long as it fits in an \<open>int64\<close>.
\<close>

theorem parseByteSize_roundtrip:
  assumes "(u, k) \<in> set byteUnits" "0 < n" "n * k \<le> 9223372036854775807"
  shows "parseByteSize (Itoa n @ u) = Inr (n * k)"
  using assms by (rule parseByteSize_unit)

theorem parseByteSize_roundtrip_witness:
  "parseByteSize (Itoa 250 @ ''GB'') = Inr (250 * 1000000000)"
  by (rule parseByteSize_roundtrip) (simp_all add: byteUnits_def)

end
