(* ===== verification/Json.thy ===== *)
theory Json
  imports Prelude
begin

text \<open>
  The part of Go's \<open>encoding/json\<close> the program uses: compact encoding with its escapes, decoding of
  a document into a tree, and the conversions of a tree into strings, booleans, integers and lists
  of strings. A number is kept as its literal. Texts are byte strings; bytes from 128 on stand for
  UTF-8 and are copied, as the package does for valid UTF-8.
\<close>

section \<open>Trees and their encoding\<close>

datatype json =
    JNull
  | JBool bool
  | JNum string
  | JStr string
  | JList "json list"
  | JObj "(string \<times> json) list"

abbreviation JInt :: "int \<Rightarrow> json" where
  "JInt n \<equiv> JNum (Itoa n)"

abbreviation QUOT :: char where "QUOT \<equiv> CHR 0x22"
abbreviation BSL :: char where "BSL \<equiv> CHR 0x5C"

definition json_char :: "char \<Rightarrow> string" where
  "json_char c =
     (let n = (of_char c :: nat) in
      if n = 34 then [BSL, QUOT]
      else if n = 92 then [BSL, BSL]
      else if n = 8 then [BSL, CHR ''b'']
      else if n = 12 then [BSL, CHR ''f'']
      else if n = 10 then [BSL, CHR ''n'']
      else if n = 13 then [BSL, CHR ''r'']
      else if n = 9 then [BSL, CHR ''t'']
      else if n < 32 \<or> n = 60 \<or> n = 62 \<or> n = 38
        then [BSL, CHR ''u'', CHR ''0'', CHR ''0'', hex_char (n div 16), hex_char (n mod 16)]
      else [c])"

definition json_string :: "string \<Rightarrow> string" where
  "json_string s = QUOT # concat (map json_char s) @ [QUOT]"

fun json_size :: "json \<Rightarrow> nat" where
  "json_size (JList vs) = Suc (sum_list (map (\<lambda>v. Suc (json_size v)) vs))"
| "json_size (JObj kvs) = Suc (sum_list (map (\<lambda>kv. Suc (json_size (snd kv))) kvs))"
| "json_size v = 1"

function (sequential) json_enc :: "json \<Rightarrow> string"
  and json_elems :: "json list \<Rightarrow> string"
  and json_members :: "(string \<times> json) list \<Rightarrow> string" where
  "json_enc JNull = ''null''"
| "json_enc (JBool b) = (if b then ''true'' else ''false'')"
| "json_enc (JNum s) = s"
| "json_enc (JStr s) = json_string s"
| "json_enc (JList vs) = CHR ''['' # json_elems vs @ '']''"
| "json_enc (JObj kvs) = CHR ''{'' # json_members kvs @ ''}''"
| "json_elems [] = []"
| "json_elems [v] = json_enc v"
| "json_elems (v # vs) = json_enc v @ CHR '','' # json_elems vs"
| "json_members [] = []"
| "json_members [(k, v)] = json_string k @ CHR '':'' # json_enc v"
| "json_members ((k, v) # kvs) = json_string k @ CHR '':'' # json_enc v @ CHR '','' # json_members kvs"
  by pat_completeness auto

termination
  by (relation "measure (\<lambda>x. case x of
        Inl v \<Rightarrow> json_size v
      | Inr (Inl vs) \<Rightarrow> sum_list (map (\<lambda>v. Suc (json_size v)) vs)
      | Inr (Inr kvs) \<Rightarrow> sum_list (map (\<lambda>kv. Suc (json_size (snd kv))) kvs))") auto


section \<open>Decoding\<close>

definition skip_ws :: "string \<Rightarrow> string" where
  "skip_ws s = dropWhile (\<lambda>c. c \<in> {CHR 0x20, CHR 0x09, CHR 0x0A, CHR 0x0D}) s"

lemma length_skip_ws: "length (skip_ws s) \<le> length s"
  by (simp add: skip_ws_def length_dropWhile_le)

definition hex4 :: "string \<Rightarrow> nat option" where
  "hex4 s =
     (if length s < 4 then None
      else case map hex_val (take 4 s) of
             [Some a, Some b, Some c, Some d] \<Rightarrow> Some (4096 * a + 256 * b + 16 * c + d)
           | _ \<Rightarrow> None)"

text \<open>The UTF-8 bytes of a code point; a surrogate stands for the replacement character.\<close>

definition utf8 :: "nat \<Rightarrow> string" where
  "utf8 n0 =
     (let n = (if 55296 \<le> n0 \<and> n0 < 57344 then 65533 else n0) in
      if n < 128 then [char_of n]
      else if n < 2048 then [char_of (192 + n div 64), char_of (128 + n mod 64)]
      else if n < 65536 then [char_of (224 + n div 4096), char_of (128 + n div 64 mod 64), char_of (128 + n mod 64)]
      else [char_of (240 + n div 262144), char_of (128 + n div 4096 mod 64),
            char_of (128 + n div 64 mod 64), char_of (128 + n mod 64)])"

text \<open>The text after \<open>\u\<close>: one code unit, or a surrogate pair.\<close>

definition unescape_u :: "string \<Rightarrow> (string \<times> string) option" where
  "unescape_u s =
     (case hex4 s of
        None \<Rightarrow> None
      | Some u \<Rightarrow>
          (let r = drop 4 s in
           if 55296 \<le> u \<and> u < 56320 \<and> take 2 r = [BSL, CHR ''u''] then
             (case hex4 (drop 2 r) of
                Some l \<Rightarrow> if 56320 \<le> l \<and> l < 57344
                          then Some (utf8 (65536 + (u - 55296) * 1024 + (l - 56320)), drop 6 r)
                          else Some (utf8 65533, r)
              | None \<Rightarrow> Some (utf8 65533, r))
           else Some (utf8 u, r)))"

definition unescape :: "char \<Rightarrow> char option" where
  "unescape e =
     (if e \<in> {QUOT, BSL, CHR ''/''} then Some e
      else if e = CHR ''b'' then Some (CHR 0x08) else if e = CHR ''f'' then Some (CHR 0x0C)
      else if e = CHR ''n'' then Some (CHR 0x0A) else if e = CHR ''r'' then Some (CHR 0x0D)
      else if e = CHR ''t'' then Some (CHR 0x09) else None)"

definition prepend :: "string \<Rightarrow> (string \<times> string) option \<Rightarrow> (string \<times> string) option" where
  "prepend w r = map_option (\<lambda>(x, rest). (w @ x, rest)) r"

lemma length_unescape_u: "unescape_u s = Some (w, r) \<Longrightarrow> length r \<le> length s"
  by (auto simp: unescape_u_def Let_def split: option.splits if_splits)

text \<open>The rest of a string literal, after the opening quote.\<close>

function parse_string :: "string \<Rightarrow> (string \<times> string) option" where
  "parse_string [] = None"
| "parse_string (c # cs) =
     (if c = QUOT then Some ([], cs)
      else if c = BSL then
        (case cs of
           [] \<Rightarrow> None
         | e # r \<Rightarrow>
             (if e = CHR ''u''
              then (case unescape_u r of None \<Rightarrow> None | Some (w, r') \<Rightarrow> prepend w (parse_string r'))
              else case unescape e of None \<Rightarrow> None | Some d \<Rightarrow> prepend [d] (parse_string r)))
      else if (of_char c :: nat) < 32 then None
      else prepend [c] (parse_string cs))"
  by pat_completeness auto
termination
  by (relation "measure length") (auto dest!: length_unescape_u)

definition take_digits :: "string \<Rightarrow> string \<times> string" where
  "take_digits s = (takeWhile is_digit s, dropWhile is_digit s)"

text \<open>A number literal and the rest: sign, integer part, fraction, exponent.\<close>

definition num_int :: "string \<Rightarrow> (string \<times> string) option" where
  "num_int s =
     (case take_digits s of
        (ds, r) \<Rightarrow> if ds = [] then None else if hd ds = CHR ''0'' then Some (''0'', tl s) else Some (ds, r))"

definition num_frac :: "string \<Rightarrow> (string \<times> string) option" where
  "num_frac s =
     (case s of
        c # r \<Rightarrow> if c = CHR ''.'' then (case take_digits r of (ds, q) \<Rightarrow> if ds = [] then None else Some (c # ds, q))
                 else Some ([], s)
      | [] \<Rightarrow> Some ([], s))"

definition num_exp :: "string \<Rightarrow> (string \<times> string) option" where
  "num_exp s =
     (case s of
        c # r \<Rightarrow>
          (if c \<in> {CHR ''e'', CHR ''E''} then
             (let (sg, r1) = (case r of d # r' \<Rightarrow> if d \<in> {CHR ''+'', CHR ''-''} then ([d], r') else ([], r) | [] \<Rightarrow> ([], r));
                  (ds, q) = take_digits r1
              in if ds = [] then None else Some (c # sg @ ds, q))
           else Some ([], s))
      | [] \<Rightarrow> Some ([], s))"

definition parse_num :: "string \<Rightarrow> (string \<times> string) option" where
  "parse_num s =
     (let (sg, r0) = (if take 1 s = ''-'' then (''-'', drop 1 s) else ([], s))
      in case num_int r0 of
           None \<Rightarrow> None
         | Some (a, r1) \<Rightarrow>
             (case num_frac r1 of
                None \<Rightarrow> None
              | Some (b, r2) \<Rightarrow> (case num_exp r2 of None \<Rightarrow> None | Some (c, r3) \<Rightarrow> Some (sg @ a @ b @ c, r3))))"

text \<open>
  Values, the elements of an array and the members of an object. The comparisons of lengths only
  make the recursion visibly finite: every parsed value is at least one character long.
\<close>

function (sequential) parse_value :: "string \<Rightarrow> (json \<times> string) option"
  and parse_elems :: "string \<Rightarrow> (json list \<times> string) option"
  and parse_members :: "string \<Rightarrow> ((string \<times> json) list \<times> string) option" where
  "parse_value s =
     (case skip_ws s of
        [] \<Rightarrow> None
      | c # cs \<Rightarrow>
          (if c = QUOT then map_option (\<lambda>(t, r). (JStr t, r)) (parse_string cs)
           else if c = CHR ''['' then
             (if take 1 (skip_ws cs) = '']'' then Some (JList [], drop 1 (skip_ws cs))
              else map_option (\<lambda>(vs, r). (JList vs, r)) (parse_elems cs))
           else if c = CHR ''{'' then
             (if take 1 (skip_ws cs) = ''}'' then Some (JObj [], drop 1 (skip_ws cs))
              else map_option (\<lambda>(kvs, r). (JObj kvs, r)) (parse_members cs))
           else if take 4 (c # cs) = ''null'' then Some (JNull, drop 4 (c # cs))
           else if take 4 (c # cs) = ''true'' then Some (JBool True, drop 4 (c # cs))
           else if take 5 (c # cs) = ''false'' then Some (JBool False, drop 5 (c # cs))
           else map_option (\<lambda>(t, r). (JNum t, r)) (parse_num (c # cs))))"
| "parse_elems s =
     (case parse_value s of
        None \<Rightarrow> None
      | Some (v, r) \<Rightarrow>
          (case skip_ws r of
             [] \<Rightarrow> None
           | c # q \<Rightarrow>
               (if c = CHR '']'' then Some ([v], q)
                else if c = CHR '','' \<and> length q < length s
                then map_option (\<lambda>(vs, t). (v # vs, t)) (parse_elems q)
                else None)))"
| "parse_members s =
     (case skip_ws s of
        [] \<Rightarrow> None
      | d # cs \<Rightarrow>
          (if d \<noteq> QUOT then None
           else case parse_string cs of
                  None \<Rightarrow> None
                | Some (k, r0) \<Rightarrow>
                    (case skip_ws r0 of
                       [] \<Rightarrow> None
                     | e # r1 \<Rightarrow>
                         (if e \<noteq> CHR '':'' \<or> \<not> length r1 < length s then None
                          else case parse_value r1 of
                                 None \<Rightarrow> None
                               | Some (v, r) \<Rightarrow>
                                   (case skip_ws r of
                                      [] \<Rightarrow> None
                                    | c # q \<Rightarrow>
                                        (if c = CHR ''}'' then Some ([(k, v)], q)
                                         else if c = CHR '','' \<and> length q < length s
                                         then map_option (\<lambda>(kvs, t). ((k, v) # kvs, t)) (parse_members q)
                                         else None))))))"
  by pat_completeness auto
termination
proof (relation "measure (\<lambda>x. case x of Inl s \<Rightarrow> 2 * length s | Inr (Inl s) \<Rightarrow> 2 * length s + 1
      | Inr (Inr s) \<Rightarrow> 2 * length s + 1)", goal_cases)
  case (2 s c cs)
  then have "length (c # cs) \<le> length s" using length_skip_ws [of s] by simp
  then show ?case by simp
next
  case (3 s c cs)
  then have "length (c # cs) \<le> length s" using length_skip_ws [of s] by simp
  then show ?case by simp
qed auto

text \<open>\<open>json.Unmarshal\<close> takes the whole text, a \<open>Decoder\<close> the first value of it.\<close>

definition json_dec :: "string \<Rightarrow> json option" where
  "json_dec s =
     (case parse_value s of None \<Rightarrow> None | Some (v, r) \<Rightarrow> if skip_ws r = [] then Some v else None)"

definition json_dec_first :: "string \<Rightarrow> json option" where
  "json_dec_first s = map_option fst (parse_value s)"


section \<open>Round trip\<close>

lemma skip_ws_nonspace [simp]: "c \<notin> {CHR 0x20, CHR 0x09, CHR 0x0A, CHR 0x0D} \<Longrightarrow> skip_ws (c # s) = c # s"
  by (simp add: skip_ws_def)

lemma prepend_simps [simp]: "prepend w None = None" "prepend w (Some (x, r)) = Some (w @ x, r)"
  by (simp_all add: prepend_def)

lemma hex4_byte: "n < 256 \<Longrightarrow> hex4 (CHR ''0'' # CHR ''0'' # hex_char (n div 16) # hex_char (n mod 16) # t) = Some n"
proof -
  assume "n < 256"
  then have "n div 16 < 16" "n mod 16 < 16" by linarith+
  moreover have "hex_val (CHR ''0'') = Some 0" by code_simp
  ultimately show ?thesis by (simp add: hex4_def)
qed

lemma parse_string_char: "parse_string (json_char c @ t) = prepend [c] (parse_string t)"
proof -
  let ?n = "of_char c :: nat"
  have c: "c = char_of ?n" "?n < 256" by simp_all
  consider (special) "?n \<in> {34, 92, 8, 12, 10, 13, 9}" | (escaped) "?n \<notin> {34, 92, 8, 12, 10, 13, 9}" "?n < 32 \<or> ?n \<in> {60, 62, 38}"
    | (plain) "?n \<notin> {34, 92, 8, 12, 10, 13, 9, 60, 62, 38}" "\<not> ?n < 32" by blast
  then show ?thesis
  proof cases
    case special
    then have "c \<in> char_of ` {34 :: nat, 92, 8, 12, 10, 13, 9}" using c(1) by (metis imageI)
    moreover have "char_of ` {34 :: nat, 92, 8, 12, 10, 13, 9} = {QUOT, BSL, CHR 0x08, CHR 0x0C, CHR 0x0A, CHR 0x0D, CHR 0x09}"
      by code_simp
    ultimately have "c \<in> {QUOT, BSL, CHR 0x08, CHR 0x0C, CHR 0x0A, CHR 0x0D, CHR 0x09}" by (simp only:)
    then show ?thesis by (auto simp: json_char_def unescape_def)
  next
    case escaped
    then have "?n < 128" by auto
    then have "unescape_u (CHR ''0'' # CHR ''0'' # hex_char (?n div 16) # hex_char (?n mod 16) # t) = Some ([c], t)"
      using hex4_byte [OF c(2)] by (simp add: unescape_u_def utf8_def Let_def)
    then show ?thesis using escaped by (auto simp: json_char_def Let_def)
  next
    case plain
    then have "c \<noteq> QUOT" "c \<noteq> BSL" by auto
    then show ?thesis using plain by (simp add: json_char_def Let_def)
  qed
qed

lemma parse_string_enc: "parse_string (concat (map json_char s) @ QUOT # r) = Some (s, r)"
  by (induction s) (simp_all add: parse_string_char)

definition stops :: "string \<Rightarrow> bool" where
  "stops r \<longleftrightarrow> r = [] \<or> hd r \<in> {CHR '','', CHR '']'', CHR ''}'', CHR 0x20, CHR 0x0A}"

lemma dec_nat_zero: "hd (dec_nat n) = CHR ''0'' \<Longrightarrow> dec_nat n = ''0''"
proof (induction n rule: dec_nat.induct)
  case (1 n)
  have z: "dec_nat 0 = ''0''" by code_simp
  show ?case
  proof (cases "n < 10")
    case True
    then have "digit_char n = CHR ''0''" using 1 by (simp add: dec_nat.simps [of n])
    then show ?thesis using True by (simp add: dec_nat.simps [of n])
  next
    case False
    then have "hd (dec_nat (n div 10)) = CHR ''0''" using 1(2) by (simp add: dec_nat.simps [of n])
    then have "dec_nat (n div 10) = dec_nat 0" using 1(1) False z by simp
    then have "n div 10 = 0" by (rule dec_nat_inj)
    then show ?thesis using False by simp
  qed
qed

lemma num_int_dec_nat: "r = [] \<or> \<not> is_digit (hd r) \<Longrightarrow> num_int (dec_nat n @ r) = Some (dec_nat n, r)"
proof -
  assume r: "r = [] \<or> \<not> is_digit (hd r)"
  have td: "take_digits (dec_nat n @ r) = (dec_nat n, r)"
    using r dec_nat_digits [of _ n] by (auto simp: take_digits_def takeWhile_append dropWhile_append
        takeWhile_eq_Nil_iff dropWhile_eq_self_iff dest: subsetD)
  show ?thesis
  proof (cases "hd (dec_nat n) = CHR ''0''")
    case True
    then have "dec_nat n = ''0''" by (rule dec_nat_zero)
    then show ?thesis using td by (simp add: num_int_def)
  qed (use td in \<open>simp add: num_int_def\<close>)
qed

lemma parse_num_Itoa:
  assumes "stops r"
  shows "parse_num (Itoa n @ r) = Some (Itoa n, r)"
proof -
  have r: "r = [] \<or> \<not> is_digit (hd r)" using assms by (auto simp: stops_def is_digit_def)
  have rest: "num_frac r = Some ([], r)" "num_exp r = Some ([], r)"
    using assms by (auto simp: num_frac_def num_exp_def stops_def split: list.splits)
  have "take 1 (dec_nat (nat n) @ r) \<noteq> ''-''"
    using hd_dec_nat_digit [of "nat n"] is_digit_not_sign [of "hd (dec_nat (nat n))"] by (cases "dec_nat (nat n)") auto
  then show ?thesis
    using num_int_dec_nat [OF r] rest by (auto simp: parse_num_def Itoa_def)
qed

lemma take_parse_num:
  "c # cs = Itoa n @ r \<Longrightarrow> c = CHR ''-'' \<or> is_digit c"
  using hd_dec_nat_digit [of "nat n"] by (cases "dec_nat (nat n)") (auto simp: Itoa_def split: if_splits)

text \<open>Number literals, and trees whose numbers are such literals.\<close>

definition json_number :: "string \<Rightarrow> bool" where
  "json_number s \<longleftrightarrow> s \<noteq> [] \<and> (hd s = CHR ''-'' \<or> is_digit (hd s)) \<and> (\<forall>r. stops r \<longrightarrow> parse_num (s @ r) = Some (s, r))"

lemma json_number_Itoa [simp, intro]: "json_number (Itoa n)"
proof -
  have "Itoa n \<noteq> []" by (simp add: Itoa_def)
  then show ?thesis
    using take_parse_num [of "hd (Itoa n)" "tl (Itoa n)" n "[]"] by (simp add: json_number_def parse_num_Itoa)
qed

inductive json_ok :: "json \<Rightarrow> bool" where
  "json_ok JNull"
| "json_ok (JBool b)"
| "json_number s \<Longrightarrow> json_ok (JNum s)"
| "json_ok (JStr s)"
| "(\<And>v. v \<in> set vs \<Longrightarrow> json_ok v) \<Longrightarrow> json_ok (JList vs)"
| "(\<And>k v. (k, v) \<in> set kvs \<Longrightarrow> json_ok v) \<Longrightarrow> json_ok (JObj kvs)"

inductive_cases json_okE: "json_ok (JNum s)" "json_ok (JList vs)" "json_ok (JObj kvs)"

lemma digit_dispatch:
  assumes "c = CHR ''-'' \<or> is_digit c"
  shows "c \<notin> {CHR 0x20, CHR 0x09, CHR 0x0A, CHR 0x0D, QUOT, CHR ''['', CHR ''{'', CHR ''n'', CHR ''t'', CHR ''f'', CHR '']'', CHR ''}''}"
  using assms by (auto simp: is_digit_def)

declare parse_value.simps [simp del] parse_elems.simps [simp del] parse_members.simps [simp del]

lemma parse_value_num: "json_number s \<Longrightarrow> stops r \<Longrightarrow> parse_value (s @ r) = Some (JNum s, r)"
proof -
  assume n: "json_number s" and r: "stops r"
  then obtain c cs where s: "s @ r = c # cs" "c = CHR ''-'' \<or> is_digit c" by (cases s) (auto simp: json_number_def)
  note d = digit_dispatch [OF s(2)]
  have "take 4 (c # cs) \<noteq> ''null''" "take 4 (c # cs) \<noteq> ''true''" "take 5 (c # cs) \<noteq> ''false''" using d by auto
  moreover have "parse_num (c # cs) = Some (s, r)" using n r unfolding s(1) [symmetric] json_number_def by blast
  ultimately show ?thesis
    using d s by (simp add: parse_value.simps [of "c # cs"])
qed

lemma json_enc_hd: "json_ok v \<Longrightarrow> \<exists>c cs. json_enc v = c # cs \<and> c \<notin> {CHR 0x20, CHR 0x09, CHR 0x0A, CHR 0x0D, CHR '']'', CHR ''}''}"
proof (cases v)
  case (JNum s)
  assume "json_ok v"
  then have n: "json_number s" using JNum by (auto elim: json_okE)
  then obtain c cs where s: "s = c # cs" "c = CHR ''-'' \<or> is_digit c" by (cases s) (auto simp: json_number_def)
  then show ?thesis using JNum digit_dispatch by auto
qed (auto simp: json_string_def)

lemma json_elems_hd:
  "\<forall>v \<in> set vs. json_ok v \<Longrightarrow> vs \<noteq> [] \<Longrightarrow>
   \<exists>c cs. json_elems vs = c # cs \<and> c \<notin> {CHR 0x20, CHR 0x09, CHR 0x0A, CHR 0x0D, CHR '']'', CHR ''}''}"
  using json_enc_hd by (cases vs rule: json_elems.cases) fastforce+

lemma stops_simps [simp]: "stops (CHR '','' # r)" "stops (CHR '']'' # r)" "stops (CHR ''}'' # r)" "stops []"
  by (simp_all add: stops_def)

lemma parse_value_string: "parse_value (json_string s @ r) = Some (JStr s, r)"
  by (simp add: parse_value.simps json_string_def parse_string_enc)

lemma parse_enc:
  "json_ok v \<Longrightarrow> stops r \<Longrightarrow> parse_value (json_enc v @ r) = Some (v, r)"
  "(\<forall>v \<in> set vs. json_ok v) \<Longrightarrow> vs \<noteq> [] \<Longrightarrow> parse_elems (json_elems vs @ CHR '']'' # r) = Some (vs, r)"
  "(\<forall>kv \<in> set kvs. json_ok (snd kv)) \<Longrightarrow> kvs \<noteq> [] \<Longrightarrow> parse_members (json_members kvs @ CHR ''}'' # r) = Some (kvs, r)"
proof (induction v and vs and kvs arbitrary: r and r and r rule: json_enc_json_elems_json_members.induct)
  case (3 s)
  then show ?case by (auto elim!: json_okE simp: parse_value_num)
next
  case (4 s)
  then show ?case by (simp add: parse_value_string)
next
  case (5 vs)
  show ?case
  proof (cases "vs = []")
    case False
    have ok: "\<forall>v \<in> set vs. json_ok v" using 5(2) by (auto elim: json_okE)
    obtain c cs where "json_elems vs = c # cs" "c \<notin> {CHR 0x20, CHR 0x09, CHR 0x0A, CHR 0x0D, CHR '']'', CHR ''}''}"
      using json_elems_hd [OF ok False] by blast
    then show ?thesis using 5(1) [OF ok False] by (simp add: parse_value.simps)
  qed (simp add: parse_value.simps)
next
  case (6 kvs)
  show ?case
  proof (cases "kvs = []")
    case False
    have ok: "\<forall>kv \<in> set kvs. json_ok (snd kv)" using 6(2) by (auto elim: json_okE)
    have "\<exists>cs. json_members kvs = QUOT # cs"
      using False by (cases kvs rule: json_members.cases) (auto simp: json_string_def)
    then show ?thesis using 6(1) [OF ok False] by (auto simp: parse_value.simps)
  qed (simp add: parse_value.simps)
next
  case (8 v)
  then show ?case by (simp add: parse_elems.simps)
next
  case (9 v w vs)
  then show ?case by (simp add: parse_elems.simps [of "json_enc v @ _"])
next
  case (11 k v)
  then show ?case by (simp add: parse_members.simps json_string_def parse_string_enc)
next
  case (12 k v kw kvs)
  then show ?case by (simp add: parse_members.simps [of "QUOT # concat (map json_char k) @ _"] json_string_def parse_string_enc)
qed (simp_all add: parse_value.simps)

lemma json_roundtrip: "json_ok v \<Longrightarrow> json_dec (json_enc v) = Some v"
  using parse_enc(1) [of v "[]"] by (simp add: json_dec_def skip_ws_def)


section \<open>Conversions\<close>

text \<open>
  The members of an object that go into the field \<open>name\<close> of a struct, in order: names are compared
  without regard to case.
\<close>

definition members :: "string \<Rightarrow> json \<Rightarrow> json list" where
  "members name v = (case v of JObj kvs \<Rightarrow> map snd (filter (\<lambda>(k, _). EqualFold k name) kvs) | _ \<Rightarrow> [])"

text \<open>Each conversion gives the field's value, or \<open>None\<close> for a value of the wrong type; \<open>null\<close>
  leaves the field as it is.\<close>

fun into_string :: "json \<Rightarrow> string \<Rightarrow> string option" where
  "into_string (JStr s) old = Some s"
| "into_string JNull old = Some old"
| "into_string _ old = None"

fun into_bool :: "json \<Rightarrow> bool \<Rightarrow> bool option" where
  "into_bool (JBool b) old = Some b"
| "into_bool JNull old = Some old"
| "into_bool _ old = None"

fun into_int :: "json \<Rightarrow> int \<Rightarrow> int option" where
  "into_int (JNum s) old = (let (n, err) = ParseInt s in if err then None else Some n)"
| "into_int JNull old = Some old"
| "into_int _ old = None"

fun into_list :: "(json \<Rightarrow> 'a option) \<Rightarrow> json \<Rightarrow> 'a list \<Rightarrow> 'a list option" where
  "into_list conv (JList vs) old = those (map conv vs)"
| "into_list conv JNull old = Some []"
| "into_list conv _ old = None"

text \<open>A field of a struct: the members of that name one after the other, from the zero value.\<close>

definition field :: "(json \<Rightarrow> 'a \<Rightarrow> 'a option) \<Rightarrow> 'a \<Rightarrow> string \<Rightarrow> json \<Rightarrow> 'a option" where
  "field conv zero name v =
     fold (\<lambda>m acc. case acc of None \<Rightarrow> None | Some old \<Rightarrow> conv m old) (members name v) (Some zero)"

text \<open>A struct takes an object or \<open>null\<close>.\<close>

definition is_struct :: "json \<Rightarrow> bool" where
  "is_struct v = (case v of JObj _ \<Rightarrow> True | JNull \<Rightarrow> True | _ \<Rightarrow> False)"

definition string_field :: "string \<Rightarrow> json \<Rightarrow> string option" where
  "string_field = field into_string []"

definition bool_field :: "string \<Rightarrow> json \<Rightarrow> bool option" where
  "bool_field = field into_bool False"

definition int_field :: "string \<Rightarrow> json \<Rightarrow> int option" where
  "int_field = field into_int 0"

definition strings_field :: "string \<Rightarrow> json \<Rightarrow> string list option" where
  "strings_field = field (into_list (\<lambda>v. into_string v [])) []"

end
