(* ===== verification/Stealth.thy ===== *)
theory Stealth
  imports Settings Config Json
begin

text \<open>
  The stealth carriers (\<open>src/internal/stealth/\<close>): the node-wide secrets kept through the settings
  interface, the sing-box server options, starting, stopping and rotating, and the per-client
  artifacts (share links and the sing-box client profile). The functions that use the settings
  take the two operations of the interface as arguments, as the Go code takes the interface.
  sing-box, the key and certificate generators and the random source are outside the program:
  their results are arguments, and \<open>sm_box\<close> is the schedule of sing-box calls that fail.
\<close>

section \<open>URL encoding\<close>

definition url_unreserved :: "char \<Rightarrow> bool" where
  "url_unreserved c \<longleftrightarrow> (CHR ''a'' \<le> c \<and> c \<le> CHR ''z'') \<or> (CHR ''A'' \<le> c \<and> c \<le> CHR ''Z'') \<or> is_digit c \<or>
     c \<in> {CHR ''-'', CHR ''_'', CHR ''.'', CHR ''~''}"

definition upper_hex :: "nat \<Rightarrow> char" where
  "upper_hex n = (if n < 10 then char_of (48 + n) else char_of (55 + n))"

definition pct_encode :: "char \<Rightarrow> string" where
  "pct_encode c = [CHR ''%'', upper_hex (of_char c div 16), upper_hex (of_char c mod 16)]"

definition QueryEscape :: "string \<Rightarrow> string" where
  "QueryEscape s = concat (map (\<lambda>c. if c = CHR '' '' then ''+'' else if url_unreserved c then [c] else pct_encode c) s)"

definition PathEscape :: "string \<Rightarrow> string" where
  "PathEscape s =
     concat (map (\<lambda>c. if url_unreserved c \<or> c \<in> {CHR ''$'', CHR ''&'', CHR ''+'', CHR '':'', CHR ''='', CHR ''@''}
                      then [c] else pct_encode c) s)"

text \<open>\<open>url.Values.Encode\<close> of a map given by its pairs: sorted by key.\<close>

definition encodeValues :: "(string \<times> string) list \<Rightarrow> string" where
  "encodeValues q = Join (map (\<lambda>(k, v). QueryEscape k @ ''='' @ QueryEscape v) (sort_key fst q)) ''&''"


section \<open>Secrets\<close>

abbreviation keyRealityPrivate :: string where "keyRealityPrivate \<equiv> ''stealth_reality_private_key''"
abbreviation keyRealityPublic :: string where "keyRealityPublic \<equiv> ''stealth_reality_public_key''"
abbreviation keyRealityShortID :: string where "keyRealityShortID \<equiv> ''stealth_reality_short_id''"
abbreviation keyVLESSUUID :: string where "keyVLESSUUID \<equiv> ''stealth_vless_uuid''"
abbreviation keyHysteria2Pass :: string where "keyHysteria2Pass \<equiv> ''stealth_hysteria2_password''"
abbreviation keyHysteria2Cert :: string where "keyHysteria2Cert \<equiv> ''stealth_hysteria2_cert_pem''"
abbreviation keyHysteria2Key :: string where "keyHysteria2Key \<equiv> ''stealth_hysteria2_key_pem''"

record Secrets =
  sec_RealityPrivateKey :: string
  sec_RealityPublicKey :: string
  sec_RealityShortID :: string
  sec_VLESSUUID :: string
  sec_Hysteria2Password :: string

text \<open>What the generators offer in one call.\<close>

record Fresh =
  fr_Key :: "(string \<times> string) result"
  fr_ShortID :: string
  fr_UUID :: string
  fr_Password :: string

type_synonym 's getter = "'s \<Rightarrow> string \<Rightarrow> string result \<times> 's"
type_synonym 's setter = "'s \<Rightarrow> string \<Rightarrow> string \<Rightarrow> error option \<times> 's"

text \<open>The key pair: generated and stored when there is no private key.\<close>

definition loadOrCreatePair :: "'s getter \<Rightarrow> 's setter \<Rightarrow> Fresh \<Rightarrow> 's \<Rightarrow> (string \<times> string) result \<times> 's" where
  "loadOrCreatePair get put fr st =
     (case get st keyRealityPrivate of
        (Inl e, s1) \<Rightarrow> (Inl e, s1)
      | (Inr priv0, s1) \<Rightarrow>
          (case (if priv0 \<noteq> [] then (Inr priv0, s1)
                 else case fr_Key fr of
                        Inl e \<Rightarrow> (Inl e, s1)
                      | Inr (priv, pub) \<Rightarrow>
                          (case put s1 keyRealityPrivate priv of
                             (Some e, s2) \<Rightarrow> (Inl e, s2)
                           | (None, s2) \<Rightarrow>
                               (case put s2 keyRealityPublic pub of
                                  (Some e, s3) \<Rightarrow> (Inl e, s3)
                                | (None, s3) \<Rightarrow> (Inr priv, s3)))) of
             (Inl e, s4) \<Rightarrow> (Inl e, s4)
           | (Inr priv, s4) \<Rightarrow>
               (case get s4 keyRealityPublic of
                  (Inl e, s5) \<Rightarrow> (Inl e, s5)
                | (Inr pub, s5) \<Rightarrow> (Inr (priv, pub), s5))))"

definition loadOrCreateSecrets :: "'s getter \<Rightarrow> 's setter \<Rightarrow> Fresh \<Rightarrow> 's \<Rightarrow> Secrets result \<times> 's" where
  "loadOrCreateSecrets get put fr st =
     (case loadOrCreatePair get put fr st of
        (Inl e, s1) \<Rightarrow> (Inl e, s1)
      | (Inr (priv, pub), s1) \<Rightarrow>
          (case getOrSet get put s1 keyRealityShortID (fr_ShortID fr) of
             (Inl e, s2) \<Rightarrow> (Inl e, s2)
           | (Inr sid, s2) \<Rightarrow>
               (case getOrSet get put s2 keyVLESSUUID (fr_UUID fr) of
                  (Inl e, s3) \<Rightarrow> (Inl e, s3)
                | (Inr uuid, s3) \<Rightarrow>
                    (case getOrSet get put s3 keyHysteria2Pass (fr_Password fr) of
                       (Inl e, s4) \<Rightarrow> (Inl e, s4)
                     | (Inr pass, s4) \<Rightarrow>
                         (Inr \<lparr>sec_RealityPrivateKey = priv, sec_RealityPublicKey = pub,
                               sec_RealityShortID = sid, sec_VLESSUUID = uuid,
                               sec_Hysteria2Password = pass\<rparr>, s4)))))"

definition loadOrCreateCert ::
  "'s getter \<Rightarrow> 's setter \<Rightarrow> (string \<times> string) result \<Rightarrow> 's \<Rightarrow> (string \<times> string) result \<times> 's" where
  "loadOrCreateCert get put selfSigned st =
     (case get st keyHysteria2Cert of
        (Inl e, s1) \<Rightarrow> (Inl e, s1)
      | (Inr cert, s1) \<Rightarrow>
          (case get s1 keyHysteria2Key of
             (Inl e, s2) \<Rightarrow> (Inl e, s2)
           | (Inr key, s2) \<Rightarrow>
               if cert \<noteq> [] \<and> key \<noteq> [] then (Inr (cert, key), s2)
               else (case selfSigned of
                       Inl e \<Rightarrow> (Inl e, s2)
                     | Inr (cert', key') \<Rightarrow>
                         (case put s2 keyHysteria2Cert cert' of
                            (Some e, s3) \<Rightarrow> (Inl e, s3)
                          | (None, s3) \<Rightarrow>
                              (case put s3 keyHysteria2Key key' of
                                 (Some e, s4) \<Rightarrow> (Inl e, s4)
                               | (None, s4) \<Rightarrow> (Inr (cert', key'), s4))))))"


section \<open>sing-box options\<close>

definition vlessFlowVision :: string where
  "vlessFlowVision = ''xtls-rprx-vision''"

definition uint16 :: "int \<Rightarrow> int" where
  "uint16 n = n mod 65536"

record VLESSInbound =
  vin_Listen :: string
  vin_ListenPort :: int
  vin_UserName :: string
  vin_UUID :: string
  vin_Flow :: string
  vin_ServerName :: string
  vin_HandshakeServer :: string
  vin_HandshakePort :: int
  vin_PrivateKey :: string
  vin_ShortID :: "string list"

record Hysteria2Inbound =
  hin_Listen :: string
  hin_ListenPort :: int
  hin_IgnoreClientBandwidth :: bool
  hin_UserName :: string
  hin_Password :: string
  hin_ServerName :: string
  hin_ALPN :: "string list"
  hin_Certificate :: "string list"
  hin_Key :: "string list"
  hin_Obfs :: "(string \<times> string) option"

datatype Inbound = InVLESS string VLESSInbound | InHysteria2 string Hysteria2Inbound

record Outbound =
  out_Type :: string
  out_Tag :: string
  out_OverrideAddress :: string
  out_OverridePort :: int

record Options =
  opt_LogLevel :: string
  opt_Inbounds :: "Inbound list"
  opt_Outbounds :: "Outbound list"
  opt_RouteFinal :: string

text \<open>The manager; \<open>sm_hasStore\<close> is false for a manager built without a store.\<close>

record 's SManager =
  sm_st :: 's
  sm_hasStore :: bool
  sm_secrets :: "Secrets option"
  sm_certPEM :: string
  sm_keyPEM :: string
  sm_instance :: "Options option"
  sm_running :: bool
  sm_box :: "string option list"

definition box_call :: "'s SManager \<Rightarrow> error option \<times> 's SManager" where
  "box_call m =
     (case sm_box m of
        [] \<Rightarrow> (None, m)
      | f # fs \<Rightarrow> (map_option Errorf f, m\<lparr>sm_box := fs\<rparr>))"

definition splitHostPort :: "string \<Rightarrow> int \<Rightarrow> string \<times> int" where
  "splitHostPort s dflt =
     (case cut_last CHR '':'' s of
        None \<Rightarrow> (s, dflt)
      | Some (host, rest) \<Rightarrow>
          (let (p, err) = Atoi rest
           in if err \<or> p \<le> 0 \<or> p > 65535 then (host, dflt) else (host, uint16 p)))"

definition vlessInbound :: "Config \<Rightarrow> Secrets \<Rightarrow> Inbound" where
  "vlessInbound cfg sec =
     (let (host, port) = splitHostPort (RealityHandshakeTarget cfg) 443
      in InVLESS ''vless-reality''
           \<lparr>vin_Listen = ''0.0.0.0'', vin_ListenPort = uint16 (VLESSPortInt cfg), vin_UserName = ''erebrus'',
            vin_UUID = sec_VLESSUUID sec, vin_Flow = vlessFlowVision, vin_ServerName = RealitySNI cfg,
            vin_HandshakeServer = host, vin_HandshakePort = port,
            vin_PrivateKey = sec_RealityPrivateKey sec, vin_ShortID = [sec_RealityShortID sec]\<rparr>)"

definition hysteria2Inbound :: "Config \<Rightarrow> Secrets \<Rightarrow> string \<Rightarrow> string \<Rightarrow> Inbound" where
  "hysteria2Inbound cfg sec certPEM keyPEM =
     InHysteria2 ''hysteria2''
       \<lparr>hin_Listen = ''0.0.0.0'', hin_ListenPort = uint16 (Hysteria2PortInt cfg),
        hin_IgnoreClientBandwidth = True, hin_UserName = ''erebrus'',
        hin_Password = sec_Hysteria2Password sec, hin_ServerName = RealitySNI cfg, hin_ALPN = [''h3''],
        hin_Certificate = [certPEM], hin_Key = [keyPEM],
        hin_Obfs = (if cfg_Hysteria2ObfsPassword cfg \<noteq> []
                    then Some (''salamander'', cfg_Hysteria2ObfsPassword cfg) else None)\<rparr>"

definition serverOptions :: "Config \<Rightarrow> Secrets \<Rightarrow> string \<Rightarrow> string \<Rightarrow> Options" where
  "serverOptions cfg sec certPEM keyPEM =
     \<lparr>opt_LogLevel = (if cfg_RunType cfg = ''debug'' then ''info'' else ''warn''),
      opt_Inbounds = [vlessInbound cfg sec, hysteria2Inbound cfg sec certPEM keyPEM],
      opt_Outbounds = [\<lparr>out_Type = ''direct'', out_Tag = ''direct'', out_OverrideAddress = ''127.0.0.1'',
                        out_OverridePort = uint16 (WGEndpointPortInt cfg)\<rparr>],
      opt_RouteFinal = ''direct''\<rparr>"


section \<open>Lifecycle\<close>

definition SInit ::
  "'s getter \<Rightarrow> 's setter \<Rightarrow> Fresh \<Rightarrow> (string \<times> string) result \<Rightarrow> 's SManager \<Rightarrow> error option \<times> 's SManager" where
  "SInit get put fr selfSigned m =
     (case loadOrCreateSecrets get put fr (sm_st m) of
        (Inl e, s1) \<Rightarrow> (Some (Wrapf ''stealth secrets: '' e []), m\<lparr>sm_st := s1\<rparr>)
      | (Inr secrets, s1) \<Rightarrow>
          (case loadOrCreateCert get put selfSigned s1 of
             (Inl e, s2) \<Rightarrow> (Some (Wrapf ''stealth cert: '' e []), m\<lparr>sm_st := s2\<rparr>)
           | (Inr (cert, key), s2) \<Rightarrow>
               (None, m\<lparr>sm_st := s2, sm_secrets := Some secrets, sm_certPEM := cert, sm_keyPEM := key\<rparr>)))"

definition SStart :: "Config \<Rightarrow> 's SManager \<Rightarrow> error option \<times> 's SManager" where
  "SStart cfg m =
     (if \<not> cfg_EnableStealth cfg then (None, m)
      else case sm_secrets m of
             None \<Rightarrow> (Some (Errorf ''stealth: Init not called''), m)
           | Some sec \<Rightarrow>
               (let opts = serverOptions cfg sec (sm_certPEM m) (sm_keyPEM m)
                in case box_call m of
                     (Some e, m1) \<Rightarrow> (Some (Wrapf ''stealth: build sing-box: '' e []), m1)
                   | (None, m1) \<Rightarrow>
                       (case box_call m1 of
                          (Some e, m2) \<Rightarrow> (Some (Wrapf ''stealth: start sing-box: '' e []), snd (box_call m2))
                        | (None, m2) \<Rightarrow> (None, m2\<lparr>sm_instance := Some opts, sm_running := True\<rparr>))))"

definition SClose :: "'s SManager \<Rightarrow> error option \<times> 's SManager" where
  "SClose m =
     (let m1 = m\<lparr>sm_instance := None, sm_running := False\<rparr>
      in case sm_instance m of None \<Rightarrow> (None, m1) | Some _ \<Rightarrow> box_call m1)"

definition RotateReality :: "Config \<Rightarrow> 's setter \<Rightarrow> string \<Rightarrow> 's SManager \<Rightarrow> string result \<times> 's SManager" where
  "RotateReality cfg put shortID m =
     (case sm_secrets m of
        None \<Rightarrow> (Inl (Errorf ''stealth: not initialized''), m)
      | Some sec \<Rightarrow>
          if \<not> sm_hasStore m then (Inl (Errorf ''stealth: not initialized''), m)
          else (case put (sm_st m) keyRealityShortID shortID of
                  (Some e, s1) \<Rightarrow> (Inl e, m\<lparr>sm_st := s1\<rparr>)
                | (None, s1) \<Rightarrow>
                    (let m1 = m\<lparr>sm_st := s1, sm_secrets := Some (sec\<lparr>sec_RealityShortID := shortID\<rparr>)\<rparr>
                     in if sm_running m
                        then (case SStart cfg (snd (SClose m1)) of
                                (Some e, m2) \<Rightarrow> (Inl e, m2)
                              | (None, m2) \<Rightarrow> (Inr shortID, m2))
                        else (Inr shortID, m1))))"

text \<open>\<open>fr\<close> holds the values drawn for the rotation, \<open>fr'\<close> those \<open>loadOrCreateSecrets\<close> draws after it.\<close>

definition RotateAllSecrets ::
  "Config \<Rightarrow> 's getter \<Rightarrow> 's setter \<Rightarrow> Fresh \<Rightarrow> Fresh \<Rightarrow> (string \<times> string) result \<Rightarrow> 's SManager \<Rightarrow>
   error option \<times> 's SManager" where
  "RotateAllSecrets cfg get put fr fr' selfSigned m =
     (if \<not> sm_hasStore m then (Some (Errorf ''stealth: not initialized''), m)
      else case (if sm_secrets m = None then SInit get put fr' selfSigned m else (None, m)) of
             (Some e, m1) \<Rightarrow> (Some e, m1)
           | (None, m1) \<Rightarrow>
               (case put (sm_st m1) keyVLESSUUID (fr_UUID fr) of
                  (Some e, s2) \<Rightarrow> (Some e, m1\<lparr>sm_st := s2\<rparr>)
                | (None, s2) \<Rightarrow>
                    (case put s2 keyRealityShortID (fr_ShortID fr) of
                       (Some e, s3) \<Rightarrow> (Some e, m1\<lparr>sm_st := s3\<rparr>)
                     | (None, s3) \<Rightarrow>
                         (case put s3 keyHysteria2Pass (fr_Password fr) of
                            (Some e, s4) \<Rightarrow> (Some e, m1\<lparr>sm_st := s4\<rparr>)
                          | (None, s4) \<Rightarrow>
                              (case loadOrCreateSecrets get put fr' s4 of
                                 (Inl e, s5) \<Rightarrow> (Some e, m1\<lparr>sm_st := s5\<rparr>)
                               | (Inr sec, s5) \<Rightarrow>
                                   (let m2 = m1\<lparr>sm_st := s5, sm_secrets := Some sec\<rparr>;
                                        wasRunning = sm_running m2;
                                        m3 = (if wasRunning then snd (SClose m2) else m2)
                                    in if wasRunning \<and> cfg_EnableStealth cfg then SStart cfg m3
                                       else (None, m3)))))))"


section \<open>Client artifacts\<close>

definition ClientPrivateKeyPlaceholder :: string where
  "ClientPrivateKeyPlaceholder = ''REPLACE_WITH_CLIENT_PRIVATE_KEY''"

record Params =
  par_Enabled :: bool
  par_Host :: string
  par_VLESSPort :: int
  par_Hysteria2Port :: int
  par_SNI :: string
  par_VLESSUUID :: string
  par_VLESSFlow :: string
  par_RealityPublicKey :: string
  par_RealityShortID :: string
  par_Hysteria2Password :: string
  par_Hysteria2Obfs :: string

definition stealthParams :: "Config \<Rightarrow> Secrets option \<Rightarrow> Params" where
  "stealthParams cfg secrets =
     (case secrets of
        Some sec \<Rightarrow>
          (if cfg_EnableStealth cfg
           then \<lparr>par_Enabled = True, par_Host = cfg_WGEndpointHost cfg, par_VLESSPort = VLESSPortInt cfg,
                 par_Hysteria2Port = Hysteria2PortInt cfg, par_SNI = RealitySNI cfg,
                 par_VLESSUUID = sec_VLESSUUID sec, par_VLESSFlow = vlessFlowVision,
                 par_RealityPublicKey = sec_RealityPublicKey sec, par_RealityShortID = sec_RealityShortID sec,
                 par_Hysteria2Password = sec_Hysteria2Password sec,
                 par_Hysteria2Obfs = cfg_Hysteria2ObfsPassword cfg\<rparr>
           else \<lparr>par_Enabled = False, par_Host = [], par_VLESSPort = 0, par_Hysteria2Port = 0, par_SNI = [],
                 par_VLESSUUID = [], par_VLESSFlow = [], par_RealityPublicKey = [], par_RealityShortID = [],
                 par_Hysteria2Password = [], par_Hysteria2Obfs = []\<rparr>)
      | None \<Rightarrow> \<lparr>par_Enabled = False, par_Host = [], par_VLESSPort = 0, par_Hysteria2Port = 0, par_SNI = [],
                 par_VLESSUUID = [], par_VLESSFlow = [], par_RealityPublicKey = [], par_RealityShortID = [],
                 par_Hysteria2Password = [], par_Hysteria2Obfs = []\<rparr>)"

definition vlessURI :: "Params \<Rightarrow> string \<Rightarrow> string" where
  "vlessURI p label =
     ''vless://'' @ par_VLESSUUID p @ ''@'' @ par_Host p @ '':'' @ Itoa (par_VLESSPort p) @ ''?'' @
     encodeValues [(''encryption'', ''none''), (''flow'', par_VLESSFlow p), (''security'', ''reality''),
       (''sni'', par_SNI p), (''fp'', ''chrome''), (''pbk'', par_RealityPublicKey p),
       (''sid'', par_RealityShortID p), (''type'', ''tcp'')] @
     ''#'' @ PathEscape label"

definition hysteria2URI :: "Params \<Rightarrow> string \<Rightarrow> string" where
  "hysteria2URI p label =
     ''hysteria2://'' @ QueryEscape (par_Hysteria2Password p) @ ''@'' @ par_Host p @ '':'' @
     Itoa (par_Hysteria2Port p) @ ''?'' @
     encodeValues ([(''sni'', par_SNI p), (''insecure'', ''1''), (''alpn'', ''h3'')] @
       (if par_Hysteria2Obfs p \<noteq> []
        then [(''obfs'', ''salamander''), (''obfs-password'', par_Hysteria2Obfs p)] else [])) @
     ''#'' @ PathEscape label"

definition singboxProfile :: "Config \<Rightarrow> Params \<Rightarrow> string \<Rightarrow> string \<Rightarrow> string \<Rightarrow> json" where
  "singboxProfile cfg p serverWGPub clientAddrCIDR psk =
     (let wgPeer = JObj ([(''address'', JStr ''127.0.0.1''), (''port'', JInt (WGEndpointPortInt cfg)),
                          (''public_key'', JStr serverWGPub),
                          (''allowed_ips'', JList [JStr ''0.0.0.0/0'', JStr ''::/0'']),
                          (''persistent_keepalive_interval'', JInt 25)] @
                         (if psk \<noteq> [] then [(''pre_shared_key'', JStr psk)] else []));
          vlessTLS = JObj [(''enabled'', JBool True), (''server_name'', JStr (par_SNI p)),
                           (''utls'', JObj [(''enabled'', JBool True), (''fingerprint'', JStr ''chrome'')]),
                           (''reality'', JObj [(''enabled'', JBool True),
                                               (''public_key'', JStr (par_RealityPublicKey p)),
                                               (''short_id'', JStr (par_RealityShortID p))])];
          hy2TLS = JObj [(''enabled'', JBool True), (''server_name'', JStr (par_SNI p)),
                         (''insecure'', JBool True), (''alpn'', JList [JStr ''h3''])];
          hy2Out = JObj ([(''type'', JStr ''hysteria2''), (''tag'', JStr ''carrier-hysteria2''),
                          (''server'', JStr (par_Host p)), (''server_port'', JInt (par_Hysteria2Port p)),
                          (''password'', JStr (par_Hysteria2Password p)), (''tls'', hy2TLS)] @
                         (if par_Hysteria2Obfs p \<noteq> []
                          then [(''obfs'', JObj [(''type'', JStr ''salamander''),
                                                 (''password'', JStr (par_Hysteria2Obfs p))])]
                          else []))
      in JObj [(''log'', JObj [(''level'', JStr ''warn'')]),
               (''endpoints'', JList [JObj [(''type'', JStr ''wireguard''), (''tag'', JStr ''wg-out''),
                  (''address'', JList [JStr clientAddrCIDR]),
                  (''private_key'', JStr ClientPrivateKeyPlaceholder),
                  (''peers'', JList [wgPeer]), (''detour'', JStr ''carrier-vless'')]]),
               (''outbounds'', JList [JObj [(''type'', JStr ''vless''), (''tag'', JStr ''carrier-vless''),
                  (''server'', JStr (par_Host p)), (''server_port'', JInt (par_VLESSPort p)),
                  (''uuid'', JStr (par_VLESSUUID p)), (''flow'', JStr (par_VLESSFlow p)),
                  (''tls'', vlessTLS)], hy2Out]),
               (''route'', JObj [(''final'', JStr ''wg-out'')])])"

record PeerStealth =
  ps_VLESSURI :: string
  ps_Hysteria2URI :: string
  ps_SingboxProfile :: json

definition BuildPeer :: "Config \<Rightarrow> Secrets option \<Rightarrow> string \<Rightarrow> string \<Rightarrow> string \<Rightarrow> string \<Rightarrow> PeerStealth" where
  "BuildPeer cfg secrets label serverWGPub clientAddrCIDR psk =
     (let p = stealthParams cfg secrets
      in \<lparr>ps_VLESSURI = vlessURI p label, ps_Hysteria2URI = hysteria2URI p label,
          ps_SingboxProfile = singboxProfile cfg p serverWGPub clientAddrCIDR psk\<rparr>)"


section \<open>The secrets over any settings store\<close>

context settings_store
begin

lemma pair_ok:
  assumes "loadOrCreatePair get put fr st = (Inr (priv, pub), st')"
  shows "priv = look st' keyRealityPrivate \<and> pub = look st' keyRealityPublic \<and>
    (if look st keyRealityPrivate \<noteq> [] then look st' = look st
     else \<exists>k p. fr_Key fr = Inr (k, p) \<and> look st' = (look st)(keyRealityPrivate := k, keyRealityPublic := p))"
proof -
  obtain r0 s1 where g: "get st keyRealityPrivate = (r0, s1)" by (rule prod.exhaust)
  have s1: "look s1 = look st" using get_keeps [OF g] .
  obtain p0 where r0: "r0 = Inr p0" using assms g by (cases r0) (auto simp: loadOrCreatePair_def)
  have p0: "p0 = look st keyRealityPrivate" using get_ok g r0 by simp
  show ?thesis
  proof (cases "p0 = []")
    case False
    obtain r5 s5 where g5: "get s1 keyRealityPublic = (r5, s5)" by (rule prod.exhaust)
    then have "r5 = Inr pub" "priv = p0" "st' = s5"
      using assms g r0 False by (cases r5; auto simp: loadOrCreatePair_def)+
    then show ?thesis using False p0 s1 get_keeps [OF g5] get_ok [of s1 keyRealityPublic pub s5] g5 by auto
  next
    case True
    obtain k p where fr: "fr_Key fr = Inr (k, p)"
      using assms g r0 True by (cases "fr_Key fr") (auto simp: loadOrCreatePair_def)
    obtain e2 s2 where a: "put s1 keyRealityPrivate k = (e2, s2)" by (rule prod.exhaust)
    have e2: "e2 = None" using assms g r0 True fr a by (cases e2) (auto simp: loadOrCreatePair_def)
    obtain e3 s3 where b: "put s2 keyRealityPublic p = (e3, s3)" by (rule prod.exhaust)
    have e3: "e3 = None" using assms g r0 True fr a e2 b by (cases e3) (auto simp: loadOrCreatePair_def)
    have s3: "look s3 = (look st)(keyRealityPrivate := k, keyRealityPublic := p)"
      using put_ok [of s1 keyRealityPrivate k s2] put_ok [of s2 keyRealityPublic p s3] a b e2 e3 s1 by simp
    obtain r5 s5 where g5: "get s3 keyRealityPublic = (r5, s5)" by (rule prod.exhaust)
    then have "r5 = Inr pub" "priv = k" "st' = s5"
      using assms g r0 True fr a e2 b e3 by (cases r5; auto simp: loadOrCreatePair_def)+
    then show ?thesis
      using True fr p0 s3 get_keeps [OF g5] get_ok [of s3 keyRealityPublic pub s5] g5 by auto
  qed
qed

lemma secretsE:
  assumes "loadOrCreateSecrets get put fr st = (Inr sec, st')"
  obtains priv pub s1 s2 s3 sid uuid pass where
    "loadOrCreatePair get put fr st = (Inr (priv, pub), s1)"
    "getOrSet get put s1 keyRealityShortID (fr_ShortID fr) = (Inr sid, s2)"
    "getOrSet get put s2 keyVLESSUUID (fr_UUID fr) = (Inr uuid, s3)"
    "getOrSet get put s3 keyHysteria2Pass (fr_Password fr) = (Inr pass, st')"
    "sec = \<lparr>sec_RealityPrivateKey = priv, sec_RealityPublicKey = pub, sec_RealityShortID = sid,
            sec_VLESSUUID = uuid, sec_Hysteria2Password = pass\<rparr>"
  using assms unfolding loadOrCreateSecrets_def
  by (auto split: prod.splits sum.splits)

lemma secrets_stored:
  assumes "loadOrCreateSecrets get put fr st = (Inr sec, st')"
  shows "sec_RealityPrivateKey sec = look st' keyRealityPrivate \<and> sec_RealityPublicKey sec = look st' keyRealityPublic \<and>
    sec_RealityShortID sec = look st' keyRealityShortID \<and> sec_VLESSUUID sec = look st' keyVLESSUUID \<and>
    sec_Hysteria2Password sec = look st' keyHysteria2Pass"
  using assms
proof (rule secretsE)
  fix priv pub s1 s2 s3 sid uuid pass
  assume a: "loadOrCreatePair get put fr st = (Inr (priv, pub), s1)"
    "getOrSet get put s1 keyRealityShortID (fr_ShortID fr) = (Inr sid, s2)"
    "getOrSet get put s2 keyVLESSUUID (fr_UUID fr) = (Inr uuid, s3)"
    "getOrSet get put s3 keyHysteria2Pass (fr_Password fr) = (Inr pass, st')"
    "sec = \<lparr>sec_RealityPrivateKey = priv, sec_RealityPublicKey = pub, sec_RealityShortID = sid,
            sec_VLESSUUID = uuid, sec_Hysteria2Password = pass\<rparr>"
  have "look s2 = (look s1)(keyRealityShortID := sid)" "look s3 = (look s2)(keyVLESSUUID := uuid)"
    "look st' = (look s3)(keyHysteria2Pass := pass)"
    using getOrSet_ok [OF a(2)] getOrSet_ok [OF a(3)] getOrSet_ok [OF a(4)] by blast+
  then show ?thesis using pair_ok [OF a(1)] a(5) by simp
qed

text \<open>Values already there are kept, and only missing ones are taken from the generators.\<close>

lemma secrets_values:
  assumes "loadOrCreateSecrets get put fr st = (Inr sec, st')"
  shows "(look st keyRealityPrivate \<noteq> [] \<longrightarrow>
       look st' keyRealityPrivate = look st keyRealityPrivate \<and> look st' keyRealityPublic = look st keyRealityPublic) \<and>
    look st' keyRealityShortID = (if look st keyRealityShortID \<noteq> [] then look st keyRealityShortID else fr_ShortID fr) \<and>
    look st' keyVLESSUUID = (if look st keyVLESSUUID \<noteq> [] then look st keyVLESSUUID else fr_UUID fr) \<and>
    look st' keyHysteria2Pass = (if look st keyHysteria2Pass \<noteq> [] then look st keyHysteria2Pass else fr_Password fr)"
  using assms
proof (rule secretsE)
  fix priv pub s1 s2 s3 sid uuid pass
  assume a: "loadOrCreatePair get put fr st = (Inr (priv, pub), s1)"
    "getOrSet get put s1 keyRealityShortID (fr_ShortID fr) = (Inr sid, s2)"
    "getOrSet get put s2 keyVLESSUUID (fr_UUID fr) = (Inr uuid, s3)"
    "getOrSet get put s3 keyHysteria2Pass (fr_Password fr) = (Inr pass, st')"
  note g = getOrSet_ok [OF a(2)] getOrSet_ok [OF a(3)] getOrSet_ok [OF a(4)]
  have l: "look s2 = (look s1)(keyRealityShortID := sid)" "look s3 = (look s2)(keyVLESSUUID := uuid)"
    "look st' = (look s3)(keyHysteria2Pass := pass)" using g by blast+
  have v: "sid = (if look s1 keyRealityShortID \<noteq> [] then look s1 keyRealityShortID else fr_ShortID fr)"
    "uuid = (if look s2 keyVLESSUUID \<noteq> [] then look s2 keyVLESSUUID else fr_UUID fr)"
    "pass = (if look s3 keyHysteria2Pass \<noteq> [] then look s3 keyHysteria2Pass else fr_Password fr)"
    using g by blast+
  have s1: "look s1 keyRealityShortID = look st keyRealityShortID" "look s1 keyVLESSUUID = look st keyVLESSUUID"
    "look s1 keyHysteria2Pass = look st keyHysteria2Pass"
    "look st keyRealityPrivate \<noteq> [] \<Longrightarrow> look s1 = look st"
    using pair_ok [OF a(1)] by (auto split: if_splits)
  show ?thesis using l v s1 by simp
qed

end


text \<open>
  Whatever reads and writes of settings keep, the managers keep: tables other than the settings, for
  one.
\<close>

locale settings_frame =
  fixes get :: "'s getter" and put :: "'s setter" and P :: "'s \<Rightarrow> bool"
  assumes get_P: "get st k = (r, st') \<Longrightarrow> P st \<Longrightarrow> P st'"
    and put_P: "put st k v = (oe, st') \<Longrightarrow> P st \<Longrightarrow> P st'"
begin

lemma getOrSet_P: "getOrSet get put st k d = (r, st') \<Longrightarrow> P st \<Longrightarrow> P st'"
  by (auto simp: getOrSet_def dest: get_P put_P split: prod.splits sum.splits option.splits if_splits)

lemma pair_P: "loadOrCreatePair get put fr st = (r, st') \<Longrightarrow> P st \<Longrightarrow> P st'"
  by (auto simp: loadOrCreatePair_def dest: get_P put_P split: prod.splits sum.splits option.splits if_splits)

lemma secrets_P: "loadOrCreateSecrets get put fr st = (r, st') \<Longrightarrow> P st \<Longrightarrow> P st'"
  by (auto simp: loadOrCreateSecrets_def dest: getOrSet_P pair_P split: prod.splits sum.splits)

lemma cert_P: "loadOrCreateCert get put ss st = (r, st') \<Longrightarrow> P st \<Longrightarrow> P st'"
  by (auto simp: loadOrCreateCert_def dest: get_P put_P split: prod.splits sum.splits option.splits if_splits)

lemma SInit_P: "SInit get put fr ss m = (oe, m') \<Longrightarrow> P (sm_st m) \<Longrightarrow> P (sm_st m')"
  by (auto simp: SInit_def dest: secrets_P cert_P split: prod.splits sum.splits)

end


section \<open>Properties\<close>

text \<open>
  C30. The carrier secrets are stable: after one successful load, every later successful load from
  the same settings gives the same five secrets, whatever the generators offer then.
\<close>

theorem loadOrCreateSecrets_stable:
  assumes "loadOrCreateSecrets GetSetting SetSetting fr st = (Inr sec, st1)"
    and "db_look st1 keyRealityPrivate \<noteq> []" "fr_ShortID fr \<noteq> []" "fr_UUID fr \<noteq> []" "fr_Password fr \<noteq> []"
    and "db_look st2 = db_look st1" "loadOrCreateSecrets GetSetting SetSetting fr' st2 = (Inr sec', st3)"
  shows "sec' = sec"
proof -
  have k: "db_look st1 keyRealityShortID \<noteq> []" "db_look st1 keyVLESSUUID \<noteq> []" "db_look st1 keyHysteria2Pass \<noteq> []"
    using db.secrets_values [OF assms(1)] assms(3-5) by (auto split: if_splits)
  have "db_look st3 keyRealityPrivate = db_look st1 keyRealityPrivate"
    "db_look st3 keyRealityPublic = db_look st1 keyRealityPublic"
    "db_look st3 keyRealityShortID = db_look st1 keyRealityShortID"
    "db_look st3 keyVLESSUUID = db_look st1 keyVLESSUUID"
    "db_look st3 keyHysteria2Pass = db_look st1 keyHysteria2Pass"
    using db.secrets_values [OF assms(7)] assms(2,6) k by simp_all
  then show ?thesis
    using db.secrets_stored [OF assms(1)] db.secrets_stored [OF assms(7)] by (intro Secrets.equality) simp_all
qed

lemma box_call_keeps: "box_call m = (e, m') \<Longrightarrow> sm_st m' = sm_st m \<and> sm_secrets m' = sm_secrets m \<and> sm_running m' = sm_running m \<and>
    sm_certPEM m' = sm_certPEM m \<and> sm_keyPEM m' = sm_keyPEM m"
  by (auto simp: box_call_def split: list.splits)

lemma SClose_keeps: "sm_st (snd (SClose m)) = sm_st m \<and> sm_secrets (snd (SClose m)) = sm_secrets m \<and>
    sm_certPEM (snd (SClose m)) = sm_certPEM m \<and> sm_keyPEM (snd (SClose m)) = sm_keyPEM m"
proof -
  obtain e m' where b: "box_call (m\<lparr>sm_instance := None, sm_running := False\<rparr>) = (e, m')" by (rule prod.exhaust)
  then show ?thesis using box_call_keeps [OF b] by (auto simp: SClose_def Let_def split: option.splits)
qed

lemma SStart_keeps: "SStart cfg m = (e, m') \<Longrightarrow> sm_st m' = sm_st m \<and> sm_secrets m' = sm_secrets m"
proof -
  assume s: "SStart cfg m = (e, m')"
  obtain e1 m1 where b1: "box_call m = (e1, m1)" by (rule prod.exhaust)
  obtain e2 m2 where b2: "box_call m1 = (e2, m2)" by (rule prod.exhaust)
  obtain e3 m3 where b3: "box_call m2 = (e3, m3)" by (rule prod.exhaust)
  show ?thesis
    using s b1 b2 b3 box_call_keeps [OF b1] box_call_keeps [OF b2] box_call_keeps [OF b3]
    by (auto simp: SStart_def Let_def split: if_splits option.splits)
qed

lemma SStart_running: "SStart cfg m = (None, m') \<Longrightarrow> cfg_EnableStealth cfg \<Longrightarrow>
   \<exists>sec. sm_secrets m = Some sec \<and> sm_running m' \<and>
     sm_instance m' = Some (serverOptions cfg sec (sm_certPEM m) (sm_keyPEM m))"
  by (auto simp: SStart_def Let_def split: if_splits option.splits prod.splits)

text \<open>
  \<open>RotateReality\<close> replaces the short id and nothing else: on success the stored and the loaded
  secrets differ from the old ones at most in the short id, the key pair is kept, and a manager
  that was running runs again with the new short id.
\<close>

theorem RotateReality_ok:
  assumes "RotateReality cfg SetSetting sid m = (Inr r, m')" "sm_secrets m = Some sec"
  shows "r = sid \<and> sm_secrets m' = Some (sec\<lparr>sec_RealityShortID := sid\<rparr>) \<and>
    db_look (sm_st m') = (db_look (sm_st m))(keyRealityShortID := sid) \<and>
    (sm_running m \<and> cfg_EnableStealth cfg \<longrightarrow> sm_running m' \<and>
       sm_instance m' = Some (serverOptions cfg (sec\<lparr>sec_RealityShortID := sid\<rparr>) (sm_certPEM m) (sm_keyPEM m)))"
proof -
  obtain oe s1 where p: "SetSetting (sm_st m) keyRealityShortID sid = (oe, s1)" by (rule prod.exhaust)
  have oe: "oe = None"
    using assms p by (cases oe) (auto simp: RotateReality_def split: if_splits)
  have look: "db_look s1 = (db_look (sm_st m))(keyRealityShortID := sid)" using db.put_ok p oe by simp
  define m1 where "m1 = m\<lparr>sm_st := s1, sm_secrets := Some (sec\<lparr>sec_RealityShortID := sid\<rparr>)\<rparr>"
  obtain e2 m2 where st: "SStart cfg (snd (SClose m1)) = (e2, m2)" by (rule prod.exhaust)
  have k: "sm_st m2 = s1" "sm_secrets m2 = Some (sec\<lparr>sec_RealityShortID := sid\<rparr>)"
    using SStart_keeps [OF st] SClose_keeps [of m1] by (simp_all add: m1_def)
  have h: "sm_hasStore m" using assms by (auto simp: RotateReality_def split: if_splits)
  show ?thesis
  proof (cases "sm_running m")
    case False
    then have "r = sid" "m' = m1" using assms p oe h by (auto simp: RotateReality_def m1_def Let_def)
    then show ?thesis using False look by (simp add: m1_def)
  next
    case True
    then have "r = sid" "m' = m2" "e2 = None"
      using assms p oe h st by (auto simp: RotateReality_def m1_def Let_def split: option.splits)
    then show ?thesis using k look SStart_running [of cfg "snd (SClose m1)" m2] SClose_keeps [of m1] st
      by (auto simp: m1_def)
  qed
qed

lemma RotateAllSecretsE:
  assumes "RotateAllSecrets cfg get put fr fr' ss m = (None, m')" "sm_secrets m \<noteq> None"
  obtains s2 s3 s4 s5 sec m2 where "put (sm_st m) keyVLESSUUID (fr_UUID fr) = (None, s2)"
    "put s2 keyRealityShortID (fr_ShortID fr) = (None, s3)" "put s3 keyHysteria2Pass (fr_Password fr) = (None, s4)"
    "loadOrCreateSecrets get put fr' s4 = (Inr sec, s5)" "m2 = m\<lparr>sm_st := s5, sm_secrets := Some sec\<rparr>"
    "if sm_running m \<and> cfg_EnableStealth cfg then SStart cfg (snd (SClose m2)) = (None, m')
     else m' = (if sm_running m then snd (SClose m2) else m2)"
  using assms unfolding RotateAllSecrets_def
  by (auto simp: Let_def split: if_splits prod.splits option.splits sum.splits)

text \<open>
  A full rotation that succeeds on an initialised manager installs the three new secrets, keeps
  the REALITY key pair, and if the carriers were running they run again with the new secrets.
\<close>

theorem RotateAllSecrets_ok:
  assumes "RotateAllSecrets cfg GetSetting SetSetting fr fr' ss m = (None, m')" "sm_secrets m \<noteq> None"
    and "db_look (sm_st m) keyRealityPrivate \<noteq> []" "fr_ShortID fr \<noteq> []" "fr_UUID fr \<noteq> []" "fr_Password fr \<noteq> []"
  shows "\<exists>sec. sm_secrets m' = Some sec \<and> sec_VLESSUUID sec = fr_UUID fr \<and> sec_RealityShortID sec = fr_ShortID fr \<and>
    sec_Hysteria2Password sec = fr_Password fr \<and>
    sec_RealityPrivateKey sec = db_look (sm_st m) keyRealityPrivate \<and>
    sec_RealityPublicKey sec = db_look (sm_st m) keyRealityPublic \<and>
    (sm_running m \<and> cfg_EnableStealth cfg \<longrightarrow> sm_running m' \<and>
       sm_instance m' = Some (serverOptions cfg sec (sm_certPEM m) (sm_keyPEM m)))"
  using assms(1,2)
proof (rule RotateAllSecretsE)
  fix s2 s3 s4 s5 sec m2
  assume p: "SetSetting (sm_st m) keyVLESSUUID (fr_UUID fr) = (None, s2)"
    "SetSetting s2 keyRealityShortID (fr_ShortID fr) = (None, s3)"
    "SetSetting s3 keyHysteria2Pass (fr_Password fr) = (None, s4)"
    and l: "loadOrCreateSecrets GetSetting SetSetting fr' s4 = (Inr sec, s5)"
    and m2: "m2 = m\<lparr>sm_st := s5, sm_secrets := Some sec\<rparr>"
    and m': "if sm_running m \<and> cfg_EnableStealth cfg then SStart cfg (snd (SClose m2)) = (None, m')
       else m' = (if sm_running m then snd (SClose m2) else m2)"
  have s4: "db_look s4 = (db_look (sm_st m))(keyVLESSUUID := fr_UUID fr, keyRealityShortID := fr_ShortID fr,
      keyHysteria2Pass := fr_Password fr)"
    using db.put_ok [OF p(1)] db.put_ok [OF p(2)] db.put_ok [OF p(3)] by simp
  have "sm_secrets m' = Some sec"
    using m' SStart_keeps [of cfg "snd (SClose m2)" None m'] SClose_keeps [of m2] m2 by (auto split: if_splits)
  moreover have "sm_running m \<and> cfg_EnableStealth cfg \<longrightarrow> sm_running m' \<and>
      sm_instance m' = Some (serverOptions cfg sec (sm_certPEM m) (sm_keyPEM m))"
    using m' SStart_running [of cfg "snd (SClose m2)" m'] SClose_keeps [of m2] m2 by auto
  ultimately show ?thesis
    using db.secrets_stored [OF l] db.secrets_values [OF l] s4 assms(3-6) by (intro exI [of _ sec]) simp
qed

text \<open>
  A handshake target written as host, colon and port is split into exactly these, and for no
  text is the port other than the default outside 1 to 65535.
\<close>

theorem splitHostPort_roundtrip:
  assumes "1 \<le> p" "p \<le> 65535"
  shows "splitHostPort (host @ '':'' @ Itoa p) dflt = (host, p) \<and>
    (snd (splitHostPort s dflt) = dflt \<or> 1 \<le> snd (splitHostPort s dflt) \<and> snd (splitHostPort s dflt) \<le> 65535)"
proof
  have "CHR '':'' \<notin> set (Itoa p)"
  proof -
    have "\<not> is_digit CHR '':''" by code_simp
    then show ?thesis using dec_nat_no_char [of "CHR '':''" "nat p"] assms by (simp add: Itoa_def)
  qed
  then have "cut_last CHR '':'' (host @ '':'' @ Itoa p) = Some (host, Itoa p)"
    using cut_last_append [of "CHR '':''" "Itoa p" host] by simp
  moreover have "Atoi (Itoa p) = (p, False)"
    using ParseInt_Itoa [of p] assms by (simp add: Atoi_def in_int64_def)
  ultimately show "splitHostPort (host @ '':'' @ Itoa p) dflt = (host, p)"
    using assms by (simp add: splitHostPort_def uint16_def)
  show "snd (splitHostPort s dflt) = dflt \<or> 1 \<le> snd (splitHostPort s dflt) \<and> snd (splitHostPort s dflt) \<le> 65535"
    by (auto simp: splitHostPort_def uint16_def Let_def split: option.splits prod.splits)
qed


section \<open>Witnesses\<close>

definition ex_fresh :: "string \<Rightarrow> Fresh" where
  "ex_fresh x = \<lparr>fr_Key = Inr (''priv'' @ x, ''pub'' @ x), fr_ShortID = ''sid'' @ x, fr_UUID = ''uuid'' @ x,
     fr_Password = ''pass'' @ x\<rparr>"

definition ex_sm :: "Store SManager" where
  "ex_sm = \<lparr>sm_st = fresh_store [], sm_hasStore = True, sm_secrets = None, sm_certPEM = [], sm_keyPEM = [],
     sm_instance = None, sm_running = False, sm_box = []\<rparr>"

definition ex_sm_init :: "Store SManager" where
  "ex_sm_init = snd (SStart ex_config (snd (SInit GetSetting SetSetting (ex_fresh ''1'') (Inr (''c'', ''k'')) ex_sm)))"

lemma ex_fresh_values [simp]:
  "fr_ShortID (ex_fresh x) \<noteq> []" "fr_UUID (ex_fresh x) \<noteq> []" "fr_Password (ex_fresh x) \<noteq> []"
  by (simp_all add: ex_fresh_def)

theorem loadOrCreateSecrets_stable_witness:
  "\<exists>sec st1 st3. loadOrCreateSecrets GetSetting SetSetting (ex_fresh ''1'') (fresh_store []) = (Inr sec, st1) \<and>
     loadOrCreateSecrets GetSetting SetSetting (ex_fresh ''2'') st1 = (Inr sec, st3)"
proof -
  let ?l = "\<lambda>x s. loadOrCreateSecrets GetSetting SetSetting (ex_fresh x) s"
  have "is_ok (fst (?l ''1'' (fresh_store [])))" "is_ok (fst (?l ''2'' (snd (?l ''1'' (fresh_store [])))))"
    and k: "db_look (snd (?l ''1'' (fresh_store []))) keyRealityPrivate \<noteq> []"
    by code_simp+
  then obtain sec st1 sec' st3 where a: "?l ''1'' (fresh_store []) = (Inr sec, st1)" "?l ''2'' st1 = (Inr sec', st3)"
    by (metis is_okE prod.collapse snd_conv)
  have "sec' = sec"
    by (rule loadOrCreateSecrets_stable [OF a(1) _ _ _ _ refl a(2)]) (use k a in simp_all)
  then show ?thesis using a by blast
qed

theorem RotateReality_ok_witness:
  "\<exists>m' sec. sm_secrets ex_sm_init = Some sec \<and> RotateReality ex_config SetSetting ''new'' ex_sm_init = (Inr ''new'', m') \<and>
     sm_secrets m' = Some (sec\<lparr>sec_RealityShortID := ''new''\<rparr>) \<and> sm_running m'"
proof -
  have c: "is_ok (fst (RotateReality ex_config SetSetting ''new'' ex_sm_init)) \<and> sm_secrets ex_sm_init \<noteq> None \<and>
    sm_running ex_sm_init \<and> cfg_EnableStealth ex_config" by code_simp
  then obtain r m' sec where a: "RotateReality ex_config SetSetting ''new'' ex_sm_init = (Inr r, m')"
      "sm_secrets ex_sm_init = Some sec"
    by (metis is_okE prod.collapse option.exhaust)
  from RotateReality_ok [OF a] a c show ?thesis by blast
qed

theorem RotateAllSecrets_ok_witness:
  "\<exists>m' sec. RotateAllSecrets ex_config GetSetting SetSetting (ex_fresh ''2'') (ex_fresh ''3'') (Inr (''c'', ''k'')) ex_sm_init
       = (None, m') \<and> sm_secrets m' = Some sec \<and> sec_VLESSUUID sec = ''uuid2'' \<and> sm_running m'"
proof -
  let ?r = "RotateAllSecrets ex_config GetSetting SetSetting (ex_fresh ''2'') (ex_fresh ''3'') (Inr (''c'', ''k'')) ex_sm_init"
  have c: "fst ?r = None \<and> sm_secrets ex_sm_init \<noteq> None \<and> db_look (sm_st ex_sm_init) keyRealityPrivate \<noteq> [] \<and>
    sm_running ex_sm_init \<and> cfg_EnableStealth ex_config \<and> fr_UUID (ex_fresh ''2'') = ''uuid2''" by code_simp
  then obtain m' where a: "?r = (None, m')" by (metis prod.collapse)
  have n: "sm_secrets ex_sm_init \<noteq> None" "db_look (sm_st ex_sm_init) keyRealityPrivate \<noteq> []" using c by simp_all
  from RotateAllSecrets_ok [OF a n] a c show ?thesis by auto
qed

theorem splitHostPort_roundtrip_witness: "splitHostPort (''www.example.org'' @ '':'' @ Itoa 8443) 443 = (''www.example.org'', 8443)"
  using splitHostPort_roundtrip [of 8443 "''www.example.org''" 443] by simp

end
