(* ===== verification/Carriers.thy ===== *)
theory Carriers
  imports Stealth
begin

text \<open>
  Rotation of the carrier secrets (\<open>src/internal/carriers/rotate.go\<close>): archive hashes of the current
  secrets with a grace expiry, rotate, record hashes of the new ones, and deactivate what has
  expired. The rotator's store and the stealth manager's settings are the same database
  (\<open>sm_st\<close>). The digest, the ids of new rows and the readings of the clock (nanoseconds) are
  arguments.
\<close>

definition hashSecret :: "(u8 list \<Rightarrow> u8 list) \<Rightarrow> string \<Rightarrow> string" where
  "hashSecret sha256 s = hex_encode (sha256 (map of_char s))"

definition materials :: "Params \<Rightarrow> (string \<times> string) list" where
  "materials p = [(''vless_reality'', par_VLESSUUID p), (''hysteria2'', par_Hysteria2Password p),
     (''reality_short_id'', par_RealityShortID p)]"

text \<open>One pass over the three secrets: empty ones are skipped, each other one becomes a row.\<close>

fun recordItems ::
  "(u8 list \<Rightarrow> u8 list) \<Rightarrow> string \<Rightarrow> string \<Rightarrow> int \<Rightarrow> int \<Rightarrow> (string \<times> string) list \<Rightarrow> string list \<Rightarrow> Store \<Rightarrow>
   error option \<times> Store" where
  "recordItems sha256 scope peer created expires [] ids s = (None, s)"
| "recordItems sha256 scope peer created expires ((transport, material) # items) ids s =
     (if material = [] then recordItems sha256 scope peer created expires items ids s
      else case InsertCarrierCredential s
                  \<lparr>cc_ID = [], cc_Transport = transport, cc_SecretHash = hashSecret sha256 material,
                   cc_CreatedAt = created, cc_ExpiresAt = expires, cc_Active = True, cc_Scope = scope,
                   cc_PeerID = peer\<rparr> (hd ids) created of
             (Some e, s') \<Rightarrow> (Some e, s')
           | (None, s') \<Rightarrow> recordItems sha256 scope peer created expires items (tl ids) s')"

definition archiveCurrent ::
  "(u8 list \<Rightarrow> u8 list) \<Rightarrow> Config \<Rightarrow> string \<Rightarrow> string \<Rightarrow> int \<Rightarrow> int \<Rightarrow> string list \<Rightarrow> Store SManager \<Rightarrow>
   error option \<times> Store SManager" where
  "archiveCurrent sha256 cfg scope peer expires now ids m =
     (let p = stealthParams cfg (sm_secrets m)
      in if \<not> par_Enabled p then (None, m)
         else case recordItems sha256 scope peer now expires (materials p) ids (sm_st m) of
                (e, s') \<Rightarrow> (e, m\<lparr>sm_st := s'\<rparr>))"

record Clock =
  clk_now :: int
  clk_grace :: int
  clk_archive :: int

definition unixSec :: "int \<Rightarrow> int" where
  "unixSec ns = ns div 1000000000"

text \<open>
  \<open>clk\<close> holds the three readings of the clock, \<open>ids\<close> and \<open>ids'\<close> the row ids of the archived and the
  new credentials, \<open>fr\<close> and \<open>fr'\<close> the generated secrets.
\<close>

definition Rotate ::
  "(u8 list \<Rightarrow> u8 list) \<Rightarrow> Config \<Rightarrow> Clock \<Rightarrow> int \<Rightarrow> string \<Rightarrow> string list \<Rightarrow> string list \<Rightarrow> Fresh \<Rightarrow> Fresh \<Rightarrow>
   (string \<times> string) result \<Rightarrow> Store SManager option \<Rightarrow> error option \<times> Store SManager option" where
  "Rotate sha256 cfg clk grace0 peer ids ids' fr fr' ss om =
     (case om of
        None \<Rightarrow> (Some (Errorf ''rotator not configured''), None)
      | Some m \<Rightarrow>
          (let grace = (if grace0 \<le> 0 then 86400000000000 else grace0);
               now = unixSec (clk_now clk);
               expires = unixSec (clk_grace clk + grace);
               scope = (if peer \<noteq> [] then ''peer'' else ''node'')
           in case archiveCurrent sha256 cfg scope peer expires (unixSec (clk_archive clk)) ids m of
                (Some e, m1) \<Rightarrow> (Some e, Some m1)
              | (None, m1) \<Rightarrow>
                  (case RotateAllSecrets cfg GetSetting SetSetting fr fr' ss m1 of
                     (Some e, m2) \<Rightarrow> (Some (Wrapf ''rotate secrets: '' e []), Some m2)
                   | (None, m2) \<Rightarrow>
                       (case recordItems sha256 scope peer now 0
                               (materials (stealthParams cfg (sm_secrets m2))) ids' (sm_st m2) of
                          (Some e, s3) \<Rightarrow> (Some e, Some (m2\<lparr>sm_st := s3\<rparr>))
                        | (None, s3) \<Rightarrow>
                            (None, Some (m2\<lparr>sm_st := snd (DeactivateExpiredCarrierCredentials s3 now)\<rparr>))))))"


section \<open>What rotation does to the credential table\<close>

text \<open>\<open>kept now s s'\<close>: every credential that is not past its expiry is still there, unchanged.\<close>

definition kept :: "int \<Rightarrow> Store \<Rightarrow> Store \<Rightarrow> bool" where
  "kept now s s' \<longleftrightarrow> (\<forall>c \<in> set (db_carriers s). cc_expired now c \<or> c \<in> set (db_carriers s'))"

lemma InsertCarrierCredential_rows:
  assumes "InsertCarrierCredential s c i t = (oe, s')"
  shows "set (db_carriers s) \<subseteq> set (db_carriers s')"
  using assms by (auto simp: InsertCarrierCredential_def Let_def split: prod.splits option.splits if_splits elim!: db_callE)

lemma recordItems_rows:
  "recordItems sha256 scope peer created expires items ids s = (oe, s') \<Longrightarrow> set (db_carriers s) \<subseteq> set (db_carriers s')"
proof (induction sha256 scope peer created expires items ids s arbitrary: oe s' rule: recordItems.induct)
  case (2 sha256 scope peer created expires transport material items ids s)
  show ?case
  proof (cases "material = []")
    case True
    then show ?thesis using 2(1) 2(3) by simp
  next
    case False
    obtain e1 s1 where i: "InsertCarrierCredential s
        \<lparr>cc_ID = [], cc_Transport = transport, cc_SecretHash = hashSecret sha256 material,
         cc_CreatedAt = created, cc_ExpiresAt = expires, cc_Active = True, cc_Scope = scope,
         cc_PeerID = peer\<rparr> (hd ids) created = (e1, s1)" by (rule prod.exhaust)
    note rows = InsertCarrierCredential_rows [OF i]
    show ?thesis
    proof (cases e1)
      case None
      then show ?thesis using 2(2) [OF False i [symmetric] None] 2(3) False i rows by auto
    next
      case (Some e)
      then show ?thesis using 2(3) False i rows by auto
    qed
  qed
qed simp

lemma SetSetting_carriers: "SetSetting s k v = (e, s') \<Longrightarrow> db_carriers s' = db_carriers s"
  by (auto simp: SetSetting_def split: prod.splits option.splits elim!: db_callE)

interpretation carrier_rows: settings_frame GetSetting SetSetting "\<lambda>s. db_carriers s = rows" for rows
  by unfold_locales
    (auto simp: GetSetting_def SetSetting_carriers split: prod.splits option.splits elim!: db_callE)

text \<open>A credential without expiry is never deactivated.\<close>

lemma deactivate_keeps:
  assumes "c \<in> set (db_carriers s)" "\<not> cc_expired now c"
  shows "c \<in> set (db_carriers (snd (DeactivateExpiredCarrierCredentials s now)))"
proof -
  obtain oe s1 where b: "db_call s = (oe, s1)" by (rule prod.exhaust)
  then obtain fs where "s1 = s\<lparr>db_faults := fs\<rparr>" by (rule db_callE)
  then show ?thesis using assms b by (force simp: DeactivateExpiredCarrierCredentials_def split: option.splits)
qed


text \<open>\<open>recorded\<close>: the table holds a credential for the secret with this expiry.\<close>

definition recorded :: "(u8 list \<Rightarrow> u8 list) \<Rightarrow> string \<times> string \<Rightarrow> int \<Rightarrow> CarrierCredential list \<Rightarrow> bool" where
  "recorded sha256 item expires cs \<longleftrightarrow>
     (\<exists>c \<in> set cs. cc_Transport c = fst item \<and> cc_SecretHash c = hashSecret sha256 (snd item) \<and>
        cc_ExpiresAt c = expires \<and> (expires = 0 \<longrightarrow> cc_Active c))"

lemma recorded_mono: "recorded h i x cs \<Longrightarrow> set cs \<subseteq> set cs' \<Longrightarrow> recorded h i x cs'"
  by (auto simp: recorded_def)

lemma InsertCarrierCredential_new:
  assumes "InsertCarrierCredential s c i t = (None, s')"
  shows "\<exists>c' \<in> set (db_carriers s'). cc_Transport c' = cc_Transport c \<and> cc_SecretHash c' = cc_SecretHash c \<and>
    cc_ExpiresAt c' = cc_ExpiresAt c \<and> cc_Active c' = cc_Active c"
  using assms by (auto simp: InsertCarrierCredential_def Let_def split: prod.splits option.splits if_splits elim!: db_callE)

lemma recordItems_recorded:
  "recordItems sha256 scope peer created expires items ids s = (None, s') \<Longrightarrow>
   item \<in> set items \<Longrightarrow> snd item \<noteq> [] \<Longrightarrow> recorded sha256 item expires (db_carriers s')"
proof (induction items arbitrary: ids s)
  case (Cons it items)
  obtain transport material where it: "it = (transport, material)" by (cases it)
  show ?case
  proof (cases "material = []")
    case True
    then show ?thesis using Cons it by auto
  next
    case False
    let ?c = "\<lparr>cc_ID = [], cc_Transport = transport, cc_SecretHash = hashSecret sha256 material,
         cc_CreatedAt = created, cc_ExpiresAt = expires, cc_Active = True, cc_Scope = scope, cc_PeerID = peer\<rparr>"
    obtain e1 s1 where i: "InsertCarrierCredential s ?c (hd ids) created = (e1, s1)" by (rule prod.exhaust)
    have e1: "e1 = None" using Cons.prems(1) it False i by (cases e1) auto
    have r: "recordItems sha256 scope peer created expires items (tl ids) s1 = (None, s')"
      using Cons.prems(1) it False i e1 by simp
    show ?thesis
    proof (cases "item = it")
      case True
      have "recorded sha256 item expires (db_carriers s1)"
        using InsertCarrierCredential_new [of s ?c "hd ids" created s1] i e1 it True by (auto simp: recorded_def)
      then show ?thesis using recordItems_rows [OF r] by (rule recorded_mono)
    next
      case False
      then show ?thesis using Cons.IH [OF r] Cons.prems by simp
    qed
  qed
qed simp

lemma recorded_deactivate:
  assumes "recorded sha256 item expires (db_carriers s)"
  shows "recorded sha256 item expires (db_carriers (snd (DeactivateExpiredCarrierCredentials s now)))"
proof -
  obtain oe s1 where b: "db_call s = (oe, s1)" by (rule prod.exhaust)
  then obtain fs where s1: "s1 = s\<lparr>db_faults := fs\<rparr>" by (rule db_callE)
  from assms obtain c where c: "c \<in> set (db_carriers s)" "cc_Transport c = fst item"
      "cc_SecretHash c = hashSecret sha256 (snd item)" "cc_ExpiresAt c = expires" "expires = 0 \<longrightarrow> cc_Active c"
    by (auto simp: recorded_def)
  let ?d = "if cc_expired now c then c\<lparr>cc_Active := False\<rparr> else c"
  have "?d \<in> set (db_carriers (snd (DeactivateExpiredCarrierCredentials s now))) \<or>
        c \<in> set (db_carriers (snd (DeactivateExpiredCarrierCredentials s now)))"
    using c(1) b s1 by (auto simp: DeactivateExpiredCarrierCredentials_def split: option.splits)
  moreover have "cc_Transport ?d = fst item" "cc_SecretHash ?d = hashSecret sha256 (snd item)"
      "cc_ExpiresAt ?d = expires" "expires = 0 \<longrightarrow> cc_Active ?d"
    using c(2-5) by (simp_all add: cc_expired_def)
  ultimately show ?thesis using c(2-5) unfolding recorded_def by blast
qed

lemma RotateAllSecrets_carriers:
  assumes "RotateAllSecrets cfg GetSetting SetSetting fr fr' ss m = (None, m')" "sm_secrets m \<noteq> None"
  shows "db_carriers (sm_st m') = db_carriers (sm_st m)"
  using assms
proof (rule RotateAllSecretsE)
  fix s2 s3 s4 s5 sec m2
  assume p: "SetSetting (sm_st m) keyVLESSUUID (fr_UUID fr) = (None, s2)"
    "SetSetting s2 keyRealityShortID (fr_ShortID fr) = (None, s3)"
    "SetSetting s3 keyHysteria2Pass (fr_Password fr) = (None, s4)"
    and l: "loadOrCreateSecrets GetSetting SetSetting fr' s4 = (Inr sec, s5)"
    and m2: "m2 = m\<lparr>sm_st := s5, sm_secrets := Some sec\<rparr>"
    and m': "if sm_running m \<and> cfg_EnableStealth cfg then SStart cfg (snd (SClose m2)) = (None, m')
       else m' = (if sm_running m then snd (SClose m2) else m2)"
  have "sm_st m' = s5"
    using m' SStart_keeps [of cfg "snd (SClose m2)" None m'] SClose_keeps [of m2] m2 by (auto split: if_splits)
  then show ?thesis
    using SetSetting_carriers [OF p(1)] SetSetting_carriers [OF p(2)] SetSetting_carriers [OF p(3)]
      carrier_rows.secrets_P [OF l refl] by simp
qed

section \<open>Properties\<close>


definition ex_sha :: "u8 list \<Rightarrow> u8 list" where
  "ex_sha bs = bs"

definition ex_clock :: Clock where
  "ex_clock = \<lparr>clk_now = 5000000000, clk_grace = 5000000000, clk_archive = 5000000000\<rparr>"

definition ex_rotate :: "error option \<times> Store SManager option" where
  "ex_rotate = Rotate ex_sha ex_config ex_clock 0 [] [''1'', ''2'', ''3''] [''4'', ''5'', ''6''] (ex_fresh ''2'')
     (ex_fresh ''3'') (Inr (''c'', ''k'')) (Some ex_sm_init)"


text \<open>
  The hash of a secret recorded as new has no expiry, and no rotation ever deactivates it: after
  two rotations the secrets of the first are still listed as active.
\<close>

lemma stale_credential_stays_active:
  assumes "c \<in> set (db_carriers s)" "cc_Active c" "cc_ExpiresAt c = 0"
  shows "c \<in> set (db_carriers (snd (DeactivateExpiredCarrierCredentials s now))) \<and> cc_Active c"
  using deactivate_keeps [OF assms(1), of now] assms(2,3) by (simp add: cc_expired_def)

end
