(* ===== verification/WireGuard.thy ===== *)
theory WireGuard
  imports Settings Config
begin

text \<open>
  The WireGuard manager (\<open>src/internal/wg/\<close>): the server key pair kept in the settings table, the
  rendering of the server and client configuration files, and the synchronisation of the live
  device. The state is the database, the key pair in memory, the configuration file, the peers
  configured on the device and the schedule \<open>wg_os\<close> of failures of calls to the operating system
  (one entry per call, as for the database). Key parsing and key generation belong to the
  \<open>wgctrl\<close> library and are arguments.
\<close>

section \<open>State\<close>

record PeerConfig =
  pc_PublicKey :: "u8 list"
  pc_PresharedKey :: "u8 list option"
  pc_ReplaceAllowedIPs :: bool
  pc_AllowedIPs :: "IPNet list"

record WG =
  wg_st :: Store
  wg_privateKey :: string
  wg_publicKey :: string
  wg_file :: "string option"
  wg_device :: "PeerConfig list"
  wg_up :: bool
  wg_os :: "string option list"

definition os_call :: "WG \<Rightarrow> error option \<times> WG" where
  "os_call w =
     (case wg_os w of
        [] \<Rightarrow> (None, w)
      | f # fs \<Rightarrow> (map_option Errorf f, w\<lparr>wg_os := fs\<rparr>))"

definition settingServerPrivateKey :: string where
  "settingServerPrivateKey = ''wg_server_private_key''"

definition settingServerPublicKey :: string where
  "settingServerPublicKey = ''wg_server_public_key''"


section \<open>Templates\<close>

definition PrivateKeyPlaceholder :: string where
  "PrivateKeyPlaceholder = ''REPLACE_WITH_PRIVATE_KEY''"

record serverTplData =
  tpl_Address :: string
  tpl_ListenPort :: int
  tpl_PrivateKey :: string
  tpl_MTU :: int
  tpl_PreUp :: string
  tpl_PostUp :: string
  tpl_PreDown :: string
  tpl_PostDown :: string
  tpl_Peers :: "Peer list"

record clientTplData =
  ctpl_Address :: string
  ctpl_DNS :: string
  ctpl_ServerPublicKey :: string
  ctpl_PresharedKey :: string
  ctpl_Endpoint :: string

text \<open>A line that appears only when its value is set; \<open>{{-\<close> eats the newline before the action.\<close>

definition optLine :: "string \<Rightarrow> string \<Rightarrow> string" where
  "optLine name v = (if v = [] then [] else NL @ name @ '' = '' @ v)"

definition peerSection :: "Peer \<Rightarrow> string" where
  "peerSection p =
     (if peer_Enabled p
      then NL @ ''# '' @ peer_Name p @ '' / '' @ peer_Wallet p @ '' / id='' @ peer_ID p @ NL @ ''[Peer]'' @ NL @
           ''PublicKey = '' @ peer_WGPublicKey p @ optLine ''PresharedKey'' (peer_WGPresharedKey p) @ NL @
           ''AllowedIPs = '' @ peer_WGAllowedIP p @ NL
      else [])"

definition renderServer :: "serverTplData \<Rightarrow> string" where
  "renderServer d =
     ''# Erebrus wg0 '' @ [CHR 0xE2, CHR 0x80, CHR 0x94] @ '' generated, do not edit by hand'' @ NL @
     ''[Interface]'' @ NL @
     ''Address = '' @ tpl_Address d @ NL @
     ''ListenPort = '' @ Itoa (tpl_ListenPort d) @ NL @
     ''PrivateKey = '' @ tpl_PrivateKey d @
     (if tpl_MTU d = 0 then [] else NL @ ''MTU = '' @ Itoa (tpl_MTU d)) @
     optLine ''PreUp'' (tpl_PreUp d) @ optLine ''PostUp'' (tpl_PostUp d) @
     optLine ''PreDown'' (tpl_PreDown d) @ optLine ''PostDown'' (tpl_PostDown d) @ NL @
     concat (map peerSection (tpl_Peers d))"

definition renderClient :: "clientTplData \<Rightarrow> string" where
  "renderClient d =
     ''[Interface]'' @ NL @
     ''Address = '' @ ctpl_Address d @ NL @
     ''PrivateKey = '' @ PrivateKeyPlaceholder @ optLine ''DNS'' (ctpl_DNS d) @ NL @ NL @
     ''[Peer]'' @ NL @
     ''PublicKey = '' @ ctpl_ServerPublicKey d @ optLine ''PresharedKey'' (ctpl_PresharedKey d) @ NL @
     ''AllowedIPs = 0.0.0.0/0, ::/0'' @ NL @
     ''Endpoint = '' @ ctpl_Endpoint d @ NL @
     ''PersistentKeepalive = 16'' @ NL"


section \<open>The controller\<close>

text \<open>The peer configurations \<open>SyncPeers\<close> builds; the first bad peer ends the loop with its error.\<close>

fun peerConfigs :: "(string \<Rightarrow> u8 list result) \<Rightarrow> Peer list \<Rightarrow> PeerConfig list result" where
  "peerConfigs ParseKey [] = Inr []"
| "peerConfigs ParseKey (p # ps) =
     (if \<not> peer_Enabled p then peerConfigs ParseKey ps
      else case ParseKey (peer_WGPublicKey p) of
             Inl e \<Rightarrow> Inl (Wrapf (''peer '' @ peer_ID p @ '' bad public key: '') e [])
           | Inr pub \<Rightarrow>
               (case (if peer_WGPresharedKey p \<noteq> [] then map_sum id Some (ParseKey (peer_WGPresharedKey p))
                      else Inr None) of
                  Inl e \<Rightarrow> Inl (Wrapf (''peer '' @ peer_ID p @ '' bad preshared key: '') e [])
                | Inr psk \<Rightarrow>
                    (case ParseCIDR (peer_WGAllowedIP p) of
                       None \<Rightarrow> Inl (Wrapf (''peer '' @ peer_ID p @ '' bad allowed ip: '')
                                  (Errorf (''invalid CIDR address: '' @ peer_WGAllowedIP p)) [])
                     | Some (_, ipnet) \<Rightarrow>
                         (case peerConfigs ParseKey ps of
                            Inl e \<Rightarrow> Inl e
                          | Inr pcs \<Rightarrow>
                              Inr (\<lparr>pc_PublicKey = pub, pc_PresharedKey = psk, pc_ReplaceAllowedIPs = True,
                                    pc_AllowedIPs = [ipnet]\<rparr> # pcs)))))"

text \<open>Opening the control socket and configuring the device are the calls that can fail.\<close>

definition SyncPeers :: "(string \<Rightarrow> u8 list result) \<Rightarrow> WG \<Rightarrow> Peer list \<Rightarrow> error option \<times> WG" where
  "SyncPeers ParseKey w peers =
     (case os_call w of
        (Some e, w1) \<Rightarrow> (Some e, w1)
      | (None, w1) \<Rightarrow>
          (case peerConfigs ParseKey peers of
             Inl e \<Rightarrow> (Some e, w1)
           | Inr pcs \<Rightarrow>
               (case os_call w1 of
                  (Some e, w2) \<Rightarrow> (Some e, w2)
                | (None, w2) \<Rightarrow> (None, w2\<lparr>wg_device := pcs\<rparr>))))"

text \<open>\<open>wg-quick down\<close> is tried first and its failure ignored.\<close>

definition BringUp :: "WG \<Rightarrow> error option \<times> WG" where
  "BringUp w =
     (case os_call (snd (os_call (w\<lparr>wg_up := False\<rparr>))) of
        (Some e, w1) \<Rightarrow> (Some (Errorf (''wg-quick up: '' @ Error e)), w1)
      | (None, w1) \<Rightarrow> (None, w1\<lparr>wg_up := True\<rparr>))"

record DevicePeer =
  dp_PublicKey :: string
  dp_ReceiveBytes :: int
  dp_TransmitBytes :: int
  dp_LastHandshake :: "int option"

record DeviceStats =
  ds_RxBytes :: int
  ds_TxBytes :: int
  ds_Connected :: int

record PeerTransfer =
  pt_WGPublicKey :: string
  pt_RxBytes :: int
  pt_TxBytes :: int
  pt_LastHandshake :: int

text \<open>The counters of the device, as read at time \<open>now\<close>; times are nanoseconds since the epoch and \<open>None\<close> is a zero handshake time.\<close>

definition sumStats :: "int \<Rightarrow> DevicePeer list \<Rightarrow> DeviceStats" where
  "sumStats now ps =
     foldl (\<lambda>st p. \<lparr>ds_RxBytes = int64 (ds_RxBytes st + dp_ReceiveBytes p),
                    ds_TxBytes = int64 (ds_TxBytes st + dp_TransmitBytes p),
                    ds_Connected = (case dp_LastHandshake p of
                        Some t \<Rightarrow> if now - 180000000000 < t then ds_Connected st + 1 else ds_Connected st
                      | None \<Rightarrow> ds_Connected st)\<rparr>)
       \<lparr>ds_RxBytes = 0, ds_TxBytes = 0, ds_Connected = 0\<rparr> ps"

definition ctrlStats :: "int \<Rightarrow> DevicePeer list result \<Rightarrow> DeviceStats result" where
  "ctrlStats now dev = map_sum id (sumStats now) dev"

definition ctrlPeerTransfers :: "DevicePeer list result \<Rightarrow> PeerTransfer list result" where
  "ctrlPeerTransfers dev =
     map_sum id (map (\<lambda>p. \<lparr>pt_WGPublicKey = dp_PublicKey p, pt_RxBytes = dp_ReceiveBytes p,
        pt_TxBytes = dp_TransmitBytes p,
        pt_LastHandshake = (case dp_LastHandshake p of Some t \<Rightarrow> t div 1000000000 | None \<Rightarrow> 0)\<rparr>)) dev"


section \<open>The manager\<close>

definition Endpoint :: "Config \<Rightarrow> string" where
  "Endpoint cfg = cfg_WGEndpointHost cfg @ '':'' @ cfg_WGEndpointPort cfg"

definition Stats :: "int \<Rightarrow> DevicePeer list result \<Rightarrow> DeviceStats" where
  "Stats now dev = (case ctrlStats now dev of
      Inl _ \<Rightarrow> \<lparr>ds_RxBytes = 0, ds_TxBytes = 0, ds_Connected = 0\<rparr> | Inr st \<Rightarrow> st)"

definition PeerTransfers :: "DevicePeer list result \<Rightarrow> PeerTransfer list" where
  "PeerTransfers dev = (case ctrlPeerTransfers dev of Inl _ \<Rightarrow> [] | Inr pt \<Rightarrow> pt)"

definition serverAddress :: "Config \<Rightarrow> string" where
  "serverAddress cfg =
     (case ParseCIDR (cfg_WGIPv4Subnet cfg) of
        None \<Rightarrow> cfg_WGIPv4Subnet cfg
      | Some (ip, ipnet) \<Rightarrow> IP_String ip @ ''/'' @ dec_nat (mask_ones (net_Mask ipnet)))"

definition confPath :: "Config \<Rightarrow> string" where
  "confPath cfg =
     (let name = (if HasSuffix (cfg_WGInterface cfg) ''.conf'' then cfg_WGInterface cfg
                  else cfg_WGInterface cfg @ ''.conf'')
      in JoinPath [cfg_WGConfDir cfg, name])"

text \<open>\<open>newKey\<close> is what \<open>wgtypes.GeneratePrivateKey\<close> yields: private and public key as text.\<close>

definition loadOrCreateKeys :: "(string \<times> string) result \<Rightarrow> WG \<Rightarrow> error option \<times> WG" where
  "loadOrCreateKeys newKey w =
     (case GetSetting (wg_st w) settingServerPrivateKey of
        (Inl e, s1) \<Rightarrow> (Some e, w\<lparr>wg_st := s1\<rparr>)
      | (Inr priv0, s1) \<Rightarrow>
          (let created =
             (if priv0 = [] then
                (case newKey of
                   Inl e \<Rightarrow> (Inl e, s1)
                 | Inr (priv, pub) \<Rightarrow>
                     (case SetSetting s1 settingServerPrivateKey priv of
                        (Some e, s2) \<Rightarrow> (Inl e, s2)
                      | (None, s2) \<Rightarrow>
                          (case SetSetting s2 settingServerPublicKey pub of
                             (Some e, s3) \<Rightarrow> (Inl e, s3)
                           | (None, s3) \<Rightarrow> (Inr priv, s3))))
              else (Inr priv0, s1))
           in case created of
                (Inl e, s4) \<Rightarrow> (Some e, w\<lparr>wg_st := s4\<rparr>)
              | (Inr priv, s4) \<Rightarrow>
                  (case GetSetting s4 settingServerPublicKey of
                     (Inl e, s5) \<Rightarrow> (Some e, w\<lparr>wg_st := s5\<rparr>)
                   | (Inr pub, s5) \<Rightarrow>
                       (None, w\<lparr>wg_st := s5, wg_privateKey := priv, wg_publicKey := pub\<rparr>))))"

definition serverData :: "Config \<Rightarrow> string \<Rightarrow> Peer list \<Rightarrow> serverTplData" where
  "serverData cfg priv peers =
     \<lparr>tpl_Address = serverAddress cfg, tpl_ListenPort = WGEndpointPortInt cfg, tpl_PrivateKey = priv,
      tpl_MTU = 0, tpl_PreUp = cfg_WGPreUp cfg, tpl_PostUp = cfg_WGPostUp cfg,
      tpl_PreDown = cfg_WGPreDown cfg, tpl_PostDown = cfg_WGPostDown cfg, tpl_Peers = peers\<rparr>"

definition writeServerConf :: "Config \<Rightarrow> WG \<Rightarrow> error option \<times> WG" where
  "writeServerConf cfg w =
     (case ListPeers (wg_st w) of
        (Inl e, s1) \<Rightarrow> (Some e, w\<lparr>wg_st := s1\<rparr>)
      | (Inr peers, s1) \<Rightarrow>
          (let w1 = w\<lparr>wg_st := s1\<rparr>
           in case os_call w1 of
                (Some e, w2) \<Rightarrow> (Some e, w2)
              | (None, w2) \<Rightarrow>
                  (None, w2\<lparr>wg_file := Some (renderServer (serverData cfg (wg_privateKey w) peers))\<rparr>)))"

definition Init :: "Config \<Rightarrow> (string \<times> string) result \<Rightarrow> WG \<Rightarrow> error option \<times> WG" where
  "Init cfg newKey w =
     (case loadOrCreateKeys newKey w of
        (Some e, w1) \<Rightarrow> (Some e, w1)
      | (None, w1) \<Rightarrow>
          (case os_call w1 of
             (Some e, w2) \<Rightarrow> (Some e, w2)
           | (None, w2) \<Rightarrow>
               (case writeServerConf cfg w2 of
                  (Some e, w3) \<Rightarrow> (Some e, w3)
                | (None, w3) \<Rightarrow> BringUp w3)))"

definition Apply :: "Config \<Rightarrow> (string \<Rightarrow> u8 list result) \<Rightarrow> WG \<Rightarrow> error option \<times> WG" where
  "Apply cfg ParseKey w =
     (case writeServerConf cfg w of
        (Some e, w1) \<Rightarrow> (Some e, w1)
      | (None, w1) \<Rightarrow>
          (case ListPeers (wg_st w1) of
             (Inl e, s2) \<Rightarrow> (Some e, w1\<lparr>wg_st := s2\<rparr>)
           | (Inr peers, s2) \<Rightarrow> SyncPeers ParseKey (w1\<lparr>wg_st := s2\<rparr>) peers))"

definition ClientConfig :: "Config \<Rightarrow> WG \<Rightarrow> Peer \<Rightarrow> string" where
  "ClientConfig cfg w p =
     renderClient \<lparr>ctpl_Address = peer_WGAllowedIP p, ctpl_DNS = cfg_WGDNS cfg,
       ctpl_ServerPublicKey = wg_publicKey w, ctpl_PresharedKey = peer_WGPresharedKey p,
       ctpl_Endpoint = Endpoint cfg\<rparr>"


section \<open>Calls\<close>

lemma os_callE:
  assumes "os_call w = (oe, w')"
  obtains fs where "w' = w\<lparr>wg_os := fs\<rparr>"
proof (cases "wg_os w")
  case Nil
  then have "w' = w\<lparr>wg_os := wg_os w\<rparr>" using assms by (simp add: os_call_def)
  then show thesis by (rule that)
next
  case (Cons f fs)
  then have "w' = w\<lparr>wg_os := fs\<rparr>" using assms by (simp add: os_call_def)
  then show thesis by (rule that)
qed

lemma os_call_ok [simp]: "wg_os w = [] \<Longrightarrow> os_call w = (None, w)"
  by (simp add: os_call_def)

abbreviation listed :: "Store \<Rightarrow> Peer list" where
  "listed s \<equiv> map scanPeer (sort_key col_created_at (db_peers s))"

lemma ListPeersE:
  assumes "ListPeers s = (r, s')"
  obtains (fault) e fs where "r = Inl e" "s' = s\<lparr>db_faults := fs\<rparr>"
  | (ok) fs where "r = Inr (listed s)" "s' = s\<lparr>db_faults := fs\<rparr>"
proof -
  obtain oe s1 where c: "db_call s = (oe, s1)" by (rule prod.exhaust)
  then obtain fs where s1: "s1 = s\<lparr>db_faults := fs\<rparr>" by (rule db_callE)
  show thesis
  proof (cases oe)
    case (Some e)
    show thesis by (rule fault [of e fs]) (use assms c s1 Some in \<open>simp_all add: ListPeers_def\<close>)
  next
    case None
    show thesis by (rule ok [of fs]) (use assms c s1 None in \<open>simp_all add: ListPeers_def\<close>)
  qed
qed

lemma writeServerConfE:
  assumes "writeServerConf cfg w = (oe, w')"
  obtains (failed) e fs gs where "oe = Some e" "w' = w\<lparr>wg_st := (wg_st w)\<lparr>db_faults := fs\<rparr>, wg_os := gs\<rparr>"
  | (ok) fs gs where "oe = None"
      "w' = w\<lparr>wg_st := (wg_st w)\<lparr>db_faults := fs\<rparr>, wg_os := gs,
             wg_file := Some (renderServer (serverData cfg (wg_privateKey w) (listed (wg_st w))))\<rparr>"
proof -
  obtain r s1 where l: "ListPeers (wg_st w) = (r, s1)" by (rule prod.exhaust)
  then show thesis
  proof (cases rule: ListPeersE)
    case (fault e fs)
    show thesis
      by (rule failed [where e = e and fs = fs and gs = "wg_os w"]) (use assms l fault in \<open>auto simp: writeServerConf_def\<close>)
  next
    case l_ok: (ok fs)
    obtain oe2 w2 where c: "os_call (w\<lparr>wg_st := s1\<rparr>) = (oe2, w2)" by (rule prod.exhaust)
    then obtain gs where w2: "w2 = w\<lparr>wg_st := s1, wg_os := gs\<rparr>" by (rule os_callE) simp
    show thesis
    proof (cases oe2)
      case (Some e)
      show thesis
        by (rule failed [where e = e and fs = fs and gs = gs]) (use assms l l_ok c w2 Some in \<open>simp_all add: writeServerConf_def\<close>)
    next
      case None
      show thesis
        by (rule ok [where fs = fs and gs = gs]) (use assms l l_ok c w2 None in \<open>simp_all add: writeServerConf_def\<close>)
    qed
  qed
qed

text \<open>How synchronising the live peers can end.\<close>

lemma SyncPeersE:
  assumes "SyncPeers ParseKey w peers = (oe, w')"
  obtains (failed) e gs where "oe = Some e" "w' = w\<lparr>wg_os := gs\<rparr>"
  | (ok) pcs gs where "oe = None" "peerConfigs ParseKey peers = Inr pcs" "w' = w\<lparr>wg_os := gs, wg_device := pcs\<rparr>"
proof -
  obtain oe1 w1 where c1: "os_call w = (oe1, w1)" by (rule prod.exhaust)
  then obtain gs1 where w1: "w1 = w\<lparr>wg_os := gs1\<rparr>" by (rule os_callE)
  obtain oe2 w2 where c2: "os_call w1 = (oe2, w2)" by (rule prod.exhaust)
  then obtain gs2 where w2: "w2 = w1\<lparr>wg_os := gs2\<rparr>" by (rule os_callE)
  note d = SyncPeers_def c1 c2 w1 w2
  show thesis
  proof (cases "oe1 = None \<and> oe2 = None \<and> (\<exists>pcs. peerConfigs ParseKey peers = Inr pcs)")
    case True
    then obtain pcs where "peerConfigs ParseKey peers = Inr pcs" by blast
    then show thesis
      using True assms c1 c2 w1 w2 by (intro ok [of pcs gs2]) (simp_all add: SyncPeers_def)
  next
    case False
    show thesis
    proof (cases oe1)
      case (Some e)
      then show thesis using assms c1 w1 by (intro failed [of e gs1]) (simp_all add: SyncPeers_def)
    next
      case None
      show thesis
      proof (cases "peerConfigs ParseKey peers")
        case (Inl e)
        then show thesis using assms c1 w1 None by (intro failed [of e gs1]) (simp_all add: SyncPeers_def)
      next
        case (Inr pcs)
        then obtain e where "oe2 = Some e" using False None by auto
        then show thesis
          using assms c1 c2 w1 w2 None Inr by (intro failed [of e gs2]) (simp_all add: SyncPeers_def)
      qed
    qed
  qed
qed

lemma ApplyE:
  assumes "Apply cfg ParseKey w = (oe, w')"
  obtains (failed) e where "oe = Some e" "wg_device w' = wg_device w"
      "wg_st w' = (wg_st w)\<lparr>db_faults := db_faults (wg_st w')\<rparr>"
      "wg_privateKey w' = wg_privateKey w" "wg_publicKey w' = wg_publicKey w"
  | (ok) pcs where "oe = None" "peerConfigs ParseKey (listed (wg_st w)) = Inr pcs" "wg_device w' = pcs"
      "wg_file w' = Some (renderServer (serverData cfg (wg_privateKey w) (listed (wg_st w))))"
      "wg_st w' = (wg_st w)\<lparr>db_faults := db_faults (wg_st w')\<rparr>"
      "wg_privateKey w' = wg_privateKey w" "wg_publicKey w' = wg_publicKey w"
proof -
  obtain oe1 w1 where a: "writeServerConf cfg w = (oe1, w1)" by (rule prod.exhaust)
  then show thesis
  proof (cases rule: writeServerConfE)
    case (failed e fs gs)
    then show thesis using assms a by (intro that(1) [of e]) (auto simp: Apply_def)
  next
    case w1: (ok fs gs)
    obtain r s2 where l: "ListPeers (wg_st w1) = (r, s2)" by (rule prod.exhaust)
    then show thesis
    proof (cases rule: ListPeersE)
      case (fault e fs')
      then show thesis using assms a l w1 by (intro that(1) [of e]) (auto simp: Apply_def)
    next
      case l_ok: (ok fs')
      have "SyncPeers ParseKey (w1\<lparr>wg_st := s2\<rparr>) (listed (wg_st w1)) = (oe, w')"
        using assms a l l_ok w1 by (simp add: Apply_def)
      then show thesis
      proof (cases rule: SyncPeersE)
        case (failed e gs')
        then show thesis using l_ok w1 by (intro that(1) [of e]) simp_all
      next
        case (ok pcs gs')
        then show thesis using l_ok w1 by (intro that(2) [of pcs]) simp_all
      qed
    qed
  qed
qed


section \<open>The peers on the device\<close>

text \<open>\<open>configures ParseKey p c\<close>: \<open>c\<close> is the device's configuration for the peer \<open>p\<close>.\<close>

definition configures :: "(string \<Rightarrow> u8 list result) \<Rightarrow> Peer \<Rightarrow> PeerConfig \<Rightarrow> bool" where
  "configures ParseKey p c \<longleftrightarrow>
     ParseKey (peer_WGPublicKey p) = Inr (pc_PublicKey c) \<and>
     (peer_WGPresharedKey p = [] \<longrightarrow> pc_PresharedKey c = None) \<and>
     (peer_WGPresharedKey p \<noteq> [] \<longrightarrow>
        (\<exists>k. ParseKey (peer_WGPresharedKey p) = Inr k \<and> pc_PresharedKey c = Some k)) \<and>
     (\<exists>ip net. ParseCIDR (peer_WGAllowedIP p) = Some (ip, net) \<and> pc_AllowedIPs c = [net])"

lemma peerConfigs_configures:
  "peerConfigs ParseKey ps = Inr cs \<Longrightarrow> list_all2 (configures ParseKey) (filter peer_Enabled ps) cs"
proof (induction ps arbitrary: cs)
  case (Cons p ps)
  show ?case
  proof (cases "peer_Enabled p")
    case False
    then show ?thesis using Cons by simp
  next
    case True
    with Cons.prems Cons.IH show ?thesis
      by (cases "peer_WGPresharedKey p = []"; cases "ParseKey (peer_WGPresharedKey p)")
        (auto simp: configures_def split: sum.splits option.splits)
  qed
qed simp

text \<open>One enabled peer whose key does not parse spoils the whole list.\<close>

lemma peerConfigs_bad_key:
  "p \<in> set ps \<Longrightarrow> peer_Enabled p \<Longrightarrow> ParseKey (peer_WGPublicKey p) = Inl e \<Longrightarrow>
   \<exists>e'. peerConfigs ParseKey ps = Inl e'"
  by (induction ps) (auto split: sum.splits option.splits if_splits)

lemma peerConfigs_good:
  assumes "\<And>p. p \<in> set ps \<Longrightarrow> peer_Enabled p \<Longrightarrow>
      (\<exists>k. ParseKey (peer_WGPublicKey p) = Inr k) \<and>
      (peer_WGPresharedKey p \<noteq> [] \<longrightarrow> (\<exists>k. ParseKey (peer_WGPresharedKey p) = Inr k)) \<and>
      ParseCIDR (peer_WGAllowedIP p) \<noteq> None"
  shows "\<exists>cs. peerConfigs ParseKey ps = Inr cs"
  using assms
proof (induction ps)
  case (Cons p ps)
  then obtain cs where cs: "peerConfigs ParseKey ps = Inr cs" by auto
  show ?case
  proof (cases "peer_Enabled p")
    case True
    with Cons.prems [of p] cs show ?thesis by (cases "peer_WGPresharedKey p = []") auto
  qed (simp add: cs)
qed simp

lemma ParseCIDR_host:
  assumes "length ip = 4"
  shows "ParseCIDR (v4_string ip @ ''/32'') = Some (As16 ip, \<lparr>net_IP = ip, net_Mask = replicate 4 255\<rparr>)"
proof -
  have d: "dec_nat 32 = ''32''" by code_simp
  have m: "cidr_bytes 4 32 = replicate 4 255" by code_simp
  have ff: "(255 :: u8) = - 1" by simp
  have "map2 (AND) ip (replicate 4 (255 :: u8)) = ip"
    unfolding ff by (rule length4E [OF assms]) (simp add: numeral_eq_Suc)
  then show ?thesis
    using ParseCIDR_v4_string [OF assms, of 32] IP_Mask_As16 [OF assms, of 32]
    by (simp add: d m CIDRMask_def)
qed

lemma host_cidr_parse:
  assumes "host_cidr subnet c"
  obtains ip where "length ip = 4" "c = v4_string ip @ ''/32''"
    "ParseCIDR c = Some (As16 ip, \<lparr>net_IP = ip, net_Mask = replicate 4 255\<rparr>)"
proof -
  from assms obtain ip where "length ip = 4" "c = v4_string ip @ ''/32''" by (auto simp: host_cidr_def)
  then show thesis using that [of ip] ParseCIDR_host by simp
qed

lemma distinct_listed_ips:
  assumes "peers_unique (db_peers s)"
  shows "distinct (map peer_WGAllowedIP (listed s))"
proof -
  have e: "map peer_WGAllowedIP (listed s) = map col_wg_allowed_ip (sort_key col_created_at (db_peers s))"
    by (simp add: scanPeer_def)
  have "distinct (map col_wg_allowed_ip (db_peers s))" using assms by (simp add: peers_unique_def)
  then show ?thesis unfolding e by (simp add: distinct_map)
qed

lemma configured_nets_distinct:
  assumes "list_all2 (configures ParseKey) ps cs" "distinct (map peer_WGAllowedIP ps)"
    and "\<forall>p \<in> set ps. host_cidr subnet (peer_WGAllowedIP p)"
  shows "distinct (map pc_AllowedIPs cs)"
proof (unfold distinct_conv_nth, intro allI impI)
  fix i j assume ij: "i < length (map pc_AllowedIPs cs)" "j < length (map pc_AllowedIPs cs)" "i \<noteq> j"
  have len: "length ps = length cs" using assms(1) by (rule list_all2_lengthD)
  have c: "\<exists>ip. length ip = 4 \<and> peer_WGAllowedIP (ps ! k) = v4_string ip @ ''/32'' \<and>
      pc_AllowedIPs (cs ! k) = [\<lparr>net_IP = ip, net_Mask = replicate 4 255\<rparr>]" if k: "k < length cs" for k
  proof -
    have h: "host_cidr subnet (peer_WGAllowedIP (ps ! k))" using assms(3) k len by simp
    have "configures ParseKey (ps ! k) (cs ! k)" using assms(1) k len by (simp add: list_all2_nthD)
    then show ?thesis using h by (auto simp: configures_def elim!: host_cidr_parse)
  qed
  have "peer_WGAllowedIP (ps ! i) \<noteq> peer_WGAllowedIP (ps ! j)"
    using assms(2) ij len by (auto simp: distinct_conv_nth)
  with c [of i] c [of j] ij show "map pc_AllowedIPs cs ! i \<noteq> map pc_AllowedIPs cs ! j" by auto
qed


section \<open>Lines of the configuration file\<close>

definition oneLine :: "string \<Rightarrow> bool" where
  "oneLine s \<longleftrightarrow> CHR 0x0A \<notin> set s"

definition peerHeaders :: "string \<Rightarrow> nat" where
  "peerHeaders s = length (filter (\<lambda>l. l = ''[Peer]'') (Split s CHR 0x0A))"

lemma Split_append: "Split (a @ sep # b) sep = Split a sep @ Split b sep"
proof (induction a)
  case (Cons c a)
  then show ?case by (cases "Split a sep") auto
qed simp

lemma peerHeaders_append [simp]: "peerHeaders (a @ CHR 0x0A # b) = peerHeaders a + peerHeaders b"
  by (simp add: peerHeaders_def Split_append)

lemma peerHeaders_newline [simp]: "peerHeaders (CHR 0x0A # b) = peerHeaders b"
  using peerHeaders_append [of "[]" b] by (simp add: peerHeaders_def)

lemma peerHeaders_line: "oneLine s \<Longrightarrow> peerHeaders s = (if s = ''[Peer]'' then 1 else 0)"
  by (simp add: peerHeaders_def oneLine_def Split_nosep)

lemma peerHeaders_key:
  assumes "oneLine s" "hd (k @ s) \<noteq> CHR ''[''" "oneLine k"
  shows "peerHeaders (k @ s) = 0"
  using assms peerHeaders_line [of "k @ s"] by (auto simp: oneLine_def)

lemma peerHeaders_optLine:
  assumes "oneLine v" "oneLine k" "k \<noteq> []" "hd k \<noteq> CHR ''[''" "oneLine s"
  shows "peerHeaders (s @ optLine k v) = peerHeaders s"
proof (cases "v = []")
  case False
  have "peerHeaders (k @ '' = '' @ v) = 0"
    using assms by (intro peerHeaders_key) (auto simp: oneLine_def)
  then show ?thesis using False by (simp add: optLine_def)
qed (simp add: optLine_def)

definition cleanPeer :: "Peer \<Rightarrow> bool" where
  "cleanPeer p \<longleftrightarrow> oneLine (peer_Name p) \<and> oneLine (peer_Wallet p) \<and> oneLine (peer_ID p) \<and>
     oneLine (peer_WGPublicKey p) \<and> oneLine (peer_WGPresharedKey p) \<and> oneLine (peer_WGAllowedIP p)"

lemma oneLine_lits [simp]:
  "oneLine []" "oneLine (c # s) \<longleftrightarrow> c \<noteq> CHR 0x0A \<and> oneLine s" "oneLine (a @ b) \<longleftrightarrow> oneLine a \<and> oneLine b"
  by (auto simp: oneLine_def)

lemma peerHeaders_section:
  assumes "cleanPeer p" "peer_Enabled p"
  shows "peerHeaders (peerSection p @ rest) = 1 + peerHeaders rest"
proof -
  have c: "peerHeaders (''# '' @ peer_Name p @ '' / '' @ peer_Wallet p @ '' / id='' @ peer_ID p) = 0"
    using assms peerHeaders_line [of "''# '' @ peer_Name p @ '' / '' @ peer_Wallet p @ '' / id='' @ peer_ID p"]
    by (simp add: cleanPeer_def)
  have k: "peerHeaders (''PublicKey = '' @ peer_WGPublicKey p @ optLine ''PresharedKey'' (peer_WGPresharedKey p)) = 0"
    using assms peerHeaders_optLine [of "peer_WGPresharedKey p" "''PresharedKey''" "''PublicKey = '' @ peer_WGPublicKey p"]
      peerHeaders_line [of "''PublicKey = '' @ peer_WGPublicKey p"] by (simp add: cleanPeer_def)
  have i: "peerHeaders (''AllowedIPs = '' @ peer_WGAllowedIP p) = 0"
    using assms peerHeaders_line [of "''AllowedIPs = '' @ peer_WGAllowedIP p"] by (simp add: cleanPeer_def)
  have h: "peerHeaders ''[Peer]'' = 1" by (simp add: peerHeaders_line)
  have "peerSection p @ rest = CHR 0x0A # (''# '' @ peer_Name p @ '' / '' @ peer_Wallet p @ '' / id='' @ peer_ID p) @
      CHR 0x0A # ''[Peer]'' @ CHR 0x0A #
      (''PublicKey = '' @ peer_WGPublicKey p @ optLine ''PresharedKey'' (peer_WGPresharedKey p)) @ CHR 0x0A #
      (''AllowedIPs = '' @ peer_WGAllowedIP p) @ CHR 0x0A # rest"
    using assms(2) by (simp add: peerSection_def)
  then show ?thesis by (simp only: peerHeaders_newline peerHeaders_append c k i h)
qed

lemma peerHeaders_sections:
  "\<forall>p \<in> set ps. cleanPeer p \<Longrightarrow>
   peerHeaders (concat (map peerSection ps)) = length (filter peer_Enabled ps)"
proof (induction ps)
  case Nil
  then show ?case by (simp add: peerHeaders_line)
next
  case (Cons p ps)
  then have ih: "peerHeaders (concat (map peerSection ps)) = length (filter peer_Enabled ps)" "cleanPeer p"
    by simp_all
  show ?case
  proof (cases "peer_Enabled p")
    case True
    then show ?thesis using ih peerHeaders_section [of p "concat (map peerSection ps)"] by simp
  next
    case False
    then show ?thesis using ih by (simp add: peerSection_def [of p])
  qed
qed

lemma peerHeaders_interface:
  assumes "oneLine (tpl_Address d)" "oneLine (tpl_PrivateKey d)" "oneLine (tpl_PreUp d)" "oneLine (tpl_PostUp d)"
    "oneLine (tpl_PreDown d)" "oneLine (tpl_PostDown d)" "tpl_MTU d = 0"
  shows "peerHeaders (renderServer d) = peerHeaders (concat (map peerSection (tpl_Peers d)))"
proof -
  have dash: "oneLine [CHR 0xE2, CHR 0x80, CHR 0x94]" by simp
  have port: "oneLine (Itoa n)" for n
  proof -
    have "CHR 0x0A \<notin> set (dec_nat m)" for m by (rule dec_nat_no_char) code_simp
    then show ?thesis by (simp add: Itoa_def oneLine_def)
  qed
  define a where "a = ''PrivateKey = '' @ tpl_PrivateKey d"
  have opt: "peerHeaders (s @ optLine k v) = peerHeaders s"
    if "oneLine v" "k \<in> {''PreUp'', ''PostUp'', ''PreDown'', ''PostDown''}" for s k v
  proof (cases "v = []")
    case False
    have "peerHeaders (k @ '' = '' @ v) = 0" using that by (intro peerHeaders_key) auto
    then show ?thesis using False by (simp add: optLine_def)
  qed (simp add: optLine_def)
  have z: "peerHeaders (''PrivateKey = '' @ tpl_PrivateKey d) = 0"
    using assms(2) peerHeaders_line [of "''PrivateKey = '' @ tpl_PrivateKey d"] by simp
  have h: "peerHeaders (''# Erebrus wg0 '' @ [CHR 0xE2, CHR 0x80, CHR 0x94] @ '' generated, do not edit by hand'') = 0"
      "peerHeaders ''[Interface]'' = 0" "peerHeaders (''Address = '' @ tpl_Address d) = 0"
      "peerHeaders (''ListenPort = '' @ Itoa (tpl_ListenPort d)) = 0"
    using assms(1) port [of "tpl_ListenPort d"] by (subst peerHeaders_line; simp)+
  have e: "renderServer d =
     (''# Erebrus wg0 '' @ [CHR 0xE2, CHR 0x80, CHR 0x94] @ '' generated, do not edit by hand'') @ CHR 0x0A #
     ''[Interface]'' @ CHR 0x0A # (''Address = '' @ tpl_Address d) @ CHR 0x0A #
     (''ListenPort = '' @ Itoa (tpl_ListenPort d)) @ CHR 0x0A #
     ((((a @ optLine ''PreUp'' (tpl_PreUp d)) @ optLine ''PostUp'' (tpl_PostUp d)) @
       optLine ''PreDown'' (tpl_PreDown d)) @ optLine ''PostDown'' (tpl_PostDown d)) @ CHR 0x0A #
     concat (map peerSection (tpl_Peers d))"
    using assms(7) by (simp add: renderServer_def a_def)
  have o: "peerHeaders ((((a @ optLine ''PreUp'' (tpl_PreUp d)) @ optLine ''PostUp'' (tpl_PostUp d)) @
       optLine ''PreDown'' (tpl_PreDown d)) @ optLine ''PostDown'' (tpl_PostDown d)) = 0"
    using opt [OF assms(3), of "''PreUp''"] opt [OF assms(4), of "''PostUp''"] opt [OF assms(5), of "''PreDown''"]
      opt [OF assms(6), of "''PostDown''"] z by (simp only: insert_iff simp_thms a_def)
  show ?thesis unfolding e by (simp only: peerHeaders_append h o add_0)
qed


section \<open>The server keys\<close>

lemma keys_differ: "settingServerPrivateKey \<noteq> settingServerPublicKey"
  by (simp add: settingServerPrivateKey_def settingServerPublicKey_def)

lemma createKeys_look:
  assumes "SetSetting s1 settingServerPrivateKey priv = (None, s2)"
    and "SetSetting s2 settingServerPublicKey pub = (None, s3)"
  shows "db_look s3 = (db_look s1)(settingServerPrivateKey := priv, settingServerPublicKey := pub)"
  using db.put_ok [OF assms(1)] db.put_ok [OF assms(2)] by simp

lemma loadOrCreateKeys_ok:
  assumes "loadOrCreateKeys newKey w = (None, w')"
  shows "wg_privateKey w' = db_look (wg_st w') settingServerPrivateKey \<and>
    wg_publicKey w' = db_look (wg_st w') settingServerPublicKey \<and>
    (if db_look (wg_st w) settingServerPrivateKey \<noteq> [] then db_look (wg_st w') = db_look (wg_st w)
     else \<exists>priv pub. newKey = Inr (priv, pub) \<and>
       db_look (wg_st w') = (db_look (wg_st w))(settingServerPrivateKey := priv, settingServerPublicKey := pub))"
proof -
  obtain r0 s1 where g: "GetSetting (wg_st w) settingServerPrivateKey = (r0, s1)" by (rule prod.exhaust)
  have s1: "db_look s1 = db_look (wg_st w)" using db.get_keeps [OF g] .
  obtain priv0 where r0: "r0 = Inr priv0" using assms g by (cases r0) (auto simp: loadOrCreateKeys_def)
  have p0: "priv0 = db_look (wg_st w) settingServerPrivateKey" using db.get_ok g r0 by simp
  show ?thesis
  proof (cases "priv0 = []")
    case False
    obtain r5 s5 where g5: "GetSetting s1 settingServerPublicKey = (r5, s5)" by (rule prod.exhaust)
    then obtain pub where "r5 = Inr pub" "w' = w\<lparr>wg_st := s5, wg_privateKey := priv0, wg_publicKey := pub\<rparr>"
      using assms g r0 False by (cases r5) (auto simp: loadOrCreateKeys_def)
    then show ?thesis using False p0 s1 db.get_keeps [OF g5] db.get_ok [of s1 settingServerPublicKey pub s5] g5 by auto
  next
    case True
    obtain priv pub where k: "newKey = Inr (priv, pub)"
      using assms g r0 True by (cases newKey) (auto simp: loadOrCreateKeys_def)
    obtain e2 s2 where a: "SetSetting s1 settingServerPrivateKey priv = (e2, s2)" by (rule prod.exhaust)
    have e2: "e2 = None" using assms g r0 True k a by (cases e2) (auto simp: loadOrCreateKeys_def)
    obtain e3 s3 where b: "SetSetting s2 settingServerPublicKey pub = (e3, s3)" by (rule prod.exhaust)
    have e3: "e3 = None" using assms g r0 True k a e2 b by (cases e3) (auto simp: loadOrCreateKeys_def)
    have s3: "db_look s3 = (db_look s1)(settingServerPrivateKey := priv, settingServerPublicKey := pub)"
      using createKeys_look a b e2 e3 by simp
    obtain r5 s5 where g5: "GetSetting s3 settingServerPublicKey = (r5, s5)" by (rule prod.exhaust)
    then obtain pub' where "r5 = Inr pub'" "w' = w\<lparr>wg_st := s5, wg_privateKey := priv, wg_publicKey := pub'\<rparr>"
      using assms g r0 True k a e2 b e3 by (cases r5) (auto simp: loadOrCreateKeys_def)
    then show ?thesis
      using True k p0 s1 s3 db.get_keeps [OF g5] db.get_ok [of s3 settingServerPublicKey pub' s5] g5 keys_differ by auto
  qed
qed


section \<open>Properties\<close>

text \<open>
  C11. After a successful \<open>Apply\<close> the device has exactly the enabled peers of the database, in the
  order of their creation, each with its parsed keys and its one tunnel address; disabled peers
  have no entry, and the configuration file is the rendering of the same list. The database is
  not changed.
\<close>

theorem Apply_device:
  assumes "Apply cfg ParseKey w = (None, w')"
  shows "list_all2 (configures ParseKey) (filter peer_Enabled (listed (wg_st w))) (wg_device w') \<and>
    wg_file w' = Some (renderServer (serverData cfg (wg_privateKey w) (listed (wg_st w)))) \<and>
    wg_st w' = (wg_st w)\<lparr>db_faults := db_faults (wg_st w')\<rparr>"
  using assms by (cases rule: ApplyE) (auto dest: peerConfigs_configures)

text \<open>
  C23. On a database that keeps the store invariant, no two peers on the device have the same
  allowed addresses: traffic for a tunnel address reaches one peer.
\<close>

theorem Apply_disjoint_addresses:
  assumes "store_inv subnet (wg_st w)" "Apply cfg ParseKey w = (None, w')"
  shows "distinct (map pc_AllowedIPs (wg_device w'))"
proof -
  let ?ps = "filter peer_Enabled (listed (wg_st w))"
  have "list_all2 (configures ParseKey) ?ps (wg_device w')"
    using assms(2) by (cases rule: ApplyE) (auto dest: peerConfigs_configures)
  moreover have "distinct (map peer_WGAllowedIP ?ps)"
    using distinct_listed_ips [of "wg_st w"] assms(1) by (simp add: store_inv_def distinct_map_filter)
  moreover have "\<forall>p \<in> set ?ps. host_cidr subnet (peer_WGAllowedIP p)"
    using assms(1) by (auto simp: store_inv_def scanPeer_def)
  ultimately show ?thesis by (rule configured_nets_distinct)
qed

text \<open>
  One enabled row whose public key does not parse makes every \<open>Apply\<close> fail and leaves the
  device as it was, so no later change of any peer reaches the device while the row is there.
\<close>

theorem Apply_bad_key:
  assumes "row \<in> set (db_peers (wg_st w))" "col_enabled row \<noteq> 0" "ParseKey (col_wg_public_key row) = Inl e"
  shows "\<exists>e' w'. Apply cfg ParseKey w = (Some e', w') \<and> wg_device w' = wg_device w"
proof -
  obtain oe w' where a: "Apply cfg ParseKey w = (oe, w')" by (rule prod.exhaust)
  have "\<exists>e'. peerConfigs ParseKey (listed (wg_st w)) = Inl e'"
    using assms by (intro peerConfigs_bad_key [of "scanPeer row"]) (auto simp: scanPeer_def)
  then have "\<exists>e'. oe = Some e' \<and> wg_device w' = wg_device w" using a by (auto elim!: ApplyE)
  then show ?thesis using a by auto
qed

text \<open>
  With a working host and parsing keys, \<open>Apply\<close> succeeds on every database that keeps the
  store invariant.
\<close>

theorem Apply_succeeds:
  assumes "store_inv subnet (wg_st w)" "db_faults (wg_st w) = []" "wg_os w = []"
    and "\<forall>r \<in> set (db_peers (wg_st w)). col_enabled r \<noteq> 0 \<longrightarrow>
      (\<exists>k. ParseKey (col_wg_public_key r) = Inr k) \<and>
      (col_wg_preshared_key r \<noteq> [] \<longrightarrow> (\<exists>k. ParseKey (col_wg_preshared_key r) = Inr k))"
  shows "fst (Apply cfg ParseKey w) = None"
proof -
  have "\<exists>cs. peerConfigs ParseKey (listed (wg_st w)) = Inr cs"
  proof (rule peerConfigs_good)
    fix p assume "p \<in> set (listed (wg_st w))" "peer_Enabled p"
    then obtain r where r: "r \<in> set (db_peers (wg_st w))" "p = scanPeer r" "col_enabled r \<noteq> 0"
      by (auto simp: scanPeer_def)
    then have "host_cidr subnet (col_wg_allowed_ip r)" using assms(1) by (auto simp: store_inv_def)
    then have "ParseCIDR (col_wg_allowed_ip r) \<noteq> None" by (auto elim!: host_cidr_parse)
    then show "(\<exists>k. ParseKey (peer_WGPublicKey p) = Inr k) \<and>
        (peer_WGPresharedKey p \<noteq> [] \<longrightarrow> (\<exists>k. ParseKey (peer_WGPresharedKey p) = Inr k)) \<and>
        ParseCIDR (peer_WGAllowedIP p) \<noteq> None"
      using r assms(4) by (simp add: scanPeer_def)
  qed
  then show ?thesis
    using assms(2,3) by (auto simp: Apply_def writeServerConf_def ListPeers_def SyncPeers_def Let_def)
qed

text \<open>
  The server key pair is stable: once loading has succeeded, every later successful load from
  the same settings yields the same private and public key, whatever key the generator offers.
\<close>

theorem loadOrCreateKeys_stable:
  assumes "loadOrCreateKeys newKey w = (None, w1)" "\<forall>priv pub. newKey = Inr (priv, pub) \<longrightarrow> priv \<noteq> []"
    and "db_look (wg_st w2) = db_look (wg_st w1)" "loadOrCreateKeys newKey' w2 = (None, w3)"
  shows "wg_privateKey w3 = wg_privateKey w1 \<and> wg_publicKey w3 = wg_publicKey w1"
proof -
  have "db_look (wg_st w1) settingServerPrivateKey \<noteq> []"
    using loadOrCreateKeys_ok [OF assms(1)] assms(2) keys_differ by (auto split: if_splits)
  then show ?thesis
    using loadOrCreateKeys_ok [OF assms(1)] loadOrCreateKeys_ok [OF assms(4)] assms(3) by simp
qed

text \<open>
  When no text of a peer and no operator setting contains a line break, the configuration file
  has exactly one \<open>[Peer]\<close> section for every enabled peer.
\<close>

theorem renderServer_sections:
  assumes "\<forall>p \<in> set peers. cleanPeer p" "oneLine (serverAddress cfg)" "oneLine priv"
    and "oneLine (cfg_WGPreUp cfg)" "oneLine (cfg_WGPostUp cfg)" "oneLine (cfg_WGPreDown cfg)" "oneLine (cfg_WGPostDown cfg)"
  shows "peerHeaders (renderServer (serverData cfg priv peers)) = length (filter peer_Enabled peers)"
proof -
  have "peerHeaders (renderServer (serverData cfg priv peers)) = peerHeaders (concat (map peerSection peers))"
    using peerHeaders_interface [of "serverData cfg priv peers"] assms by (simp add: serverData_def)
  then show ?thesis using peerHeaders_sections [OF assms(1)] by simp
qed


section \<open>Witnesses\<close>

definition ex_ParseKey :: "string \<Rightarrow> u8 list result" where
  "ex_ParseKey s = (if s = ''bad'' then Inl (Errorf ''illegal base64'') else Inr (map of_char s))"

definition ex_wg :: WG where
  "ex_wg = \<lparr>wg_st = ex_store, wg_privateKey = ''priv'', wg_publicKey = ''pub'', wg_file = None,
     wg_device = [], wg_up = True, wg_os = []\<rparr>"

lemma ex_store_inv: "store_inv ex_subnet ex_store"
proof -
  have e: "ParseCIDR ex_subnet = Some (As16 [10, 0, 0, 1], ex_net)" by (rule ex_parse)
  have "IPNet_Contains ex_net [10, 0, 0, 2]" "[10, 0, 0, 2] \<noteq> net_IP ex_net" "[10, 0, 0, 2] \<noteq> broadcastAddr ex_net"
    "As16 [10, 0, 0, 2] \<noteq> As16 [10, 0, 0, 1]" "''10.0.0.2/32'' = IP_String [10, 0, 0, 2] @ ''/32''"
    by code_simp+
  with e have "host_cidr ex_subnet ''10.0.0.2/32''"
    unfolding host_cidr_def by (intro exI [of _ "As16 [10, 0, 0, 1]"] exI [of _ ex_net] exI [of _ "[10, 0, 0, 2]"]) simp
  then show ?thesis
    using ex_unique by (simp add: store_inv_def ex_store_def fresh_store_def ex_row_def acls_inv_def)
qed

lemma ex_apply: "fst (Apply ex_config ex_ParseKey ex_wg) = None"
  by code_simp

theorem Apply_device_witness:
  "\<exists>w'. Apply ex_config ex_ParseKey ex_wg = (None, w') \<and>
     list_all2 (configures ex_ParseKey) (filter peer_Enabled (listed ex_store)) (wg_device w')"
proof -
  obtain w' where a: "Apply ex_config ex_ParseKey ex_wg = (None, w')" using ex_apply by (metis prod.collapse)
  from Apply_device [OF a] a show ?thesis by (simp add: ex_wg_def)
qed

theorem Apply_disjoint_addresses_witness:
  "\<exists>w'. Apply ex_config ex_ParseKey ex_wg = (None, w') \<and> distinct (map pc_AllowedIPs (wg_device w'))"
proof -
  obtain w' where a: "Apply ex_config ex_ParseKey ex_wg = (None, w')" using ex_apply by (metis prod.collapse)
  have "store_inv ex_subnet (wg_st ex_wg)" using ex_store_inv by (simp add: ex_wg_def)
  from Apply_disjoint_addresses [OF this a] a show ?thesis by blast
qed

theorem Apply_bad_key_witness:
  "\<exists>e' w'. Apply ex_config (\<lambda>s. Inl (Errorf ''illegal base64'')) ex_wg = (Some e', w') \<and> wg_device w' = []"
proof -
  have "ex_row \<in> set (db_peers (wg_st ex_wg))" "col_enabled ex_row \<noteq> 0" "wg_device ex_wg = []"
    by (simp_all add: ex_wg_def ex_store_def ex_row_def)
  then show ?thesis
    using Apply_bad_key [of ex_row ex_wg "\<lambda>s. Inl (Errorf ''illegal base64'')" _ ex_config] by auto
qed

theorem Apply_succeeds_witness: "fst (Apply ex_config ex_ParseKey ex_wg) = None"
  by (rule Apply_succeeds [of ex_subnet])
    (simp_all add: ex_wg_def ex_store_inv, simp_all add: ex_store_def fresh_store_def ex_row_def ex_ParseKey_def)

theorem loadOrCreateKeys_stable_witness:
  "\<exists>w1 w3. loadOrCreateKeys (Inr (''k1'', ''p1'')) ex_wg = (None, w1) \<and>
     loadOrCreateKeys (Inr (''k2'', ''p2'')) w1 = (None, w3) \<and>
     wg_privateKey w3 = wg_privateKey w1 \<and> wg_publicKey w3 = wg_publicKey w1"
proof -
  have "fst (loadOrCreateKeys (Inr (''k1'', ''p1'')) ex_wg) = None"
    "fst (loadOrCreateKeys (Inr (''k2'', ''p2'')) (snd (loadOrCreateKeys (Inr (''k1'', ''p1'')) ex_wg))) = None"
    by code_simp+
  then obtain w1 w3 where w: "loadOrCreateKeys (Inr (''k1'', ''p1'')) ex_wg = (None, w1)"
      "loadOrCreateKeys (Inr (''k2'', ''p2'')) w1 = (None, w3)"
    by (metis prod.collapse snd_conv)
  from loadOrCreateKeys_stable [OF w(1) _ refl w(2)] w show ?thesis by auto
qed

theorem renderServer_sections_witness:
  "peerHeaders (renderServer (serverData ex_config ''priv'' [ex_peer ''a'' ''ka'', (ex_peer ''b'' ''kb'')\<lparr>peer_Enabled := False\<rparr>])) = 1"
proof -
  have c: "\<forall>p \<in> set [ex_peer ''a'' ''ka'', (ex_peer ''b'' ''kb'')\<lparr>peer_Enabled := False\<rparr>]. cleanPeer p"
    "oneLine (serverAddress ex_config)" "oneLine ''priv''" "oneLine (cfg_WGPreUp ex_config)"
    "oneLine (cfg_WGPostUp ex_config)" "oneLine (cfg_WGPreDown ex_config)" "oneLine (cfg_WGPostDown ex_config)"
    by code_simp+
  have "length (filter peer_Enabled [ex_peer ''a'' ''ka'', (ex_peer ''b'' ''kb'')\<lparr>peer_Enabled := False\<rparr>]) = 1"
    by code_simp
  with renderServer_sections [OF c] show ?thesis by simp
qed

text \<open>
  Two observations on concrete inputs. A peer name with a line break adds a section to the
  configuration file. And when storing the public key fails after the private key was stored,
  later loads succeed with an empty public key.
\<close>

lemma name_injects_section:
  "peerHeaders (renderServer (serverData ex_config ''priv''
     [(ex_peer ''a'' ''ka'')\<lparr>peer_Name := ''x'' @ NL @ ''[Peer]'' @ NL @ ''AllowedIPs = 0.0.0.0/0''\<rparr>])) = 2"
  by code_simp

lemma half_stored_keys:
  "let w0 = ex_wg\<lparr>wg_st := fresh_store [None, None, Some ''disk full'']\<rparr>;
       (e1, w1) = loadOrCreateKeys (Inr (''k1'', ''p1'')) w0;
       (e2, w2) = loadOrCreateKeys (Inr (''k2'', ''p2'')) w1
   in e1 = Some (Errorf ''disk full'') \<and> e2 = None \<and> wg_privateKey w2 = ''k1'' \<and> wg_publicKey w2 = []"
  by code_simp

end
