(* ===== verification/Node.thy ===== *)
theory Node
  imports WireGuard Stealth
begin

text \<open>
  The node service (\<open>src/internal/node/service.go\<close>): provisioning, deleting and listing peers,
  resynchronisation with the gateway's list, credential bundles and public statistics, with the
  data types of \<open>src/internal/api/types.go\<close>. The stealth manager works on the database of the
  WireGuard state. Generated ids, tokens and readings of the clock are arguments.
\<close>

section \<open>Data\<close>

record PeerRequest =
  req_Name :: string
  req_Wallet :: string
  req_WGPublicKey :: string
  req_WGPresharedKey :: string
  req_ExpiresAt :: int

record PeerInfo =
  inf_ID :: string
  inf_Name :: string
  inf_WGAllowedIP :: string
  inf_Enabled :: bool
  inf_CreatedAt :: int
  inf_ExpiresAt :: int

record TransportEntry =
  te_Kind :: string
  te_URI :: string

record WireGuardBundle =
  wb_ClientConf :: string
  wb_ServerPublicKey :: string
  wb_Endpoint :: string
  wb_Address :: string
  wb_DNS :: string

record CredentialBundle =
  cb_BundleVersion :: int
  cb_NodeID :: string
  cb_ID :: string
  cb_IssuedAt :: int
  cb_ExpiresAt :: int
  cb_WireGuard :: WireGuardBundle
  cb_Transports :: "TransportEntry list"
  cb_VLESSURI :: string
  cb_Hysteria2URI :: string
  cb_SingboxProfile :: "json option"

record NodeStats =
  ns_Status :: string
  ns_Version :: string
  ns_Region :: string
  ns_Zone :: string
  ns_Protocols :: "string list"
  ns_TotalPeers :: nat
  ns_ConnectedPeers :: int
  ns_RxBytes :: int
  ns_TxBytes :: int
  ns_UptimeSec :: int

record Metrics =
  mx_PeerProvisioned :: nat
  mx_PeerDeprovisioned :: nat
  mx_WGPeers :: nat

record NodeSvc =
  nd_wg :: WG
  nd_stealth :: "Store SManager option"
  nd_metrics :: "Metrics option"

text \<open>Values drawn while one request is served.\<close>

record Draws =
  dr_NewID :: string
  dr_ProxyUUID :: string
  dr_ProxyPassword :: string
  dr_Now :: int
  dr_IssuedAt :: int

abbreviation nd_store :: "NodeSvc \<Rightarrow> Store" where
  "nd_store nd \<equiv> wg_st (nd_wg nd)"


section \<open>Operations\<close>

definition updatePeerGauge :: "NodeSvc \<Rightarrow> NodeSvc" where
  "updatePeerGauge nd =
     (case ListPeers (nd_store nd) of
        (Inl e, s) \<Rightarrow> nd\<lparr>nd_wg := (nd_wg nd)\<lparr>wg_st := s\<rparr>\<rparr>
      | (Inr peers, s) \<Rightarrow>
          nd\<lparr>nd_wg := (nd_wg nd)\<lparr>wg_st := s\<rparr>,
             nd_metrics := map_option (\<lambda>mx. mx\<lparr>mx_WGPeers := length peers\<rparr>) (nd_metrics nd)\<rparr>)"

definition countPeer :: "(Metrics \<Rightarrow> Metrics) \<Rightarrow> NodeSvc \<Rightarrow> NodeSvc" where
  "countPeer inc nd =
     (case nd_metrics nd of
        None \<Rightarrow> nd
      | Some mx \<Rightarrow> updatePeerGauge (nd\<lparr>nd_metrics := Some (inc mx)\<rparr>))"

definition buildBundle :: "Config \<Rightarrow> NodeSvc \<Rightarrow> int \<Rightarrow> Peer \<Rightarrow> CredentialBundle" where
  "buildBundle cfg nd issuedAt p =
     (let base =
        \<lparr>cb_BundleVersion = 2, cb_NodeID = cfg_NodeID cfg, cb_ID = peer_ID p, cb_IssuedAt = issuedAt,
         cb_ExpiresAt = peer_ExpiresAt p,
         cb_WireGuard = \<lparr>wb_ClientConf = ClientConfig cfg (nd_wg nd) p,
           wb_ServerPublicKey = wg_publicKey (nd_wg nd), wb_Endpoint = Endpoint cfg,
           wb_Address = peer_WGAllowedIP p, wb_DNS = cfg_WGDNS cfg\<rparr>,
         cb_Transports = [], cb_VLESSURI = [], cb_Hysteria2URI = [], cb_SingboxProfile = None\<rparr>
      in case nd_stealth nd of
           None \<Rightarrow> base
         | Some sm \<Rightarrow>
             (if \<not> cfg_EnableStealth cfg then base
              else let label = (if peer_Name p = [] then cfg_NodeName cfg else peer_Name p);
                       ps = BuildPeer cfg (sm_secrets sm) label (wg_publicKey (nd_wg nd))
                              (peer_WGAllowedIP p) (peer_WGPresharedKey p)
                   in base\<lparr>cb_VLESSURI := ps_VLESSURI ps, cb_Hysteria2URI := ps_Hysteria2URI ps,
                           cb_SingboxProfile := Some (ps_SingboxProfile ps),
                           cb_Transports :=
                             [\<lparr>te_Kind = ''direct_wireguard_udp'', te_URI = Endpoint cfg\<rparr>,
                              \<lparr>te_Kind = ''vless_reality_tcp'', te_URI = ps_VLESSURI ps\<rparr>,
                              \<lparr>te_Kind = ''hysteria2_quic_udp'', te_URI = ps_Hysteria2URI ps\<rparr>]\<rparr>))"

definition requestPeer :: "string \<Rightarrow> PeerRequest \<Rightarrow> Peer" where
  "requestPeer pid req =
     \<lparr>peer_ID = pid, peer_Name = req_Name req, peer_Wallet = req_Wallet req,
      peer_WGPublicKey = req_WGPublicKey req, peer_WGAllowedIP = [],
      peer_WGPresharedKey = req_WGPresharedKey req, peer_ProxyUUID = [], peer_ProxyPassword = [],
      peer_Enabled = True, peer_CreatedAt = 0, peer_UpdatedAt = 0, peer_ExpiresAt = req_ExpiresAt req\<rparr>"

text \<open>\<open>None\<close> stands for a call that does not return, which only the address search can cause.\<close>

definition nodeUpsertPeer ::
  "Config \<Rightarrow> (string \<Rightarrow> u8 list result) \<Rightarrow> Draws \<Rightarrow> NodeSvc \<Rightarrow> string \<Rightarrow> PeerRequest \<Rightarrow>
   (CredentialBundle result \<times> NodeSvc) option" where
  "nodeUpsertPeer cfg ParseKey dr nd pid0 req =
     (let pid = (if pid0 = [] then dr_NewID dr else pid0);
          gen = \<lparr>gen_ProxyUUID = dr_ProxyUUID dr, gen_ProxyPassword = dr_ProxyPassword dr\<rparr>
      in case UpsertPeer (nd_store nd) (requestPeer pid req) (cfg_WGIPv4Subnet cfg) gen (dr_Now dr) of
           None \<Rightarrow> None
         | Some (Inl e, s1) \<Rightarrow> Some (Inl e, nd\<lparr>nd_wg := (nd_wg nd)\<lparr>wg_st := s1\<rparr>\<rparr>)
         | Some (Inr peer, s1) \<Rightarrow>
             (case Apply cfg ParseKey ((nd_wg nd)\<lparr>wg_st := s1\<rparr>) of
                (Some e, w2) \<Rightarrow> Some (Inl e, nd\<lparr>nd_wg := w2\<rparr>)
              | (None, w2) \<Rightarrow>
                  (let nd3 = countPeer (\<lambda>mx. mx\<lparr>mx_PeerProvisioned := Suc (mx_PeerProvisioned mx)\<rparr>) (nd\<lparr>nd_wg := w2\<rparr>)
                   in Some (Inr (buildBundle cfg nd3 (dr_IssuedAt dr) peer), nd3))))"

definition nodeDeletePeer ::
  "Config \<Rightarrow> (string \<Rightarrow> u8 list result) \<Rightarrow> NodeSvc \<Rightarrow> string \<Rightarrow> error option \<times> NodeSvc" where
  "nodeDeletePeer cfg ParseKey nd pid =
     (case DeletePeer (nd_store nd) pid of
        (Some e, s1) \<Rightarrow> (Some e, nd\<lparr>nd_wg := (nd_wg nd)\<lparr>wg_st := s1\<rparr>\<rparr>)
      | (None, s1) \<Rightarrow>
          (case Apply cfg ParseKey ((nd_wg nd)\<lparr>wg_st := s1\<rparr>) of
             (Some e, w2) \<Rightarrow> (Some e, nd\<lparr>nd_wg := w2\<rparr>)
           | (None, w2) \<Rightarrow>
               (None, countPeer (\<lambda>mx. mx\<lparr>mx_PeerDeprovisioned := Suc (mx_PeerDeprovisioned mx)\<rparr>) (nd\<lparr>nd_wg := w2\<rparr>))))"

fun resyncLoop ::
  "Config \<Rightarrow> (string \<Rightarrow> u8 list result) \<Rightarrow> string list \<Rightarrow> Peer list \<Rightarrow> NodeSvc \<Rightarrow> error option \<times> NodeSvc" where
  "resyncLoop cfg ParseKey keep [] nd = (None, nd)"
| "resyncLoop cfg ParseKey keep (p # ps) nd =
     (if peer_ID p \<in> set keep then resyncLoop cfg ParseKey keep ps nd
      else case nodeDeletePeer cfg ParseKey nd (peer_ID p) of
             (Some e, nd') \<Rightarrow> (Some e, nd')
           | (None, nd') \<Rightarrow> resyncLoop cfg ParseKey keep ps nd')"

text \<open>The missing ids come out of a Go map, so their order is not fixed; only their set is used.\<close>

definition ResyncPeers ::
  "Config \<Rightarrow> (string \<Rightarrow> u8 list result) \<Rightarrow> NodeSvc \<Rightarrow> string list \<Rightarrow> string list result \<times> NodeSvc" where
  "ResyncPeers cfg ParseKey nd keep =
     (case ListPeers (nd_store nd) of
        (Inl e, s1) \<Rightarrow> (Inl e, nd\<lparr>nd_wg := (nd_wg nd)\<lparr>wg_st := s1\<rparr>\<rparr>)
      | (Inr peers, s1) \<Rightarrow>
          (case resyncLoop cfg ParseKey keep peers (nd\<lparr>nd_wg := (nd_wg nd)\<lparr>wg_st := s1\<rparr>\<rparr>) of
             (Some e, nd') \<Rightarrow> (Inl e, nd')
           | (None, nd') \<Rightarrow> (Inr (filter (\<lambda>i. i \<notin> peer_ID ` set peers) (remdups keep)), nd')))"

definition nodeCredentials :: "Config \<Rightarrow> int \<Rightarrow> NodeSvc \<Rightarrow> string \<Rightarrow> CredentialBundle result \<times> NodeSvc" where
  "nodeCredentials cfg issuedAt nd pid =
     (case GetPeer (nd_store nd) pid of
        (Inl e, s1) \<Rightarrow> (Inl e, nd\<lparr>nd_wg := (nd_wg nd)\<lparr>wg_st := s1\<rparr>\<rparr>)
      | (Inr peer, s1) \<Rightarrow>
          (let nd1 = nd\<lparr>nd_wg := (nd_wg nd)\<lparr>wg_st := s1\<rparr>\<rparr> in (Inr (buildBundle cfg nd1 issuedAt peer), nd1)))"

definition peerInfo :: "Peer \<Rightarrow> PeerInfo" where
  "peerInfo p = \<lparr>inf_ID = peer_ID p, inf_Name = peer_Name p, inf_WGAllowedIP = peer_WGAllowedIP p,
     inf_Enabled = peer_Enabled p, inf_CreatedAt = peer_CreatedAt p, inf_ExpiresAt = peer_ExpiresAt p\<rparr>"

definition nodeListPeers :: "NodeSvc \<Rightarrow> PeerInfo list result \<times> NodeSvc" where
  "nodeListPeers nd =
     (case ListPeers (nd_store nd) of (r, s1) \<Rightarrow>
        (map_sum id (map peerInfo) r, nd\<lparr>nd_wg := (nd_wg nd)\<lparr>wg_st := s1\<rparr>\<rparr>))"

definition nodeStats ::
  "Config \<Rightarrow> int \<Rightarrow> DevicePeer list result \<Rightarrow> int \<Rightarrow> NodeSvc \<Rightarrow> NodeStats result \<times> NodeSvc" where
  "nodeStats cfg now dev startedAt nd =
     (case ListPeers (nd_store nd) of
        (Inl e, s1) \<Rightarrow> (Inl e, nd\<lparr>nd_wg := (nd_wg nd)\<lparr>wg_st := s1\<rparr>\<rparr>)
      | (Inr peers, s1) \<Rightarrow>
          (let live = Stats now dev
           in (Inr \<lparr>ns_Status = ''online'', ns_Version = cfg_Version cfg, ns_Region = cfg_Region cfg,
                    ns_Zone = cfg_Zone cfg,
                    ns_Protocols = ''wireguard'' # (if cfg_EnableStealth cfg then [''vless-reality'', ''hysteria2''] else []),
                    ns_TotalPeers = length peers, ns_ConnectedPeers = ds_Connected live,
                    ns_RxBytes = ds_RxBytes live, ns_TxBytes = ds_TxBytes live,
                    ns_UptimeSec = (now - startedAt) div 1000000000\<rparr>,
               nd\<lparr>nd_wg := (nd_wg nd)\<lparr>wg_st := s1\<rparr>\<rparr>)))"


section \<open>Deleting\<close>

lemma DeletePeerE:
  assumes "DeletePeer s pid = (oe, s')"
  obtains (failed) e fs where "oe = Some e" "s' = s\<lparr>db_faults := fs\<rparr>"
  | (ok) fs where "oe = None" "s' = s\<lparr>db_peers := filter (\<lambda>r. col_id r \<noteq> pid) (db_peers s), db_faults := fs\<rparr>"
proof -
  obtain oe1 s1 where c: "db_call s = (oe1, s1)" by (rule prod.exhaust)
  then obtain fs where s1: "s1 = s\<lparr>db_faults := fs\<rparr>" by (rule db_callE)
  show thesis
  proof (cases oe1)
    case (Some e)
    show thesis by (rule failed [of e fs]) (use assms c s1 Some in \<open>auto simp: DeletePeer_def\<close>)
  next
    case None
    show thesis by (rule ok [of fs]) (use assms c s1 None in \<open>auto simp: DeletePeer_def\<close>)
  qed
qed

lemma updatePeerGauge_keeps:
  "(\<exists>fs. nd_store (updatePeerGauge nd) = (nd_store nd)\<lparr>db_faults := fs\<rparr>) \<and>
   wg_device (nd_wg (updatePeerGauge nd)) = wg_device (nd_wg nd)"
proof -
  obtain r s1 where l: "ListPeers (nd_store nd) = (r, s1)" by (rule prod.exhaust)
  then show ?thesis by (cases rule: ListPeersE) (auto simp: updatePeerGauge_def l)
qed

lemma countPeer_store: "\<exists>fs. nd_store (countPeer inc nd) = (nd_store nd)\<lparr>db_faults := fs\<rparr>"
proof (cases "nd_metrics nd")
  case None
  then show ?thesis by (auto simp: countPeer_def intro!: exI [of _ "db_faults (nd_store nd)"])
next
  case (Some mx)
  then show ?thesis using updatePeerGauge_keeps [of "nd\<lparr>nd_metrics := Some (inc mx)\<rparr>"] by (auto simp: countPeer_def)
qed

lemma countPeer_keeps:
  "db_peers (nd_store (countPeer inc nd)) = db_peers (nd_store nd) \<and>
   wg_device (nd_wg (countPeer inc nd)) = wg_device (nd_wg nd)"
proof -
  have "wg_device (nd_wg (countPeer inc nd)) = wg_device (nd_wg nd)"
    using updatePeerGauge_keeps by (simp add: countPeer_def split: option.splits)
  then show ?thesis using countPeer_store [of inc nd] by auto
qed

lemma Apply_store: "Apply cfg ParseKey w = (oe, w') \<Longrightarrow> \<exists>fs. wg_st w' = (wg_st w)\<lparr>db_faults := fs\<rparr>"
  by (erule ApplyE) auto

lemma Apply_peers: "Apply cfg ParseKey w = (oe, w') \<Longrightarrow> db_peers (wg_st w') = db_peers (wg_st w)"
  by (drule Apply_store) auto

lemma nodeDeletePeer_rows:
  assumes "nodeDeletePeer cfg ParseKey nd pid = (None, nd')"
  shows "db_peers (nd_store nd') = filter (\<lambda>r. col_id r \<noteq> pid) (db_peers (nd_store nd))"
proof -
  obtain oe s1 where d: "DeletePeer (nd_store nd) pid = (oe, s1)" by (rule prod.exhaust)
  have oe: "oe = None" using assms d by (cases oe) (auto simp: nodeDeletePeer_def)
  then have s1: "db_peers s1 = filter (\<lambda>r. col_id r \<noteq> pid) (db_peers (nd_store nd))"
    using d by (auto elim: DeletePeerE)
  obtain e2 w2 where a: "Apply cfg ParseKey ((nd_wg nd)\<lparr>wg_st := s1\<rparr>) = (e2, w2)" by (rule prod.exhaust)
  have "e2 = None" using assms d oe a by (cases e2) (auto simp: nodeDeletePeer_def)
  then show ?thesis
    using assms d oe a s1 Apply_peers [OF a] countPeer_keeps by (auto simp: nodeDeletePeer_def)
qed

lemma resyncLoop_rows:
  "resyncLoop cfg ParseKey keep ps nd = (None, nd') \<Longrightarrow>
   db_peers (nd_store nd') = filter (\<lambda>r. col_id r \<in> set keep \<or> col_id r \<notin> peer_ID ` set ps) (db_peers (nd_store nd))"
proof (induction ps arbitrary: nd)
  case (Cons p ps)
  show ?case
  proof (cases "peer_ID p \<in> set keep")
    case True
    then show ?thesis using Cons by (auto intro!: filter_cong)
  next
    case False
    obtain e nd1 where d: "nodeDeletePeer cfg ParseKey nd (peer_ID p) = (e, nd1)" by (rule prod.exhaust)
    have e: "e = None" using Cons.prems False d by (cases e) auto
    then have "resyncLoop cfg ParseKey keep ps nd1 = (None, nd')" using Cons.prems False d by simp
    from Cons.IH [OF this] nodeDeletePeer_rows [of cfg ParseKey nd "peer_ID p" nd1] d e False show ?thesis
      by (auto intro!: filter_cong)
  qed
qed simp


section \<open>The device follows the database\<close>

text \<open>The device holds exactly the enabled rows, in the order of their creation.\<close>

definition in_sync :: "(string \<Rightarrow> u8 list result) \<Rightarrow> NodeSvc \<Rightarrow> bool" where
  "in_sync ParseKey nd \<longleftrightarrow>
     list_all2 (configures ParseKey) (filter peer_Enabled (listed (nd_store nd))) (wg_device (nd_wg nd))"

lemma Apply_in_sync:
  assumes "Apply cfg ParseKey (nd_wg nd) = (None, w)"
  shows "in_sync ParseKey (countPeer inc (nd\<lparr>nd_wg := w\<rparr>))"
proof -
  have "list_all2 (configures ParseKey) (filter peer_Enabled (listed (nd_store nd))) (wg_device w)"
    using assms by (cases rule: ApplyE) (auto dest: peerConfigs_configures)
  then show ?thesis
    using Apply_peers [OF assms] countPeer_keeps [of inc "nd\<lparr>nd_wg := w\<rparr>"] by (simp add: in_sync_def)
qed

lemma nodeDeletePeer_in_sync:
  assumes "nodeDeletePeer cfg ParseKey nd pid = (None, nd')"
  shows "in_sync ParseKey nd'"
proof -
  obtain oe s1 where d: "DeletePeer (nd_store nd) pid = (oe, s1)" by (rule prod.exhaust)
  obtain e2 w2 where a: "Apply cfg ParseKey ((nd_wg nd)\<lparr>wg_st := s1\<rparr>) = (e2, w2)" by (rule prod.exhaust)
  have "oe = None" "e2 = None"
    using assms d a by (cases oe; cases e2; auto simp: nodeDeletePeer_def)+
  then show ?thesis
    using assms d a Apply_in_sync [of cfg ParseKey "nd\<lparr>nd_wg := (nd_wg nd)\<lparr>wg_st := s1\<rparr>\<rparr>" w2]
    by (auto simp: nodeDeletePeer_def)
qed

lemma resyncLoop_in_sync:
  "resyncLoop cfg ParseKey keep ps nd = (None, nd') \<Longrightarrow> in_sync ParseKey nd \<Longrightarrow> in_sync ParseKey nd'"
proof (induction ps arbitrary: nd)
  case (Cons p ps)
  show ?case
  proof (cases "peer_ID p \<in> set keep")
    case False
    obtain e nd1 where d: "nodeDeletePeer cfg ParseKey nd (peer_ID p) = (e, nd1)" by (rule prod.exhaust)
    have e: "e = None" using Cons.prems False d by (cases e) auto
    then have "resyncLoop cfg ParseKey keep ps nd1 = (None, nd')" using Cons.prems False d by simp
    then show ?thesis using Cons.IH nodeDeletePeer_in_sync d e by simp
  qed (use Cons in simp)
qed simp

lemma list_all2_left: "list_all2 P xs ys \<Longrightarrow> x \<in> set xs \<Longrightarrow> \<exists>y \<in> set ys. P x y"
  by (induction rule: list_all2_induct) auto

lemma UpsertPeer_stored:
  assumes "UpsertPeer s inp subnet gen now = Some (Inr p, s')"
  shows "p \<in> scanPeer ` set (db_peers s') \<and> peer_WGPublicKey p = peer_WGPublicKey inp \<and>
    peer_Enabled p = peer_Enabled inp"
  using assms
proof (cases rule: UpsertPeerE)
  case (updated row p' fs)
  then have "scanPeer (update_row p row) = p" using scanPeer_update_row [of row p inp now] by simp
  then show ?thesis using updated by (auto simp: updated_peer_def image_image image_iff intro!: bexI [of _ row])
next
  case (created allocated srv net p' fs)
  then show ?thesis by (auto simp: created_peer_def intro!: image_eqI [of _ _ "row_of p"])
qed simp

lemma nodeUpsertPeerE:
  assumes "nodeUpsertPeer cfg ParseKey dr nd pid req = Some (Inr b, nd')"
  obtains p s1 w inc where "UpsertPeer (nd_store nd) (requestPeer (if pid = [] then dr_NewID dr else pid) req)
        (cfg_WGIPv4Subnet cfg) \<lparr>gen_ProxyUUID = dr_ProxyUUID dr, gen_ProxyPassword = dr_ProxyPassword dr\<rparr> (dr_Now dr)
      = Some (Inr p, s1)"
    "Apply cfg ParseKey ((nd_wg nd)\<lparr>wg_st := s1\<rparr>) = (None, w)" "nd' = countPeer inc (nd\<lparr>nd_wg := w\<rparr>)"
    "b = buildBundle cfg nd' (dr_IssuedAt dr) p"
  using assms by (auto simp: nodeUpsertPeer_def Let_def split: option.splits sum.splits prod.splits)

lemma buildBundle_simps [simp]:
  "cb_ID (buildBundle cfg nd t p) = peer_ID p"
  "cb_ExpiresAt (buildBundle cfg nd t p) = peer_ExpiresAt p"
  "cb_WireGuard (buildBundle cfg nd t p) =
     \<lparr>wb_ClientConf = ClientConfig cfg (nd_wg nd) p, wb_ServerPublicKey = wg_publicKey (nd_wg nd),
      wb_Endpoint = Endpoint cfg, wb_Address = peer_WGAllowedIP p, wb_DNS = cfg_WGDNS cfg\<rparr>"
  by (simp_all add: buildBundle_def Let_def split: option.split)


section \<open>Properties\<close>

text \<open>
  C17. A resynchronisation that succeeds leaves exactly the peers the gateway listed: every other
  row is deleted and no listed row is touched, the ids reported back are exactly the listed ones
  the node does not have, each once, and a device that matched the database still does.
\<close>

theorem ResyncPeers_exact:
  assumes "ResyncPeers cfg ParseKey nd keep = (Inr missing, nd')"
  shows "db_peers (nd_store nd') = filter (\<lambda>r. col_id r \<in> set keep) (db_peers (nd_store nd)) \<and>
    set missing = set keep - col_id ` set (db_peers (nd_store nd)) \<and> distinct missing \<and>
    (in_sync ParseKey nd \<longrightarrow> in_sync ParseKey nd')"
proof -
  obtain r s1 where l: "ListPeers (nd_store nd) = (r, s1)" by (rule prod.exhaust)
  then show ?thesis
  proof (cases rule: ListPeersE)
    case (fault e fs)
    then show ?thesis using assms l by (simp add: ResyncPeers_def)
  next
    case (ok fs)
    define nd1 where "nd1 = nd\<lparr>nd_wg := (nd_wg nd)\<lparr>wg_st := s1\<rparr>\<rparr>"
    obtain oe nd2 where lo: "resyncLoop cfg ParseKey keep (listed (nd_store nd)) nd1 = (oe, nd2)" by (rule prod.exhaust)
    have oe: "oe = None" "nd2 = nd'"
      and m: "missing = filter (\<lambda>i. i \<notin> peer_ID ` set (listed (nd_store nd))) (remdups keep)"
      using assms l ok lo by (cases oe; auto simp: ResyncPeers_def nd1_def)+
    have ids: "peer_ID ` set (listed (nd_store nd)) = col_id ` set (db_peers (nd_store nd))" by (auto simp: image_image)
    have "in_sync ParseKey nd1 = in_sync ParseKey nd" using ok by (simp add: in_sync_def nd1_def)
    then show ?thesis
      using resyncLoop_rows [of cfg ParseKey keep "listed (nd_store nd)" nd1 nd'] lo oe m ok ids
        resyncLoop_in_sync [of cfg ParseKey keep "listed (nd_store nd)" nd1 nd']
      by (auto simp: nd1_def intro!: filter_cong)
  qed
qed

text \<open>
  C8. A provisioning request that succeeds has stored a row with the requested key, answers with
  that row's id and address, and leaves the device configured for exactly the enabled rows, the
  new one among them. Distinctness and placement of the addresses are kept.
\<close>

theorem nodeUpsertPeer_provisions:
  assumes "ipv4_subnet (cfg_WGIPv4Subnet cfg)" "store_inv (cfg_WGIPv4Subnet cfg) (nd_store nd)"
    and "nodeUpsertPeer cfg ParseKey dr nd pid req = Some (Inr b, nd')"
  shows "\<exists>p \<in> set (listed (nd_store nd')). cb_ID b = peer_ID p \<and> wb_Address (cb_WireGuard b) = peer_WGAllowedIP p \<and>
      peer_WGPublicKey p = req_WGPublicKey req \<and> (\<exists>c \<in> set (wg_device (nd_wg nd')). configures ParseKey p c) \<and>
      in_sync ParseKey nd' \<and> store_inv (cfg_WGIPv4Subnet cfg) (nd_store nd')"
proof -
  from assms(3) obtain p s1 w inc where u: "UpsertPeer (nd_store nd)
      (requestPeer (if pid = [] then dr_NewID dr else pid) req) (cfg_WGIPv4Subnet cfg)
      \<lparr>gen_ProxyUUID = dr_ProxyUUID dr, gen_ProxyPassword = dr_ProxyPassword dr\<rparr> (dr_Now dr) = Some (Inr p, s1)"
    and a: "Apply cfg ParseKey ((nd_wg nd)\<lparr>wg_st := s1\<rparr>) = (None, w)"
    and nd': "nd' = countPeer inc (nd\<lparr>nd_wg := w\<rparr>)" and b: "b = buildBundle cfg nd' (dr_IssuedAt dr) p"
    by (rule nodeUpsertPeerE)
  have sync: "in_sync ParseKey nd'"
    using Apply_in_sync [of cfg ParseKey "nd\<lparr>nd_wg := (nd_wg nd)\<lparr>wg_st := s1\<rparr>\<rparr>" w] a nd' by simp
  have rows: "db_peers (nd_store nd') = db_peers s1"
    using Apply_peers [OF a] countPeer_keeps [of inc "nd\<lparr>nd_wg := w\<rparr>"] nd' by simp
  have p: "p \<in> set (listed (nd_store nd'))" "peer_WGPublicKey p = req_WGPublicKey req" "peer_Enabled p"
    using UpsertPeer_stored [OF u] rows by (simp_all add: requestPeer_def)
  then have "\<exists>c \<in> set (wg_device (nd_wg nd')). configures ParseKey p c"
    using list_all2_left [OF sync [unfolded in_sync_def], of p] by simp
  moreover have "store_inv (cfg_WGIPv4Subnet cfg) s1" using UpsertPeer_inv [OF assms(1,2) u] .
  moreover obtain fs where "nd_store nd' = s1\<lparr>db_faults := fs\<rparr>"
    using Apply_store [OF a] countPeer_store [of inc "nd\<lparr>nd_wg := w\<rparr>"] nd' by auto
  ultimately show ?thesis using p b sync by (intro bexI [of _ p]) simp_all
qed

text \<open>
  C27. Credentials fetched again are the ones the provisioning answered, the time of issue apart,
  as long as the server keys and the carrier secrets are the same.
\<close>

theorem nodeCredentials_again:
  assumes "store_inv (cfg_WGIPv4Subnet cfg) (nd_store nd)" "ipv4_subnet (cfg_WGIPv4Subnet cfg)"
    and "nodeUpsertPeer cfg ParseKey dr nd pid req = Some (Inr b, nd')" "db_faults (nd_store nd') = []"
  shows "nodeCredentials cfg t nd' (cb_ID b) = (Inr (b\<lparr>cb_IssuedAt := t\<rparr>), nd')"
proof -
  from assms(3) obtain p s1 w inc where u: "UpsertPeer (nd_store nd)
      (requestPeer (if pid = [] then dr_NewID dr else pid) req) (cfg_WGIPv4Subnet cfg)
      \<lparr>gen_ProxyUUID = dr_ProxyUUID dr, gen_ProxyPassword = dr_ProxyPassword dr\<rparr> (dr_Now dr) = Some (Inr p, s1)"
    and a: "Apply cfg ParseKey ((nd_wg nd)\<lparr>wg_st := s1\<rparr>) = (None, w)"
    and nd': "nd' = countPeer inc (nd\<lparr>nd_wg := w\<rparr>)" and b: "b = buildBundle cfg nd' (dr_IssuedAt dr) p"
    by (rule nodeUpsertPeerE)
  obtain fs where s: "nd_store nd' = s1\<lparr>db_faults := fs\<rparr>"
    using Apply_store [OF a] countPeer_store [of inc "nd\<lparr>nd_wg := w\<rparr>"] nd' by auto
  obtain row where row: "row \<in> set (db_peers s1)" "p = scanPeer row" using UpsertPeer_stored [OF u] by auto
  have "peers_unique (db_peers s1)" using UpsertPeer_inv [OF assms(2,1) u] by (simp add: store_inv_def)
  then have "GetPeer (nd_store nd') (cb_ID b) = (Inr p, nd_store nd')"
    using GetPeer_row [of "nd_store nd'" row] row s b assms(4) by simp
  moreover have "buildBundle cfg nd' t p = b\<lparr>cb_IssuedAt := t\<rparr>"
    using b by (simp add: buildBundle_def Let_def split: option.split)
  ultimately show ?thesis by (simp add: nodeCredentials_def)
qed


section \<open>A key that does not parse\<close>

text \<open>
  The request's key is not checked before it is stored: the request fails, but the row stays and
  keeps every later \<open>Apply\<close> from succeeding.
\<close>

lemma bad_key_stays:
  assumes "UpsertPeer (nd_store nd) (requestPeer pid req) (cfg_WGIPv4Subnet cfg)
      \<lparr>gen_ProxyUUID = dr_ProxyUUID dr, gen_ProxyPassword = dr_ProxyPassword dr\<rparr> (dr_Now dr) = Some (Inr p, s1)"
    and "ParseKey (req_WGPublicKey req) = Inl e" "pid \<noteq> []"
  shows "\<exists>e' nd'. nodeUpsertPeer cfg ParseKey dr nd pid req = Some (Inl e', nd') \<and>
    p \<in> set (listed (nd_store nd')) \<and> wg_device (nd_wg nd') = wg_device (nd_wg nd)"
proof -
  obtain oe w where a: "Apply cfg ParseKey ((nd_wg nd)\<lparr>wg_st := s1\<rparr>) = (oe, w)" by (rule prod.exhaust)
  have p: "p \<in> set (listed s1)" "peer_WGPublicKey p = req_WGPublicKey req" "peer_Enabled p"
    using UpsertPeer_stored [OF assms(1)] by (simp_all add: requestPeer_def)
  then have "\<exists>e'. peerConfigs ParseKey (listed s1) = Inl e'"
    using assms(2) by (intro peerConfigs_bad_key [of p]) auto
  then have "\<exists>e'. oe = Some e' \<and> wg_device w = wg_device (nd_wg nd)" using a by (auto elim!: ApplyE)
  then obtain e' where "oe = Some e'" "wg_device w = wg_device (nd_wg nd)" by auto
  then have "nodeUpsertPeer cfg ParseKey dr nd pid req = Some (Inl e', nd\<lparr>nd_wg := w\<rparr>)"
    "wg_device (nd_wg (nd\<lparr>nd_wg := w\<rparr>)) = wg_device (nd_wg nd)"
    using assms a by (simp_all add: nodeUpsertPeer_def Let_def)
  moreover have "p \<in> set (listed (nd_store (nd\<lparr>nd_wg := w\<rparr>)))" using Apply_peers [OF a] p(1) by simp
  ultimately show ?thesis by blast
qed


section \<open>Witnesses\<close>

definition ex_node :: NodeSvc where
  "ex_node = \<lparr>nd_wg = ex_wg, nd_stealth = None, nd_metrics = Some \<lparr>mx_PeerProvisioned = 0, mx_PeerDeprovisioned = 0, mx_WGPeers = 0\<rparr>\<rparr>"

definition ex_req :: PeerRequest where
  "ex_req = \<lparr>req_Name = ''phone'', req_Wallet = [], req_WGPublicKey = ''kb'', req_WGPresharedKey = [], req_ExpiresAt = 0\<rparr>"

definition ex_draws :: Draws where
  "ex_draws = \<lparr>dr_NewID = ''n1'', dr_ProxyUUID = ''ub'', dr_ProxyPassword = ''pb'', dr_Now = 9, dr_IssuedAt = 9\<rparr>"

definition ex_wg_config :: Config where
  "ex_wg_config = ex_config\<lparr>cfg_WGIPv4Subnet := ex_subnet\<rparr>"

lemma ex_node_upsert:
  "map_option (\<lambda>(r, nd). (map_sum id cb_ID r, db_faults (nd_store nd), map col_id (db_peers (nd_store nd))))
       (nodeUpsertPeer ex_wg_config ex_ParseKey ex_draws ex_node ''b'' ex_req) = Some (Inr ''b'', [], [''a'', ''b''])"
  by code_simp

lemma ex_node_upsertE:
  obtains b nd' where "nodeUpsertPeer ex_wg_config ex_ParseKey ex_draws ex_node ''b'' ex_req = Some (Inr b, nd')"
    "cb_ID b = ''b''" "db_faults (nd_store nd') = []" "map col_id (db_peers (nd_store nd')) = [''a'', ''b'']"
  using ex_node_upsert by (auto simp: map_sum_eq_Inr)

lemma ex_node_inv: "store_inv (cfg_WGIPv4Subnet ex_wg_config) (nd_store ex_node)"
  using ex_store_inv by (simp add: ex_node_def ex_wg_def ex_wg_config_def)

lemma ex_node_subnet: "ipv4_subnet (cfg_WGIPv4Subnet ex_wg_config)"
  by code_simp

theorem ResyncPeers_exact_witness:
  "\<exists>missing nd'. ResyncPeers ex_wg_config ex_ParseKey ex_node [''z''] = (Inr missing, nd') \<and>
     set missing = {''z''} \<and> db_peers (nd_store nd') = []"
proof -
  have "map_sum id (\<lambda>_. ()) (fst (ResyncPeers ex_wg_config ex_ParseKey ex_node [''z''])) = Inr ()" by code_simp
  then obtain missing nd' where r: "ResyncPeers ex_wg_config ex_ParseKey ex_node [''z''] = (Inr missing, nd')"
    by (cases "ResyncPeers ex_wg_config ex_ParseKey ex_node [''z'']") (auto simp: map_sum_eq_Inr)
  have "db_peers (nd_store ex_node) = [ex_row]" by (simp add: ex_node_def ex_wg_def ex_store_def)
  then show ?thesis using ResyncPeers_exact [OF r] r by (simp add: ex_row_def)
qed

theorem nodeUpsertPeer_provisions_witness:
  "\<exists>b nd'. nodeUpsertPeer ex_wg_config ex_ParseKey ex_draws ex_node ''b'' ex_req = Some (Inr b, nd') \<and>
     in_sync ex_ParseKey nd'"
proof -
  obtain b nd' where u: "nodeUpsertPeer ex_wg_config ex_ParseKey ex_draws ex_node ''b'' ex_req = Some (Inr b, nd')"
    by (rule ex_node_upsertE)
  from nodeUpsertPeer_provisions [OF ex_node_subnet ex_node_inv u] u show ?thesis by blast
qed

theorem nodeCredentials_again_witness:
  "\<exists>b nd'. nodeUpsertPeer ex_wg_config ex_ParseKey ex_draws ex_node ''b'' ex_req = Some (Inr b, nd') \<and>
     nodeCredentials ex_wg_config 20 nd' ''b'' = (Inr (b\<lparr>cb_IssuedAt := 20\<rparr>), nd')"
proof -
  obtain b nd' where u: "nodeUpsertPeer ex_wg_config ex_ParseKey ex_draws ex_node ''b'' ex_req = Some (Inr b, nd')"
    "cb_ID b = ''b''" "db_faults (nd_store nd') = []" by (rule ex_node_upsertE)
  from nodeCredentials_again [OF ex_node_inv ex_node_subnet u(1,3)] u show ?thesis by auto
qed

end
