(* ===== verification/Streams.thy ===== *)
theory Streams
  imports Prelude
begin

text \<open>
  The streams of the Kubo client (\<open>src/internal/drop/client.go\<close>): a reader that stops with an
  error after a number of bytes, twice, and what copying from one delivers.

  A reader is the bytes it will deliver, the error it ends with (\<open>None\<close> is end of file), whether
  the last bytes come together with the end, and a schedule of how many bytes each \<open>Read\<close> gives
  when the caller's buffer has room for them; every \<open>Read\<close> before the end gives at least one.
\<close>

section \<open>Readers\<close>

record reader =
  rd_data :: string
  rd_end :: "error option"
  rd_eager :: bool
  rd_sched :: "nat list"

datatype read_err = EOF | ReadErr error

definition endOf :: "reader \<Rightarrow> read_err" where
  "endOf r = (case rd_end r of None \<Rightarrow> EOF | Some e \<Rightarrow> ReadErr e)"

definition readChunk :: "nat \<Rightarrow> reader \<Rightarrow> nat" where
  "readChunk len r = min (length (rd_data r)) (min len (case rd_sched r of [] \<Rightarrow> len | k # _ \<Rightarrow> max 1 k))"

text \<open>One call with a buffer of \<open>len\<close> bytes: the bytes, the error, and the reader after it.\<close>

definition Read :: "nat \<Rightarrow> reader \<Rightarrow> string \<times> read_err option \<times> reader" where
  "Read len r =
     (if rd_data r = [] then ([], Some (endOf r), r)
      else let n = readChunk len r
           in (take n (rd_data r), if rd_eager r \<and> length (rd_data r) \<le> n then Some (endOf r) else None,
               r\<lparr>rd_data := drop n (rd_data r), rd_sched := tl (rd_sched r)\<rparr>))"

text \<open>\<open>boundedReader\<close>: counts up to \<open>max\<close>, then one more byte is an error.\<close>

record boundedReader =
  br_r :: reader
  br_max :: nat
  br_n :: nat

definition boundedRead :: "nat \<Rightarrow> boundedReader \<Rightarrow> string \<times> read_err option \<times> boundedReader" where
  "boundedRead len b =
     (if br_n b = br_max b then
        (case Read 1 (br_r b) of
           (bs, err, r') \<Rightarrow>
             (if bs \<noteq> [] then ([], Some (ReadErr (Sentinel ErrByteLimit)), b\<lparr>br_r := r'\<rparr>)
              else ([], err, b\<lparr>br_r := r'\<rparr>)))
      else
        (case Read (if br_max b - br_n b < len then br_max b - br_n b else len) (br_r b) of
           (bs, err, r') \<Rightarrow> (bs, err, b\<lparr>br_r := r', br_n := br_n b + length bs\<rparr>)))"

text \<open>\<open>limitReadCloser\<close>: counts down.\<close>

record limitReader =
  lr_r :: reader
  lr_remaining :: nat

definition limitRead :: "nat \<Rightarrow> limitReader \<Rightarrow> string \<times> read_err option \<times> limitReader" where
  "limitRead len b =
     (if lr_remaining b = 0 then
        (case Read 1 (lr_r b) of
           (bs, err, r') \<Rightarrow>
             (if bs \<noteq> [] then ([], Some (ReadErr (Sentinel ErrByteLimit)), b\<lparr>lr_r := r'\<rparr>)
              else ([], err, b\<lparr>lr_r := r'\<rparr>)))
      else
        (case Read (if lr_remaining b < len then lr_remaining b else len) (lr_r b) of
           (bs, err, r') \<Rightarrow> (bs, err, b\<lparr>lr_r := r', lr_remaining := lr_remaining b - length bs\<rparr>)))"

text \<open>
  \<open>io.Copy\<close>: reads with a buffer of \<open>len\<close> bytes until an error; end of file is success. The loop
  is cut off by the number of bytes still to come, which every call before the end reduces.
\<close>

fun copyLoop :: "nat \<Rightarrow> ('r \<Rightarrow> string \<times> read_err option \<times> 'r) \<Rightarrow> 'r \<Rightarrow> string \<Rightarrow> string \<times> error option \<times> 'r" where
  "copyLoop fuel rd r out =
     (case rd r of
        (bs, Some EOF, r') \<Rightarrow> (out @ bs, None, r')
      | (bs, Some (ReadErr e), r') \<Rightarrow> (out @ bs, Some e, r')
      | (bs, None, r') \<Rightarrow>
          (case fuel of 0 \<Rightarrow> (out @ bs, None, r') | Suc f \<Rightarrow> copyLoop f rd r' (out @ bs)))"

declare copyLoop.simps [simp del]

lemma copyLoop_steps:
  "rd r = (bs, Some EOF, r') \<Longrightarrow> copyLoop fuel rd r out = (out @ bs, None, r')"
  "rd r = (bs, Some (ReadErr e), r') \<Longrightarrow> copyLoop fuel rd r out = (out @ bs, Some e, r')"
  "rd r = (bs, None, r') \<Longrightarrow> copyLoop (Suc f) rd r out = copyLoop f rd r' (out @ bs)"
  by (subst copyLoop.simps, simp)+

definition copyBuffer :: nat where
  "copyBuffer = 32768"

definition copyBounded :: "reader \<Rightarrow> nat \<Rightarrow> string \<times> error option \<times> boundedReader" where
  "copyBounded r lim =
     copyLoop (length (rd_data r)) (boundedRead copyBuffer) \<lparr>br_r = r, br_max = lim, br_n = 0\<rparr> []"

definition copyLimited :: "reader \<Rightarrow> nat \<Rightarrow> string \<times> error option \<times> limitReader" where
  "copyLimited r lim =
     copyLoop (length (rd_data r)) (limitRead copyBuffer) \<lparr>lr_r = r, lr_remaining = lim\<rparr> []"

text \<open>The reference: what a stream bounded by \<open>lim\<close> delivers, and how it ends.\<close>

definition boundedResult :: "reader \<Rightarrow> nat \<Rightarrow> string \<times> error option" where
  "boundedResult r lim =
     (take lim (rd_data r), if lim < length (rd_data r) then Some (Sentinel ErrByteLimit) else rd_end r)"

lemma Read_data:
  assumes "0 < len" "rd_data r \<noteq> []"
  obtains n err sch where "0 < n" "n \<le> len" "n \<le> length (rd_data r)"
    "Read len r = (take n (rd_data r), err, r\<lparr>rd_data := drop n (rd_data r), rd_sched := sch\<rparr>)"
    "err = None \<or> err = Some (endOf r) \<and> n = length (rd_data r)"
proof (rule that)
  show "0 < readChunk len r" using assms by (auto simp: readChunk_def split: list.split)
  show "readChunk len r \<le> len" "readChunk len r \<le> length (rd_data r)" by (simp_all add: readChunk_def)
  show "Read len r = (take (readChunk len r) (rd_data r),
      if rd_eager r \<and> length (rd_data r) \<le> readChunk len r then Some (endOf r) else None,
      r\<lparr>rd_data := drop (readChunk len r) (rd_data r), rd_sched := tl (rd_sched r)\<rparr>)"
    using assms(2) by (simp add: Read_def Let_def)
  show "(if rd_eager r \<and> length (rd_data r) \<le> readChunk len r then Some (endOf r) else None) = None \<or>
      (if rd_eager r \<and> length (rd_data r) \<le> readChunk len r then Some (endOf r) else None) = Some (endOf r) \<and>
      readChunk len r = length (rd_data r)"
    by (simp add: readChunk_def)
qed

text \<open>
  The two bounded readers count in opposite directions; both are the same stream with a number of
  bytes left. The interface: a reader with \<open>left\<close> bytes still allowed reads at most that much, and
  once nothing is allowed, one more byte is the error.
\<close>

locale bounded_stream =
  fixes rd :: "nat \<Rightarrow> 'b \<Rightarrow> string \<times> read_err option \<times> 'b"
    and src :: "'b \<Rightarrow> reader"
    and left :: "'b \<Rightarrow> nat"
    and ok :: "'b \<Rightarrow> bool"
  assumes exhausted: "ok b \<Longrightarrow> left b = 0 \<Longrightarrow> Read 1 (src b) = (bs, err, r') \<Longrightarrow>
      \<exists>b'. ok b' \<and> left b' = 0 \<and> rd len b = ([], if bs = [] then err else Some (ReadErr (Sentinel ErrByteLimit)), b')"
    and within: "ok b \<Longrightarrow> 0 < left b \<Longrightarrow> Read (min len (left b)) (src b) = (bs, err, r') \<Longrightarrow>
      \<exists>b'. ok b' \<and> rd len b = (bs, err, b') \<and> src b' = r' \<and> left b' = left b - length bs"
begin

lemma copy_end:
  assumes "ok b" "rd_data (src b) = []"
  shows "\<exists>b'. copyLoop fuel (rd len) b out = (out, rd_end (src b), b') \<and> ok b' \<and> left b' = left b"
proof -
  have e: "Read n (src b) = ([], Some (endOf (src b)), src b)" for n using assms(2) by (simp add: Read_def)
  obtain b' where b': "rd len b = ([], Some (endOf (src b)), b')" "ok b'" "left b' = left b"
    using exhausted [OF assms(1) _ e, of len] within [OF assms(1) _ e, of len] by (cases "left b = 0") auto
  show ?thesis
    using copyLoop_steps(1) [of "rd len" b "[]" b' fuel out] b' copyLoop_steps(2) [of "rd len" b "[]" _ b' fuel out]
    by (cases "rd_end (src b)") (simp_all add: endOf_def)
qed

lemma copy_over:
  assumes "ok b" "rd_data (src b) \<noteq> []" "left b = 0"
  shows "\<exists>b'. copyLoop fuel (rd len) b out = (out, Some (Sentinel ErrByteLimit), b') \<and> ok b' \<and> left b' = 0"
proof -
  obtain bs err r' where r: "Read 1 (src b) = (bs, err, r')" by (cases "Read 1 (src b)")
  have "bs \<noteq> []" by (rule Read_data [OF zero_less_one assms(2)]) (use r assms(2) in auto)
  then obtain b' where "left b' = 0" "ok b'" "rd len b = ([], Some (ReadErr (Sentinel ErrByteLimit)), b')"
    using exhausted [OF assms(1,3) r, of len] by auto
  then show ?thesis using copyLoop_steps(2) [of "rd len" b "[]" _ b' fuel out] by simp
qed

lemma copy_step:
  assumes "ok b" "0 < len" "rd_data (src b) \<noteq> []" "0 < left b"
  obtains n b' err where "0 < n" "n \<le> left b" "n \<le> length (rd_data (src b))"
    "rd len b = (take n (rd_data (src b)), err, b')" "left b' = left b - n"
    "ok b'" "rd_data (src b') = drop n (rd_data (src b))" "rd_end (src b') = rd_end (src b)"
    "err = None \<or> err = Some (endOf (src b)) \<and> n = length (rd_data (src b))"
proof -
  have "0 < min len (left b)" using assms by simp
  from Read_data [OF this assms(3)] obtain n err sch where n: "0 < n" "n \<le> min len (left b)"
    "n \<le> length (rd_data (src b))" "Read (min len (left b)) (src b) =
      (take n (rd_data (src b)), err, (src b)\<lparr>rd_data := drop n (rd_data (src b)), rd_sched := sch\<rparr>)"
    "err = None \<or> err = Some (endOf (src b)) \<and> n = length (rd_data (src b))" by blast
  from within [OF assms(1,4) n(4)] obtain b' where b': "rd len b = (take n (rd_data (src b)), err, b')" "ok b'"
    "src b' = (src b)\<lparr>rd_data := drop n (rd_data (src b)), rd_sched := sch\<rparr>" "left b' = left b - n"
    using n(3) by auto
  show thesis by (rule that [OF n(1) _ n(3) b'(1) b'(4) b'(2) _ _ n(5)]) (use n(2) b'(3) in simp_all)
qed

lemma copy_bounded:
  assumes "0 < len" "ok b" "length (rd_data (src b)) \<le> fuel"
  shows "\<exists>b'. copyLoop fuel (rd len) b out =
      (out @ fst (boundedResult (src b) (left b)), snd (boundedResult (src b) (left b)), b') \<and>
    ok b' \<and> left b' = left b - length (rd_data (src b))"
  using assms(2,3)
proof (induction fuel arbitrary: b out)
  case 0
  then show ?case using copy_end [of b 0 len out] by (auto simp: boundedResult_def)
next
  case (Suc fuel)
  let ?d = "rd_data (src b)"
  consider "?d = []" | "?d \<noteq> []" "left b = 0" | "?d \<noteq> []" "0 < left b" by blast
  then show ?case
  proof cases
    case 1
    then show ?thesis using copy_end [of b "Suc fuel" len out] Suc.prems by (auto simp: boundedResult_def)
  next
    case 2
    then show ?thesis using copy_over [of b "Suc fuel" len out] Suc.prems by (auto simp: boundedResult_def)
  next
    case 3
    obtain n b1 err where n: "0 < n" "n \<le> left b" "n \<le> length ?d"
      "rd len b = (take n ?d, err, b1)" "left b1 = left b - n" "ok b1" "rd_data (src b1) = drop n ?d"
      "rd_end (src b1) = rd_end (src b)" "err = None \<or> err = Some (endOf (src b)) \<and> n = length ?d"
      using copy_step [OF Suc.prems(1) assms(1) 3] .
    show ?thesis
    proof (cases err)
      case None
      have "length (rd_data (src b1)) \<le> fuel" using Suc.prems n(1,3,7) by simp
      from Suc.IH [OF n(6) this, of "out @ take n ?d"] obtain b' where
        b': "copyLoop fuel (rd len) b1 (out @ take n ?d) =
          ((out @ take n ?d) @ fst (boundedResult (src b1) (left b1)), snd (boundedResult (src b1) (left b1)), b')"
        "ok b'" "left b' = left b1 - length (rd_data (src b1))" by blast
      have "take n ?d @ take (left b - n) (drop n ?d) = take (left b) ?d"
        using n(2) take_add [of n "left b - n" ?d] by simp
      then show ?thesis
        using b' n None copyLoop_steps(3) [of "rd len" b "take n ?d" b1 fuel out] by (auto simp: boundedResult_def)
    next
      case (Some a)
      then have "a = endOf (src b)" "n = length ?d" using n(9) by simp_all
      then show ?thesis
        using n Some copyLoop_steps(1) [of "rd len" b "take n ?d" b1 "Suc fuel" out]
          copyLoop_steps(2) [of "rd len" b "take n ?d" _ b1 "Suc fuel" out]
        by (cases "rd_end (src b)") (auto simp: boundedResult_def endOf_def)
    qed
  qed
qed

end

definition boundedLeft :: "boundedReader \<Rightarrow> nat" where
  "boundedLeft b = br_max b - br_n b"

definition boundedOk :: "boundedReader \<Rightarrow> bool" where
  "boundedOk b = (br_n b \<le> br_max b)"

interpretation up: bounded_stream boundedRead br_r boundedLeft boundedOk
proof unfold_locales
  fix b bs err r' len
  assume a: "boundedOk b"
  show "\<exists>b'. boundedOk b' \<and> boundedLeft b' = 0 \<and>
      boundedRead len b = ([], if bs = [] then err else Some (ReadErr (Sentinel ErrByteLimit)), b')"
    if "boundedLeft b = 0" "Read 1 (br_r b) = (bs, err, r')"
    using a that by (auto simp: boundedOk_def boundedLeft_def boundedRead_def)
  show "\<exists>b'. boundedOk b' \<and> boundedRead len b = (bs, err, b') \<and> br_r b' = r' \<and> boundedLeft b' = boundedLeft b - length bs"
    if "0 < boundedLeft b" "Read (min len (boundedLeft b)) (br_r b) = (bs, err, r')"
  proof -
    have "length bs \<le> boundedLeft b" using that(2) by (auto simp: Read_def readChunk_def Let_def split: if_splits)
    moreover have "min len (boundedLeft b) = (if br_max b - br_n b < len then br_max b - br_n b else len)"
      by (simp add: boundedLeft_def min_def)
    ultimately show ?thesis using a that by (auto simp: boundedOk_def boundedLeft_def boundedRead_def)
  qed
qed

interpretation down: bounded_stream limitRead lr_r lr_remaining "\<lambda>_. True"
proof unfold_locales
  fix b bs err r' len
  show "\<exists>b'. True \<and> lr_remaining b' = 0 \<and>
      limitRead len b = ([], if bs = [] then err else Some (ReadErr (Sentinel ErrByteLimit)), b')"
    if "lr_remaining b = 0" "Read 1 (lr_r b) = (bs, err, r')"
    using that by (auto simp: limitRead_def)
  show "\<exists>b'. True \<and> limitRead len b = (bs, err, b') \<and> lr_r b' = r' \<and> lr_remaining b' = lr_remaining b - length bs"
    if "0 < lr_remaining b" "Read (min len (lr_remaining b)) (lr_r b) = (bs, err, r')"
  proof -
    have "min len (lr_remaining b) = (if lr_remaining b < len then lr_remaining b else len)" by (simp add: min_def)
    then show ?thesis using that by (auto simp: limitRead_def)
  qed
qed

lemma copyLoop_keeps:
  assumes "\<And>r. f (snd (snd (rd r))) = f r"
  shows "f (snd (snd (copyLoop fuel rd r out))) = f r"
proof (induction fuel arbitrary: r out)
  case 0
  then show ?case using assms [of r] by (subst copyLoop.simps) (auto split: prod.splits option.splits read_err.splits)
next
  case (Suc fuel)
  then show ?case using assms [of r] by (subst copyLoop.simps) (auto split: prod.splits option.splits read_err.splits)
qed

lemma boundedRead_max: "br_max (snd (snd (boundedRead len b))) = br_max b"
  by (simp add: boundedRead_def split: prod.splits)

lemma copyBounded_result:
  "\<exists>b'. copyBounded r lim = (fst (boundedResult r lim), snd (boundedResult r lim), b') \<and>
     br_n b' = min lim (length (rd_data r))"
proof -
  obtain b' where b': "copyBounded r lim = (fst (boundedResult r lim), snd (boundedResult r lim), b')"
    "br_n b' \<le> br_max b'" "br_max b' - br_n b' = lim - length (rd_data r)"
    using up.copy_bounded [of copyBuffer "\<lparr>br_r = r, br_max = lim, br_n = 0\<rparr>" "length (rd_data r)" "[]"]
    by (auto simp: copyBounded_def boundedOk_def boundedLeft_def copyBuffer_def)
  have "br_max (snd (snd (copyBounded r lim))) = lim"
    by (simp add: copyBounded_def copyLoop_keeps [of br_max, OF boundedRead_max])
  then have "br_max b' = lim" using b'(1) by simp
  then have "br_n b' = min lim (length (rd_data r))" using b'(2,3) by (auto simp: min_def)
  then show ?thesis using b'(1) by blast
qed

lemma copyLimited_result:
  "\<exists>b'. copyLimited r lim = (fst (boundedResult r lim), snd (boundedResult r lim), b')"
  using down.copy_bounded [of copyBuffer "\<lparr>lr_r = r, lr_remaining = lim\<rparr>" "length (rd_data r)" "[]"]
  by (auto simp: copyLimited_def copyBuffer_def)

text \<open>\<open>io.ReadAll\<close> of an \<open>io.LimitReader\<close>: the limit ends the stream like an end of file.\<close>

definition readAllLimit :: "reader \<Rightarrow> nat \<Rightarrow> string result" where
  "readAllLimit r lim =
     (if lim \<le> length (rd_data r) then Inr (take lim (rd_data r))
      else case rd_end r of Some e \<Rightarrow> Inl e | None \<Rightarrow> Inr (rd_data r))"

text \<open>
  C24. A bounded stream delivers exactly the first bytes of the source, as many as the bound allows,
  and fails with the byte-limit error exactly when the source has more, for every way the source
  cuts its bytes into reads. The reader that counts up (uploads) and the one that counts down
  (downloads) deliver the same.
\<close>

theorem bounded_copies_agree:
  "(case copyBounded r lim of (out, err, b) \<Rightarrow>
      (out, err) = boundedResult r lim \<and> br_n b = min lim (length (rd_data r))) \<and>
   (case copyLimited r lim of (out, err, _) \<Rightarrow> (out, err) = boundedResult r lim)"
  using copyBounded_result [of r lim] copyLimited_result [of r lim] by auto

end
