(* ===== verification/Http.thy ===== *)
theory Http
  imports Json
begin

text \<open>
  Requests and responses of \<open>net/http\<close> as far as the program's servers and clients read and write
  them. A client's exchange is a function from the state of the other side and a request to a
  response or an error of the connection, and the new state of the other side.
\<close>

record HttpRequest =
  rq_Method :: string
  rq_URL :: string
  rq_Header :: "(string \<times> string) list"
  rq_Body :: string

record HttpResponse =
  rs_Status :: nat
  rs_Body :: string

type_synonym 'w exchange = "'w \<Rightarrow> HttpRequest \<Rightarrow> HttpResponse result \<times> 'w"

text \<open>\<open>http.Error\<close>, and a JSON document written by an \<open>Encoder\<close>.\<close>

definition httpError :: "string \<Rightarrow> nat \<Rightarrow> HttpResponse" where
  "httpError msg code = \<lparr>rs_Status = code, rs_Body = msg @ NL\<rparr>"

definition jsonResponse :: "json \<Rightarrow> HttpResponse" where
  "jsonResponse v = \<lparr>rs_Status = 200, rs_Body = json_enc v @ NL\<rparr>"

definition StatusText :: "nat \<Rightarrow> string" where
  "StatusText code =
     (case map_of
        [(200, ''OK''), (201, ''Created''), (204, ''No Content''), (400, ''Bad Request''), (401, ''Unauthorized''),
         (403, ''Forbidden''), (404, ''Not Found''), (405, ''Method Not Allowed''), (409, ''Conflict''),
         (413, ''Request Entity Too Large''), (422, ''Unprocessable Entity''), (429, ''Too Many Requests''),
         (500, ''Internal Server Error''), (502, ''Bad Gateway''), (503, ''Service Unavailable''), (504, ''Gateway Timeout'')] code of
        Some s \<Rightarrow> s
      | None \<Rightarrow> [])"

text \<open>\<open>errors.Is\<close> and the message of an error are all a handler reads of it.\<close>

definition header :: "string \<Rightarrow> HttpRequest \<Rightarrow> string" where
  "header name r = (case find (\<lambda>(k, _). EqualFold k name) (rq_Header r) of Some (_, v) \<Rightarrow> v | None \<Rightarrow> [])"

text \<open>Standard base64 with padding, for basic authentication.\<close>

definition b64_char :: "nat \<Rightarrow> char" where
  "b64_char n =
     (if n < 26 then char_of (65 + n) else if n < 52 then char_of (71 + n) else if n < 62 then char_of (n - 4)
      else if n = 62 then CHR ''+'' else CHR ''/'')"

fun b64 :: "nat list \<Rightarrow> string" where
  "b64 (a # b # c # bs) =
     b64_char (a div 4) # b64_char (a mod 4 * 16 + b div 16) # b64_char (b mod 16 * 4 + c div 64) # b64_char (c mod 64) # b64 bs"
| "b64 [a, b] = [b64_char (a div 4), b64_char (a mod 4 * 16 + b div 16), b64_char (b mod 16 * 4), CHR ''='']"
| "b64 [a] = [b64_char (a div 4), b64_char (a mod 4 * 16), CHR ''='', CHR ''='']"
| "b64 [] = []"

definition basicAuth :: "string \<Rightarrow> string \<Rightarrow> string \<times> string" where
  "basicAuth user password = (''Authorization'', ''Basic '' @ b64 (map of_char (user @ '':'' @ password)))"

end
