(* ===== verification/Kubo.thy ===== *)
theory Kubo
  imports Streams Http Stealth
begin

text \<open>
  The Kubo client (\<open>src/internal/drop/client.go\<close>): version and repository statistics, adding and
  pinning an object with its reserved size and digest, reading, pin status and unpinning.

  Kubo is a function with a state of its own, \<open>kubo\<close>; \<open>cid.Decode\<close> and SHA-256 are parameters, and
  so is the message of a JSON error (\<open>jerr\<close>). A request that uploads carries the name, the bytes and
  the end of its file part; with the response comes how far the client's transport drained the pipe
  that feeds it.
\<close>

section \<open>Requests and responses\<close>

record KuboRequest =
  kq_URL :: string
  kq_File :: "(string \<times> string \<times> error option) option"

record KuboResponse =
  kr_Status :: nat
  kr_Body :: reader
  kr_ContentLength :: int

datatype pipe = Drained | ClosedHeader | ClosedAfter nat

type_synonym 'w kubo = "'w \<Rightarrow> KuboRequest \<Rightarrow> KuboResponse result \<times> pipe \<times> 'w"

definition maxRPCResponseBytes :: nat where
  "maxRPCResponseBytes = 1048576"

definition readBounded :: "reader \<Rightarrow> string result" where
  "readBounded r =
     (case readAllLimit r (maxRPCResponseBytes + 1) of
        Inl e \<Rightarrow> Inl e
      | Inr bs \<Rightarrow>
          (if maxRPCResponseBytes < length bs
           then Inl (Errorf (''Kubo RPC response exceeds '' @ Itoa (int maxRPCResponseBytes) @ '' bytes''))
           else Inr bs))"

text \<open>\<open>decodeBounded\<close>: \<open>conv\<close> is the conversion of the tree into the caller's struct.\<close>

definition decodeBounded :: "error \<Rightarrow> (json \<Rightarrow> 'a option) \<Rightarrow> reader \<Rightarrow> 'a result" where
  "decodeBounded jerr conv r =
     (case readBounded r of
        Inl e \<Rightarrow> Inl e
      | Inr bs \<Rightarrow> (case Option.bind (json_dec bs) conv of None \<Rightarrow> Inl jerr | Some x \<Rightarrow> Inr x))"

text \<open>The error of \<open>Unmarshal\<close> is dropped: a field it could not fill keeps what it had.\<close>

definition rpcMessage :: "string \<Rightarrow> string" where
  "rpcMessage bs =
     (case json_dec bs of
        None \<Rightarrow> []
      | Some v \<Rightarrow> fold (\<lambda>m acc. case into_string m acc of Some s \<Rightarrow> s | None \<Rightarrow> acc) (members ''Message'' v) [])"

definition rpcStatusError :: "KuboResponse \<Rightarrow> error" where
  "rpcStatusError resp =
     (let status = Itoa (int (kr_Status resp)) in
      case readBounded (kr_Body resp) of
        Inl _ \<Rightarrow> Errorf (''Kubo RPC status '' @ status)
      | Inr bs \<Rightarrow>
          Errorf (''Kubo RPC status '' @ status @ '': '' @
            (if rpcMessage bs = [] then StatusText (kr_Status resp) else rpcMessage bs)))"

definition isNotPinnedError :: "error \<Rightarrow> bool" where
  "isNotPinnedError e =
     (let message = ToLower (Error e)
      in Contains message ''not pinned'' \<or> Contains message ''not pinned or pinned indirectly'')"

definition validateCID :: "(string \<Rightarrow> error option) \<Rightarrow> string \<Rightarrow> error option" where
  "validateCID cidDecode v = map_option (\<lambda>e. Wrapf ''invalid CID: '' e []) (cidDecode (TrimSpace v))"

definition pinChar :: "char \<Rightarrow> bool" where
  "pinChar c \<longleftrightarrow> (CHR ''a'' \<le> c \<and> c \<le> CHR ''z'') \<or> (CHR ''A'' \<le> c \<and> c \<le> CHR ''Z'') \<or> is_digit c \<or>
     c \<in> {CHR ''-'', CHR ''_'', CHR ''.''}"

text \<open>The loop over the runes: it writes the allowed ones and stops at 128.\<close>

fun pinLoop :: "string \<Rightarrow> string \<Rightarrow> string" where
  "pinLoop out [] = out"
| "pinLoop out (r # rs) =
     (let out' = (if pinChar r then out @ [r] else out)
      in if length out' = 128 then out' else pinLoop out' rs)"

definition sanitizePinName :: "string \<Rightarrow> string" where
  "sanitizePinName v = pinLoop [] (TrimSpace v)"

definition postAllowStatus ::
  "'w kubo \<Rightarrow> string \<Rightarrow> string \<Rightarrow> (string \<times> string) list \<Rightarrow> (string \<times> string \<times> error option) option \<Rightarrow>
   'w \<Rightarrow> KuboResponse result \<times> pipe \<times> 'w" where
  "postAllowStatus kubo baseURL path query file w =
     (case kubo w \<lparr>kq_URL = baseURL @ path @ (if query = [] then [] else ''?'' @ encodeValues query), kq_File = file\<rparr> of
        (Inl e, p, w') \<Rightarrow> (Inl (Wrapf (''Kubo RPC '' @ path @ '': '') e []), p, w')
      | (Inr resp, p, w') \<Rightarrow> (Inr resp, p, w'))"

definition kuboPost ::
  "'w kubo \<Rightarrow> string \<Rightarrow> string \<Rightarrow> (string \<times> string) list \<Rightarrow> (string \<times> string \<times> error option) option \<Rightarrow>
   'w \<Rightarrow> KuboResponse result \<times> pipe \<times> 'w" where
  "kuboPost kubo baseURL path query file w =
     (case postAllowStatus kubo baseURL path query file w of
        (Inl e, p, w') \<Rightarrow> (Inl e, p, w')
      | (Inr resp, p, w') \<Rightarrow>
          (if kr_Status resp \<noteq> 200 then (Inl (rpcStatusError resp), p, w') else (Inr resp, p, w')))"


section \<open>Version and statistics\<close>

definition versionOf :: "json \<Rightarrow> string option" where
  "versionOf v = (if is_struct v then string_field ''Version'' v else None)"

definition kuboVersion :: "'w kubo \<Rightarrow> error \<Rightarrow> string \<Rightarrow> 'w \<Rightarrow> string result \<times> 'w" where
  "kuboVersion kubo jerr baseURL w =
     (case kuboPost kubo baseURL ''/api/v0/version'' [] None w of
        (Inl e, _, w') \<Rightarrow> (Inl e, w')
      | (Inr resp, _, w') \<Rightarrow>
          (case decodeBounded jerr versionOf (kr_Body resp) of
             Inl e \<Rightarrow> (Inl (Wrapf ''decode Kubo version: '' e []), w')
           | Inr version \<Rightarrow>
               (if version = [] then (Inl (Errorf ''Kubo version response is empty''), w') else (Inr version, w'))))"

record RepoStat =
  st_RepoSize :: int
  st_StorageMax :: int
  st_NumObjects :: int

definition repoStatOf :: "json \<Rightarrow> RepoStat option" where
  "repoStatOf v =
     (if is_struct v then
        (case (int_field ''RepoSize'' v, int_field ''StorageMax'' v, int_field ''NumObjects'' v) of
           (Some a, Some b, Some c) \<Rightarrow> Some \<lparr>st_RepoSize = a, st_StorageMax = b, st_NumObjects = c\<rparr>
         | _ \<Rightarrow> None)
      else None)"

definition RepoStats :: "'w kubo \<Rightarrow> error \<Rightarrow> string \<Rightarrow> 'w \<Rightarrow> RepoStat result \<times> 'w" where
  "RepoStats kubo jerr baseURL w =
     (case kuboPost kubo baseURL ''/api/v0/repo/stat'' [] None w of
        (Inl e, _, w') \<Rightarrow> (Inl e, w')
      | (Inr resp, _, w') \<Rightarrow>
          (case decodeBounded jerr repoStatOf (kr_Body resp) of
             Inl e \<Rightarrow> (Inl (Wrapf ''decode Kubo repo stat: '' e []), w')
           | Inr out \<Rightarrow> (Inr out, w')))"


section \<open>Adding\<close>

record AddRequest =
  ar_UploadID :: string
  ar_Body :: "reader option"
  ar_DeclaredSize :: int
  ar_MaxBytes :: int
  ar_SHA256 :: string

record AddResult =
  ad_CID :: string
  ad_Size :: int

abbreviation ErrClosedPipe :: error where
  "ErrClosedPipe \<equiv> Errorf ''io: read/write on closed pipe''"

text \<open>The goroutine that fills the pipe: the bytes it writes, and its error while the pipe is open.\<close>

definition writerStream :: "(string \<Rightarrow> u8 list) \<Rightarrow> reader \<Rightarrow> AddRequest \<Rightarrow> string \<times> error option" where
  "writerStream sha256 body req =
     (case copyBounded body (nat (ar_DeclaredSize req)) of
        (out, Some e, _) \<Rightarrow> (out, Some e)
      | (out, None, bounded) \<Rightarrow>
          (out,
           if int (br_n bounded) \<noteq> ar_DeclaredSize req then Some (Sentinel ErrSizeMismatch)
           else if ar_SHA256 req \<noteq> [] \<and> \<not> EqualFold (hex_encode (sha256 out)) (TrimSpace (ar_SHA256 req))
           then Some (Sentinel ErrHashMismatch)
           else None))"

text \<open>What the goroutine reports: a pipe closed before the last byte of the form fails its write.\<close>

definition writerDone :: "pipe \<Rightarrow> string \<times> error option \<Rightarrow> error option" where
  "writerDone p s =
     (case p of
        Drained \<Rightarrow> snd s
      | ClosedHeader \<Rightarrow> Some ErrClosedPipe
      | ClosedAfter k \<Rightarrow> if k < length (fst s) \<or> snd s = None then Some ErrClosedPipe else snd s)"

text \<open>The values of the response, one after the other; the last hash counts.\<close>

definition itemHash :: "json \<Rightarrow> string option" where
  "itemHash v =
     (if is_struct v
      then (case (string_field ''Hash'' v, string_field ''Size'' v) of (Some h, Some _) \<Rightarrow> Some h | _ \<Rightarrow> None)
      else None)"

function addItems :: "string \<Rightarrow> string \<Rightarrow> string option" where
  "addItems final s =
     (if skip_ws s = [] \<or> hd (skip_ws s) \<in> {CHR '']'', CHR ''}''} then Some final
      else case parse_value s of
             None \<Rightarrow> None
           | Some (v, r) \<Rightarrow>
               (case itemHash v of
                  None \<Rightarrow> None
                | Some h \<Rightarrow>
                    if length r < length s then addItems (if h \<noteq> [] then h else final) r else None))"
  by pat_completeness auto
termination
  by (relation "measure (\<lambda>(_, s). length s)") auto

declare addItems.simps [simp del]

definition AddAndPin ::
  "'w kubo \<Rightarrow> error \<Rightarrow> (string \<Rightarrow> u8 list) \<Rightarrow> (string \<Rightarrow> error option) \<Rightarrow> string \<Rightarrow> AddRequest \<Rightarrow> 'w \<Rightarrow>
   AddResult result \<times> 'w" where
  "AddAndPin kubo jerr sha256 cidDecode baseURL req w =
     (case ar_Body req of
        None \<Rightarrow> (Inl (Errorf ''upload body is required''), w)
      | Some body \<Rightarrow>
          (let size = ar_DeclaredSize req; pinName = sanitizePinName (ar_UploadID req) in
           if size < 0 \<or> ar_MaxBytes req < 0 \<or> ar_MaxBytes req < size then (Inl (Sentinel ErrByteLimit), w)
           else if pinName = [] then (Inl (Errorf ''upload ID is required''), w)
           else
             let (out, werr) = writerStream sha256 body req;
                 query = [(''cid-version'', ''1''), (''pin'', ''true''), (''pin-name'', pinName),
                          (''progress'', ''false''), (''raw-leaves'', ''true'')]
             in case kuboPost kubo baseURL ''/api/v0/add'' query (Some (pinName, out, werr)) w of
                  (Inl e, _, w') \<Rightarrow> (Inl e, w')
                | (Inr resp, p, w') \<Rightarrow>
                    (case writerDone p (out, werr) of
                       Some e \<Rightarrow> (Inl e, w')
                     | None \<Rightarrow>
                         (case readBounded (kr_Body resp) of
                            Inl e \<Rightarrow> (Inl (Wrapf ''read Kubo add response: '' e []), w')
                          | Inr bs \<Rightarrow>
                              (case addItems [] bs of
                                 None \<Rightarrow> (Inl (Wrapf ''decode Kubo add response: '' jerr []), w')
                               | Some hash \<Rightarrow>
                                   (if hash = [] then (Inl (Errorf ''Kubo add response did not include a CID''), w')
                                    else case validateCID cidDecode hash of
                                           Some e \<Rightarrow> (Inl (Wrapf ''Kubo returned invalid CID: '' e []), w')
                                         | None \<Rightarrow> (Inr \<lparr>ad_CID = hash, ad_Size = size\<rparr>, w')))))))"


section \<open>Reading and pins\<close>

definition Cat ::
  "'w kubo \<Rightarrow> (string \<Rightarrow> error option) \<Rightarrow> string \<Rightarrow> string \<Rightarrow> int \<Rightarrow> 'w \<Rightarrow> limitReader result \<times> 'w" where
  "Cat kubo cidDecode baseURL v maxBytes w =
     (case validateCID cidDecode v of
        Some e \<Rightarrow> (Inl e, w)
      | None \<Rightarrow>
          (case kuboPost kubo baseURL ''/api/v0/cat'' [(''arg'', v)] None w of
             (Inl e, _, w') \<Rightarrow> (Inl e, w')
           | (Inr resp, _, w') \<Rightarrow>
               (if maxBytes < kr_ContentLength resp \<and> 0 \<le> kr_ContentLength resp then (Inl (Sentinel ErrByteLimit), w')
                else (Inr \<lparr>lr_r = kr_Body resp, lr_remaining = nat maxBytes\<rparr>, w'))))"

text \<open>\<open>Keys\<close> is a map of raw messages: only its names are read.\<close>

fun into_keys :: "json \<Rightarrow> string list \<Rightarrow> string list option" where
  "into_keys (JObj kvs) old = Some (old @ map fst kvs)"
| "into_keys JNull old = Some []"
| "into_keys _ old = None"

definition keysOf :: "json \<Rightarrow> string list option" where
  "keysOf v = (if is_struct v then field into_keys [] ''Keys'' v else None)"

definition PinStatus ::
  "'w kubo \<Rightarrow> error \<Rightarrow> (string \<Rightarrow> error option) \<Rightarrow> string \<Rightarrow> string \<Rightarrow> 'w \<Rightarrow> bool result \<times> 'w" where
  "PinStatus kubo jerr cidDecode baseURL v w =
     (case validateCID cidDecode v of
        Some e \<Rightarrow> (Inl e, w)
      | None \<Rightarrow>
          (case postAllowStatus kubo baseURL ''/api/v0/pin/ls'' [(''arg'', v), (''type'', ''recursive'')] None w of
             (Inl e, _, w') \<Rightarrow> (Inl e, w')
           | (Inr resp, _, w') \<Rightarrow>
               (if kr_Status resp \<noteq> 200 then
                  (let err = rpcStatusError resp in
                   if kr_Status resp = 404 \<or> kr_Status resp = 500 \<and> isNotPinnedError err then (Inr False, w')
                   else (Inl err, w'))
                else case decodeBounded jerr keysOf (kr_Body resp) of
                       Inl e \<Rightarrow> (Inl (Wrapf ''decode Kubo pin status: '' e []), w')
                     | Inr keys \<Rightarrow> (Inr (v \<in> set keys), w'))))"

definition Unpin :: "'w kubo \<Rightarrow> (string \<Rightarrow> error option) \<Rightarrow> string \<Rightarrow> string \<Rightarrow> 'w \<Rightarrow> error option \<times> 'w" where
  "Unpin kubo cidDecode baseURL v w =
     (case validateCID cidDecode v of
        Some e \<Rightarrow> (Some e, w)
      | None \<Rightarrow>
          (case postAllowStatus kubo baseURL ''/api/v0/pin/rm'' [(''arg'', v), (''recursive'', ''true'')] None w of
             (Inl e, _, w') \<Rightarrow> (Some e, w')
           | (Inr resp, _, w') \<Rightarrow>
               (if kr_Status resp = 200 \<or> kr_Status resp = 404 then (None, w')
                else let err = rpcStatusError resp
                     in if kr_Status resp = 500 \<and> isNotPinnedError err then (None, w') else (Some err, w'))))"


section \<open>Properties\<close>

lemma pinLoop_filter: "length out < 128 \<Longrightarrow> pinLoop out rs = take 128 (out @ filter pinChar rs)"
  by (induction rs arbitrary: out) (auto simp: Let_def take_Cons')

lemma sanitizePinName_filter: "sanitizePinName v = take 128 (filter pinChar (TrimSpace v))"
  by (simp add: sanitizePinName_def pinLoop_filter)

lemma writerStream_ok:
  assumes "writerStream sha256 body req = (out, None)" "0 \<le> ar_DeclaredSize req"
  shows "out = rd_data body" "int (length out) = ar_DeclaredSize req" "rd_end body = None"
    "ar_SHA256 req = [] \<or> EqualFold (hex_encode (sha256 out)) (TrimSpace (ar_SHA256 req))"
proof -
  let ?n = "nat (ar_DeclaredSize req)"
  obtain b where b: "copyBounded body ?n = (take ?n (rd_data body), snd (boundedResult body ?n), b)"
    "br_n b = min ?n (length (rd_data body))"
    using copyBounded_result [of body ?n] by (auto simp: boundedResult_def)
  have n: "snd (boundedResult body ?n) = None" "out = take ?n (rd_data body)" "int (br_n b) = ar_DeclaredSize req"
    "ar_SHA256 req = [] \<or> EqualFold (hex_encode (sha256 out)) (TrimSpace (ar_SHA256 req))"
    using assms(1) b(1) by (auto simp: writerStream_def split: option.splits if_splits)
  have "\<not> ?n < length (rd_data body)" "rd_end body = None" using n(1) by (auto simp: boundedResult_def split: if_splits)
  moreover have "length (rd_data body) = ?n" using n(3) b(2) calculation(1) assms(2) by auto
  ultimately show "out = rd_data body" "int (length out) = ar_DeclaredSize req" "rd_end body = None"
    using n(2) assms(2) by simp_all
  show "ar_SHA256 req = [] \<or> EqualFold (hex_encode (sha256 out)) (TrimSpace (ar_SHA256 req))" by (fact n(4))
qed

lemma writerDone_ok: "writerDone p s = None \<longleftrightarrow> p = Drained \<and> snd s = None"
  by (auto simp: writerDone_def split: pipe.splits)

lemma kuboPost_ok:
  assumes "kuboPost kubo baseURL path query file w = (Inr resp, p, w')"
  shows "kubo w \<lparr>kq_URL = baseURL @ path @ (if query = [] then [] else ''?'' @ encodeValues query), kq_File = file\<rparr> = (Inr resp, p, w')"
    "kr_Status resp = 200"
  using assms by (auto simp: kuboPost_def postAllowStatus_def split: prod.splits sum.splits if_splits)

definition addQuery :: "string \<Rightarrow> string" where
  "addQuery pinName =
     ''?'' @ encodeValues [(''cid-version'', ''1''), (''pin'', ''true''), (''pin-name'', pinName),
                           (''progress'', ''false''), (''raw-leaves'', ''true'')]"

lemma AddAndPin_ok:
  assumes "AddAndPin kubo jerr sha256 cidDecode baseURL req w = (Inr res, w')"
  shows "\<exists>body resp.
    ar_Body req = Some body \<and> rd_end body = None \<and>
    int (length (rd_data body)) = ar_DeclaredSize req \<and> ar_DeclaredSize req \<le> ar_MaxBytes req \<and>
    (ar_SHA256 req = [] \<or> EqualFold (hex_encode (sha256 (rd_data body))) (TrimSpace (ar_SHA256 req))) \<and>
    sanitizePinName (ar_UploadID req) \<noteq> [] \<and>
    kubo w \<lparr>kq_URL = baseURL @ ''/api/v0/add'' @ addQuery (sanitizePinName (ar_UploadID req)),
            kq_File = Some (sanitizePinName (ar_UploadID req), rd_data body, None)\<rparr> = (Inr resp, Drained, w') \<and>
    kr_Status resp = 200 \<and> ad_Size res = ar_DeclaredSize req \<and> ad_CID res \<noteq> [] \<and>
    cidDecode (TrimSpace (ad_CID res)) = None"
proof -
  let ?pin = "sanitizePinName (ar_UploadID req)"
  let ?q = "[(''cid-version'', ''1''), (''pin'', ''true''), (''pin-name'', ?pin),
             (''progress'', ''false''), (''raw-leaves'', ''true'')]"
  obtain body where body: "ar_Body req = Some body"
    using assms by (cases "ar_Body req") (simp_all add: AddAndPin_def)
  have g: "0 \<le> ar_DeclaredSize req" "ar_DeclaredSize req \<le> ar_MaxBytes req" "?pin \<noteq> []"
    using assms body by (auto simp: AddAndPin_def Let_def split: if_splits)
  obtain out werr where ws: "writerStream sha256 body req = (out, werr)" by (cases "writerStream sha256 body req")
  obtain resp p where k: "kuboPost kubo baseURL ''/api/v0/add'' ?q (Some (?pin, out, werr)) w = (Inr resp, p, w')"
    and d: "writerDone p (out, werr) = None"
    and res: "ad_Size res = ar_DeclaredSize req" "ad_CID res \<noteq> []" "validateCID cidDecode (ad_CID res) = None"
    using assms body g ws
    by (auto simp: AddAndPin_def Let_def split: if_splits prod.splits sum.splits option.splits)
  have p: "p = Drained" "werr = None" using d by (simp_all add: writerDone_ok)
  have w: "out = rd_data body" "int (length out) = ar_DeclaredSize req" "rd_end body = None"
    "ar_SHA256 req = [] \<or> EqualFold (hex_encode (sha256 out)) (TrimSpace (ar_SHA256 req))"
    using writerStream_ok [of sha256 body req out, OF _ g(1)] ws p(2) by simp_all
  have "kubo w \<lparr>kq_URL = baseURL @ ''/api/v0/add'' @ addQuery ?pin, kq_File = Some (?pin, rd_data body, None)\<rparr> =
      (Inr resp, Drained, w')" and "kr_Status resp = 200"
    using kuboPost_ok [OF k] p w(1) by (simp_all add: addQuery_def)
  moreover have "cidDecode (TrimSpace (ad_CID res)) = None" using res(3) by (simp add: validateCID_def)
  ultimately show ?thesis using body g w res
    by (intro exI [of _ body] exI [of _ resp] conjI) simp_all
qed

text \<open>
  An upload that succeeds stored the object it was asked to: whatever Kubo and the transport do,
  a successful \<open>AddAndPin\<close> means the source ended without an error after exactly the declared number
  of bytes, within the limit, with the declared digest if one was declared; that all those bytes went
  to Kubo in one complete form that asks it to pin them; that Kubo answered 200; and that the
  result names a valid identifier and the declared size.
\<close>

theorem AddAndPin_stores_declared:
  assumes "AddAndPin kubo jerr sha256 cidDecode baseURL req w = (Inr res, w')"
  shows "\<exists>body resp.
    ar_Body req = Some body \<and> rd_end body = None \<and>
    int (length (rd_data body)) = ar_DeclaredSize req \<and> ar_DeclaredSize req \<le> ar_MaxBytes req \<and>
    (ar_SHA256 req = [] \<or> EqualFold (hex_encode (sha256 (rd_data body))) (TrimSpace (ar_SHA256 req))) \<and>
    sanitizePinName (ar_UploadID req) \<noteq> [] \<and>
    kubo w \<lparr>kq_URL = baseURL @ ''/api/v0/add'' @ addQuery (sanitizePinName (ar_UploadID req)),
            kq_File = Some (sanitizePinName (ar_UploadID req), rd_data body, None)\<rparr> = (Inr resp, Drained, w') \<and>
    kr_Status resp = 200 \<and> ad_Size res = ar_DeclaredSize req \<and> ad_CID res \<noteq> [] \<and>
    cidDecode (TrimSpace (ad_CID res)) = None"
  by (rule AddAndPin_ok [OF assms])

definition ex_reader :: "string \<Rightarrow> reader" where
  "ex_reader s = \<lparr>rd_data = s, rd_end = None, rd_eager = True, rd_sched = [2, 1]\<rparr>"

definition ex_kubo :: "string list kubo" where
  "ex_kubo w q = (Inr \<lparr>kr_Status = 200, kr_Body = ex_reader (json_enc (JObj [(''Hash'', JStr ''bafk''), (''Size'', JStr ''3'')])),
     kr_ContentLength = -1\<rparr>, Drained, kq_URL q # w)"

definition ex_add :: AddRequest where
  "ex_add = \<lparr>ar_UploadID = ''up-1'', ar_Body = Some (ex_reader ''abc''), ar_DeclaredSize = 3, ar_MaxBytes = 10, ar_SHA256 = ''0A''\<rparr>"

theorem AddAndPin_stores_declared_witness:
  "\<exists>res w'. AddAndPin ex_kubo (Errorf ''json'') (\<lambda>_. [10]) (\<lambda>_. None) ''http://kubo:5001'' ex_add [] = (Inr res, w') \<and>
     ad_Size res = 3 \<and> ad_CID res \<noteq> []"
proof -
  have "map_sum (\<lambda>_. ()) ad_CID (fst (AddAndPin ex_kubo (Errorf ''json'') (\<lambda>_. [10]) (\<lambda>_. None) ''http://kubo:5001'' ex_add [])) = Inr ''bafk''"
    by code_simp
  then obtain res w' where r: "AddAndPin ex_kubo (Errorf ''json'') (\<lambda>_. [10]) (\<lambda>_. None) ''http://kubo:5001'' ex_add [] = (Inr res, w')"
    by (cases "AddAndPin ex_kubo (Errorf ''json'') (\<lambda>_. [10]) (\<lambda>_. None) ''http://kubo:5001'' ex_add []") (auto simp: map_sum_eq_Inr)
  show ?thesis using AddAndPin_stores_declared [OF r] r by (auto simp: ex_add_def)
qed

end
