(* ===== verification/Identity.thy ===== *)
theory Identity
  imports Http "HOL-Library.Word" "HOL-Library.Char_ord"
begin

unbundle bit_operations_syntax

text \<open>
  The identities a recovery phrase gives: the libp2p identities of the node and of the Kubo sidecar
  (\<open>src/internal/p2p/identity.go\<close>), the wallet and its signatures (\<open>src/internal/wallet/wallet.go\<close>)
  and the registration stub (\<open>src/internal/registrar/registrar.go\<close>).

  The derivation functions, hashes, curves and encodings are libraries: the record \<open>Crypto\<close> has one
  field per function the code calls, on byte strings.
\<close>

section \<open>Libraries\<close>

record Crypto =
  cy_IsMnemonicValid :: "string \<Rightarrow> bool"
  cy_NewSeed :: "string \<Rightarrow> string \<Rightarrow> u8 list"
  cy_NewMasterKey :: "u8 list \<Rightarrow> u8 list result"
  cy_NewChildKey :: "u8 list \<Rightarrow> nat \<Rightarrow> u8 list result"
  cy_KeyBytes :: "u8 list \<Rightarrow> u8 list"
  cy_sha256 :: "u8 list \<Rightarrow> u8 list"
  cy_keccak256 :: "u8 list \<Rightarrow> u8 list"
  cy_sha3 :: "u8 list \<Rightarrow> u8 list"
  cy_GenerateEd25519 :: "(nat \<Rightarrow> u8 list \<times> nat) \<Rightarrow> u8 list result"
  cy_PeerID :: "u8 list \<Rightarrow> string result"
  cy_MarshalPrivateKey :: "u8 list \<Rightarrow> u8 list result"
  cy_NewEntropy :: "nat \<Rightarrow> u8 list result"
  cy_NewMnemonic :: "u8 list \<Rightarrow> string result"
  cy_HdDerived :: "string \<Rightarrow> u8 list \<Rightarrow> u8 list result"
  cy_AccountFromSeed :: "u8 list \<Rightarrow> u8 list result"
  cy_AccountBase58 :: "u8 list \<Rightarrow> string"
  cy_Ed25519Sign :: "u8 list \<Rightarrow> u8 list \<Rightarrow> u8 list"
  cy_Base58 :: "u8 list \<Rightarrow> string"
  cy_ToECDSA :: "u8 list \<Rightarrow> u8 list result"
  cy_FromECDSAPub :: "u8 list \<Rightarrow> u8 list"
  cy_EthSign :: "u8 list \<Rightarrow> u8 list \<Rightarrow> u8 list result"

definition bytes_of :: "string \<Rightarrow> u8 list" where
  "bytes_of s = map (\<lambda>c. of_nat (of_char c)) s"

abbreviation FirstHardenedChild :: nat where "FirstHardenedChild \<equiv> 2147483648"
abbreviation DIDPrefix :: string where "DIDPrefix \<equiv> ''did:erebrus:''"
abbreviation kuboIdentityDomain :: string where "kuboIdentityDomain \<equiv> ''erebrus/drop/kubo/v1''"


section \<open>libp2p identities\<close>

record KuboIdentity =
  ki_PeerID :: string
  ki_PrivKey :: string

text \<open>\<open>deterministicReader.Read\<close>: fills the buffer from the seed and reports the seed's length.\<close>

definition deterministicRead :: "u8 list \<Rightarrow> nat \<Rightarrow> u8 list \<times> nat" where
  "deterministicRead seed len = (take len seed, length seed)"

text \<open>The hardened child of a phrase.\<close>

definition childOf :: "Crypto \<Rightarrow> string \<Rightarrow> nat \<Rightarrow> u8 list result" where
  "childOf cy mnemonic idx =
     (if mnemonic = [] then Inl (Errorf ''mnemonic is empty'')
      else case cy_NewMasterKey cy (cy_NewSeed cy mnemonic []) of
             Inl e \<Rightarrow> Inl (Wrapf ''master key: '' e [])
           | Inr masterKey \<Rightarrow>
               (case cy_NewChildKey cy masterKey idx of
                  Inl e \<Rightarrow> Inl (Wrapf ''child key: '' e [])
                | Inr childKey \<Rightarrow> Inr childKey))"

definition libp2pKey :: "Crypto \<Rightarrow> u8 list \<Rightarrow> u8 list result" where
  "libp2pKey cy hashed =
     (case cy_GenerateEd25519 cy (deterministicRead hashed) of
        Inl e \<Rightarrow> Inl (Wrapf ''libp2p key: '' e [])
      | Inr priv \<Rightarrow> Inr priv)"

definition DeriveIdentity :: "Crypto \<Rightarrow> string \<Rightarrow> u8 list result" where
  "DeriveIdentity cy mnemonic =
     (case childOf cy mnemonic FirstHardenedChild of
        Inl e \<Rightarrow> Inl e
      | Inr childKey \<Rightarrow> libp2pKey cy (cy_sha256 cy (cy_KeyBytes cy childKey)))"

definition DeriveKuboIdentity :: "Crypto \<Rightarrow> string \<Rightarrow> KuboIdentity result" where
  "DeriveKuboIdentity cy mnemonic =
     (case childOf cy mnemonic (FirstHardenedChild + 1) of
        Inl e \<Rightarrow> Inl e
      | Inr childKey \<Rightarrow>
          (case libp2pKey cy (cy_sha256 cy (bytes_of kuboIdentityDomain @ cy_KeyBytes cy childKey)) of
             Inl e \<Rightarrow> Inl e
           | Inr priv \<Rightarrow>
               (case cy_PeerID cy priv of
                  Inl e \<Rightarrow> Inl (Wrapf ''peer ID: '' e [])
                | Inr peerID \<Rightarrow>
                    (case cy_MarshalPrivateKey cy priv of
                       Inl e \<Rightarrow> Inl (Wrapf ''marshal private key: '' e [])
                     | Inr encoded \<Rightarrow> Inr \<lparr>ki_PeerID = peerID, ki_PrivKey = b64 (map unat encoded)\<rparr>))))"

definition GenerateMnemonic :: "Crypto \<Rightarrow> string result" where
  "GenerateMnemonic cy =
     (case cy_NewEntropy cy 128 of
        Inl e \<Rightarrow> Inl (Wrapf ''entropy: '' e [])
      | Inr entropy \<Rightarrow> cy_NewMnemonic cy entropy)"

definition PeerIDFromMnemonic :: "Crypto \<Rightarrow> string \<Rightarrow> (string \<times> string) result" where
  "PeerIDFromMnemonic cy mnemonic =
     (case DeriveIdentity cy mnemonic of
        Inl e \<Rightarrow> Inl e
      | Inr priv \<Rightarrow>
          (case cy_PeerID cy priv of Inl e \<Rightarrow> Inl e | Inr peerID \<Rightarrow> Inr (peerID, DIDPrefix @ peerID)))"

text \<open>\<open>registrar.HashIP\<close>.\<close>

definition HashIP :: "Crypto \<Rightarrow> string \<Rightarrow> string" where
  "HashIP cy ip = hex_encode (cy_sha3 cy (bytes_of ip))"


section \<open>Wallet\<close>

abbreviation ChainEVM :: string where "ChainEVM \<equiv> ''evm''"
abbreviation ChainSOL :: string where "ChainSOL \<equiv> ''sol''"
abbreviation ChainSolana :: string where "ChainSolana \<equiv> ''SOLANA''"
abbreviation ChainEthereum :: string where "ChainEthereum \<equiv> ''ETHEREUM''"

definition ResolveChain :: "string \<Rightarrow> string" where
  "ResolveChain chain =
     (let u = ToUpper (TrimSpace chain); l = ToLower (TrimSpace chain) in
      if u \<in> {[], ''SOL'', ''SOLANA''} then ChainSOL
      else if u \<in> {''EVM'', ''ETH'', ''ETHEREUM''} then ChainEVM
      else if l \<in> {ChainSOL, ''solana''} then ChainSOL
      else if l \<in> {ChainEVM, ''ethereum'', ''eth''} then ChainEVM
      else ChainSOL)"

definition CanonicalChain :: "string \<Rightarrow> string" where
  "CanonicalChain chain = (if ResolveChain chain = ChainEVM then ChainEthereum else ChainSolana)"

definition ChainLabel :: "string \<Rightarrow> string" where
  "ChainLabel chain =
     (if ResolveChain chain = ChainEVM then ''Ethereum''
      else if ResolveChain chain = ChainSOL then ''Solana'' else ''Solana'')"

record WalletIdentity =
  wi_Chain :: string
  wi_Address :: string
  wi_PubKey :: string

abbreviation solanaPath :: string where
  "solanaPath \<equiv> ''m/44'' @ [CHR 0x27] @ ''/501'' @ [CHR 0x27] @ ''/0'' @ [CHR 0x27] @ ''/0'' @ [CHR 0x27]"

text \<open>The character at an index: a letter becomes a capital if the nibble of the hash is at least 8.\<close>

definition checksumChar :: "u8 list \<Rightarrow> nat \<Rightarrow> char \<Rightarrow> char" where
  "checksumChar hash i c =
     (if is_digit c then c
      else if 8 \<le> drop_bit (4 * (1 - i mod 2)) (hash ! (i div 2)) AND 15
      then char_of (nat (int (of_char c) - 97 + 65))
      else c)"

definition toChecksumAddress :: "Crypto \<Rightarrow> string \<Rightarrow> string" where
  "toChecksumAddress cy address0 =
     (let address = ToLower address0; hash = cy_keccak256 cy (bytes_of address)
      in ''0x'' @ map (\<lambda>(i, c). checksumChar hash i c) (enumerate 0 address))"

fun childPath :: "Crypto \<Rightarrow> nat list \<Rightarrow> u8 list \<Rightarrow> u8 list result" where
  "childPath cy [] child = Inr child"
| "childPath cy (idx # is) child =
     (case cy_NewChildKey cy child idx of Inl e \<Rightarrow> Inl e | Inr c \<Rightarrow> childPath cy is c)"

definition evmKeypair :: "Crypto \<Rightarrow> string \<Rightarrow> (string \<times> u8 list) result" where
  "evmKeypair cy mnemonic =
     (case cy_NewMasterKey cy (cy_NewSeed cy mnemonic []) of
        Inl e \<Rightarrow> Inl e
      | Inr master \<Rightarrow>
          (case childPath cy [FirstHardenedChild + 44, FirstHardenedChild + 60, FirstHardenedChild, 0, 0] master of
             Inl e \<Rightarrow> Inl e
           | Inr child \<Rightarrow>
               (case cy_ToECDSA cy (cy_KeyBytes cy child) of
                  Inl e \<Rightarrow> Inl e
                | Inr key \<Rightarrow>
                    (let pubBytes = cy_FromECDSAPub cy key;
                         addrBytes = drop 12 (cy_keccak256 cy (drop 1 pubBytes))
                     in Inr (toChecksumAddress cy (hex_encode addrBytes), key)))))"

definition solanaAccount :: "Crypto \<Rightarrow> string \<Rightarrow> (string \<Rightarrow> error \<Rightarrow> error) \<Rightarrow> u8 list result" where
  "solanaAccount cy mnemonic wrap =
     (case cy_HdDerived cy solanaPath (cy_NewSeed cy mnemonic []) of
        Inl e \<Rightarrow> Inl (wrap ''derive solana key: '' e)
      | Inr derived \<Rightarrow>
          (case cy_AccountFromSeed cy derived of
             Inl e \<Rightarrow> Inl (wrap ''solana account: '' e)
           | Inr account \<Rightarrow> Inr account))"

definition deriveSolana :: "Crypto \<Rightarrow> string \<Rightarrow> WalletIdentity result" where
  "deriveSolana cy mnemonic =
     map_sum id (\<lambda>account. \<lparr>wi_Chain = ChainSOL, wi_Address = cy_AccountBase58 cy account, wi_PubKey = cy_AccountBase58 cy account\<rparr>)
       (solanaAccount cy mnemonic (\<lambda>m e. Wrapf m e []))"

definition deriveEVM :: "Crypto \<Rightarrow> string \<Rightarrow> WalletIdentity result" where
  "deriveEVM cy mnemonic =
     map_sum id (\<lambda>(addr, _). \<lparr>wi_Chain = ChainEVM, wi_Address = addr, wi_PubKey = []\<rparr>) (evmKeypair cy mnemonic)"

definition Derive :: "Crypto \<Rightarrow> string \<Rightarrow> string \<Rightarrow> WalletIdentity result" where
  "Derive cy mnemonic chain0 =
     (let chain = ResolveChain chain0 in
      if \<not> cy_IsMnemonicValid cy mnemonic then Inl (Errorf ''invalid mnemonic'')
      else if chain = ChainSOL then deriveSolana cy mnemonic
      else if chain = ChainEVM then deriveEVM cy mnemonic
      else Inl (Errorf (''unsupported wallet chain '' @ Quote chain @ '' (use sol or evm)'')))"

definition AddressFromMnemonic :: "Crypto \<Rightarrow> string \<Rightarrow> string \<Rightarrow> string result" where
  "AddressFromMnemonic cy mnemonic chain = map_sum id wi_Address (Derive cy mnemonic chain)"

definition PublicKeyFromMnemonic :: "Crypto \<Rightarrow> string \<Rightarrow> string \<Rightarrow> string result" where
  "PublicKeyFromMnemonic cy mnemonic chain =
     (if ResolveChain chain = ChainSOL
      then map_sum id (cy_AccountBase58 cy) (solanaAccount cy mnemonic (\<lambda>_ e. e))
      else if ResolveChain chain = ChainEVM
      then map_sum id (\<lambda>(_, key). hex_encode (cy_FromECDSAPub cy key)) (evmKeypair cy mnemonic)
      else Inl (Errorf (''unsupported chain '' @ Quote chain)))"

text \<open>The recovery byte of an Ethereum signature is 27 or 28.\<close>

definition fixRecovery :: "u8 list \<Rightarrow> u8 list" where
  "fixRecovery sig = (if sig ! 64 < 27 then sig[64 := sig ! 64 + 27] else sig)"

definition personalMessage :: "string \<Rightarrow> string" where
  "personalMessage message =
     [CHR 0x19] @ ''Ethereum Signed Message:'' @ NL @ Itoa (int (length message)) @ message"

definition SignChallengeWithMnemonic :: "Crypto \<Rightarrow> string \<Rightarrow> string \<Rightarrow> string \<Rightarrow> (string \<times> string \<times> string) result" where
  "SignChallengeWithMnemonic cy mnemonic chain message =
     (if ResolveChain chain = ChainSOL then
        map_sum id
          (\<lambda>account. (cy_AccountBase58 cy account, cy_AccountBase58 cy account,
                      cy_Base58 cy (cy_Ed25519Sign cy account (bytes_of message))))
          (solanaAccount cy mnemonic (\<lambda>_ e. e))
      else if ResolveChain chain = ChainEVM then
        (case evmKeypair cy mnemonic of
           Inl e \<Rightarrow> Inl e
         | Inr (addr, key) \<Rightarrow>
             (case cy_EthSign cy (cy_keccak256 cy (bytes_of (personalMessage message))) key of
                Inl e \<Rightarrow> Inl e
              | Inr sig \<Rightarrow> Inr (addr, hex_encode (cy_FromECDSAPub cy key), ''0x'' @ hex_encode (fixRecovery sig))))
      else Inl (Errorf (''unsupported chain '' @ Quote chain)))"


section \<open>Properties\<close>

lemma ResolveChain_range: "ResolveChain chain \<in> {ChainSOL, ChainEVM}"
  by (simp add: ResolveChain_def Let_def)

lemma ResolveChain_labels:
  "ResolveChain ChainSOL = ChainSOL" "ResolveChain ChainEVM = ChainEVM"
  "ResolveChain ChainSolana = ChainSOL" "ResolveChain ChainEthereum = ChainEVM"
  by code_simp+

lemma ResolveChain_canonical: "ResolveChain (CanonicalChain chain) = ResolveChain chain"
  using ResolveChain_range [of chain] by (auto simp: CanonicalChain_def ResolveChain_labels)

definition is_hex_lower :: "char \<Rightarrow> bool" where
  "is_hex_lower c \<longleftrightarrow> is_digit c \<or> (CHR ''a'' \<le> c \<and> c \<le> CHR ''f'')"

lemma signer_agrees:
  assumes "AddressFromMnemonic cy mnemonic chain = Inr a"
    and "SignChallengeWithMnemonic cy mnemonic chain message = Inr (addr, pub, sig)"
  shows "addr = a \<and> PublicKeyFromMnemonic cy mnemonic chain = Inr pub"
proof -
  have "x = y" if "solanaAccount cy mnemonic w = Inr x" "solanaAccount cy mnemonic w' = Inr y" for w w' x y
    using that by (simp add: solanaAccount_def split: sum.splits)
  note same = this [of "\<lambda>m e. Wrapf m e []" _ "\<lambda>_ e. e"]
  show ?thesis using assms ResolveChain_range [of chain]
    by (auto simp: AddressFromMnemonic_def Derive_def deriveSolana_def deriveEVM_def SignChallengeWithMnemonic_def
        PublicKeyFromMnemonic_def Let_def map_sum_eq_Inr dest: same split: if_splits sum.splits)
qed

text \<open>
  The wallet the node reports, the public key it registers and the signer of a challenge agree:
  whenever the phrase gives a wallet on a chain, a challenge signed for any spelling of that chain
  names the same address, and its public key is the registered one.
\<close>

theorem wallet_consistent:
  assumes "AddressFromMnemonic cy mnemonic chain = Inr a" "CanonicalChain chain' = CanonicalChain chain"
    and "SignChallengeWithMnemonic cy mnemonic chain' message = Inr (addr, pub, sig)"
  shows "addr = a \<and> PublicKeyFromMnemonic cy mnemonic chain = Inr pub"
proof -
  have "ResolveChain chain' = ResolveChain chain" using assms(2) ResolveChain_canonical by metis
  then have "SignChallengeWithMnemonic cy mnemonic chain message = Inr (addr, pub, sig)"
    using assms(3) ResolveChain_range [of chain] by (auto simp: SignChallengeWithMnemonic_def)
  then show ?thesis by (rule signer_agrees [OF assms(1)])
qed

lemma lower_checksumChar:
  assumes "is_hex_lower c"
  shows "lower_char (checksumChar hash i c) = c"
proof (cases "is_digit c")
  case True
  then have "of_char c < (65 :: nat)" by (simp add: is_digit_def)
  then show ?thesis using True by (simp add: checksumChar_def lower_char_def Let_def)
next
  case False
  then have c: "97 \<le> (of_char c :: nat)" "(of_char c :: nat) \<le> 102"
    using assms by (simp_all add: is_hex_lower_def less_eq_char_def)
  then have "nat (int (of_char c) - 97 + 65) = of_char c - 32" "65 \<le> (of_char c - 32 :: nat)" "(of_char c - 32 :: nat) \<le> 90"
    by simp_all
  then show ?thesis using False c by (simp add: checksumChar_def lower_char_def Let_def)
qed

lemma ToLower_toChecksumAddress:
  assumes "list_all is_hex_lower (ToLower address)"
  shows "ToLower (drop 2 (toChecksumAddress cy address)) = ToLower address"
proof (rule nth_equalityI)
  fix i
  assume "i < length (ToLower (drop 2 (toChecksumAddress cy address)))"
  then have i: "i < length (ToLower address)" by (simp add: ToLower_def toChecksumAddress_def Let_def)
  then have "is_hex_lower (ToLower address ! i)" using assms by (simp add: list_all_length)
  then show "ToLower (drop 2 (toChecksumAddress cy address)) ! i = ToLower address ! i"
    using i lower_checksumChar by (simp add: ToLower_def toChecksumAddress_def Let_def nth_enumerate_eq)
qed (simp add: ToLower_def toChecksumAddress_def Let_def)

text \<open>
  The capital letters of an address carry only its checksum: apart from case the address is the
  one given, so computing the checksum again from the result gives the result.
\<close>

lemma toChecksumAddress_stable:
  assumes "list_all is_hex_lower (ToLower address)"
  shows "toChecksumAddress cy (drop 2 (toChecksumAddress cy address)) = toChecksumAddress cy address"
proof -
  have "toChecksumAddress cy a = toChecksumAddress cy b" if "ToLower a = ToLower b" for a b
    using that by (simp add: toChecksumAddress_def)
  then show ?thesis using ToLower_toChecksumAddress [OF assms] by blast
qed

lemma fixRecovery_range:
  assumes "length sig = 65" "sig ! 64 \<in> {0, 1, 27, 28}"
  shows "fixRecovery sig ! 64 \<in> {27, 28} \<and> length (fixRecovery sig) = 65"
  using assms by (auto simp: fixRecovery_def word_less_nat_alt)

text \<open>
  Only the address checks the phrase: a phrase the word list refuses gives no address, yet the same
  phrase signs challenges and has a public key.
\<close>

lemma invalid_phrase_signs:
  assumes "\<not> cy_IsMnemonicValid cy mnemonic" "ResolveChain chain = ChainSOL"
    and "solanaAccount cy mnemonic (\<lambda>_ e. e) = Inr account"
  shows "AddressFromMnemonic cy mnemonic chain = Inl (Errorf ''invalid mnemonic'') \<and>
    is_ok (SignChallengeWithMnemonic cy mnemonic chain message) \<and> is_ok (PublicKeyFromMnemonic cy mnemonic chain)"
  using assms by (simp add: AddressFromMnemonic_def Derive_def SignChallengeWithMnemonic_def PublicKeyFromMnemonic_def)

text \<open>A chain the wallet does not know is taken for Solana without an error.\<close>

lemma unknown_chain_is_solana: "ResolveChain ''bitcoin'' = ChainSOL"
  by code_simp

definition ex_crypto :: Crypto where
  "ex_crypto =
     \<lparr>cy_IsMnemonicValid = (\<lambda>_. True), cy_NewSeed = (\<lambda>m _. bytes_of m), cy_NewMasterKey = Inr, cy_NewChildKey = (\<lambda>k _. Inr k),
      cy_KeyBytes = id, cy_sha256 = id, cy_keccak256 = (\<lambda>bs. replicate 32 (of_nat (length bs))), cy_sha3 = id,
      cy_GenerateEd25519 = (\<lambda>r. Inr (fst (r 32))), cy_PeerID = (\<lambda>_. Inr ''12D3''), cy_MarshalPrivateKey = Inr,
      cy_NewEntropy = (\<lambda>n. Inr (replicate (n div 8) 7)), cy_NewMnemonic = (\<lambda>_. Inr ''abandon''),
      cy_HdDerived = (\<lambda>_ s. Inr s), cy_AccountFromSeed = Inr, cy_AccountBase58 = hex_encode, cy_Ed25519Sign = (\<lambda>_ m. m),
      cy_Base58 = hex_encode, cy_ToECDSA = Inr, cy_FromECDSAPub = (\<lambda>k. 4 # k), cy_EthSign = (\<lambda>_ _. Inr (replicate 65 1))\<rparr>"

theorem wallet_consistent_witness:
  "\<exists>a pub sig. AddressFromMnemonic ex_crypto ''abandon'' ''eth'' = Inr a \<and>
     SignChallengeWithMnemonic ex_crypto ''abandon'' ''ETHEREUM'' ''hi'' = Inr (a, pub, sig) \<and>
     PublicKeyFromMnemonic ex_crypto ''abandon'' ''eth'' = Inr pub"
proof -
  have "is_ok (AddressFromMnemonic ex_crypto ''abandon'' ''eth'')"
    "is_ok (SignChallengeWithMnemonic ex_crypto ''abandon'' ''ETHEREUM'' ''hi'')" by code_simp+
  then obtain a r where a: "AddressFromMnemonic ex_crypto ''abandon'' ''eth'' = Inr a"
    "SignChallengeWithMnemonic ex_crypto ''abandon'' ''ETHEREUM'' ''hi'' = Inr r" by (metis is_okE)
  obtain addr pub sig where r: "r = (addr, pub, sig)" by (cases r)
  have c: "CanonicalChain ''ETHEREUM'' = CanonicalChain ''eth''" by code_simp
  show ?thesis using wallet_consistent [OF a(1) c a(2) [unfolded r]] a r by auto
qed

end
