(* ===== verification/Drop.thy ===== *)
theory Drop
  imports Kubo Identity
begin

text \<open>
  Drop on the node (\<open>src/internal/drop/service.go\<close> and \<open>identity.go\<close>): the hand-over of the identity
  to the Kubo sidecar through files, the health poll, and the operations with their guards.

  The derived identity is an argument. The repository directory is a map from paths to contents and
  file modes; \<open>dk_faults\<close> is the schedule of the file operations that fail. A temporary file is
  visible only through the rename that installs it: every path removes it again.
\<close>

section \<open>The identity files\<close>

record Disk =
  dk_files :: "string \<Rightarrow> (string \<times> nat) option"
  dk_faults :: "string option list"

definition diskCall :: "Disk \<Rightarrow> error option \<times> Disk" where
  "diskCall d =
     (case dk_faults d of [] \<Rightarrow> (None, d) | f # fs \<Rightarrow> (map_option Errorf f, d\<lparr>dk_faults := fs\<rparr>))"

abbreviation DefaultKuboRepoPath :: string where "DefaultKuboRepoPath \<equiv> ''/var/lib/erebrus-kubo''"
abbreviation identityPeerIDFile :: string where "identityPeerIDFile \<equiv> ''.erebrus-peer-id''"
abbreviation identityPrivateKeyFile :: string where "identityPrivateKeyFile \<equiv> ''.erebrus-private-key''"
abbreviation identityReadyFile :: string where "identityReadyFile \<equiv> ''.erebrus-identity-ready''"
abbreviation identityConflictMarker :: string where "identityConflictMarker \<equiv> ''.erebrus-identity-conflict''"

text \<open>Each call of the temporary file in turn: create, chmod, write, close, rename.\<close>

definition atomicWrite :: "string \<Rightarrow> string \<Rightarrow> nat \<Rightarrow> Disk \<Rightarrow> error option \<times> Disk" where
  "atomicWrite path val mode d =
     (case diskCall d of
        (Some e, d1) \<Rightarrow> (Some (Wrapf ''create identity handoff: '' e []), d1)
      | (None, d1) \<Rightarrow>
     (case diskCall d1 of
        (Some e, d2) \<Rightarrow> (Some (Wrapf ''secure identity handoff: '' e []), d2)
      | (None, d2) \<Rightarrow>
     (case diskCall d2 of
        (Some e, d3) \<Rightarrow> (Some (Wrapf ''write identity handoff: '' e []), d3)
      | (None, d3) \<Rightarrow>
     (case diskCall d3 of
        (Some e, d4) \<Rightarrow> (Some (Wrapf ''close identity handoff: '' e []), d4)
      | (None, d4) \<Rightarrow>
     (case diskCall d4 of
        (Some e, d5) \<Rightarrow> (Some (Wrapf ''install identity handoff: '' e []), d5)
      | (None, d5) \<Rightarrow> (None, d5\<lparr>dk_files := (dk_files d5)(path \<mapsto> (TrimSpace val @ NL, mode))\<rparr>))))))"

definition configPeerID :: "string \<Rightarrow> string option" where
  "configPeerID bs =
     (case json_dec bs of
        None \<Rightarrow> None
      | Some v \<Rightarrow>
          (if is_struct v
           then field (\<lambda>m old. if is_struct m then field into_string old ''PeerID'' m else None) [] ''Identity'' v
           else None))"

text \<open>
  0o600 is 384; a stat or read that fails is not taken for a file that does not exist. First what
  follows once the peer identifier is in place, from reading Kubo's configuration on.
\<close>

definition handOverKey :: "error \<Rightarrow> string \<Rightarrow> KuboIdentity \<Rightarrow> Disk \<Rightarrow> error option \<times> Disk" where
  "handOverKey jerr repoPath ident d =
     (case diskCall d of
        (Some e, d1) \<Rightarrow> (Some (Wrapf ''read Kubo config: '' e []), d1)
      | (None, d1) \<Rightarrow>
     (case dk_files d1 (JoinPath [repoPath, ''config'']) of
        None \<Rightarrow>
          (case atomicWrite (JoinPath [repoPath, identityPrivateKeyFile]) (ki_PrivKey ident @ NL) 384 d1 of
             (Some e, d2) \<Rightarrow> (Some e, d2)
           | (None, d2) \<Rightarrow> atomicWrite (JoinPath [repoPath, identityReadyFile]) (ki_PeerID ident @ NL) 384 d2)
      | Some (bs, _) \<Rightarrow>
          (case configPeerID bs of
             None \<Rightarrow> (Some (Wrapf ''parse Kubo config: '' jerr []), d1)
           | Some peerID \<Rightarrow>
               (if peerID \<noteq> [] \<and> peerID \<noteq> ki_PeerID ident
                then (case atomicWrite (JoinPath [repoPath, identityReadyFile]) (ki_PeerID ident @ NL) 384 d1 of
                        (Some e, d2) \<Rightarrow> (Some e, d2)
                      | (None, d2) \<Rightarrow> (Some (Sentinel ErrIdentityConflict), d2))
                else
                  (case diskCall d1 of
                     (Some e, d2) \<Rightarrow> (Some (Wrapf ''remove stale identity handoff: '' e []), d2)
                   | (None, d2) \<Rightarrow>
                       atomicWrite (JoinPath [repoPath, identityReadyFile]) (ki_PeerID ident @ NL) 384
                         (d2\<lparr>dk_files := (dk_files d2)(JoinPath [repoPath, identityPrivateKeyFile] := None)\<rparr>))))))"

definition PrepareKuboIdentity :: "error \<Rightarrow> string \<Rightarrow> KuboIdentity result \<Rightarrow> Disk \<Rightarrow> error option \<times> Disk" where
  "PrepareKuboIdentity jerr repoPath derived d =
     (case derived of
        Inl e \<Rightarrow> (Some e, d)
      | Inr ident \<Rightarrow>
     (case diskCall d of
        (Some e, d1) \<Rightarrow> (Some (Wrapf ''create Kubo repo path: '' e []), d1)
      | (None, d1) \<Rightarrow>
     (case diskCall d1 of
        (Some e, d2) \<Rightarrow> (Some (Wrapf ''check Kubo identity conflict: '' e []), d2)
      | (None, d2) \<Rightarrow>
     (if dk_files d2 (JoinPath [repoPath, identityConflictMarker]) \<noteq> None then (Some (Sentinel ErrIdentityConflict), d2)
      else
     (case atomicWrite (JoinPath [repoPath, identityPeerIDFile]) (ki_PeerID ident @ NL) 384 d2 of
        (Some e, d3) \<Rightarrow> (Some e, d3)
      | (None, d3) \<Rightarrow> handOverKey jerr repoPath ident d3)))))"


section \<open>The service\<close>

record Snapshot =
  dp_State :: string
  dp_KuboVersion :: string
  dp_RepoSizeBytes :: int
  dp_StorageMaxBytes :: int
  dp_NumObjects :: int

text \<open>The counters of \<open>telemetry.Metrics\<close> that Drop moves, as the increments in order.\<close>

record DropMetrics =
  dm_NodeOperations :: "(string \<times> string) list"
  dm_Uploads :: "string list"
  dm_UploadBytes :: int
  dm_DownloadBytes :: int

record DropSvc =
  ds_cfg :: Config
  ds_metrics :: "DropMetrics option"
  ds_snapshot :: Snapshot
  ds_identityReady :: bool

definition DefaultKuboRPCURL :: string where
  "DefaultKuboRPCURL = ''http://kubo:5001''"

definition MaxObjectBytes :: int where
  "MaxObjectBytes = 1000000000"

definition stateSnapshot :: "Config \<Rightarrow> string \<Rightarrow> string \<Rightarrow> Snapshot" where
  "stateSnapshot cfg state version =
     \<lparr>dp_State = state, dp_KuboVersion = version, dp_RepoSizeBytes = 0,
      dp_StorageMaxBytes = cfg_DropStorageMaxBytes cfg, dp_NumObjects = 0\<rparr>"

definition NewService :: "Config \<Rightarrow> DropMetrics option \<Rightarrow> DropSvc" where
  "NewService cfg metrics =
     \<lparr>ds_cfg = cfg, ds_metrics = metrics,
      ds_snapshot = stateSnapshot cfg (if cfg_DropEnabled cfg then ''starting'' else ''disabled'') [],
      ds_identityReady = False\<rparr>"

definition setSnapshot :: "Snapshot \<Rightarrow> DropSvc \<Rightarrow> DropSvc" where
  "setSnapshot snap s = s\<lparr>ds_snapshot := snap\<rparr>"

definition dropStart :: "error \<Rightarrow> KuboIdentity result \<Rightarrow> DropSvc \<Rightarrow> Disk \<Rightarrow> error option \<times> DropSvc \<times> Disk" where
  "dropStart jerr derived s d =
     (if \<not> cfg_DropEnabled (ds_cfg s) then (None, s, d)
      else case PrepareKuboIdentity jerr DefaultKuboRepoPath derived d of
             (Some e, d') \<Rightarrow> (Some e, setSnapshot (stateSnapshot (ds_cfg s) ''degraded'' []) s, d')
           | (None, d') \<Rightarrow> (None, s\<lparr>ds_identityReady := True\<rparr>, d'))"

definition operational :: "DropSvc \<Rightarrow> bool" where
  "operational s = (ds_identityReady s \<and> dp_State (ds_snapshot s) \<in> {''active'', ''degraded'', ''full''})"

definition writable :: "DropSvc \<Rightarrow> bool" where
  "writable s = (ds_identityReady s \<and> dp_State (ds_snapshot s) = ''active'')"

definition WebUIAvailable :: "DropSvc \<Rightarrow> bool" where
  "WebUIAvailable s = (DropWebUIAvailable (ds_cfg s) \<and> operational s)"

definition observeOperation :: "string \<Rightarrow> 'a result \<Rightarrow> DropSvc \<Rightarrow> DropSvc" where
  "observeOperation operation r s =
     (case ds_metrics s of
        None \<Rightarrow> s
      | Some m \<Rightarrow>
          s\<lparr>ds_metrics := Some (m\<lparr>dm_NodeOperations :=
              dm_NodeOperations m @ [(operation, if is_ok r then ''success'' else ''error'')]\<rparr>)\<rparr>)"

text \<open>One round of the poll.\<close>

definition refresh :: "'w kubo \<Rightarrow> error \<Rightarrow> DropSvc \<Rightarrow> 'w \<Rightarrow> DropSvc \<times> 'w" where
  "refresh kubo jerr s w =
     (case kuboVersion kubo jerr DefaultKuboRPCURL w of
        (Inl _, w1) \<Rightarrow> (setSnapshot (stateSnapshot (ds_cfg s) ''unreachable'' []) s, w1)
      | (Inr version, w1) \<Rightarrow>
          (case RepoStats kubo jerr DefaultKuboRPCURL w1 of
             (Inl _, w2) \<Rightarrow> (setSnapshot (stateSnapshot (ds_cfg s) ''degraded'' version) s, w2)
           | (Inr stats, w2) \<Rightarrow>
               (setSnapshot
                  \<lparr>dp_State = (if cfg_DropStorageMaxBytes (ds_cfg s) \<le> st_RepoSize stats then ''full'' else ''active''),
                   dp_KuboVersion = version, dp_RepoSizeBytes = st_RepoSize stats,
                   dp_StorageMaxBytes = cfg_DropStorageMaxBytes (ds_cfg s), dp_NumObjects = st_NumObjects stats\<rparr> s, w2)))"

definition recordUpload :: "AddResult result \<Rightarrow> DropSvc \<Rightarrow> DropSvc" where
  "recordUpload r s =
     (case ds_metrics s of
        None \<Rightarrow> s
      | Some m \<Rightarrow>
          (case r of
             Inr res \<Rightarrow> s\<lparr>ds_metrics := Some (m\<lparr>dm_Uploads := dm_Uploads m @ [''success''],
                                               dm_UploadBytes := dm_UploadBytes m + ad_Size res\<rparr>)\<rparr>
           | Inl _ \<Rightarrow> s\<lparr>ds_metrics := Some (m\<lparr>dm_Uploads := dm_Uploads m @ [''error'']\<rparr>)\<rparr>))"

definition Upload ::
  "'w kubo \<Rightarrow> error \<Rightarrow> (string \<Rightarrow> u8 list) \<Rightarrow> (string \<Rightarrow> error option) \<Rightarrow> AddRequest \<Rightarrow> DropSvc \<Rightarrow> 'w \<Rightarrow>
   AddResult result \<times> DropSvc \<times> 'w" where
  "Upload kubo jerr sha256 cidDecode req s w =
     (let snap = ds_snapshot s in
      if \<not> cfg_DropEnabled (ds_cfg s) then (Inl (Sentinel ErrDisabled), s, w)
      else if \<not> writable s then (Inl (Sentinel ErrUnavailable), s, w)
      else if MaxObjectBytes < ar_DeclaredSize req then (Inl (Sentinel ErrByteLimit), s, w)
      else if dp_StorageMaxBytes snap \<le> dp_RepoSizeBytes snap \<or>
              int64 (dp_StorageMaxBytes snap - dp_RepoSizeBytes snap) < ar_DeclaredSize req
      then (Inl (Sentinel ErrStorageFull), s, w)
      else
        let req' = (if ar_MaxBytes req \<le> 0 \<or> MaxObjectBytes < ar_MaxBytes req
                    then req\<lparr>ar_MaxBytes := MaxObjectBytes\<rparr> else req);
            (r, w') = AddAndPin kubo jerr sha256 cidDecode DefaultKuboRPCURL req' w
        in (r, recordUpload r (observeOperation ''upload'' r s), w'))"

definition dropRead ::
  "'w kubo \<Rightarrow> (string \<Rightarrow> error option) \<Rightarrow> string \<Rightarrow> DropSvc \<Rightarrow> 'w \<Rightarrow> limitReader result \<times> DropSvc \<times> 'w" where
  "dropRead kubo cidDecode v s w =
     (if \<not> cfg_DropEnabled (ds_cfg s) then (Inl (Sentinel ErrDisabled), s, w)
      else if \<not> operational s then (Inl (Sentinel ErrUnavailable), s, w)
      else case Cat kubo cidDecode DefaultKuboRPCURL v MaxObjectBytes w of
             (r, w') \<Rightarrow> (r, observeOperation ''read'' r s, w'))"

definition dropPinStatus ::
  "'w kubo \<Rightarrow> error \<Rightarrow> (string \<Rightarrow> error option) \<Rightarrow> string \<Rightarrow> DropSvc \<Rightarrow> 'w \<Rightarrow> bool result \<times> DropSvc \<times> 'w" where
  "dropPinStatus kubo jerr cidDecode v s w =
     (if \<not> cfg_DropEnabled (ds_cfg s) then (Inl (Sentinel ErrDisabled), s, w)
      else if \<not> operational s then (Inl (Sentinel ErrUnavailable), s, w)
      else case PinStatus kubo jerr cidDecode DefaultKuboRPCURL v w of
             (r, w') \<Rightarrow> (r, observeOperation ''pin_check'' r s, w'))"

definition errResult :: "error option \<Rightarrow> unit result" where
  "errResult oe = (case oe of None \<Rightarrow> Inr () | Some e \<Rightarrow> Inl e)"

definition dropUnpin ::
  "'w kubo \<Rightarrow> (string \<Rightarrow> error option) \<Rightarrow> string \<Rightarrow> DropSvc \<Rightarrow> 'w \<Rightarrow> error option \<times> DropSvc \<times> 'w" where
  "dropUnpin kubo cidDecode v s w =
     (if \<not> cfg_DropEnabled (ds_cfg s) then (Some (Sentinel ErrDisabled), s, w)
      else if \<not> operational s then (Some (Sentinel ErrUnavailable), s, w)
      else case Unpin kubo cidDecode DefaultKuboRPCURL v w of
             (oe, w') \<Rightarrow> (oe, observeOperation ''unpin'' (errResult oe) s, w'))"

definition RecordDownload :: "int \<Rightarrow> DropSvc \<Rightarrow> DropSvc" where
  "RecordDownload n s =
     (case ds_metrics s of
        None \<Rightarrow> s
      | Some m \<Rightarrow> if 0 < n then s\<lparr>ds_metrics := Some (m\<lparr>dm_DownloadBytes := dm_DownloadBytes m + n\<rparr>)\<rparr> else s)"


section \<open>The hand-over\<close>

abbreviation repoFile :: "string \<Rightarrow> string" where
  "repoFile name \<equiv> JoinPath [DefaultKuboRepoPath, name]"

lemma repo_paths:
  "repoFile identityPeerIDFile = ''/var/lib/erebrus-kubo/.erebrus-peer-id''"
  "repoFile identityPrivateKeyFile = ''/var/lib/erebrus-kubo/.erebrus-private-key''"
  "repoFile identityReadyFile = ''/var/lib/erebrus-kubo/.erebrus-identity-ready''"
  "repoFile identityConflictMarker = ''/var/lib/erebrus-kubo/.erebrus-identity-conflict''"
  "repoFile ''config'' = ''/var/lib/erebrus-kubo/config''"
  by code_simp+

lemma diskCall_files: "diskCall d = (oe, d') \<Longrightarrow> dk_files d' = dk_files d"
  by (auto simp: diskCall_def split: list.splits)

lemma atomicWrite_files:
  assumes "atomicWrite path val mode d = (oe, d')"
  shows "dk_files d' = (if oe = None then (dk_files d)(path \<mapsto> (TrimSpace val @ NL, mode)) else dk_files d)"
  using assms by (auto simp: atomicWrite_def dest!: diskCall_files split: prod.splits option.splits)

definition handoff :: "string \<Rightarrow> (string \<times> nat) option" where
  "handoff val = Some (TrimSpace (val @ NL) @ NL, 384)"

lemma handOverKey_frame:
  assumes "handOverKey jerr repoPath ident d = (oe, d')"
    "f \<notin> {JoinPath [repoPath, identityPrivateKeyFile], JoinPath [repoPath, identityReadyFile]}"
  shows "dk_files d' f = dk_files d f"
  using assms
  by (auto simp: handOverKey_def dest!: diskCall_files atomicWrite_files split: prod.splits option.splits if_splits)

lemma handOverKey_new:
  assumes "handOverKey jerr repoPath ident d = (None, d')" "dk_files d (JoinPath [repoPath, ''config'']) = None"
    "JoinPath [repoPath, identityPrivateKeyFile] \<noteq> JoinPath [repoPath, identityReadyFile]"
  shows "dk_files d' (JoinPath [repoPath, identityReadyFile]) = handoff (ki_PeerID ident)"
    "dk_files d' (JoinPath [repoPath, identityPrivateKeyFile]) = handoff (ki_PrivKey ident)"
  using assms
  by (auto simp: handOverKey_def handoff_def dest!: diskCall_files atomicWrite_files split: prod.splits option.splits)

lemma handOverKey_existing:
  assumes "handOverKey jerr repoPath ident d = (None, d')" "dk_files d (JoinPath [repoPath, ''config'']) = Some (bs, m)"
    "JoinPath [repoPath, identityPrivateKeyFile] \<noteq> JoinPath [repoPath, identityReadyFile]"
  shows "configPeerID bs \<in> {Some [], Some (ki_PeerID ident)}"
    "dk_files d' (JoinPath [repoPath, identityReadyFile]) = handoff (ki_PeerID ident)"
    "dk_files d' (JoinPath [repoPath, identityPrivateKeyFile]) = None"
  using assms
  by (auto simp: handOverKey_def handoff_def dest!: diskCall_files atomicWrite_files
      split: prod.splits option.splits if_splits)

lemma handOverKey_mismatch:
  assumes "handOverKey jerr repoPath ident d = (oe, d')" "dk_files d (JoinPath [repoPath, ''config'']) = Some (bs, m)"
    "configPeerID bs = Some p" "p \<noteq> []" "p \<noteq> ki_PeerID ident"
    "JoinPath [repoPath, identityPrivateKeyFile] \<noteq> JoinPath [repoPath, identityReadyFile]"
  shows "oe \<noteq> None"
    "dk_files d' (JoinPath [repoPath, identityPrivateKeyFile]) = dk_files d (JoinPath [repoPath, identityPrivateKeyFile])"
  using assms
  by (auto simp: handOverKey_def dest!: diskCall_files atomicWrite_files split: prod.splits option.splits if_splits)

lemma PrepareKuboIdentity_cases:
  assumes "PrepareKuboIdentity jerr repoPath derived d = (oe, d')"
  obtains (failed) "oe \<noteq> None" "dk_files d' = dk_files d"
  | (handed) ident d3 where "derived = Inr ident" "dk_files d (JoinPath [repoPath, identityConflictMarker]) = None"
      "dk_files d3 = (dk_files d)(JoinPath [repoPath, identityPeerIDFile] := handoff (ki_PeerID ident))"
      "handOverKey jerr repoPath ident d3 = (oe, d')"
  using assms
  by (auto simp: PrepareKuboIdentity_def handoff_def simp del: not_None_eq dest!: diskCall_files atomicWrite_files
      split: sum.splits prod.splits option.splits if_splits)

lemma PrepareKuboIdentity_frame:
  assumes "PrepareKuboIdentity jerr repoPath derived d = (oe, d')"
    "f \<notin> {JoinPath [repoPath, identityPeerIDFile], JoinPath [repoPath, identityPrivateKeyFile], JoinPath [repoPath, identityReadyFile]}"
  shows "dk_files d' f = dk_files d f"
  using assms(1)
proof (cases rule: PrepareKuboIdentity_cases)
  case handed
  then show ?thesis using handOverKey_frame [OF handed(4), of f] assms(2) by simp
qed simp

lemma PrepareKuboIdentity_ok:
  assumes "PrepareKuboIdentity jerr DefaultKuboRepoPath derived d = (None, d')"
  shows "\<exists>ident. derived = Inr ident \<and> dk_files d (repoFile identityConflictMarker) = None \<and>
    dk_files d' (repoFile identityPeerIDFile) = handoff (ki_PeerID ident) \<and>
    dk_files d' (repoFile identityReadyFile) = handoff (ki_PeerID ident) \<and>
    (case dk_files d (repoFile ''config'') of
       None \<Rightarrow> dk_files d' (repoFile identityPrivateKeyFile) = handoff (ki_PrivKey ident)
     | Some (bs, _) \<Rightarrow> configPeerID bs \<in> {Some [], Some (ki_PeerID ident)} \<and>
                       dk_files d' (repoFile identityPrivateKeyFile) = None)"
  using assms
proof (cases rule: PrepareKuboIdentity_cases)
  case (handed ident d3)
  have ne: "repoFile identityPrivateKeyFile \<noteq> repoFile identityReadyFile"
    "repoFile identityPeerIDFile \<notin> {repoFile identityPrivateKeyFile, repoFile identityReadyFile}"
    "repoFile ''config'' \<noteq> repoFile identityPeerIDFile"
    by (simp_all add: repo_paths)
  have "dk_files d' (repoFile identityPeerIDFile) = handoff (ki_PeerID ident)"
    using handOverKey_frame [OF handed(4) ne(2)] handed(3) by simp
  moreover have "dk_files d3 (repoFile ''config'') = dk_files d (repoFile ''config'')" using handed(3) ne(3) by simp
  ultimately show ?thesis
    using handOverKey_new [OF handed(4) _ ne(1)] handOverKey_existing [OF handed(4) _ ne(1)] handed(1,2)
    by (auto split: option.split)
qed simp

lemma PrepareKuboIdentity_mismatch:
  assumes "PrepareKuboIdentity jerr DefaultKuboRepoPath (Inr ident) d = (oe, d')"
    "dk_files d (repoFile ''config'') = Some (bs, m)" "configPeerID bs = Some p" "p \<noteq> []" "p \<noteq> ki_PeerID ident"
  shows "oe \<noteq> None \<and> dk_files d' (repoFile identityPrivateKeyFile) = dk_files d (repoFile identityPrivateKeyFile)"
  using assms(1)
proof (cases rule: PrepareKuboIdentity_cases)
  case (handed i d3)
  have ne: "repoFile identityPrivateKeyFile \<noteq> repoFile identityReadyFile"
    "repoFile identityPrivateKeyFile \<noteq> repoFile identityPeerIDFile" "repoFile ''config'' \<noteq> repoFile identityPeerIDFile"
    by (simp_all add: repo_paths)
  then have "dk_files d3 (repoFile ''config'') = Some (bs, m)" using handed(3) assms(2) by simp
  from handOverKey_mismatch [OF handed(4) this assms(3) assms(4) _ ne(1)] show ?thesis
    using handed(1,3) assms(5) ne(2) by simp
qed simp

text \<open>
  C18. Handing the identity to the Kubo sidecar never harms an existing repository. Whatever file
  operations fail, starting Drop changes at most the three hand-over files, so the configuration of
  Kubo stays as it is. It reports success, and opens Drop for operations, only if no conflict is
  marked, the files carry the derived identity with mode 0600, and the repository is either new
  (the private key is handed over) or holds no other identity (no private key is left behind). A
  repository with another identity makes it fail without writing the private key, and a failure
  leaves Drop closed and degraded.
\<close>

theorem dropStart_preserves_repo:
  assumes "dropStart jerr derived s d = (oe, s', d')" "cfg_DropEnabled (ds_cfg s)"
  shows
    "(\<forall>f. f \<notin> {repoFile identityPeerIDFile, repoFile identityPrivateKeyFile, repoFile identityReadyFile} \<longrightarrow>
        dk_files d' f = dk_files d f) \<and>
     dk_files d' (repoFile ''config'') = dk_files d (repoFile ''config'') \<and>
     (oe = None \<longrightarrow> ds_identityReady s' \<and> (\<exists>ident. derived = Inr ident \<and>
       dk_files d (repoFile identityConflictMarker) = None \<and>
       dk_files d' (repoFile identityPeerIDFile) = handoff (ki_PeerID ident) \<and>
       dk_files d' (repoFile identityReadyFile) = handoff (ki_PeerID ident) \<and>
       (case dk_files d (repoFile ''config'') of
          None \<Rightarrow> dk_files d' (repoFile identityPrivateKeyFile) = handoff (ki_PrivKey ident)
        | Some (bs, _) \<Rightarrow> configPeerID bs \<in> {Some [], Some (ki_PeerID ident)} \<and>
                          dk_files d' (repoFile identityPrivateKeyFile) = None))) \<and>
     (\<forall>ident bs m p. derived = Inr ident \<longrightarrow> dk_files d (repoFile ''config'') = Some (bs, m) \<longrightarrow>
       configPeerID bs = Some p \<longrightarrow> p \<noteq> [] \<longrightarrow> p \<noteq> ki_PeerID ident \<longrightarrow>
       oe \<noteq> None \<and> dk_files d' (repoFile identityPrivateKeyFile) = dk_files d (repoFile identityPrivateKeyFile)) \<and>
     (oe \<noteq> None \<longrightarrow> ds_identityReady s' = ds_identityReady s \<and> dp_State (ds_snapshot s') = ''degraded'' \<and> \<not> writable s')"
proof (intro conjI allI impI)
  have p: "PrepareKuboIdentity jerr DefaultKuboRepoPath derived d = (oe, d')"
    using assms by (auto simp: dropStart_def split: prod.splits option.splits)
  note frame = PrepareKuboIdentity_frame [OF p]
  show "dk_files d' f = dk_files d f"
    if "f \<notin> {repoFile identityPeerIDFile, repoFile identityPrivateKeyFile, repoFile identityReadyFile}" for f
    using that by (rule frame)
  show "dk_files d' (repoFile ''config'') = dk_files d (repoFile ''config'')"
    by (rule frame) (simp add: repo_paths)
  show "ds_identityReady s'" if "oe = None" using assms p that by (auto simp: dropStart_def)
  show "\<exists>ident. derived = Inr ident \<and>
       dk_files d (repoFile identityConflictMarker) = None \<and>
       dk_files d' (repoFile identityPeerIDFile) = handoff (ki_PeerID ident) \<and>
       dk_files d' (repoFile identityReadyFile) = handoff (ki_PeerID ident) \<and>
       (case dk_files d (repoFile ''config'') of
          None \<Rightarrow> dk_files d' (repoFile identityPrivateKeyFile) = handoff (ki_PrivKey ident)
        | Some (bs, _) \<Rightarrow> configPeerID bs \<in> {Some [], Some (ki_PeerID ident)} \<and>
                          dk_files d' (repoFile identityPrivateKeyFile) = None)" if "oe = None"
    by (rule PrepareKuboIdentity_ok [OF p [unfolded that]])
  fix ident bs m q
  assume m: "derived = Inr ident" "dk_files d (repoFile ''config'') = Some (bs, m)" "configPeerID bs = Some q"
    "q \<noteq> []" "q \<noteq> ki_PeerID ident"
  note mm = PrepareKuboIdentity_mismatch [OF p [unfolded m(1)] m(2-5)]
  show "oe \<noteq> None" "dk_files d' (repoFile identityPrivateKeyFile) = dk_files d (repoFile identityPrivateKeyFile)"
    using mm by blast+
next
  assume "oe \<noteq> None"
  then show "ds_identityReady s' = ds_identityReady s" "dp_State (ds_snapshot s') = ''degraded''" "\<not> writable s'"
    using assms by (auto simp: dropStart_def setSnapshot_def stateSnapshot_def writable_def split: prod.splits option.splits)
qed

definition ex_drop_cfg :: Config where
  "ex_drop_cfg = ex_config\<lparr>cfg_DropEnabled := True, cfg_DropStorageMaxBytes := 4\<rparr>"

definition ex_identity :: KuboIdentity where
  "ex_identity = \<lparr>ki_PeerID = ''12D3'', ki_PrivKey = ''CAES''\<rparr>"

definition ex_disk :: Disk where
  "ex_disk = \<lparr>dk_files = Map.empty, dk_faults = []\<rparr>"

theorem dropStart_preserves_repo_witness:
  "\<exists>s' d'. dropStart (Errorf ''json'') (Inr ex_identity) (NewService ex_drop_cfg None) ex_disk = (None, s', d') \<and>
     ds_identityReady s' \<and> dk_files d' (repoFile identityPrivateKeyFile) = handoff ''CAES''"
proof -
  let ?r = "dropStart (Errorf ''json'') (Inr ex_identity) (NewService ex_drop_cfg None) ex_disk"
  have n: "fst ?r = None" by code_simp
  have e: "cfg_DropEnabled (ds_cfg (NewService ex_drop_cfg None))" by code_simp
  obtain s' d' where r: "?r = (None, s', d')" using n by (cases ?r) simp
  show ?thesis using dropStart_preserves_repo [OF r e] r by (auto simp: ex_disk_def ex_identity_def)
qed


section \<open>Capacity\<close>

text \<open>
  The runtime of Drop: the start, the poll (which only a successful start begins), and the
  operations in any order.
\<close>

inductive drop_step ::
  "'w kubo \<Rightarrow> error \<Rightarrow> (string \<Rightarrow> u8 list) \<Rightarrow> (string \<Rightarrow> error option) \<Rightarrow>
   DropSvc \<times> Disk \<times> 'w \<Rightarrow> DropSvc \<times> Disk \<times> 'w \<Rightarrow> bool"
  for kubo jerr sha256 cidDecode where
  start: "dropStart jerr derived s d = (oe, s', d') \<Longrightarrow> drop_step kubo jerr sha256 cidDecode (s, d, w) (s', d', w)"
| poll: "ds_identityReady s \<Longrightarrow> refresh kubo jerr s w = (s', w') \<Longrightarrow>
    drop_step kubo jerr sha256 cidDecode (s, d, w) (s', d, w')"
| upload: "Upload kubo jerr sha256 cidDecode req s w = (r, s', w') \<Longrightarrow>
    drop_step kubo jerr sha256 cidDecode (s, d, w) (s', d, w')"
| read: "dropRead kubo cidDecode v s w = (rr, s', w') \<Longrightarrow>
    drop_step kubo jerr sha256 cidDecode (s, d, w) (RecordDownload n s', d, w')"
| pin: "dropPinStatus kubo jerr cidDecode v s w = (rp, s', w') \<Longrightarrow>
    drop_step kubo jerr sha256 cidDecode (s, d, w) (s', d, w')"
| unpin: "dropUnpin kubo cidDecode v s w = (oe, s', w') \<Longrightarrow>
    drop_step kubo jerr sha256 cidDecode (s, d, w) (s', d, w')"

definition dropInv :: "DropSvc \<Rightarrow> bool" where
  "dropInv s \<longleftrightarrow>
     dp_StorageMaxBytes (ds_snapshot s) = cfg_DropStorageMaxBytes (ds_cfg s) \<and>
     in_int64 (dp_RepoSizeBytes (ds_snapshot s)) \<and>
     dp_State (ds_snapshot s) \<in> {''disabled'', ''starting'', ''active'', ''degraded'', ''full'', ''unreachable''} \<and>
     (\<not> cfg_DropEnabled (ds_cfg s) \<longleftrightarrow> dp_State (ds_snapshot s) = ''disabled'') \<and>
     (ds_identityReady s \<longrightarrow> cfg_DropEnabled (ds_cfg s)) \<and>
     (dp_State (ds_snapshot s) = ''active'' \<longrightarrow>
        ds_identityReady s \<and> dp_RepoSizeBytes (ds_snapshot s) < cfg_DropStorageMaxBytes (ds_cfg s)) \<and>
     (dp_State (ds_snapshot s) = ''full'' \<longrightarrow>
        ds_identityReady s \<and> cfg_DropStorageMaxBytes (ds_cfg s) \<le> dp_RepoSizeBytes (ds_snapshot s))"

definition sameDrop :: "DropSvc \<Rightarrow> DropSvc \<Rightarrow> bool" where
  "sameDrop s s' \<longleftrightarrow> ds_cfg s' = ds_cfg s \<and> ds_snapshot s' = ds_snapshot s \<and> ds_identityReady s' = ds_identityReady s"

lemma sameDrop_refl [simp]: "sameDrop s s"
  by (simp add: sameDrop_def)

lemma observe_same [simp]:
  "sameDrop s (observeOperation op r s)"
  "sameDrop s (recordUpload ru (observeOperation op r s))"
  "sameDrop s s' \<Longrightarrow> sameDrop s (RecordDownload n s')"
  by (auto simp: sameDrop_def observeOperation_def recordUpload_def RecordDownload_def split: option.splits sum.splits)

lemma operations_same:
  "Upload kubo jerr sha256 cidDecode req s w = (r, s', w') \<Longrightarrow> sameDrop s s'"
  "dropRead kubo cidDecode v s w = (rr, s', w') \<Longrightarrow> sameDrop s s'"
  "dropPinStatus kubo jerr cidDecode v s w = (rp, s', w') \<Longrightarrow> sameDrop s s'"
  "dropUnpin kubo cidDecode v s w = (oe, s', w') \<Longrightarrow> sameDrop s s'"
  by (auto simp: Upload_def dropRead_def dropPinStatus_def dropUnpin_def Let_def split: if_splits prod.splits)

lemma dropInv_same: "sameDrop s s' \<Longrightarrow> dropInv s \<Longrightarrow> dropInv s'"
  by (simp add: sameDrop_def dropInv_def)

lemma NewService_inv: "dropInv (NewService cfg m)"
  by (simp add: dropInv_def NewService_def stateSnapshot_def in_int64_def)

lemma into_int_range: "into_int m old = Some n \<Longrightarrow> in_int64 old \<Longrightarrow> in_int64 n"
  using ParseInt_range by (cases m) (auto simp: Let_def split: prod.splits if_splits, metis fst_conv)

lemma int_field_range: "int_field name v = Some n \<Longrightarrow> in_int64 n"
proof -
  have "fold (\<lambda>m acc. case acc of None \<Rightarrow> None | Some old \<Rightarrow> into_int m old) ms (Some z) = Some n \<Longrightarrow>
      in_int64 z \<Longrightarrow> in_int64 n" for ms z
  proof (induction ms arbitrary: z)
    case (Cons m ms)
    have "fold (\<lambda>m acc. case acc of None \<Rightarrow> None | Some old \<Rightarrow> into_int m old) xs None = None" for xs
      by (induction xs) auto
    then obtain y where "into_int m z = Some y" using Cons.prems(1) by (cases "into_int m z") auto
    then show ?case using Cons.IH [of y] Cons.prems into_int_range [of m z y] by simp
  qed simp
  then show "int_field name v = Some n \<Longrightarrow> in_int64 n" by (simp add: int_field_def field_def in_int64_def)
qed

lemma repoStatOf_range: "repoStatOf v = Some st \<Longrightarrow> in_int64 (st_RepoSize st)"
  by (auto simp: repoStatOf_def intro: int_field_range split: if_splits option.splits)

lemma RepoStats_range:
  assumes "RepoStats kubo jerr baseURL w = (Inr st, w')"
  shows "in_int64 (st_RepoSize st)"
proof -
  obtain resp :: KuboResponse where "decodeBounded jerr repoStatOf (kr_Body resp) = Inr st"
    using assms by (auto simp: RepoStats_def split: prod.splits sum.splits)
  then obtain v where "repoStatOf v = Some st"
    by (auto simp: decodeBounded_def bind_eq_Some_conv split: sum.splits option.splits)
  then show ?thesis by (rule repoStatOf_range)
qed

lemma dropInv_state:
  assumes "dropInv s" "cfg_DropEnabled (ds_cfg s)" "st \<in> {''degraded'', ''unreachable''}"
  shows "dropInv (setSnapshot (stateSnapshot (ds_cfg s) st v) s)"
  using assms by (auto simp: dropInv_def setSnapshot_def stateSnapshot_def in_int64_def)

lemma start_inv:
  assumes "dropStart jerr derived s d = (oe, s', d')" "dropInv s"
  shows "dropInv s'"
proof -
  consider "s' = s" | "cfg_DropEnabled (ds_cfg s)" "s' = setSnapshot (stateSnapshot (ds_cfg s) ''degraded'' []) s"
    | "cfg_DropEnabled (ds_cfg s)" "s' = s\<lparr>ds_identityReady := True\<rparr>"
    using assms(1) by (auto simp: dropStart_def split: if_splits prod.splits option.splits)
  then show ?thesis
  proof cases
    case 2
    then show ?thesis using dropInv_state [OF assms(2)] by simp
  next
    case 3
    then show ?thesis using assms(2) unfolding dropInv_def by auto
  qed (use assms(2) in simp)
qed

lemma refresh_inv:
  assumes "refresh kubo jerr s w = (s', w')" "ds_identityReady s" "dropInv s"
  shows "dropInv s'"
proof -
  have en: "cfg_DropEnabled (ds_cfg s)" using assms(2,3) by (simp add: dropInv_def)
  obtain r1 w1 where v: "kuboVersion kubo jerr DefaultKuboRPCURL w = (r1, w1)" by (rule prod.exhaust)
  obtain r2 w2 where st: "RepoStats kubo jerr DefaultKuboRPCURL w1 = (r2, w2)" by (rule prod.exhaust)
  show ?thesis
  proof (cases r1)
    case (Inl e)
    then show ?thesis using assms(1) v dropInv_state [OF assms(3) en] by (auto simp: refresh_def)
  next
    case r1: (Inr version)
    show ?thesis
    proof (cases r2)
      case (Inl e)
      then show ?thesis using assms(1) v st r1 dropInv_state [OF assms(3) en] by (auto simp: refresh_def)
    next
      case (Inr stats)
      then have "in_int64 (st_RepoSize stats)" using RepoStats_range [of kubo jerr DefaultKuboRPCURL w1 stats w2] st by simp
      moreover have "s' = setSnapshot
          \<lparr>dp_State = (if cfg_DropStorageMaxBytes (ds_cfg s) \<le> st_RepoSize stats then ''full'' else ''active''),
           dp_KuboVersion = version, dp_RepoSizeBytes = st_RepoSize stats,
           dp_StorageMaxBytes = cfg_DropStorageMaxBytes (ds_cfg s), dp_NumObjects = st_NumObjects stats\<rparr> s"
        using assms(1) v st r1 Inr by (simp add: refresh_def)
      ultimately show ?thesis using assms(2) en by (simp add: dropInv_def setSnapshot_def)
    qed
  qed
qed

lemma refresh_cfg: "refresh kubo jerr s w = (s', w') \<Longrightarrow> ds_cfg s' = ds_cfg s"
  by (auto simp: refresh_def setSnapshot_def split: prod.splits sum.splits)

lemma drop_step_inv:
  assumes "drop_step kubo jerr sha256 cidDecode (s, d, w) (s', d', w')" "dropInv s"
  shows "dropInv s' \<and> ds_cfg s' = ds_cfg s"
proof -
  have same: "dropInv t \<and> ds_cfg t = ds_cfg s" if "sameDrop s t" for t
    using dropInv_same [OF that assms(2)] that by (simp add: sameDrop_def)
  from assms(1) show ?thesis
  proof cases
    case (start derived oe)
    then show ?thesis using start_inv [OF _ assms(2)]
      by (auto simp: dropStart_def setSnapshot_def split: if_splits prod.splits option.splits)
  next
    case poll
    then show ?thesis using refresh_inv [OF poll(3,2) assms(2)] refresh_cfg [OF poll(3)] by simp
  next
    case (upload req r)
    then show ?thesis using same [OF operations_same(1) [OF upload(2)]] by simp
  next
    case (read v rr s1 n)
    then show ?thesis using same [OF observe_same(3) [OF operations_same(2) [OF read(3)]]] by simp
  next
    case (pin v rp)
    then show ?thesis using same [OF operations_same(3) [OF pin(2)]] by simp
  next
    case (unpin v oe)
    then show ?thesis using same [OF operations_same(4) [OF unpin(2)]] by simp
  qed
qed

lemma drop_reachable_inv:
  assumes "(drop_step kubo jerr sha256 cidDecode)\<^sup>*\<^sup>* (NewService cfg m, d0, w0) (s, d, w)"
  shows "dropInv s \<and> ds_cfg s = cfg"
  using assms
proof (induction "(s, d, w)" arbitrary: s d w rule: rtranclp_induct)
  case base
  then show ?case by (simp add: NewService_inv) (simp add: NewService_def)
next
  case (step y)
  obtain s1 d1 w1 where y: "y = (s1, d1, w1)" by (cases y)
  have i: "dropInv s1" "ds_cfg s1 = cfg" using step.hyps(3) y by simp_all
  have "drop_step kubo jerr sha256 cidDecode (s1, d1, w1) (s, d, w)" using step.hyps(2) y by simp
  from drop_step_inv [OF this i(1)] show ?case using i(2) by simp
qed

text \<open>
  C15. Capacity: in every state the runtime can reach, an upload succeeds only if Drop is enabled,
  its identity is in place and its last poll found Kubo active; the object is at most the
  per-object limit and fits, together with what the repository held at that poll, into the configured
  storage; and the whole object of the declared size went to Kubo. The poll's figures stay as they
  are, and the counter of uploaded bytes grows by exactly the size.
\<close>

theorem Upload_within_capacity:
  assumes "(drop_step kubo jerr sha256 cidDecode)\<^sup>*\<^sup>* (NewService cfg m, d0, w0) (s, d, w)"
    and "in_int64 (cfg_DropStorageMaxBytes cfg)" "0 \<le> dp_RepoSizeBytes (ds_snapshot s)"
    and "Upload kubo jerr sha256 cidDecode req s w = (Inr res, s', w')"
  shows "cfg_DropEnabled cfg \<and> ds_identityReady s \<and> dp_State (ds_snapshot s) = ''active'' \<and>
    ar_DeclaredSize req \<le> MaxObjectBytes \<and>
    dp_RepoSizeBytes (ds_snapshot s) + ar_DeclaredSize req \<le> cfg_DropStorageMaxBytes cfg \<and>
    (\<exists>body. ar_Body req = Some body \<and> rd_end body = None \<and> int (length (rd_data body)) = ar_DeclaredSize req) \<and>
    ad_Size res = ar_DeclaredSize req \<and> ds_snapshot s' = ds_snapshot s \<and>
    map_option dm_UploadBytes (ds_metrics s') = map_option (\<lambda>mm. dm_UploadBytes mm + ar_DeclaredSize req) (ds_metrics s)"
proof -
  have inv: "dropInv s" "ds_cfg s = cfg" using drop_reachable_inv [OF assms(1)] by simp_all
  let ?snap = "ds_snapshot s"
  have mx: "dp_StorageMaxBytes ?snap = cfg_DropStorageMaxBytes cfg" "in_int64 (dp_RepoSizeBytes ?snap)"
    using inv by (simp_all add: dropInv_def)
  define req' where "req' = (if ar_MaxBytes req \<le> 0 \<or> MaxObjectBytes < ar_MaxBytes req
                    then req\<lparr>ar_MaxBytes := MaxObjectBytes\<rparr> else req)"
  have g: "cfg_DropEnabled cfg" "writable s" "ar_DeclaredSize req \<le> MaxObjectBytes"
    "dp_RepoSizeBytes ?snap < cfg_DropStorageMaxBytes cfg"
    "ar_DeclaredSize req \<le> int64 (cfg_DropStorageMaxBytes cfg - dp_RepoSizeBytes ?snap)"
    using assms(4) inv(2) mx by (auto simp: Upload_def Let_def split: if_splits)
  have a: "AddAndPin kubo jerr sha256 cidDecode DefaultKuboRPCURL req' w = (Inr res, w')"
    and s': "s' = recordUpload (Inr res) (observeOperation ''upload'' (Inr res :: AddResult result) s)"
    using assms(4) g inv(2) mx by (auto simp: Upload_def Let_def req'_def split: if_splits prod.splits)
  have r: "ar_Body req' = ar_Body req" "ar_DeclaredSize req' = ar_DeclaredSize req" by (simp_all add: req'_def)
  have "int64 (cfg_DropStorageMaxBytes cfg - dp_RepoSizeBytes ?snap) = cfg_DropStorageMaxBytes cfg - dp_RepoSizeBytes ?snap"
    by (rule int64_sub_nonneg) (use assms(2,3) mx(2) g(4) in simp_all)
  moreover have "\<exists>body. ar_Body req = Some body \<and> rd_end body = None \<and> int (length (rd_data body)) = ar_DeclaredSize req"
    and "ad_Size res = ar_DeclaredSize req"
    using AddAndPin_ok [OF a] r by auto
  moreover have "ds_snapshot s' = ?snap" using operations_same(1) [OF assms(4)] by (simp add: sameDrop_def)
  moreover have "map_option dm_UploadBytes (ds_metrics s') = map_option (\<lambda>mm. dm_UploadBytes mm + ad_Size res) (ds_metrics s)"
    using s' by (cases "ds_metrics s") (simp_all add: recordUpload_def observeOperation_def)
  ultimately show ?thesis using g by (simp add: writable_def)
qed

definition ex_daemon :: "unit kubo" where
  "ex_daemon w q =
     (Inr \<lparr>kr_Status = 200,
           kr_Body = ex_reader (json_enc (JObj
             (if kq_File q \<noteq> None then [(''Hash'', JStr ''bafk''), (''Size'', JStr ''3'')]
              else if Contains (kq_URL q) ''version'' then [(''Version'', JStr ''0.34.1'')]
              else [(''RepoSize'', JInt 0), (''NumObjects'', JInt 1)]))),
           kr_ContentLength = -1\<rparr>, Drained, w)"

definition ex_metrics :: DropMetrics where
  "ex_metrics = \<lparr>dm_NodeOperations = [], dm_Uploads = [], dm_UploadBytes = 0, dm_DownloadBytes = 0\<rparr>"

definition ex_started :: "DropSvc \<times> Disk" where
  "ex_started = snd (dropStart (Errorf ''json'') (Inr ex_identity) (NewService ex_drop_cfg (Some ex_metrics)) ex_disk)"

definition ex_active :: DropSvc where
  "ex_active = fst (refresh ex_daemon (Errorf ''json'') (fst ex_started) ())"

abbreviation ex_upload :: "DropSvc \<Rightarrow> AddResult result \<times> DropSvc \<times> unit" where
  "ex_upload s \<equiv> Upload ex_daemon (Errorf ''json'') (\<lambda>_. [10]) (\<lambda>_. None) ex_add s ()"

lemma ex_active_reachable:
  "(drop_step ex_daemon (Errorf ''json'') (\<lambda>_. [10]) (\<lambda>_. None))\<^sup>*\<^sup>*
     (NewService ex_drop_cfg (Some ex_metrics), ex_disk, ()) (ex_active, snd ex_started, ())"
proof -
  let ?step = "drop_step ex_daemon (Errorf ''json'') (\<lambda>_. [10]) (\<lambda>_. None)"
  have "?step (NewService ex_drop_cfg (Some ex_metrics), ex_disk, ()) (fst ex_started, snd ex_started, ())"
    by (rule drop_step.start [of _ "Inr ex_identity"]) (simp add: ex_started_def prod_eq_iff)
  moreover have "?step (fst ex_started, snd ex_started, ()) (ex_active, snd ex_started, ())"
  proof (rule drop_step.poll)
    show "ds_identityReady (fst ex_started)" by code_simp
    show "refresh ex_daemon (Errorf ''json'') (fst ex_started) () = (ex_active, ())" by (simp add: ex_active_def prod_eq_iff)
  qed
  ultimately show ?thesis by simp
qed

theorem Upload_within_capacity_witness:
  "\<exists>res s'. ex_upload ex_active = (Inr res, s', ()) \<and> ad_Size res = 3 \<and>
     dp_RepoSizeBytes (ds_snapshot ex_active) + 3 \<le> cfg_DropStorageMaxBytes ex_drop_cfg \<and>
     map_option dm_UploadBytes (ds_metrics s') = Some 3"
proof -
  have c: "map_sum (\<lambda>_. ()) ad_CID (fst (ex_upload ex_active)) = Inr ''bafk''" by code_simp
  obtain res s' where r: "ex_upload ex_active = (Inr res, s', ())"
    using c by (cases "ex_upload ex_active") (auto simp: map_sum_eq_Inr)
  have "0 \<le> dp_RepoSizeBytes (ds_snapshot ex_active) \<and> map_option dm_UploadBytes (ds_metrics ex_active) = Some 0" by code_simp
  then have m: "in_int64 (cfg_DropStorageMaxBytes ex_drop_cfg)" "0 \<le> dp_RepoSizeBytes (ds_snapshot ex_active)"
    "map_option dm_UploadBytes (ds_metrics ex_active) = Some 0" by (simp_all add: ex_drop_cfg_def in_int64_def)
  have "ar_DeclaredSize ex_add = 3" by (simp add: ex_add_def)
  then show ?thesis using Upload_within_capacity [OF ex_active_reachable m(1,2) r] r m(3) by auto
qed

text \<open>
  Nothing is set aside for an upload between two polls: the check compares each object with the
  figures of the last poll, so two objects of three bytes are both admitted to a storage of four.
\<close>

lemma uploads_overcommit:
  "cfg_DropStorageMaxBytes (ds_cfg ex_active) = 4 \<and> is_ok (fst (ex_upload ex_active)) \<and>
   is_ok (fst (ex_upload (fst (snd (ex_upload ex_active))))) \<and> ar_DeclaredSize ex_add = 3"
  by code_simp

end
