(* ===== verification/Readiness.thy ===== *)
theory Readiness
  imports Config
begin

text \<open>
  Readiness (\<open>src/internal/readiness\<close>): the checks of a running node and of a configuration before it
  starts, their aggregate, and the labels of access modes, regions and zones.
\<close>

section \<open>Checks\<close>

record Check =
  ck_ID :: string
  ck_OK :: bool
  ck_Detail :: string
  ck_Optional :: bool

record Report =
  rp_OK :: bool
  rp_Checks :: "Check list"
  rp_Warnings :: "string list"

record Input =
  in_Cfg :: "Config option"
  in_IdentityConfigured :: bool
  in_GatewayRegistered :: bool
  in_GatewayConnected :: bool
  in_WireGuardOK :: bool
  in_StealthListening :: bool
  in_FirewallOK :: bool
  in_FirewallDetail :: string
  in_DropState :: string

text \<open>The em dash of the messages, in UTF-8.\<close>

abbreviation DASH :: string where
  "DASH \<equiv> [CHR 0xE2, CHR 0x80, CHR 0x94]"

abbreviation mandatory :: "string \<Rightarrow> bool \<Rightarrow> string \<Rightarrow> Check" where
  "mandatory i ok detail \<equiv> \<lparr>ck_ID = i, ck_OK = ok, ck_Detail = detail, ck_Optional = False\<rparr>"

abbreviation optional :: "string \<Rightarrow> bool \<Rightarrow> string \<Rightarrow> Check" where
  "optional i ok detail \<equiv> \<lparr>ck_ID = i, ck_OK = ok, ck_Detail = detail, ck_Optional = True\<rparr>"

definition identityDetail :: "bool \<Rightarrow> bool \<Rightarrow> string" where
  "identityDetail configured hasMnemonic =
     (if configured \<and> hasMnemonic then ''node identity configured''
      else if \<not> hasMnemonic then ''node identity (recovery phrase) not set''
      else ''node identity pending'')"

definition apiKeyDetail :: "bool \<Rightarrow> string" where
  "apiKeyDetail ok = (if ok then ''configured'' else ''required in release mode'')"

definition apiKeyCheck :: "Config \<Rightarrow> Check" where
  "apiKeyCheck cfg =
     (if cfg_RunType cfg = ''debug'' \<and> EffectiveNodeKey cfg = []
      then optional ''node_api_key'' True (''not set '' @ DASH @ '' peer API open in debug mode'')
      else mandatory ''node_api_key'' (EffectiveNodeKey cfg \<noteq> []) (apiKeyDetail (EffectiveNodeKey cfg \<noteq> [])))"

definition wireguardDetail :: "bool \<Rightarrow> string" where
  "wireguardDetail ok =
     (if ok then ''interface ready'' else ''interface not up '' @ DASH @ '' check NET_ADMIN and wireguard-tools'')"

definition stealthDetail :: "bool \<Rightarrow> string" where
  "stealthDetail listening =
     (if listening then ''vless-reality and hysteria2 listening'' else ''carriers enabled but not listening'')"

definition stealthCheck :: "Config \<Rightarrow> bool \<Rightarrow> Check" where
  "stealthCheck cfg listening =
     (if \<not> cfg_EnableStealth cfg then optional ''stealth'' True ''disabled''
      else mandatory ''stealth'' listening (stealthDetail listening))"

definition firewallCheck :: "Config \<Rightarrow> bool \<Rightarrow> string \<Rightarrow> Check" where
  "firewallCheck cfg ok detail0 =
     (if \<not> HasFirewallService cfg then optional ''firewall'' True ''not configured''
      else let detail = (if detail0 = [] then ''sidecar healthy'' else detail0)
           in if \<not> ok then mandatory ''firewall'' False detail else mandatory ''firewall'' True detail)"

definition dropCheck :: "Config \<Rightarrow> string \<Rightarrow> Check" where
  "dropCheck cfg state0 =
     (if \<not> cfg_DropEnabled cfg then optional ''drop'' True ''disabled''
      else let state = (if state0 = [] then ''starting'' else state0)
           in optional ''drop'' (state = ''active'' \<or> state = ''full'') state)"

definition controlPlaneCheck :: "Config \<Rightarrow> bool \<Rightarrow> bool \<Rightarrow> Check" where
  "controlPlaneCheck cfg registered connected =
     (if \<not> GatewayEnabled cfg then optional ''control_plane'' True ''gateway URL not configured''
      else if \<not> registered then mandatory ''control_plane'' False ''not registered with gateway''
      else if connected then mandatory ''control_plane'' True ''registered, control channel connected''
      else mandatory ''control_plane'' True ''registered, control channel reconnecting'')"

text \<open>The loop over the checks: it skips optional ones and stops at the first that fails.\<close>

fun allPass :: "Check list \<Rightarrow> bool" where
  "allPass [] = True"
| "allPass (c # cs) = (if ck_Optional c then allPass cs else if \<not> ck_OK c then False else allPass cs)"

definition notLoaded :: Report where
  "notLoaded = \<lparr>rp_OK = False, rp_Checks = [mandatory ''config'' False ''configuration not loaded''], rp_Warnings = []\<rparr>"

definition liveChecks :: "Input \<Rightarrow> Config \<Rightarrow> Check list" where
  "liveChecks inp cfg =
     [mandatory ''identity'' (in_IdentityConfigured inp \<and> cfg_Mnemonic cfg \<noteq> [])
        (identityDetail (in_IdentityConfigured inp) (cfg_Mnemonic cfg \<noteq> [])),
      mandatory ''public_address'' (cfg_WGEndpointHost cfg \<noteq> []) (cfg_WGEndpointHost cfg),
      apiKeyCheck cfg,
      mandatory ''wireguard'' (in_WireGuardOK inp) (wireguardDetail (in_WireGuardOK inp)),
      stealthCheck cfg (in_StealthListening inp),
      firewallCheck cfg (in_FirewallOK inp) (in_FirewallDetail inp),
      dropCheck cfg (in_DropState inp),
      controlPlaneCheck cfg (in_GatewayRegistered inp) (in_GatewayConnected inp)]"

definition Evaluate :: "Input \<Rightarrow> Report" where
  "Evaluate inp =
     (case in_Cfg inp of
        None \<Rightarrow> notLoaded
      | Some cfg \<Rightarrow>
          (let checks = liveChecks inp cfg
           in \<lparr>rp_OK = allPass checks, rp_Checks = checks, rp_Warnings = mode_Warnings (cfg_Mode cfg)\<rparr>))"

definition Preboot :: "Config option \<Rightarrow> Report" where
  "Preboot ocfg =
     (case ocfg of
        None \<Rightarrow> notLoaded
      | Some cfg \<Rightarrow>
          (let later = ''checked after node start'';
               checks =
             [mandatory ''identity'' (cfg_Mnemonic cfg \<noteq> []) (identityDetail (cfg_Mnemonic cfg \<noteq> []) (cfg_Mnemonic cfg \<noteq> [])),
              mandatory ''public_address'' (cfg_WGEndpointHost cfg \<noteq> []) (cfg_WGEndpointHost cfg),
              apiKeyCheck cfg,
              optional ''wireguard'' True later] @
             (if cfg_EnableStealth cfg then [optional ''stealth'' True later] else []) @
             [optional ''drop'' True later, optional ''control_plane'' True later]
           in \<lparr>rp_OK = allPass checks, rp_Checks = checks, rp_Warnings = mode_Warnings (cfg_Mode cfg)\<rparr>))"

definition SummaryLine :: "Report \<Rightarrow> string" where
  "SummaryLine r =
     (if rp_OK r then ''ready''
      else case find (\<lambda>c. \<not> ck_Optional c \<and> \<not> ck_OK c) (rp_Checks r) of
             Some c \<Rightarrow> ''not ready: '' @ ck_ID c
           | None \<Rightarrow> ''not ready'')"


section \<open>Labels\<close>

definition AccessModeLabel :: "string \<Rightarrow> string" where
  "AccessModeLabel mode =
     (if mode = ModePrivate then ''Private'' else if mode = ModePublic then ''Public'' else mode)"

definition AccessModeHint :: "string \<Rightarrow> string" where
  "AccessModeHint mode =
     (if mode = ModePrivate then ''Only your org and devices can use this node.''
      else if mode = ModePublic then ''Listed on the network for users to connect.'' else [])"

definition regionNames :: "(string \<times> string) list" where
  "regionNames =
     [(''AD'', ''Andorra''), (''AE'', ''United Arab Emirates''), (''AF'', ''Afghanistan''), (''AL'', ''Albania''),
      (''AM'', ''Armenia''), (''AR'', ''Argentina''), (''AT'', ''Austria''), (''AU'', ''Australia''),
      (''AZ'', ''Azerbaijan''), (''BA'', ''Bosnia and Herzegovina''), (''BD'', ''Bangladesh''),
      (''BE'', ''Belgium''), (''BG'', ''Bulgaria''), (''BR'', ''Brazil''), (''BY'', ''Belarus''),
      (''CA'', ''Canada''), (''CH'', ''Switzerland''), (''CL'', ''Chile''), (''CN'', ''China''),
      (''CO'', ''Colombia''), (''CY'', ''Cyprus''), (''CZ'', ''Czechia''), (''DE'', ''Germany''),
      (''DK'', ''Denmark''), (''EE'', ''Estonia''), (''EG'', ''Egypt''), (''ES'', ''Spain''),
      (''FI'', ''Finland''), (''FR'', ''France''), (''GB'', ''United Kingdom''), (''GE'', ''Georgia''),
      (''GR'', ''Greece''), (''HK'', ''Hong Kong''), (''HR'', ''Croatia''), (''HU'', ''Hungary''),
      (''ID'', ''Indonesia''), (''IE'', ''Ireland''), (''IL'', ''Israel''), (''IN'', ''India''),
      (''IS'', ''Iceland''), (''IT'', ''Italy''), (''JP'', ''Japan''), (''KR'', ''South Korea''),
      (''KZ'', ''Kazakhstan''), (''LT'', ''Lithuania''), (''LU'', ''Luxembourg''), (''LV'', ''Latvia''),
      (''MD'', ''Moldova''), (''MX'', ''Mexico''), (''MY'', ''Malaysia''), (''NG'', ''Nigeria''),
      (''NL'', ''Netherlands''), (''NO'', ''Norway''), (''NZ'', ''New Zealand''), (''PH'', ''Philippines''),
      (''PK'', ''Pakistan''), (''PL'', ''Poland''), (''PT'', ''Portugal''), (''RO'', ''Romania''),
      (''RS'', ''Serbia''), (''RU'', ''Russia''), (''SE'', ''Sweden''), (''SG'', ''Singapore''),
      (''SI'', ''Slovenia''), (''SK'', ''Slovakia''), (''TH'', ''Thailand''), (''TR'', ''Turkey''),
      (''TW'', ''Taiwan''), (''UA'', ''Ukraine''), (''US'', ''United States''), (''VN'', ''Vietnam''),
      (''ZA'', ''South Africa'')]"

definition RegionLabel :: "string \<Rightarrow> string" where
  "RegionLabel code0 =
     (let code = TrimSpace code0 in
      if code = [] \<or> EqualFold code ''unknown'' then ''Not set''
      else case map_of regionNames (ToUpper code) of
             Some name \<Rightarrow> name
           | None \<Rightarrow>
               (if 2 < length code \<or> (\<exists>c \<in> set code. c \<in> {CHR ''-'', CHR ''_''}) then code
                else code @ '' (country code)''))"

definition ZoneLabel :: "string \<Rightarrow> string" where
  "ZoneLabel zone0 =
     (let zone = TrimSpace zone0; key = ToLower (ReplaceAllChar zone CHR ''_'' CHR ''-'') in
      if zone = [] then []
      else if key \<in> {''east'', ''us-east'', ''useast''} then ''US East''
      else if key \<in> {''west'', ''us-west'', ''uswest''} then ''US West''
      else if key \<in> {''central'', ''us-central'', ''uscentral''} then ''US Central''
      else zone)"

definition PublicAPIURL :: "Config option \<Rightarrow> string" where
  "PublicAPIURL ocfg = (case ocfg of None \<Rightarrow> [] | Some cfg \<Rightarrow> PublicAPIBaseURL cfg)"


section \<open>Properties\<close>

text \<open>A check stands in the way of readiness if it is mandatory and fails.\<close>

definition blocks :: "Check \<Rightarrow> bool" where
  "blocks c \<longleftrightarrow> \<not> ck_Optional c \<and> \<not> ck_OK c"

lemma blocks_simps [simp]:
  "blocks (mandatory i ok detail) \<longleftrightarrow> \<not> ok"
  "\<not> blocks (optional i ok detail)"
  "blocks (apiKeyCheck cfg) \<longleftrightarrow> EffectiveNodeKey cfg = [] \<and> cfg_RunType cfg \<noteq> ''debug''"
  "blocks (stealthCheck cfg listening) \<longleftrightarrow> cfg_EnableStealth cfg \<and> \<not> listening"
  "blocks (firewallCheck cfg ok detail) \<longleftrightarrow> HasFirewallService cfg \<and> \<not> ok"
  "\<not> blocks (dropCheck cfg state)"
  "blocks (controlPlaneCheck cfg registered connected) \<longleftrightarrow> GatewayEnabled cfg \<and> \<not> registered"
  by (auto simp: blocks_def apiKeyCheck_def stealthCheck_def firewallCheck_def dropCheck_def controlPlaneCheck_def Let_def)

lemma liveChecks_blocks:
  "(\<exists>c \<in> set (liveChecks inp cfg). blocks c) \<longleftrightarrow> \<not>
     (in_IdentityConfigured inp \<and> cfg_Mnemonic cfg \<noteq> [] \<and> cfg_WGEndpointHost cfg \<noteq> [] \<and>
      (EffectiveNodeKey cfg \<noteq> [] \<or> cfg_RunType cfg = ''debug'') \<and> in_WireGuardOK inp \<and>
      (cfg_EnableStealth cfg \<longrightarrow> in_StealthListening inp) \<and> (HasFirewallService cfg \<longrightarrow> in_FirewallOK inp) \<and>
      (GatewayEnabled cfg \<longrightarrow> in_GatewayRegistered inp))"
  by (simp add: liveChecks_def)

lemma allPass_blocks: "allPass cs \<longleftrightarrow> \<not> (\<exists>c \<in> set cs. blocks c)"
  by (induction cs) (auto simp: blocks_def)

lemma first_blocking:
  "\<exists>c \<in> set cs. blocks c \<Longrightarrow>
   \<exists>c \<in> set cs. \<not> ck_OK c \<and> find (\<lambda>c. \<not> ck_Optional c \<and> \<not> ck_OK c) cs = Some c"
  by (induction cs) (auto simp: blocks_def)

text \<open>
  C36. What readiness means: the report of a running node is positive exactly when it has a
  configuration with a recovery phrase, a derived identity and a public address, a node key unless
  it runs in debug mode, a working WireGuard interface, listening carriers if stealth is on, a
  healthy firewall if one is configured, and a registration if a gateway is configured. The state of
  Drop and of the control channel play no part. The summary line is \<open>ready\<close> exactly then, and
  otherwise names a check of the report that failed.
\<close>

theorem Evaluate_ready_iff:
  "(rp_OK (Evaluate inp) \<longleftrightarrow>
     (case in_Cfg inp of
        None \<Rightarrow> False
      | Some cfg \<Rightarrow>
          in_IdentityConfigured inp \<and> cfg_Mnemonic cfg \<noteq> [] \<and> cfg_WGEndpointHost cfg \<noteq> [] \<and>
          (EffectiveNodeKey cfg \<noteq> [] \<or> cfg_RunType cfg = ''debug'') \<and> in_WireGuardOK inp \<and>
          (cfg_EnableStealth cfg \<longrightarrow> in_StealthListening inp) \<and> (HasFirewallService cfg \<longrightarrow> in_FirewallOK inp) \<and>
          (GatewayEnabled cfg \<longrightarrow> in_GatewayRegistered inp))) \<and>
   (SummaryLine (Evaluate inp) = ''ready'' \<longleftrightarrow> rp_OK (Evaluate inp)) \<and>
   (\<not> rp_OK (Evaluate inp) \<longrightarrow>
     (\<exists>c \<in> set (rp_Checks (Evaluate inp)). \<not> ck_OK c \<and> SummaryLine (Evaluate inp) = ''not ready: '' @ ck_ID c))"
proof (cases "in_Cfg inp")
  case None
  then show ?thesis by (simp add: Evaluate_def SummaryLine_def notLoaded_def)
next
  case (Some cfg)
  let ?cs = "liveChecks inp cfg"
  have e: "rp_OK (Evaluate inp) \<longleftrightarrow> \<not> (\<exists>c \<in> set ?cs. blocks c)" "rp_Checks (Evaluate inp) = ?cs"
    by (simp_all add: Evaluate_def Some Let_def allPass_blocks)
  have r: "rp_OK (Evaluate inp) \<Longrightarrow> SummaryLine (Evaluate inp) = ''ready''" by (simp add: SummaryLine_def)
  have n: "\<exists>c \<in> set ?cs. \<not> ck_OK c \<and> SummaryLine (Evaluate inp) = ''not ready: '' @ ck_ID c" if "\<not> rp_OK (Evaluate inp)"
  proof -
    have "\<exists>c \<in> set ?cs. blocks c" using that e(1) by blast
    from first_blocking [OF this] show ?thesis using that e(2) by (auto simp: SummaryLine_def)
  qed
  have i: "rp_OK (Evaluate inp) \<longleftrightarrow>
      in_IdentityConfigured inp \<and> cfg_Mnemonic cfg \<noteq> [] \<and> cfg_WGEndpointHost cfg \<noteq> [] \<and>
      (EffectiveNodeKey cfg \<noteq> [] \<or> cfg_RunType cfg = ''debug'') \<and> in_WireGuardOK inp \<and>
      (cfg_EnableStealth cfg \<longrightarrow> in_StealthListening inp) \<and> (HasFirewallService cfg \<longrightarrow> in_FirewallOK inp) \<and>
      (GatewayEnabled cfg \<longrightarrow> in_GatewayRegistered inp)"
    unfolding e(1) liveChecks_blocks not_not ..
  have "SummaryLine (Evaluate inp) = ''ready'' \<longleftrightarrow> rp_OK (Evaluate inp)"
    using r n by (cases "rp_OK (Evaluate inp)") auto
  then show ?thesis using n unfolding e(2) Some option.case by (intro conjI impI i)
qed

definition ex_ready :: Input where
  "ex_ready =
     \<lparr>in_Cfg = Some (ex_config\<lparr>cfg_Mnemonic := ''abandon'', cfg_WGEndpointHost := ''203.0.113.1'', cfg_RunType := ''debug'',
        cfg_EnableStealth := False, cfg_FirewallProvider := FirewallNone, cfg_GatewayURL := []\<rparr>),
      in_IdentityConfigured = True, in_GatewayRegistered = False, in_GatewayConnected = False,
      in_WireGuardOK = True, in_StealthListening = False, in_FirewallOK = False, in_FirewallDetail = [], in_DropState = ''unreachable''\<rparr>"

theorem Evaluate_ready_iff_witness:
  "rp_OK (Evaluate ex_ready) \<and> SummaryLine (Evaluate ex_ready) = ''ready''"
proof -
  have "rp_OK (Evaluate ex_ready)" by code_simp
  then show ?thesis using Evaluate_ready_iff [of ex_ready] by blast
qed

end
