(* ===== verification/GatewayAuth.thy ===== *)
theory GatewayAuth
  imports Http Config
begin

text \<open>
  Authentication of calls from the gateway: the checks on a token's claims
  (\<open>src/internal/gatewayauth/verify.go\<close>) and the middleware that guards the private routes
  (\<open>src/internal/api/middleware.go\<close>). Verification of the PASETO token is a parameter, \<open>scan\<close>: for a
  public key and a token it gives the claims, or an error if the signature or the registered claims
  do not hold.
\<close>

section \<open>Tokens\<close>

abbreviation roleGatewayCall :: string where "roleGatewayCall \<equiv> ''gateway_call''"

record Claims =
  cl_Role :: string
  cl_NodeID :: string
  cl_PeerID :: string
  cl_Purpose :: string

type_synonym scanner = "u8 list \<Rightarrow> string \<Rightarrow> Claims result"

text \<open>\<open>herr\<close> is the error of the hex decoder.\<close>

definition verifyGatewayCall :: "scanner \<Rightarrow> error \<Rightarrow> string \<Rightarrow> string \<Rightarrow> Claims result" where
  "verifyGatewayCall scan herr token gatewayPublicKeyHex =
     (case hex_decode (TrimPrefix gatewayPublicKeyHex ''0x'') of
        None \<Rightarrow> Inl (Wrapf ''decode gateway public key: '' herr [])
      | Some raw \<Rightarrow>
          (if length raw \<noteq> 32 then Inl (Errorf ''gateway public key must be 32 bytes'')
           else case scan raw token of
                  Inl e \<Rightarrow> Inl e
                | Inr c \<Rightarrow>
                    (if cl_Role c \<noteq> roleGatewayCall then Inl (Errorf (''unexpected role '' @ Quote (cl_Role c)))
                     else Inr c)))"

definition VerifyGatewayCall :: "scanner \<Rightarrow> error \<Rightarrow> string \<Rightarrow> string \<Rightarrow> string \<Rightarrow> Claims result" where
  "VerifyGatewayCall scan herr token gatewayPublicKeyHex expectNodeID =
     (case verifyGatewayCall scan herr token gatewayPublicKeyHex of
        Inl e \<Rightarrow> Inl e
      | Inr c \<Rightarrow>
          (if expectNodeID \<noteq> [] \<and> cl_NodeID c \<noteq> [] \<and> cl_NodeID c \<noteq> expectNodeID
           then Inl (Errorf ''node_id mismatch'') else Inr c))"

definition validatePurposeClaims :: "Claims \<Rightarrow> string \<Rightarrow> string \<Rightarrow> error option" where
  "validatePurposeClaims c expectNodeID expectPurpose =
     (let nodeID = (if cl_NodeID c = [] then cl_PeerID c else cl_NodeID c) in
      if expectNodeID = [] \<or> nodeID \<noteq> expectNodeID then Some (Errorf ''node_id mismatch'')
      else if expectPurpose = [] \<or> cl_Purpose c \<noteq> expectPurpose then Some (Errorf ''purpose mismatch'')
      else None)"

definition VerifyGatewayCallPurpose :: "scanner \<Rightarrow> error \<Rightarrow> string \<Rightarrow> string \<Rightarrow> string \<Rightarrow> string \<Rightarrow> Claims result" where
  "VerifyGatewayCallPurpose scan herr token gatewayPublicKeyHex expectNodeID expectPurpose =
     (case verifyGatewayCall scan herr token gatewayPublicKeyHex of
        Inl e \<Rightarrow> Inl e
      | Inr c \<Rightarrow> (case validatePurposeClaims c expectNodeID expectPurpose of Some e \<Rightarrow> Inl e | None \<Rightarrow> Inr c))"


section \<open>Middleware\<close>

datatype verdict = Next | Abort nat string

text \<open>\<open>cfg0\<close> is the configuration when the router is built, \<open>cfg\<close> the one when the request comes.\<close>

definition gatewayAuthForPurpose ::
  "scanner \<Rightarrow> error \<Rightarrow> Config \<Rightarrow> Config \<Rightarrow> string \<Rightarrow> HttpRequest \<Rightarrow> verdict" where
  "gatewayAuthForPurpose scan herr cfg0 cfg purpose req =
     (let nodeKey = EffectiveNodeKey cfg0; gwPub = cfg_GatewayPublicKey cfg0; debug = (cfg_RunType cfg0 = ''debug'');
          bearer = TrimSpace (TrimPrefix (header ''Authorization'' req) ''Bearer '');
          headerKey = TrimSpace (header ''X-Erebrus-Node-Key'' req)
      in if nodeKey = [] then
           (if debug \<and> purpose = [] then Next else Abort 503 ''node API disabled: NODE_KEY not configured'')
         else if gwPub \<noteq> [] \<and> bearer \<noteq> [] \<and> headerKey \<noteq> [] \<and>
                 is_ok (if purpose = [] then VerifyGatewayCall scan herr bearer gwPub (cfg_NodeID cfg)
                        else VerifyGatewayCallPurpose scan herr bearer gwPub (cfg_NodeID cfg) purpose) \<and>
                 headerKey = nodeKey
         then Next
         else if purpose = [] \<and> debug \<and> bearer \<noteq> [] \<and> bearer = nodeKey then Next
         else Abort 401 ''unauthorized'')"

definition gatewayAuth :: "scanner \<Rightarrow> error \<Rightarrow> Config \<Rightarrow> Config \<Rightarrow> HttpRequest \<Rightarrow> verdict" where
  "gatewayAuth scan herr cfg0 cfg req = gatewayAuthForPurpose scan herr cfg0 cfg [] req"


section \<open>Properties\<close>

text \<open>A verified call: the key of the gateway is 32 bytes, the token holds and has the role.\<close>

definition gateway_token :: "scanner \<Rightarrow> string \<Rightarrow> string \<Rightarrow> Claims \<Rightarrow> bool" where
  "gateway_token scan gwPub token c \<longleftrightarrow>
     (\<exists>raw. hex_decode (TrimPrefix gwPub ''0x'') = Some raw \<and> length raw = 32 \<and> scan raw token = Inr c \<and>
        cl_Role c = roleGatewayCall)"

lemma verifyGatewayCall_ok: "verifyGatewayCall scan herr token gwPub = Inr c \<longleftrightarrow> gateway_token scan gwPub token c"
  by (auto simp: verifyGatewayCall_def gateway_token_def split: option.splits sum.splits)

lemma is_ok_iff: "is_ok r \<longleftrightarrow> (\<exists>x. r = Inr x)"
  by (cases r) auto

lemma VerifyGatewayCall_ok:
  "VerifyGatewayCall scan herr token gwPub nid = Inr c \<longleftrightarrow>
     gateway_token scan gwPub token c \<and> (nid = [] \<or> cl_NodeID c \<in> {[], nid})"
  unfolding verifyGatewayCall_ok [of scan herr token gwPub, symmetric]
  by (auto simp: VerifyGatewayCall_def split: sum.splits)

lemma VerifyGatewayCallPurpose_ok:
  "VerifyGatewayCallPurpose scan herr token gwPub nid purpose = Inr c \<longleftrightarrow>
     gateway_token scan gwPub token c \<and> nid \<noteq> [] \<and> purpose \<noteq> [] \<and>
     (if cl_NodeID c = [] then cl_PeerID c else cl_NodeID c) = nid \<and> cl_Purpose c = purpose"
  unfolding verifyGatewayCall_ok [of scan herr token gwPub, symmetric]
  by (auto simp: VerifyGatewayCallPurpose_def validatePurposeClaims_def Let_def split: sum.splits option.splits if_splits)

text \<open>The guard reads of a request its headers, and of the current configuration the node's id.\<close>

lemma gatewayAuthForPurpose_frame:
  assumes "cfg_NodeID cfg = cfg_NodeID cfg'" "rq_Header req = rq_Header req'"
  shows "gatewayAuthForPurpose scan herr cfg0 cfg p req = gatewayAuthForPurpose scan herr cfg0 cfg' p req'"
  unfolding gatewayAuthForPurpose_def header_def assms ..

lemma gatewayAuth_release_next:
  assumes "cfg_RunType cfg0 \<noteq> ''debug''"
  shows "gatewayAuthForPurpose scan herr cfg0 cfg purpose req = Next \<longleftrightarrow>
     EffectiveNodeKey cfg0 \<noteq> [] \<and> cfg_GatewayPublicKey cfg0 \<noteq> [] \<and>
     TrimSpace (header ''X-Erebrus-Node-Key'' req) = EffectiveNodeKey cfg0 \<and>
     (let bearer = TrimSpace (TrimPrefix (header ''Authorization'' req) ''Bearer '') in
      bearer \<noteq> [] \<and>
      (\<exists>c. gateway_token scan (cfg_GatewayPublicKey cfg0) bearer c \<and>
         (if purpose = [] then cfg_NodeID cfg = [] \<or> cl_NodeID c \<in> {[], cfg_NodeID cfg}
          else cfg_NodeID cfg \<noteq> [] \<and> (if cl_NodeID c = [] then cl_PeerID c else cl_NodeID c) = cfg_NodeID cfg \<and>
               cl_Purpose c = purpose)))"
  using assms
  by (auto simp: gatewayAuthForPurpose_def Let_def is_ok_iff VerifyGatewayCall_ok VerifyGatewayCallPurpose_ok)

lemma gatewayAuth_release_abort:
  assumes "cfg_RunType cfg0 \<noteq> ''debug''" "gatewayAuthForPurpose scan herr cfg0 cfg purpose req \<noteq> Next"
  shows "gatewayAuthForPurpose scan herr cfg0 cfg purpose req =
       (if EffectiveNodeKey cfg0 = [] then Abort 503 ''node API disabled: NODE_KEY not configured''
        else Abort 401 ''unauthorized'')"
  using assms by (simp add: gatewayAuthForPurpose_def Let_def split: if_splits)


definition ex_scan :: scanner where
  "ex_scan key token = (if token = ''v4.ok'' then Inr \<lparr>cl_Role = roleGatewayCall, cl_NodeID = ''n1'', cl_PeerID = [], cl_Purpose = ''drop_read''\<rparr>
     else Inl (Errorf ''bad signature''))"

definition ex_auth_cfg :: Config where
  "ex_auth_cfg = ex_config\<lparr>cfg_RunType := ''release'', cfg_NodeKey := ''key'', cfg_NodeID := ''n1'',
     cfg_GatewayPublicKey := ''0x'' @ replicate 64 (CHR ''a'')\<rparr>"

definition ex_call :: "string \<Rightarrow> HttpRequest" where
  "ex_call token = \<lparr>rq_Method = ''GET'', rq_URL = [], rq_Header = [(''Authorization'', ''Bearer '' @ token), (''X-Erebrus-Node-Key'', ''key'')], rq_Body = []\<rparr>"


text \<open>
  The peer routes ask for no purpose, and for this node's id only if both sides name one: a token
  issued for reading from Drop opens them, and while the node has no id (its registration failed, or
  the stored id was another's) so does a token issued for any other node.
\<close>

lemma drop_token_opens_peer_routes:
  "gatewayAuth ex_scan (Errorf ''hex'') ex_auth_cfg ex_auth_cfg (ex_call ''v4.ok'') = Next"
  by code_simp

lemma foreign_token_opens_unregistered_node:
  "gatewayAuth ex_scan (Errorf ''hex'') ex_auth_cfg (ex_auth_cfg\<lparr>cfg_NodeID := []\<rparr>) (ex_call ''v4.ok'') = Next \<and>
   gatewayAuth ex_scan (Errorf ''hex'') ex_auth_cfg (ex_auth_cfg\<lparr>cfg_NodeID := ''other''\<rparr>) (ex_call ''v4.ok'') \<noteq> Next"
  by code_simp

end
