(* ===== verification/Api.thy ===== *)
theory Api
  imports Node Drop Readiness GatewayAuth
begin

text \<open>
  The HTTP interface of the node (\<open>src/internal/api\<close>): routing, the peer routes, the Drop routes and
  the public status. A reply is a status and a body; the rendering of a body as JSON is the
  library's. The provisioner is the interface \<open>api.Provisioner\<close>, a record of functions on a state;
  theory \<open>Node\<close> provides it.
\<close>

section \<open>Requests and replies\<close>

text \<open>The segments of the path, and of an upload the announced length and the body as a stream.\<close>

record ApiRequest =
  aq_Req :: HttpRequest
  aq_Path :: "string list"
  aq_ContentLength :: int
  aq_Stream :: reader

record WireGuardEndpointStatus =
  we_Port :: int
  we_PublicKey :: string
  we_Endpoint :: string

record IdentityStatus =
  is_Configured :: bool
  is_PeerID :: string
  is_DID :: string
  is_WalletChain :: string
  is_WalletLabel :: string
  is_WalletAddress :: string

record DropCapability =
  dc_Enabled :: bool
  dc_AcceptsPublicUploads :: bool
  dc_WebUIAvailable :: bool

record Capabilities =
  ca_AccessMode :: string
  ca_AccessLabel :: string
  ca_AccessHint :: string
  ca_RegionLabel :: string
  ca_ZoneLabel :: string
  ca_NetworkProfile :: string
  ca_DeploymentProfile :: string
  ca_FirewallProvider :: string
  ca_Stealth :: bool
  ca_PublicAPIURL :: string
  ca_Services :: "(string \<times> string) list"
  ca_Drop :: DropCapability

record StatusResponse =
  sr_Version :: string
  sr_NodeName :: string
  sr_Region :: string
  sr_Zone :: string
  sr_Status :: string
  sr_AccessMode :: string
  sr_PeerID :: string
  sr_DID :: string
  sr_Identity :: IdentityStatus
  sr_WireGuard :: WireGuardEndpointStatus
  sr_Capabilities :: Capabilities
  sr_Protocols :: "string list"
  sr_Readiness :: Report

record Forwarded =
  fd_Method :: string
  fd_URL :: string
  fd_Header :: "(string \<times> string) list"
  fd_Body :: string

record ProxyResponse =
  px_Status :: nat
  px_Location :: string
  px_Body :: string

text \<open>A parsed URL; \<open>u_Rest\<close> is everything after the path.\<close>

record URL =
  u_Scheme :: string
  u_Host :: string
  u_Path :: string
  u_Rest :: string

datatype ApiBody =
    NoBody
  | ErrorBody string
  | TextBody string
  | HealthBody | IndexPage | MetricsPage
  | StatusBody StatusResponse
  | StatsBody NodeStats
  | BundleBody CredentialBundle
  | PeersBody "PeerInfo list"
  | DropStatusBody Snapshot
  | UploadedBody string int
  | PinBody string bool
  | StreamBody string "error option"
  | ProxyBody ProxyResponse

record Reply =
  re_Status :: nat
  re_Body :: ApiBody

abbreviation reply :: "nat \<Rightarrow> ApiBody \<Rightarrow> Reply" where
  "reply code body \<equiv> \<lparr>re_Status = code, re_Body = body\<rparr>"

record 'n Provisioner =
  pv_UpsertPeer :: "'n \<Rightarrow> string \<Rightarrow> PeerRequest \<Rightarrow> (CredentialBundle result \<times> 'n) option"
  pv_DeletePeer :: "'n \<Rightarrow> string \<Rightarrow> error option \<times> 'n"
  pv_Credentials :: "'n \<Rightarrow> string \<Rightarrow> CredentialBundle result \<times> 'n"
  pv_ListPeers :: "'n \<Rightarrow> PeerInfo list result \<times> 'n"
  pv_Stats :: "'n \<Rightarrow> NodeStats result \<times> 'n"

text \<open>
  The server, with the state of the provisioner and of Kubo. \<open>sv_cfg0\<close> is the configuration the
  router was built with: the guards of the routes keep its keys.
\<close>

record ('n, 'w) Server =
  sv_cfg :: Config
  sv_cfg0 :: Config
  sv_PeerID :: string
  sv_DID :: string
  sv_status :: string
  sv_prov :: 'n
  sv_drop :: "DropSvc option"
  sv_kubo :: 'w

text \<open>What the handlers call outside the server.\<close>

record ('n, 'w) Env =
  ev_prov :: "'n Provisioner"
  ev_scan :: scanner
  ev_herr :: error
  ev_kubo :: "'w kubo"
  ev_jerr :: error
  ev_sha256 :: "string \<Rightarrow> u8 list"
  ev_cidDecode :: "string \<Rightarrow> error option"
  ev_crypto :: Crypto
  ev_readiness :: "Input option"
  ev_wgPublicKey :: "string option"
  ev_services :: "(string \<times> string) list option"
  ev_proxy :: "'w \<Rightarrow> Forwarded \<Rightarrow> ProxyResponse result \<times> 'w"
  ev_urlParse :: "string \<Rightarrow> URL result"
  ev_urlString :: "URL \<Rightarrow> string"

definition SetStatus :: "string \<Rightarrow> ('n, 'w) Server \<Rightarrow> ('n, 'w) Server" where
  "SetStatus status s = s\<lparr>sv_status := (if status = [] then ''online'' else status)\<rparr>"


section \<open>Peers\<close>

definition bindPeerRequest :: "string \<Rightarrow> PeerRequest option" where
  "bindPeerRequest body =
     (case json_dec_first body of
        None \<Rightarrow> None
      | Some v \<Rightarrow>
          (if is_struct v then
             (case (string_field ''name'' v, string_field ''wallet'' v, string_field ''wg_public_key'' v,
                    string_field ''wg_preshared_key'' v, int_field ''expires_at'' v) of
                (Some a, Some b, Some c, Some d, Some e) \<Rightarrow>
                  Some \<lparr>req_Name = a, req_Wallet = b, req_WGPublicKey = c, req_WGPresharedKey = d, req_ExpiresAt = e\<rparr>
              | _ \<Rightarrow> None)
           else None))"

definition handlePutPeer ::
  "'n Provisioner \<Rightarrow> string \<Rightarrow> string \<Rightarrow> ('n, 'w) Server \<Rightarrow> (Reply \<times> ('n, 'w) Server) option" where
  "handlePutPeer prov pid body s =
     (case bindPeerRequest body of
        None \<Rightarrow> Some (reply 400 (ErrorBody ''invalid JSON body''), s)
      | Some req \<Rightarrow>
          (if req_Name req = [] \<or> req_WGPublicKey req = []
           then Some (reply 400 (ErrorBody ''name and wg_public_key are required''), s)
           else if sv_status s = ''draining'' then Some (reply 409 (ErrorBody ''node is draining''), s)
           else case pv_UpsertPeer prov (sv_prov s) pid req of
                  None \<Rightarrow> None
                | Some (Inl e, n) \<Rightarrow>
                    (if errors_Is e ErrSubnetExhausted
                     then Some (reply 409 (ErrorBody ''address pool exhausted''), s\<lparr>sv_prov := n\<rparr>)
                     else Some (reply 400 (ErrorBody ''could not provision peer''), s\<lparr>sv_prov := n\<rparr>))
                | Some (Inr bundle, n) \<Rightarrow> Some (reply 200 (BundleBody bundle), s\<lparr>sv_prov := n\<rparr>)))"

definition handleDeletePeer :: "'n Provisioner \<Rightarrow> string \<Rightarrow> ('n, 'w) Server \<Rightarrow> Reply \<times> ('n, 'w) Server" where
  "handleDeletePeer prov pid s =
     (case pv_DeletePeer prov (sv_prov s) pid of
        (Some e, n) \<Rightarrow> (reply 500 (ErrorBody ''internal error''), s\<lparr>sv_prov := n\<rparr>)
      | (None, n) \<Rightarrow> (reply 204 NoBody, s\<lparr>sv_prov := n\<rparr>))"

definition handleCredentials :: "'n Provisioner \<Rightarrow> string \<Rightarrow> ('n, 'w) Server \<Rightarrow> Reply \<times> ('n, 'w) Server" where
  "handleCredentials prov pid s =
     (case pv_Credentials prov (sv_prov s) pid of
        (Inl e, n) \<Rightarrow>
          (if errors_Is e ErrNotFound then reply 404 (ErrorBody ''unknown peer'') else reply 500 (ErrorBody ''internal error''),
           s\<lparr>sv_prov := n\<rparr>)
      | (Inr bundle, n) \<Rightarrow> (reply 200 (BundleBody bundle), s\<lparr>sv_prov := n\<rparr>))"

definition handleListPeers :: "'n Provisioner \<Rightarrow> ('n, 'w) Server \<Rightarrow> Reply \<times> ('n, 'w) Server" where
  "handleListPeers prov s =
     (case pv_ListPeers prov (sv_prov s) of
        (Inl e, n) \<Rightarrow> (reply 500 (ErrorBody ''internal error''), s\<lparr>sv_prov := n\<rparr>)
      | (Inr peers, n) \<Rightarrow> (reply 200 (PeersBody peers), s\<lparr>sv_prov := n\<rparr>))"

definition handleStats :: "'n Provisioner \<Rightarrow> ('n, 'w) Server \<Rightarrow> Reply \<times> ('n, 'w) Server" where
  "handleStats prov s =
     (case pv_Stats prov (sv_prov s) of
        (Inl e, n) \<Rightarrow> (reply 500 (ErrorBody ''failed to read stats''), s\<lparr>sv_prov := n\<rparr>)
      | (Inr stats, n) \<Rightarrow> (reply 200 (StatsBody stats), s\<lparr>sv_prov := n\<rparr>))"


section \<open>Status\<close>

definition setState :: "string \<Rightarrow> string \<Rightarrow> (string \<times> string) list \<Rightarrow> (string \<times> string) list" where
  "setState name st m = filter (\<lambda>(k, _). k \<noteq> name) m @ [(name, st)]"

definition servicesSnapshot :: "(string \<times> string) list option \<Rightarrow> DropSvc option \<Rightarrow> (string \<times> string) list" where
  "servicesSnapshot fn drp =
     (let out = (case fn of None \<Rightarrow> [(''vpn'', ''active'')] | Some m \<Rightarrow> m)
      in case drp of None \<Rightarrow> out | Some d \<Rightarrow> setState ''drop'' (dp_State (ds_snapshot d)) out)"

definition publicDropCapability :: "DropSvc option \<Rightarrow> DropCapability" where
  "publicDropCapability drp =
     (case drp of
        None \<Rightarrow> \<lparr>dc_Enabled = False, dc_AcceptsPublicUploads = False, dc_WebUIAvailable = False\<rparr>
      | Some d \<Rightarrow> \<lparr>dc_Enabled = cfg_DropEnabled (ds_cfg d), dc_AcceptsPublicUploads = DropAcceptsPublicUploads (ds_cfg d),
                  dc_WebUIAvailable = WebUIAvailable d\<rparr>)"

definition statusInput :: "Input option \<Rightarrow> ('n, 'w) Server \<Rightarrow> Input" where
  "statusInput fn s =
     (case fn of
        None \<Rightarrow>
          \<lparr>in_Cfg = Some (sv_cfg s), in_IdentityConfigured = (sv_PeerID s \<noteq> []), in_GatewayRegistered = False,
           in_GatewayConnected = False, in_WireGuardOK = False, in_StealthListening = False, in_FirewallOK = False,
           in_FirewallDetail = [], in_DropState = []\<rparr>
      | Some i \<Rightarrow>
          (let i1 = i\<lparr>in_Cfg := Some (sv_cfg s)\<rparr>
           in if in_IdentityConfigured i1 = False \<and> sv_PeerID s \<noteq> [] then i1\<lparr>in_IdentityConfigured := True\<rparr> else i1))"

definition handleStatus :: "('n, 'w) Env \<Rightarrow> ('n, 'w) Server \<Rightarrow> Reply" where
  "handleStatus ev s =
     (let cfg = sv_cfg s;
          inp = statusInput (ev_readiness ev) s;
          chain = CanonicalChain (cfg_WalletChain cfg);
          port0 = fst (Atoi (cfg_WGEndpointPort cfg));
          wgPort = (if port0 = 0 then 51820 else port0);
          mode = mode_RuntimeMode (cfg_Mode cfg)
      in reply 200 (StatusBody
        \<lparr>sr_Version = cfg_Version cfg, sr_NodeName = cfg_NodeName cfg, sr_Region = cfg_Region cfg, sr_Zone = cfg_Zone cfg,
         sr_Status = sv_status s, sr_AccessMode = mode, sr_PeerID = sv_PeerID s, sr_DID = sv_DID s,
         sr_Identity =
           \<lparr>is_Configured = (in_IdentityConfigured inp \<and> cfg_Mnemonic cfg \<noteq> []), is_PeerID = sv_PeerID s, is_DID = sv_DID s,
            is_WalletChain = chain, is_WalletLabel = ChainLabel chain,
            is_WalletAddress =
              (if cfg_Mnemonic cfg \<noteq> [] then
                 (case AddressFromMnemonic (ev_crypto ev) (cfg_Mnemonic cfg) chain of Inr addr \<Rightarrow> addr | Inl _ \<Rightarrow> [])
               else [])\<rparr>,
         sr_WireGuard =
           \<lparr>we_Port = wgPort, we_PublicKey = (case ev_wgPublicKey ev of None \<Rightarrow> [] | Some k \<Rightarrow> k),
            we_Endpoint = cfg_WGEndpointHost cfg @ '':'' @ Itoa wgPort\<rparr>,
         sr_Capabilities =
           \<lparr>ca_AccessMode = mode, ca_AccessLabel = AccessModeLabel mode, ca_AccessHint = AccessModeHint mode,
            ca_RegionLabel = RegionLabel (cfg_Region cfg), ca_ZoneLabel = ZoneLabel (cfg_Zone cfg),
            ca_NetworkProfile = mode_NetworkProfile (cfg_Mode cfg), ca_DeploymentProfile = cfg_ErebrusProfile cfg,
            ca_FirewallProvider = cfg_FirewallProvider cfg, ca_Stealth = cfg_EnableStealth cfg,
            ca_PublicAPIURL = PublicAPIURL (Some cfg), ca_Services = servicesSnapshot (ev_services ev) (sv_drop s),
            ca_Drop = publicDropCapability (sv_drop s)\<rparr>,
         sr_Protocols = ''wireguard'' # (if cfg_EnableStealth cfg then [''vless-reality'', ''hysteria2''] else []),
         sr_Readiness = Evaluate inp\<rparr>))"


section \<open>Drop\<close>

definition writeDropError :: "error \<Rightarrow> Reply" where
  "writeDropError e =
     (if errors_Is e ErrDisabled then reply 503 (ErrorBody ''Drop disabled'')
      else if errors_Is e ErrUnavailable then reply 503 (ErrorBody ''Drop unavailable'')
      else if errors_Is e ErrByteLimit then reply 413 (ErrorBody ''stream exceeded byte limit'')
      else if errors_Is e ErrStorageFull then reply 507 (ErrorBody ''Drop storage is full'')
      else if errors_Is e ErrSizeMismatch \<or> errors_Is e ErrHashMismatch then reply 422 (ErrorBody ''upload verification failed'')
      else if Contains (Error e) ''invalid CID'' then reply 400 (ErrorBody ''invalid CID'')
      else reply 502 (ErrorBody ''Drop operation failed''))"

definition handleDropStatus :: "('n, 'w) Server \<Rightarrow> Reply" where
  "handleDropStatus s =
     (case sv_drop s of
        None \<Rightarrow> reply 503 (ErrorBody ''Drop unavailable'')
      | Some d \<Rightarrow> reply 200 (DropStatusBody (ds_snapshot d)))"

abbreviation dropDeclaredSizeHeader :: string where "dropDeclaredSizeHeader \<equiv> ''X-Erebrus-Declared-Size''"
abbreviation dropSHA256Header :: string where "dropSHA256Header \<equiv> ''X-Erebrus-SHA256''"

definition handleDropUpload ::
  "('n, 'w) Env \<Rightarrow> string \<Rightarrow> ApiRequest \<Rightarrow> ('n, 'w) Server \<Rightarrow> Reply \<times> ('n, 'w) Server" where
  "handleDropUpload ev uploadID aq s =
     (case sv_drop s of
        None \<Rightarrow> (reply 503 (ErrorBody ''Drop disabled''), s)
      | Some d \<Rightarrow>
     (let h = (\<lambda>n. header n (aq_Req aq));
          (declaredSize, bad) = ParseInt (TrimSpace (h dropDeclaredSizeHeader));
          maxUpload = min (cfg_DropStorageMaxBytes (sv_cfg s)) MaxObjectBytes;
          digest = TrimSpace (h dropSHA256Header)
      in if \<not> cfg_DropEnabled (ds_cfg d) then (reply 503 (ErrorBody ''Drop disabled''), s)
         else if h ''Content-Type'' \<noteq> [] \<and> \<not> HasPrefix (h ''Content-Type'') ''application/octet-stream''
         then (reply 415 (ErrorBody ''content type must be application/octet-stream''), s)
         else if bad \<or> declaredSize < 0 then (reply 400 (ErrorBody ''invalid declared size''), s)
         else if maxUpload < declaredSize \<or> (0 \<le> aq_ContentLength aq \<and> declaredSize < aq_ContentLength aq)
         then (reply 413 (ErrorBody ''upload exceeds reserved size''), s)
         else if digest \<noteq> [] \<and> (case hex_decode digest of None \<Rightarrow> True | Some raw \<Rightarrow> length raw \<noteq> 32)
         then (reply 400 (ErrorBody ''invalid SHA-256''), s)
         else
           (case Upload (ev_kubo ev) (ev_jerr ev) (ev_sha256 ev) (ev_cidDecode ev)
                   \<lparr>ar_UploadID = uploadID, ar_Body = Some (aq_Stream aq), ar_DeclaredSize = declaredSize,
                    ar_MaxBytes = declaredSize, ar_SHA256 = digest\<rparr> d (sv_kubo s) of
              (r, d', w) \<Rightarrow>
                (let s' = s\<lparr>sv_drop := Some d', sv_kubo := w\<rparr>
                 in case r of
                      Inl e \<Rightarrow> (writeDropError e, s')
                    | Inr res \<Rightarrow> (reply 200 (UploadedBody (ad_CID res) (ad_Size res)), s')))))"

text \<open>The routes of Drop exist only with a service; without one a handler would panic, which the
  recovery middleware answers with 500.\<close>

definition handleDropRead :: "('n, 'w) Env \<Rightarrow> string \<Rightarrow> ('n, 'w) Server \<Rightarrow> Reply \<times> ('n, 'w) Server" where
  "handleDropRead ev v s =
     (case sv_drop s of
        None \<Rightarrow> (reply 500 NoBody, s)
      | Some d \<Rightarrow>
          (case dropRead (ev_kubo ev) (ev_cidDecode ev) v d (sv_kubo s) of
             (Inl e, d', w) \<Rightarrow> (writeDropError e, s\<lparr>sv_drop := Some d', sv_kubo := w\<rparr>)
           | (Inr body, d', w) \<Rightarrow>
               (case copyLimited (lr_r body) (lr_remaining body) of
                  (out, err, _) \<Rightarrow>
                    (reply 200 (StreamBody out err),
                     s\<lparr>sv_drop := Some (if out \<noteq> [] then RecordDownload (int (length out)) d' else d'), sv_kubo := w\<rparr>))))"

definition handleDropPinStatus :: "('n, 'w) Env \<Rightarrow> string \<Rightarrow> ('n, 'w) Server \<Rightarrow> Reply \<times> ('n, 'w) Server" where
  "handleDropPinStatus ev v s =
     (case sv_drop s of
        None \<Rightarrow> (reply 500 NoBody, s)
      | Some d \<Rightarrow>
          (case dropPinStatus (ev_kubo ev) (ev_jerr ev) (ev_cidDecode ev) v d (sv_kubo s) of
             (Inl e, d', w) \<Rightarrow> (writeDropError e, s\<lparr>sv_drop := Some d', sv_kubo := w\<rparr>)
           | (Inr pinned, d', w) \<Rightarrow> (reply 200 (PinBody v pinned), s\<lparr>sv_drop := Some d', sv_kubo := w\<rparr>)))"

definition handleDropUnpin :: "('n, 'w) Env \<Rightarrow> string \<Rightarrow> ('n, 'w) Server \<Rightarrow> Reply \<times> ('n, 'w) Server" where
  "handleDropUnpin ev v s =
     (case sv_drop s of
        None \<Rightarrow> (reply 500 NoBody, s)
      | Some d \<Rightarrow>
          (case dropUnpin (ev_kubo ev) (ev_cidDecode ev) v d (sv_kubo s) of
             (Some e, d', w) \<Rightarrow> (writeDropError e, s\<lparr>sv_drop := Some d', sv_kubo := w\<rparr>)
           | (None, d', w) \<Rightarrow> (reply 204 NoBody, s\<lparr>sv_drop := Some d', sv_kubo := w\<rparr>)))"

text \<open>
  The proxy to the web interface of Kubo: the request it forwards, and the redirects of Kubo moved
  below the node's own path. Parsing and printing URLs, and the headers of the connection itself,
  are the library's.
\<close>

definition strippedHeaders :: "string list" where
  "strippedHeaders = [''Authorization'', ''X-Erebrus-Node-Key'', ''Origin'', ''Referer'']"

definition webUIForward :: "string \<Rightarrow> HttpRequest \<Rightarrow> Forwarded" where
  "webUIForward path req =
     \<lparr>fd_Method = rq_Method req,
      fd_URL = DefaultKuboRPCURL @ ''/'' @ TrimPrefix path ''/'' @ dropWhile (\<lambda>c. c \<noteq> CHR ''?'') (rq_URL req),
      fd_Header = filter (\<lambda>(k, _). \<not> (\<exists>n \<in> set strippedHeaders. EqualFold k n)) (rq_Header req),
      fd_Body = rq_Body req\<rparr>"

definition kuboHost :: string where
  "kuboHost = TrimPrefix DefaultKuboRPCURL ''http://''"

definition modifyLocation :: "(string \<Rightarrow> URL result) \<Rightarrow> (URL \<Rightarrow> string) \<Rightarrow> string \<Rightarrow> string" where
  "modifyLocation urlParse urlString location =
     (if location = [] then location
      else case urlParse location of
             Inl e \<Rightarrow> location
           | Inr u \<Rightarrow>
               (if u_Scheme u \<noteq> [] \<and> u_Host u \<noteq> kuboHost then location
                else urlString (u\<lparr>u_Scheme := [], u_Host := [],
                                  u_Path := ''/api/v2/drop/webui/'' @ TrimPrefix (u_Path u) ''/''\<rparr>)))"

definition handleDropWebUI ::
  "('n, 'w) Env \<Rightarrow> string \<Rightarrow> HttpRequest \<Rightarrow> ('n, 'w) Server \<Rightarrow> Reply \<times> ('n, 'w) Server" where
  "handleDropWebUI ev path req s =
     (case sv_drop s of
        None \<Rightarrow> (reply 404 (ErrorBody ''Drop WebUI unavailable''), s)
      | Some d \<Rightarrow>
          (if \<not> WebUIAvailable d then (reply 404 (ErrorBody ''Drop WebUI unavailable''), s)
           else case ev_proxy ev (sv_kubo s) (webUIForward path req) of
                  (Inl e, w) \<Rightarrow> (reply 502 (TextBody (''Kubo WebUI unavailable'' @ NL)), s\<lparr>sv_kubo := w\<rparr>)
                | (Inr px, w) \<Rightarrow>
                    (reply (px_Status px) (ProxyBody (px\<lparr>px_Location :=
                       modifyLocation (ev_urlParse ev) (ev_urlString ev) (px_Location px)\<rparr>)), s\<lparr>sv_kubo := w\<rparr>)))"


section \<open>Routing\<close>

datatype Route =
    RIndex | RMetrics | RHealthz | RStatus | RStats
  | RListPeers | RPutPeer string | RDeletePeer string | RCredentials string
  | RDropStatus | RDropUpload string | RDropRead string | RDropPinStatus string | RDropUnpin string | RDropWebUI string

definition peerRoute :: "string \<Rightarrow> string list \<Rightarrow> Route option" where
  "peerRoute m rest =
     (case rest of
        [] \<Rightarrow> if m = ''GET'' then Some RListPeers else None
      | [i] \<Rightarrow> if i = [] then None else if m = ''PUT'' then Some (RPutPeer i)
               else if m = ''DELETE'' then Some (RDeletePeer i) else None
      | [i, c] \<Rightarrow> if i \<noteq> [] \<and> c = ''credentials'' \<and> m = ''GET'' then Some (RCredentials i) else None
      | _ \<Rightarrow> None)"

definition dropRoute :: "string \<Rightarrow> string list \<Rightarrow> Route option" where
  "dropRoute m rest =
     (case rest of
        [] \<Rightarrow> None
      | a # tail \<Rightarrow>
          (if a = ''webui'' then
             (if m \<in> {''GET'', ''POST'', ''PUT'', ''PATCH'', ''HEAD'', ''OPTIONS'', ''DELETE'', ''CONNECT'', ''TRACE''}
              then Some (RDropWebUI (if tail = [] then [] else ''/'' @ Join tail ''/'')) else None)
           else case tail of
                  [] \<Rightarrow> if a = ''status'' \<and> m = ''GET'' then Some RDropStatus else None
                | [p] \<Rightarrow>
                    (if p = [] then None
                     else if a = ''uploads'' \<and> m = ''PUT'' then Some (RDropUpload p)
                     else if a = ''objects'' \<and> m = ''GET'' then Some (RDropRead p)
                     else if a = ''pins'' \<and> m = ''GET'' then Some (RDropPinStatus p)
                     else if a = ''pins'' \<and> m = ''DELETE'' then Some (RDropUnpin p)
                     else None)
                | _ \<Rightarrow> None))"

definition route :: "bool \<Rightarrow> string \<Rightarrow> string list \<Rightarrow> Route option" where
  "route withDrop m path =
     (if path = [] then (if m = ''GET'' then Some RIndex else None)
      else if path = [''metrics''] then (if m = ''GET'' then Some RMetrics else None)
      else if path = [''healthz''] then (if m = ''GET'' then Some RHealthz else None)
      else if take 2 path \<noteq> [''api'', ''v2''] then None
      else case drop 2 path of
             [] \<Rightarrow> None
           | a # rest \<Rightarrow>
               (if a = ''status'' \<and> rest = [] then (if m = ''GET'' then Some RStatus else None)
                else if a = ''stats'' \<and> rest = [] then (if m = ''GET'' then Some RStats else None)
                else if a = ''peers'' then peerRoute m rest
                else if a = ''drop'' \<and> withDrop then dropRoute m rest
                else None))"

text \<open>The purpose a route asks for: none if it is public, the empty one for the peer routes.\<close>

fun purposeOf :: "Route \<Rightarrow> string option" where
  "purposeOf RListPeers = Some []"
| "purposeOf (RPutPeer _) = Some []"
| "purposeOf (RDeletePeer _) = Some []"
| "purposeOf (RCredentials _) = Some []"
| "purposeOf RDropStatus = Some ''drop_status''"
| "purposeOf (RDropUpload _) = Some ''drop_upload''"
| "purposeOf (RDropRead _) = Some ''drop_read''"
| "purposeOf (RDropPinStatus _) = Some ''drop_pin_check''"
| "purposeOf (RDropUnpin _) = Some ''drop_unpin''"
| "purposeOf (RDropWebUI _) = Some ''drop_webui''"
| "purposeOf _ = None"

fun handle :: "('n, 'w) Env \<Rightarrow> Route \<Rightarrow> ApiRequest \<Rightarrow> ('n, 'w) Server \<Rightarrow> (Reply \<times> ('n, 'w) Server) option" where
  "handle ev RIndex aq s = Some (reply 200 IndexPage, s)"
| "handle ev RMetrics aq s = Some (reply 200 MetricsPage, s)"
| "handle ev RHealthz aq s = Some (reply 200 HealthBody, s)"
| "handle ev RStatus aq s = Some (handleStatus ev s, s)"
| "handle ev RStats aq s = Some (handleStats (ev_prov ev) s)"
| "handle ev RListPeers aq s = Some (handleListPeers (ev_prov ev) s)"
| "handle ev (RPutPeer i) aq s = handlePutPeer (ev_prov ev) i (rq_Body (aq_Req aq)) s"
| "handle ev (RDeletePeer i) aq s = Some (handleDeletePeer (ev_prov ev) i s)"
| "handle ev (RCredentials i) aq s = Some (handleCredentials (ev_prov ev) i s)"
| "handle ev RDropStatus aq s = Some (handleDropStatus s, s)"
| "handle ev (RDropUpload u) aq s = Some (handleDropUpload ev u aq s)"
| "handle ev (RDropRead v) aq s = Some (handleDropRead ev v s)"
| "handle ev (RDropPinStatus v) aq s = Some (handleDropPinStatus ev v s)"
| "handle ev (RDropUnpin v) aq s = Some (handleDropUnpin ev v s)"
| "handle ev (RDropWebUI p) aq s = Some (handleDropWebUI ev p (aq_Req aq) s)"

definition verdictFor :: "('n, 'w) Env \<Rightarrow> Route \<Rightarrow> ApiRequest \<Rightarrow> ('n, 'w) Server \<Rightarrow> verdict" where
  "verdictFor ev r aq s =
     (case purposeOf r of
        None \<Rightarrow> Next
      | Some p \<Rightarrow> gatewayAuthForPurpose (ev_scan ev) (ev_herr ev) (sv_cfg0 s) (sv_cfg s) p (aq_Req aq))"

definition serve :: "('n, 'w) Env \<Rightarrow> ApiRequest \<Rightarrow> ('n, 'w) Server \<Rightarrow> (Reply \<times> ('n, 'w) Server) option" where
  "serve ev aq s =
     (case route (sv_drop s \<noteq> None) (rq_Method (aq_Req aq)) (aq_Path aq) of
        None \<Rightarrow> Some (reply 404 NoBody, s)
      | Some r \<Rightarrow>
          (case verdictFor ev r aq s of
             Abort code msg \<Rightarrow> Some (reply code (ErrorBody msg), s)
           | Next \<Rightarrow> handle ev r aq s))"


section \<open>What the handlers rely on\<close>

text \<open>
  The contract of a provisioner: \<open>inv\<close> is kept by every operation; \<open>ids\<close> are the peers it knows.
  Reads change neither; a deletion that succeeds removes exactly its peer; a provisioning that
  succeeds knows the peer it answers with. While storage works (\<open>quiet\<close>), the credentials of a known
  peer can be read and those of an unknown one are reported as not found.
\<close>

locale provisioner =
  fixes prov :: "'n Provisioner" and inv :: "'n \<Rightarrow> bool" and ids :: "'n \<Rightarrow> string set" and quiet :: "'n \<Rightarrow> bool"
  assumes upsert_inv: "inv n \<Longrightarrow> pv_UpsertPeer prov n i req = Some (r, n') \<Longrightarrow> inv n'"
    and delete_inv: "inv n \<Longrightarrow> pv_DeletePeer prov n i = (oe, n') \<Longrightarrow> inv n'"
    and creds_keep: "pv_Credentials prov n i = (rc, n') \<Longrightarrow> inv n' = inv n \<and> ids n' = ids n"
    and list_keep: "pv_ListPeers prov n = (rl, n') \<Longrightarrow> inv n' = inv n \<and> ids n' = ids n"
    and stats_keep: "pv_Stats prov n = (rs, n') \<Longrightarrow> inv n' = inv n \<and> ids n' = ids n"
    and delete_ok: "pv_DeletePeer prov n i = (None, n') \<Longrightarrow> ids n' = ids n - {i}"
    and upsert_ok: "pv_UpsertPeer prov n i req = Some (Inr b, n') \<Longrightarrow> cb_ID b \<in> ids n'"
    and known: "inv n \<Longrightarrow> quiet n \<Longrightarrow> i \<in> ids n \<Longrightarrow> \<exists>b. pv_Credentials prov n i = (Inr b, n) \<and> cb_ID b = i"
    and unknown: "quiet n \<Longrightarrow> i \<notin> ids n \<Longrightarrow> pv_Credentials prov n i = (Inl (Sentinel ErrNotFound), n)"
begin

lemma credentials_known:
  assumes "inv (sv_prov s)" "quiet (sv_prov s)" "i \<in> ids (sv_prov s)"
  shows "\<exists>b. handleCredentials prov i s = (reply 200 (BundleBody b), s) \<and> cb_ID b = i"
  using known [OF assms] by (auto simp: handleCredentials_def)

lemma credentials_unknown:
  "quiet (sv_prov s) \<Longrightarrow> i \<notin> ids (sv_prov s) \<Longrightarrow>
   handleCredentials prov i s = (reply 404 (ErrorBody ''unknown peer''), s)"
  by (simp add: handleCredentials_def unknown)

lemma put_ok:
  assumes "handlePutPeer prov i body s = Some (reply 200 (BundleBody b), s')"
  shows "cb_ID b \<in> ids (sv_prov s')" "sv_status s \<noteq> ''draining''"
  using assms
  by (auto simp: handlePutPeer_def intro: upsert_ok split: option.splits sum.splits prod.splits if_splits)

lemma delete_204:
  assumes "handleDeletePeer prov i s = (reply 204 NoBody, s')"
  shows "ids (sv_prov s') = ids (sv_prov s) - {i}"
  using assms by (auto simp: handleDeletePeer_def dest: delete_ok split: prod.splits option.splits)

lemma put_inv: "handlePutPeer prov i body s = Some (rep, s') \<Longrightarrow> inv (sv_prov s) \<Longrightarrow> inv (sv_prov s')"
  by (auto simp: handlePutPeer_def intro: upsert_inv split: option.splits sum.splits prod.splits if_splits)

lemma delete_inv_state: "handleDeletePeer prov i s = (rep, s') \<Longrightarrow> inv (sv_prov s) \<Longrightarrow> inv (sv_prov s')"
  by (auto simp: handleDeletePeer_def dest: delete_inv split: prod.splits option.splits)

lemma reads_keep:
  "handleCredentials prov i s = (rep, s') \<Longrightarrow> inv (sv_prov s') = inv (sv_prov s) \<and> ids (sv_prov s') = ids (sv_prov s)"
  "handleListPeers prov s = (rep, s') \<Longrightarrow> inv (sv_prov s') = inv (sv_prov s) \<and> ids (sv_prov s') = ids (sv_prov s)"
  "handleStats prov s = (rep, s') \<Longrightarrow> inv (sv_prov s') = inv (sv_prov s) \<and> ids (sv_prov s') = ids (sv_prov s)"
  by (auto simp: handleCredentials_def handleListPeers_def handleStats_def dest: creds_keep list_keep stats_keep
      split: prod.splits sum.splits)

end

lemma drop_handlers_prov:
  "sv_prov (snd (handleDropUpload ev u aq s)) = sv_prov s"
  "sv_prov (snd (handleDropRead ev v s)) = sv_prov s"
  "sv_prov (snd (handleDropPinStatus ev v s)) = sv_prov s"
  "sv_prov (snd (handleDropUnpin ev v s)) = sv_prov s"
  "sv_prov (snd (handleDropWebUI ev p req s)) = sv_prov s"
  by (auto simp: handleDropUpload_def handleDropRead_def handleDropPinStatus_def handleDropUnpin_def handleDropWebUI_def Let_def
      split: option.split prod.split sum.split)

text \<open>Requests that can change something: two on the peers, and those that reach Kubo.\<close>

fun changes_peers :: "Route \<Rightarrow> bool" where
  "changes_peers (RPutPeer _) = True"
| "changes_peers (RDeletePeer _) = True"
| "changes_peers _ = False"

fun reaches_kubo :: "Route \<Rightarrow> bool" where
  "reaches_kubo (RDropUpload _) = True"
| "reaches_kubo (RDropRead _) = True"
| "reaches_kubo (RDropPinStatus _) = True"
| "reaches_kubo (RDropUnpin _) = True"
| "reaches_kubo (RDropWebUI _) = True"
| "reaches_kubo _ = False"

lemma peer_handlers_rest:
  "handlePutPeer prov i body s = Some (rep, s') \<Longrightarrow> sv_kubo s' = sv_kubo s \<and> sv_drop s' = sv_drop s"
  "sv_kubo (snd (handleDeletePeer prov i s)) = sv_kubo s \<and> sv_drop (snd (handleDeletePeer prov i s)) = sv_drop s"
  "sv_kubo (snd (handleCredentials prov i s)) = sv_kubo s \<and> sv_drop (snd (handleCredentials prov i s)) = sv_drop s"
  "sv_kubo (snd (handleListPeers prov s)) = sv_kubo s \<and> sv_drop (snd (handleListPeers prov s)) = sv_drop s"
  "sv_kubo (snd (handleStats prov s)) = sv_kubo s \<and> sv_drop (snd (handleStats prov s)) = sv_drop s"
  by (auto simp: handlePutPeer_def handleDeletePeer_def handleCredentials_def handleListPeers_def handleStats_def
      split: option.splits sum.splits prod.splits if_splits)

lemma serve_cases:
  assumes "serve ev aq s = Some (rep, s')"
  obtains (no_route) "route (sv_drop s \<noteq> None) (rq_Method (aq_Req aq)) (aq_Path aq) = None" "rep = reply 404 NoBody" "s' = s"
  | (aborted) r code msg where "route (sv_drop s \<noteq> None) (rq_Method (aq_Req aq)) (aq_Path aq) = Some r"
      "verdictFor ev r aq s = Abort code msg" "rep = reply code (ErrorBody msg)" "s' = s"
  | (handled) r where "route (sv_drop s \<noteq> None) (rq_Method (aq_Req aq)) (aq_Path aq) = Some r"
      "verdictFor ev r aq s = Next" "handle ev r aq s = Some (rep, s')"
proof (cases "route (sv_drop s \<noteq> None) (rq_Method (aq_Req aq)) (aq_Path aq)")
  case None
  then show thesis using no_route assms by (simp add: serve_def)
next
  case r: (Some r)
  show thesis
  proof (cases "verdictFor ev r aq s")
    case Next
    then show thesis using handled [OF r] assms r by (simp add: serve_def)
  next
    case (Abort code msg)
    then show thesis using aborted [OF r] assms r by (simp add: serve_def)
  qed
qed

lemma handle_frame:
  assumes "handle ev r aq s = Some (rep, s')"
  shows "\<not> reaches_kubo r \<Longrightarrow> sv_kubo s' = sv_kubo s \<and> sv_drop s' = sv_drop s"
  using assms by (cases r) (auto simp: prod_eq_iff peer_handlers_rest dest: peer_handlers_rest(1))

lemma handlers_config:
  "handlePutPeer prov i body s = Some (rep, s') \<Longrightarrow> sv_cfg s' = sv_cfg s \<and> sv_cfg0 s' = sv_cfg0 s"
  "handleDeletePeer prov i s = (rep, s') \<Longrightarrow> sv_cfg s' = sv_cfg s \<and> sv_cfg0 s' = sv_cfg0 s"
  "handleCredentials prov i s = (rep, s') \<Longrightarrow> sv_cfg s' = sv_cfg s \<and> sv_cfg0 s' = sv_cfg0 s"
  "handleListPeers prov s = (rep, s') \<Longrightarrow> sv_cfg s' = sv_cfg s \<and> sv_cfg0 s' = sv_cfg0 s"
  "handleStats prov s = (rep, s') \<Longrightarrow> sv_cfg s' = sv_cfg s \<and> sv_cfg0 s' = sv_cfg0 s"
  "handleDropUpload ev u aq s = (rep, s') \<Longrightarrow> sv_cfg s' = sv_cfg s \<and> sv_cfg0 s' = sv_cfg0 s"
  "handleDropRead ev v s = (rep, s') \<Longrightarrow> sv_cfg s' = sv_cfg s \<and> sv_cfg0 s' = sv_cfg0 s"
  "handleDropPinStatus ev v s = (rep, s') \<Longrightarrow> sv_cfg s' = sv_cfg s \<and> sv_cfg0 s' = sv_cfg0 s"
  "handleDropUnpin ev v s = (rep, s') \<Longrightarrow> sv_cfg s' = sv_cfg s \<and> sv_cfg0 s' = sv_cfg0 s"
  "handleDropWebUI ev p req s = (rep, s') \<Longrightarrow> sv_cfg s' = sv_cfg s \<and> sv_cfg0 s' = sv_cfg0 s"
  by (auto simp: handlePutPeer_def handleDeletePeer_def handleCredentials_def handleListPeers_def handleStats_def
      handleDropUpload_def handleDropRead_def handleDropPinStatus_def handleDropUnpin_def handleDropWebUI_def Let_def
      split: option.splits sum.splits prod.splits if_splits)

text \<open>No request changes the configuration.\<close>

lemma serve_config: "serve ev aq s = Some (rep, s') \<Longrightarrow> sv_cfg s' = sv_cfg s \<and> sv_cfg0 s' = sv_cfg0 s"
proof (erule serve_cases)
  fix r
  assume "handle ev r aq s = Some (rep, s')"
  then show ?thesis by (cases r) (auto dest: handlers_config)
qed simp_all

context provisioner
begin

lemma handle_keeps:
  assumes "ev_prov ev = prov" "handle ev r aq s = Some (rep, s')"
  shows "inv (sv_prov s) \<Longrightarrow> inv (sv_prov s')" "\<not> changes_peers r \<Longrightarrow> ids (sv_prov s') = ids (sv_prov s)"
proof -
  have d: "handleDropUpload ev u aq s = (rep, s') \<Longrightarrow> sv_prov s' = sv_prov s"
    "handleDropRead ev v s = (rep, s') \<Longrightarrow> sv_prov s' = sv_prov s"
    "handleDropPinStatus ev v s = (rep, s') \<Longrightarrow> sv_prov s' = sv_prov s"
    "handleDropUnpin ev v s = (rep, s') \<Longrightarrow> sv_prov s' = sv_prov s"
    "handleDropWebUI ev u req s = (rep, s') \<Longrightarrow> sv_prov s' = sv_prov s" for u v req
    using drop_handlers_prov [of ev] by (metis snd_conv)+
  show "inv (sv_prov s) \<Longrightarrow> inv (sv_prov s')"
    using assms(2) by (cases r) (auto simp: assms(1) dest: d reads_keep put_inv delete_inv_state)
  show "\<not> changes_peers r \<Longrightarrow> ids (sv_prov s') = ids (sv_prov s)"
    using assms(2) by (cases r) (auto simp: assms(1) dest: d reads_keep)
qed

lemma serve_inv: "ev_prov ev = prov \<Longrightarrow> serve ev aq s = Some (rep, s') \<Longrightarrow> inv (sv_prov s) \<Longrightarrow> inv (sv_prov s')"
  by (erule serve_cases) (auto intro: handle_keeps(1))

lemma serve_guarded:
  assumes "ev_prov ev = prov" "serve ev aq s = Some (rep, s')" "ids (sv_prov s') \<noteq> ids (sv_prov s)"
  shows "\<exists>r. route (sv_drop s \<noteq> None) (rq_Method (aq_Req aq)) (aq_Path aq) = Some r \<and> changes_peers r \<and>
    verdictFor ev r aq s = Next"
  using assms(2)
proof (cases rule: serve_cases)
  case (handled r)
  then show ?thesis using handle_keeps(2) [OF assms(1) handled(3)] assms(3) by blast
qed (use assms(3) in simp_all)

end

lemma serve_kubo_guarded:
  assumes "serve ev aq s = Some (rep, s')" "sv_kubo s' \<noteq> sv_kubo s \<or> sv_drop s' \<noteq> sv_drop s"
  shows "\<exists>r. route (sv_drop s \<noteq> None) (rq_Method (aq_Req aq)) (aq_Path aq) = Some r \<and> reaches_kubo r \<and>
    verdictFor ev r aq s = Next"
  using assms(1)
proof (cases rule: serve_cases)
  case (handled r)
  then show ?thesis using handle_frame [OF handled(3)] assms(2) by blast
qed (use assms(2) in simp_all)


section \<open>The node as the provisioner\<close>

definition nodeProvisioner ::
  "Config \<Rightarrow> (string \<Rightarrow> u8 list result) \<Rightarrow> Draws \<Rightarrow> int \<Rightarrow> DevicePeer list result \<Rightarrow> int \<Rightarrow> NodeSvc Provisioner" where
  "nodeProvisioner cfg ParseKey dr now dev startedAt =
     \<lparr>pv_UpsertPeer = nodeUpsertPeer cfg ParseKey dr, pv_DeletePeer = nodeDeletePeer cfg ParseKey,
      pv_Credentials = nodeCredentials cfg (dr_IssuedAt dr), pv_ListPeers = nodeListPeers,
      pv_Stats = nodeStats cfg now dev startedAt\<rparr>"

definition node_inv :: "Config \<Rightarrow> NodeSvc \<Rightarrow> bool" where
  "node_inv cfg nd \<longleftrightarrow> ipv4_subnet (cfg_WGIPv4Subnet cfg) \<and> store_inv (cfg_WGIPv4Subnet cfg) (nd_store nd)"

definition node_ids :: "NodeSvc \<Rightarrow> string set" where
  "node_ids nd = col_id ` set (db_peers (nd_store nd))"

definition node_quiet :: "NodeSvc \<Rightarrow> bool" where
  "node_quiet nd \<longleftrightarrow> db_faults (nd_store nd) = []"

lemma store_keeps:
  assumes "wg_st w = s\<lparr>db_faults := fs\<rparr>"
  shows "node_inv cfg (nd\<lparr>nd_wg := w\<rparr>) = (ipv4_subnet (cfg_WGIPv4Subnet cfg) \<and> store_inv (cfg_WGIPv4Subnet cfg) s)"
    "node_ids (nd\<lparr>nd_wg := w\<rparr>) = col_id ` set (db_peers s)"
  using assms by (simp_all add: node_inv_def node_ids_def)

lemma countPeer_view: "node_inv cfg (countPeer inc nd) = node_inv cfg nd" "node_ids (countPeer inc nd) = node_ids nd"
  using countPeer_store [of inc nd] by (auto simp: node_inv_def node_ids_def)

lemma countPeer_store_inv [simp]: "store_inv subnet (nd_store (countPeer inc nd)) = store_inv subnet (nd_store nd)"
  using countPeer_store [of inc nd] by auto

lemma GetPeer_frame: "GetPeer s i = (r, s') \<Longrightarrow> \<exists>fs. s' = s\<lparr>db_faults := fs\<rparr>"
  by (auto simp: GetPeer_def queryPeer_def elim!: db_callE split: prod.splits sum.splits option.splits if_splits)

lemma nodeUpsertPeer_view:
  assumes "nodeUpsertPeer cfg ParseKey dr nd pid req = Some (r, nd')"
  shows "node_inv cfg nd \<Longrightarrow> node_inv cfg nd'"
    and "r = Inr b \<Longrightarrow> cb_ID b \<in> node_ids nd'"
proof -
  let ?in = "requestPeer (if pid = [] then dr_NewID dr else pid) req"
  let ?gen = "\<lparr>gen_ProxyUUID = dr_ProxyUUID dr, gen_ProxyPassword = dr_ProxyPassword dr\<rparr>"
  obtain r1 s1 where u: "UpsertPeer (nd_store nd) ?in (cfg_WGIPv4Subnet cfg) ?gen (dr_Now dr) = Some (r1, s1)"
    using assms by (auto simp: nodeUpsertPeer_def Let_def split: option.splits)
  obtain oe w2 where a: "Apply cfg ParseKey ((nd_wg nd)\<lparr>wg_st := s1\<rparr>) = (oe, w2)" by (rule prod.exhaust)
  obtain fs where fs: "wg_st w2 = s1\<lparr>db_faults := fs\<rparr>" using Apply_store [OF a] by auto
  have inv1: "node_inv cfg nd \<Longrightarrow> ipv4_subnet (cfg_WGIPv4Subnet cfg) \<and> store_inv (cfg_WGIPv4Subnet cfg) s1"
    using UpsertPeer_inv [OF _ _ u] by (simp add: node_inv_def)
  show "node_inv cfg nd \<Longrightarrow> node_inv cfg nd'"
    using assms u a inv1 store_keeps(1) [OF fs, of cfg nd]
    by (cases r1; cases oe) (auto simp: nodeUpsertPeer_def Let_def countPeer_view node_inv_def)
  show "cb_ID b \<in> node_ids nd'" if b: "r = Inr b"
  proof -
    obtain p where p: "r1 = Inr p" "oe = None" "cb_ID b = peer_ID p"
      "node_ids nd' = col_id ` set (db_peers s1)"
      using assms u a b store_keeps(2) [OF fs, of nd]
      by (cases r1; cases oe) (auto simp: nodeUpsertPeer_def Let_def countPeer_view)
    have "p \<in> scanPeer ` set (db_peers s1)" using UpsertPeer_stored u p(1) by blast
    then show ?thesis using p(3,4) by auto
  qed
qed

lemma nodeDeletePeer_view:
  assumes "nodeDeletePeer cfg ParseKey nd pid = (oe, nd')"
  shows "node_inv cfg nd \<Longrightarrow> node_inv cfg nd'"
    and "oe = None \<Longrightarrow> node_ids nd' = node_ids nd - {pid}"
proof -
  obtain od s1 where d: "DeletePeer (nd_store nd) pid = (od, s1)" by (rule prod.exhaust)
  obtain oa w2 where a: "Apply cfg ParseKey ((nd_wg nd)\<lparr>wg_st := s1\<rparr>) = (oa, w2)" by (rule prod.exhaust)
  obtain fs where fs: "wg_st w2 = s1\<lparr>db_faults := fs\<rparr>" using Apply_store [OF a] by auto
  have "node_inv cfg nd \<Longrightarrow> ipv4_subnet (cfg_WGIPv4Subnet cfg) \<and> store_inv (cfg_WGIPv4Subnet cfg) s1"
    using DeletePeer_inv [OF _ d] by (simp add: node_inv_def)
  then show "node_inv cfg nd \<Longrightarrow> node_inv cfg nd'"
    using assms d a store_keeps(1) [OF fs, of cfg nd]
    by (cases od; cases oa) (auto simp: nodeDeletePeer_def countPeer_view node_inv_def)
  show "node_ids nd' = node_ids nd - {pid}" if "oe = None"
    using nodeDeletePeer_rows [OF assms [unfolded that]] by (auto simp: node_ids_def)
qed

lemma read_views:
  "nodeCredentials cfg t nd i = (rc, nd') \<Longrightarrow> node_inv cfg nd' = node_inv cfg nd \<and> node_ids nd' = node_ids nd"
  "nodeListPeers nd = (rl, nd') \<Longrightarrow> node_inv cfg nd' = node_inv cfg nd \<and> node_ids nd' = node_ids nd"
  "nodeStats cfg now dev startedAt nd = (rs, nd') \<Longrightarrow> node_inv cfg nd' = node_inv cfg nd \<and> node_ids nd' = node_ids nd"
  by (auto simp: nodeCredentials_def nodeListPeers_def nodeStats_def node_inv_def node_ids_def Let_def
      split: prod.splits sum.splits elim!: ListPeersE dest!: GetPeer_frame)

lemma nodeCredentials_known:
  assumes "node_inv cfg nd" "node_quiet nd" "i \<in> node_ids nd"
  shows "\<exists>b. nodeCredentials cfg t nd i = (Inr b, nd) \<and> cb_ID b = i"
proof -
  obtain row where "row \<in> set (db_peers (nd_store nd))" "i = col_id row" using assms(3) by (auto simp: node_ids_def)
  then have "GetPeer (nd_store nd) i = (Inr (scanPeer row), nd_store nd)"
    using GetPeer_row [of "nd_store nd" row] assms(1,2) by (simp add: node_inv_def node_quiet_def store_inv_def)
  then show ?thesis using \<open>i = col_id row\<close> by (simp add: nodeCredentials_def Let_def)
qed

lemma nodeCredentials_unknown:
  "node_quiet nd \<Longrightarrow> i \<notin> node_ids nd \<Longrightarrow> nodeCredentials cfg t nd i = (Inl (Sentinel ErrNotFound), nd)"
proof -
  assume "node_quiet nd" "i \<notin> node_ids nd"
  then have "GetPeer (nd_store nd) i = (Inl (Sentinel ErrNotFound), nd_store nd)"
    by (intro GetPeer_missing) (auto simp: node_quiet_def node_ids_def)
  then show "nodeCredentials cfg t nd i = (Inl (Sentinel ErrNotFound), nd)" by (simp add: nodeCredentials_def)
qed

interpretation node_prov: provisioner "nodeProvisioner cfg ParseKey dr now dev startedAt" "node_inv cfg" node_ids node_quiet
  for cfg ParseKey dr now dev startedAt
  by unfold_locales
    (auto simp: nodeProvisioner_def nodeCredentials_unknown
      intro: nodeUpsertPeer_view nodeDeletePeer_view nodeCredentials_known dest: read_views nodeDeletePeer_view(2))


section \<open>Properties\<close>

lemma purposeOf_changes: "changes_peers r \<Longrightarrow> purposeOf r = Some []"
  by (cases r) auto

lemma purposeOf_kubo: "reaches_kubo r \<Longrightarrow>
  \<exists>p. purposeOf r = Some p \<and> p \<in> {''drop_upload'', ''drop_read'', ''drop_pin_check'', ''drop_unpin'', ''drop_webui''}"
  by (cases r) auto

lemma verdict_release:
  assumes "cfg_RunType (sv_cfg0 s) \<noteq> ''debug''" "purposeOf r = Some p" "verdictFor ev r aq s = Next"
  shows "EffectiveNodeKey (sv_cfg0 s) \<noteq> [] \<and>
    TrimSpace (header ''X-Erebrus-Node-Key'' (aq_Req aq)) = EffectiveNodeKey (sv_cfg0 s) \<and>
    (\<exists>c. gateway_token (ev_scan ev) (cfg_GatewayPublicKey (sv_cfg0 s))
           (TrimSpace (TrimPrefix (header ''Authorization'' (aq_Req aq)) ''Bearer '')) c \<and>
         (p \<noteq> [] \<longrightarrow> cl_Purpose c = p \<and> cfg_NodeID (sv_cfg s) \<in> {cl_NodeID c, cl_PeerID c}))"
proof -
  have "gatewayAuthForPurpose (ev_scan ev) (ev_herr ev) (sv_cfg0 s) (sv_cfg s) p (aq_Req aq) = Next"
    using assms(2,3) by (simp add: verdictFor_def)
  from this [unfolded gatewayAuth_release_next [OF assms(1)] Let_def] show ?thesis
    by (auto split: if_splits)
qed

text \<open>
  C3. Nothing changes without the gateway's authority: outside debug mode, a request that changes the
  set of peers, the state of Drop or anything in Kubo carried the node key and a token that holds
  under the gateway's key with the role of a gateway call; if it touched Drop or Kubo, the token was
  issued for this node and for exactly one of the purposes of the Drop routes.
\<close>

theorem api_changes_guarded:
  assumes "cfg_RunType (sv_cfg0 s) \<noteq> ''debug''" "ev_prov ev = nodeProvisioner cfg ParseKey dr now dev startedAt"
    and "serve ev aq s = Some (rep, s')"
    and "node_ids (sv_prov s') \<noteq> node_ids (sv_prov s) \<or> sv_kubo s' \<noteq> sv_kubo s \<or> sv_drop s' \<noteq> sv_drop s"
  shows "EffectiveNodeKey (sv_cfg0 s) \<noteq> [] \<and>
    TrimSpace (header ''X-Erebrus-Node-Key'' (aq_Req aq)) = EffectiveNodeKey (sv_cfg0 s) \<and>
    (\<exists>c. gateway_token (ev_scan ev) (cfg_GatewayPublicKey (sv_cfg0 s))
           (TrimSpace (TrimPrefix (header ''Authorization'' (aq_Req aq)) ''Bearer '')) c \<and>
         (sv_kubo s' \<noteq> sv_kubo s \<or> sv_drop s' \<noteq> sv_drop s \<longrightarrow>
           cl_Purpose c \<in> {''drop_upload'', ''drop_read'', ''drop_pin_check'', ''drop_unpin'', ''drop_webui''} \<and>
           cfg_NodeID (sv_cfg s) \<in> {cl_NodeID c, cl_PeerID c}))"
proof (cases "sv_kubo s' \<noteq> sv_kubo s \<or> sv_drop s' \<noteq> sv_drop s")
  case True
  from serve_kubo_guarded [OF assms(3) True] obtain r where r: "reaches_kubo r" "verdictFor ev r aq s = Next" by blast
  obtain p where p: "purposeOf r = Some p" "p \<in> {''drop_upload'', ''drop_read'', ''drop_pin_check'', ''drop_unpin'', ''drop_webui''}"
    using purposeOf_kubo [OF r(1)] by (elim exE conjE) (rule that)
  then have "p \<noteq> []" by auto
  then show ?thesis using verdict_release [OF assms(1) p(1) r(2)] p(2) by blast
next
  case False
  then have ids: "node_ids (sv_prov s') \<noteq> node_ids (sv_prov s)" using assms(4) by blast
  from node_prov.serve_guarded [OF assms(2,3) ids] obtain r where "changes_peers r" "verdictFor ev r aq s = Next" by blast
  then show ?thesis using verdict_release [OF assms(1) purposeOf_changes] False by blast
qed

text \<open>A request that reaches the handler of a route.\<close>

definition reaches :: "('n, 'w) Env \<Rightarrow> ApiRequest \<Rightarrow> Route \<Rightarrow> ('n, 'w) Server \<Rightarrow> bool" where
  "reaches ev aq r s \<longleftrightarrow>
     route (sv_drop s \<noteq> None) (rq_Method (aq_Req aq)) (aq_Path aq) = Some r \<and> verdictFor ev r aq s = Next"

lemma serve_reaches: "reaches ev aq r s \<Longrightarrow> serve ev aq s = handle ev r aq s"
  by (simp add: reaches_def serve_def)

text \<open>
  C4. The life of a peer over HTTP, on a node whose database satisfies its invariant: serving a PUT
  keeps the invariant. If it is answered with 200 and a bundle, then while storage works every
  authorised request for that peer's credentials is answered with 200 and a bundle of the same id;
  once a DELETE is answered with 204, such a request is answered with 404. A node that is draining
  refuses the PUT and changes nothing.
\<close>

theorem api_peer_lifecycle:
  assumes "node_inv cfg (sv_prov s)" "ev_prov ev = nodeProvisioner cfg ParseKey dr now dev startedAt"
    and "reaches ev put (RPutPeer i) s" "serve ev put s = Some (rep, s1)"
  shows
    "node_inv cfg (sv_prov s1) \<and>
     (sv_status s = ''draining'' \<longrightarrow> re_Status rep \<in> {400, 409} \<and> s1 = s) \<and>
     (\<forall>b g. rep = reply 200 (BundleBody b) \<longrightarrow> node_quiet (sv_prov s1) \<longrightarrow> reaches ev g (RCredentials (cb_ID b)) s1 \<longrightarrow>
        (\<exists>b'. serve ev g s1 = Some (reply 200 (BundleBody b'), s1) \<and> cb_ID b' = cb_ID b)) \<and>
     (\<forall>d k s2 g. reaches ev d (RDeletePeer k) s1 \<longrightarrow> serve ev d s1 = Some (reply 204 NoBody, s2) \<longrightarrow>
        node_quiet (sv_prov s2) \<longrightarrow> reaches ev g (RCredentials k) s2 \<longrightarrow>
        serve ev g s2 = Some (reply 404 (ErrorBody ''unknown peer''), s2))"
proof (intro conjI allI impI)
  let ?prov = "nodeProvisioner cfg ParseKey dr now dev startedAt"
  have put: "handlePutPeer ?prov i (rq_Body (aq_Req put)) s = Some (rep, s1)"
    using assms serve_reaches [OF assms(3)] by simp
  show inv: "node_inv cfg (sv_prov s1)" by (rule node_prov.serve_inv [OF assms(2,4,1)])
  show "re_Status rep \<in> {400, 409}" "s1 = s" if "sv_status s = ''draining''"
    using put that by (auto simp: handlePutPeer_def split: option.splits if_splits)
  show "\<exists>b'. serve ev g s1 = Some (reply 200 (BundleBody b'), s1) \<and> cb_ID b' = cb_ID b"
    if "rep = reply 200 (BundleBody b)" "node_quiet (sv_prov s1)" "reaches ev g (RCredentials (cb_ID b)) s1" for b g
  proof -
    have "cb_ID b \<in> node_ids (sv_prov s1)" using node_prov.put_ok(1) put that(1) by blast
    from node_prov.credentials_known [OF inv that(2) this] show ?thesis
      using serve_reaches [OF that(3)] assms(2) by simp
  qed
  show "serve ev g s2 = Some (reply 404 (ErrorBody ''unknown peer''), s2)"
    if "reaches ev d (RDeletePeer k) s1" "serve ev d s1 = Some (reply 204 NoBody, s2)" "node_quiet (sv_prov s2)"
      "reaches ev g (RCredentials k) s2" for d k s2 g
  proof -
    have "handleDeletePeer ?prov k s1 = (reply 204 NoBody, s2)" using that(2) serve_reaches [OF that(1)] assms(2) by simp
    then have "k \<notin> node_ids (sv_prov s2)" using node_prov.delete_204 by fastforce
    then show ?thesis using node_prov.credentials_unknown [of s2 k] that(3) serve_reaches [OF that(4)] assms(2) by simp
  qed
qed

text \<open>
  C32. An upload over HTTP: it is answered with 200 only if the declared size is a number the storage
  limit and the object limit allow and the announced length does not exceed it, the declared digest,
  if any, is 32 bytes in hexadecimal, and the body had exactly the declared size and that digest; the
  answer names that size. A body that is longer than declared is never accepted.
\<close>

theorem handleDropUpload_200:
  assumes "handleDropUpload ev uploadID aq s = (reply 200 (UploadedBody cid n), s')"
  shows "ParseInt (TrimSpace (header dropDeclaredSizeHeader (aq_Req aq))) = (n, False) \<and>
    0 \<le> n \<and> n \<le> cfg_DropStorageMaxBytes (sv_cfg s) \<and> n \<le> MaxObjectBytes \<and> aq_ContentLength aq \<le> n \<and>
    rd_end (aq_Stream aq) = None \<and> int (length (rd_data (aq_Stream aq))) = n \<and>
    (let digest = TrimSpace (header dropSHA256Header (aq_Req aq)) in
     digest = [] \<or> (\<exists>raw. hex_decode digest = Some raw \<and> length raw = 32) \<and>
       EqualFold (hex_encode (ev_sha256 ev (rd_data (aq_Stream aq)))) (TrimSpace digest)) \<and>
    cid \<noteq> [] \<and> ev_cidDecode ev (TrimSpace cid) = None"
proof -
  obtain d where d: "sv_drop s = Some d"
    using assms by (cases "sv_drop s") (auto simp: handleDropUpload_def)
  obtain m bad where p: "ParseInt (TrimSpace (header dropDeclaredSizeHeader (aq_Req aq))) = (m, bad)" by (rule prod.exhaust)
  let ?digest = "TrimSpace (header dropSHA256Header (aq_Req aq))"
  define req where "req = \<lparr>ar_UploadID = uploadID, ar_Body = Some (aq_Stream aq), ar_DeclaredSize = m,
                    ar_MaxBytes = m, ar_SHA256 = ?digest\<rparr>"
  obtain r d' w where u: "Upload (ev_kubo ev) (ev_jerr ev) (ev_sha256 ev) (ev_cidDecode ev) req d (sv_kubo s) = (r, d', w)"
    by (metis prod.exhaust)
  have g: "\<not> bad" "0 \<le> m" "m \<le> cfg_DropStorageMaxBytes (sv_cfg s)" "m \<le> MaxObjectBytes" "aq_ContentLength aq \<le> m"
    "?digest = [] \<or> (\<exists>raw. hex_decode ?digest = Some raw \<and> length raw = 32)"
    using assms d p by (auto simp: handleDropUpload_def Let_def split: if_splits option.splits)
  have "\<exists>res. r = Inr res \<and> cid = ad_CID res \<and> n = ad_Size res"
    using assms d p u g by (cases r) (auto simp: handleDropUpload_def Let_def req_def writeDropError_def split: if_splits option.splits)
  then obtain res where r: "r = Inr res" "cid = ad_CID res" "n = ad_Size res" by blast
  obtain req' w0 where a: "AddAndPin (ev_kubo ev) (ev_jerr ev) (ev_sha256 ev) (ev_cidDecode ev) DefaultKuboRPCURL req' (sv_kubo s) = (Inr res, w0)"
    and q: "ar_Body req' = ar_Body req" "ar_DeclaredSize req' = ar_DeclaredSize req" "ar_SHA256 req' = ar_SHA256 req"
    using u r(1) by (auto simp: Upload_def Let_def split: if_splits prod.splits)
  show ?thesis using AddAndPin_ok [OF a] q g r(2,3) p by (auto simp: req_def Let_def)
qed


section \<open>Witnesses and remarks\<close>

definition ex_ev :: "(NodeSvc, unit) Env" where
  "ex_ev =
     \<lparr>ev_prov = nodeProvisioner ex_wg_config ex_ParseKey ex_draws 9 (Inr []) 0, ev_scan = ex_scan, ev_herr = Errorf ''hex'',
      ev_kubo = ex_daemon, ev_jerr = Errorf ''json'', ev_sha256 = (\<lambda>_. [10]), ev_cidDecode = (\<lambda>_. None), ev_crypto = ex_crypto,
      ev_readiness = None, ev_wgPublicKey = None, ev_services = None,
      ev_proxy = (\<lambda>w f. (Inl (Errorf ''refused''), w)), ev_urlParse = (\<lambda>_. Inl (Errorf ''url'')), ev_urlString = u_Path\<rparr>"

definition ex_srv :: "(NodeSvc, unit) Server" where
  "ex_srv =
     \<lparr>sv_cfg = ex_auth_cfg\<lparr>cfg_DropStorageMaxBytes := 4\<rparr>, sv_cfg0 = ex_auth_cfg, sv_PeerID = ''n1'', sv_DID = ''did:erebrus:n1'',
      sv_status = ''online'', sv_prov = ex_node, sv_drop = Some ex_active, sv_kubo = ()\<rparr>"

definition ex_request :: "string \<Rightarrow> string list \<Rightarrow> string \<Rightarrow> ApiRequest" where
  "ex_request m path body =
     \<lparr>aq_Req = (ex_call ''v4.ok'')\<lparr>rq_Method := m, rq_Body := body\<rparr>, aq_Path = [''api'', ''v2''] @ path, aq_ContentLength = -1,
      aq_Stream = ex_reader body\<rparr>"

definition ex_put :: ApiRequest where
  "ex_put = ex_request ''PUT'' [''peers'', ''b''] (json_enc (JObj [(''name'', JStr ''phone''), (''wg_public_key'', JStr ''kb'')]))"

definition ex_upload_request :: ApiRequest where
  "ex_upload_request = (let r = ex_request ''PUT'' [''drop'', ''uploads'', ''up-1''] ''abc''
     in r\<lparr>aq_Req := (aq_Req r)\<lparr>rq_Header := rq_Header (aq_Req r) @ [(dropDeclaredSizeHeader, ''3'')]\<rparr>\<rparr>)"

lemma ex_put_reaches: "reaches ex_ev ex_put (RPutPeer ''b'') ex_srv"
proof -
  have "route True ''PUT'' [''api'', ''v2'', ''peers'', ''b''] = Some (RPutPeer ''b'')" by code_simp
  moreover have "verdictFor ex_ev (RPutPeer ''b'') ex_put ex_srv = gatewayAuth ex_scan (Errorf ''hex'') ex_auth_cfg ex_auth_cfg (ex_call ''v4.ok'')"
    by (auto simp: verdictFor_def ex_ev_def ex_srv_def ex_put_def ex_request_def gatewayAuth_def intro: gatewayAuthForPurpose_frame)
  ultimately show ?thesis by (simp add: drop_token_opens_peer_routes reaches_def ex_put_def ex_request_def ex_srv_def)
qed
lemma ex_put_served:
  obtains b s' where "serve ex_ev ex_put ex_srv = Some (reply 200 (BundleBody b), s')" "node_ids (sv_prov s') = {''a'', ''b''}"
proof -
  obtain b nd' where u: "nodeUpsertPeer ex_wg_config ex_ParseKey ex_draws ex_node ''b'' ex_req = Some (Inr b, nd')"
    "map col_id (db_peers (nd_store nd')) = [''a'', ''b'']" by (rule ex_node_upsertE)
  have ids: "node_ids nd' = {''a'', ''b''}" unfolding node_ids_def set_map [symmetric] u(2) by simp
  have "bindPeerRequest (rq_Body (aq_Req ex_put)) = Some ex_req" by code_simp
  moreover have "sv_prov ex_srv = ex_node" "sv_status ex_srv = ''online''" "req_Name ex_req \<noteq> []" "req_WGPublicKey ex_req \<noteq> []"
    "ev_prov ex_ev = nodeProvisioner ex_wg_config ex_ParseKey ex_draws 9 (Inr []) 0" by (simp_all add: ex_srv_def ex_req_def ex_ev_def)
  ultimately have "serve ex_ev ex_put ex_srv = Some (reply 200 (BundleBody b), ex_srv\<lparr>sv_prov := nd'\<rparr>)"
    using u(1) serve_reaches [OF ex_put_reaches] by (simp add: handlePutPeer_def nodeProvisioner_def)
  then show thesis by (rule that) (simp add: ids)
qed

theorem api_changes_guarded_witness:
  "\<exists>rep s'. serve ex_ev ex_put ex_srv = Some (rep, s') \<and>
     TrimSpace (header ''X-Erebrus-Node-Key'' (aq_Req ex_put)) = EffectiveNodeKey (sv_cfg0 ex_srv)"
proof -
  obtain rep s' where r: "serve ex_ev ex_put ex_srv = Some (rep, s')" and ids: "node_ids (sv_prov s') = {''a'', ''b''}" by (rule ex_put_served)
  have "node_ids (sv_prov ex_srv) = {''a''}"
    by (simp add: node_ids_def ex_srv_def ex_node_def ex_wg_def ex_store_def ex_row_def)
  then have "node_ids (sv_prov s') \<noteq> node_ids (sv_prov ex_srv)" using ids by auto
  moreover have "cfg_RunType (sv_cfg0 ex_srv) \<noteq> ''debug''" by (simp add: ex_srv_def ex_auth_cfg_def)
  moreover have "ev_prov ex_ev = nodeProvisioner ex_wg_config ex_ParseKey ex_draws 9 (Inr []) 0" by (simp add: ex_ev_def)
  ultimately show ?thesis using api_changes_guarded [OF _ _ r] r by blast
qed

theorem api_peer_lifecycle_witness:
  "\<exists>rep s1. serve ex_ev ex_put ex_srv = Some (rep, s1) \<and> node_inv ex_wg_config (sv_prov s1)"
proof -
  obtain rep s1 where r: "serve ex_ev ex_put ex_srv = Some (rep, s1)" by (rule ex_put_served)
  have "node_inv ex_wg_config (sv_prov ex_srv)"
    using ex_node_inv ex_node_subnet by (simp add: node_inv_def ex_srv_def)
  moreover note ex_put_reaches
  moreover have "ev_prov ex_ev = nodeProvisioner ex_wg_config ex_ParseKey ex_draws 9 (Inr []) 0" by (simp add: ex_ev_def)
  ultimately show ?thesis using api_peer_lifecycle [OF _ _ _ r] r by blast
qed

theorem handleDropUpload_200_witness:
  "\<exists>cid n s'. handleDropUpload ex_ev ''up-1'' ex_upload_request ex_srv = (reply 200 (UploadedBody cid n), s') \<and> n = 3 \<and> cid \<noteq> []"
proof -
  have c: "(case re_Body (fst (handleDropUpload ex_ev ''up-1'' ex_upload_request ex_srv)) of UploadedBody cid n \<Rightarrow> n = 3 | _ \<Rightarrow> False) \<and>
      re_Status (fst (handleDropUpload ex_ev ''up-1'' ex_upload_request ex_srv)) = 200" by code_simp
  then obtain cid where b: "re_Body (fst (handleDropUpload ex_ev ''up-1'' ex_upload_request ex_srv)) = UploadedBody cid 3"
    by (auto split: ApiBody.splits)
  then have r: "handleDropUpload ex_ev ''up-1'' ex_upload_request ex_srv =
      (reply 200 (UploadedBody cid 3), snd (handleDropUpload ex_ev ''up-1'' ex_upload_request ex_srv))"
    using c by (simp add: prod_eq_iff)
  show ?thesis using handleDropUpload_200 [OF r] r by blast
qed

text \<open>The forwarded request of the WebUI carries none of the caller's credentials.\<close>

lemma webUI_strips: "(k, v) \<in> set (fd_Header (webUIForward path req)) \<Longrightarrow> n \<in> set strippedHeaders \<Longrightarrow> \<not> EqualFold k n"
  by (auto simp: webUIForward_def)

text \<open>A redirect within Kubo stays below the path of the proxy.\<close>

lemma modifyLocation_below:
  assumes "location \<noteq> []" "urlParse location = Inr u" "u_Host u \<in> {[], kuboHost}" "u_Scheme u = [] \<or> u_Host u \<noteq> []"
  shows "\<exists>v. modifyLocation urlParse urlString location = urlString v \<and> u_Host v = [] \<and> u_Scheme v = [] \<and>
    HasPrefix (u_Path v) ''/api/v2/drop/webui/''"
proof -
  have "modifyLocation urlParse urlString location =
      urlString (u\<lparr>u_Scheme := [], u_Host := [], u_Path := ''/api/v2/drop/webui/'' @ TrimPrefix (u_Path u) ''/''\<rparr>)"
    using assms by (auto simp: modifyLocation_def)
  then show ?thesis by (intro exI) (auto simp: HasPrefix_def)
qed

text \<open>
  An identifier that Kubo itself got wrong is reported as the caller's mistake: the test for a bad
  identifier looks for its text anywhere in the message.
\<close>

lemma kubo_bad_cid_is_400:
  "writeDropError (Wrapf ''Kubo returned invalid CID: '' (Wrapf ''invalid CID: '' (Errorf ''bad'') []) []) = reply 400 (ErrorBody ''invalid CID'')"
  by code_simp

end
