(* ===== verification/Probes.thy ===== *)
theory Probes
  imports Http Config Complex_Main
begin

text \<open>
  What the node measures about itself: the health of its firewall sidecar
  (\<open>src/internal/serviceagent/agent.go\<close>) and its throughput (\<open>src/internal/speedtest/speedtest.go\<close>).
  A probe's HTTP exchange is an argument. Rates are rational numbers: the rounding of \<open>float64\<close> is
  not modelled. A map from names to states is a list of pairs with distinct names.
\<close>

section \<open>Service agent\<close>

record Agent =
  ag_cfg :: Config
  ag_snapshot :: "(string \<times> string) list"

definition newAgent :: "Config \<Rightarrow> Agent" where
  "newAgent cfg = \<lparr>ag_cfg = cfg, ag_snapshot = [(''vpn'', ''active'')]\<rparr>"

text \<open>\<open>badURL\<close> says which addresses \<open>http.NewRequest\<close> refuses.\<close>

definition probeHTTP :: "(string \<Rightarrow> bool) \<Rightarrow> 'w exchange \<Rightarrow> string \<Rightarrow> 'w \<Rightarrow> string \<times> 'w" where
  "probeHTTP badURL ex url0 w =
     (let url = TrimSpace url0 in
      if url = [] then (''unknown'', w)
      else if badURL url then (''error'', w)
      else case ex w \<lparr>rq_Method = ''GET'', rq_URL = url, rq_Header = [], rq_Body = []\<rparr> of
             (Inl _, w') \<Rightarrow> (''unreachable'', w')
           | (Inr resp, w') \<Rightarrow> (if rs_Status resp div 100 = 2 then ''active'' else ''degraded'', w'))"

definition probeAll :: "(string \<Rightarrow> bool) \<Rightarrow> 'w exchange \<Rightarrow> Config \<Rightarrow> 'w \<Rightarrow> (string \<times> string) list \<times> 'w" where
  "probeAll badURL ex cfg w =
     (if \<not> HasFirewallService cfg then ([(''vpn'', ''active'')], w)
      else if cfg_FirewallProvider cfg = FirewallAdGuardHome then
        (case probeHTTP badURL ex (cfg_ShieldAdminURL cfg @ ''/'') w of
           (st, w') \<Rightarrow> ([(''vpn'', ''active''), (''community_firewall'', st)], w'))
      else if cfg_FirewallProvider cfg = FirewallUnboundErebrus then
        (case probeHTTP badURL ex (cfg_SentinelAPIURL cfg @ ''/health'') w of
           (st, w') \<Rightarrow> ([(''vpn'', ''active''), (''erebrus_firewall'', if \<not> cfg_SentinelLicensed cfg then ''unlicensed'' else st)], w'))
      else ([(''vpn'', ''active'')], w))"

text \<open>One round of the loop; \<open>Snapshot\<close> hands out a copy.\<close>

definition agentCheck :: "(string \<Rightarrow> bool) \<Rightarrow> 'w exchange \<Rightarrow> Agent \<Rightarrow> 'w \<Rightarrow> Agent \<times> 'w" where
  "agentCheck badURL ex a w =
     (case probeAll badURL ex (ag_cfg a) w of (status, w') \<Rightarrow> (a\<lparr>ag_snapshot := status\<rparr>, w'))"

definition lookupState :: "string \<Rightarrow> (string \<times> string) list \<Rightarrow> string" where
  "lookupState name m = (case map_of m name of Some v \<Rightarrow> v | None \<Rightarrow> [])"

definition FirewallOK :: "Agent \<Rightarrow> bool \<times> string" where
  "FirewallOK a =
     (let cfg = ag_cfg a in
      if \<not> HasFirewallService cfg then (True, ''not configured'')
      else if cfg_FirewallProvider cfg = FirewallAdGuardHome then
        (let st = lookupState ''community_firewall'' (ag_snapshot a) in (st = ''active'', st))
      else if cfg_FirewallProvider cfg = FirewallUnboundErebrus then
        (if \<not> cfg_SentinelLicensed cfg then (False, ''unlicensed'')
         else let st = lookupState ''erebrus_firewall'' (ag_snapshot a) in (st = ''active'', st))
      else (True, ''unknown provider''))"

text \<open>
  After a round, a firewall with a known provider counts as healthy exactly when it is licensed
  (Sentinel) and its probe answered with a 2xx status.
\<close>

lemma FirewallOK_after_check:
  assumes "HasFirewallService (ag_cfg a)" "agentCheck badURL ex a w = (a', w')"
  shows "cfg_FirewallProvider (ag_cfg a) = FirewallAdGuardHome \<Longrightarrow>
      fst (FirewallOK a') = (fst (probeHTTP badURL ex (cfg_ShieldAdminURL (ag_cfg a) @ ''/'') w) = ''active'')"
    and "cfg_FirewallProvider (ag_cfg a) = FirewallUnboundErebrus \<Longrightarrow>
      fst (FirewallOK a') = (cfg_SentinelLicensed (ag_cfg a) \<and>
        fst (probeHTTP badURL ex (cfg_SentinelAPIURL (ag_cfg a) @ ''/health'') w) = ''active'')"
  using assms by (auto simp: agentCheck_def probeAll_def FirewallOK_def lookupState_def Let_def split: prod.splits)

lemma probeHTTP_active:
  "fst (probeHTTP badURL ex url w) = ''active'' \<longleftrightarrow>
     TrimSpace url \<noteq> [] \<and> \<not> badURL (TrimSpace url) \<and>
     (\<exists>resp w'. ex w \<lparr>rq_Method = ''GET'', rq_URL = TrimSpace url, rq_Header = [], rq_Body = []\<rparr> = (Inr resp, w') \<and>
        rs_Status resp div 100 = 2)"
  by (auto simp: probeHTTP_def Let_def split: prod.splits sum.splits)


section \<open>Speed test\<close>

record Speedtest =
  sp_DownloadMbps :: rat
  sp_UploadMbps :: rat
  sp_LatencyMs :: rat
  sp_MeasuredAt :: int

abbreviation noSpeedtest :: Speedtest where
  "noSpeedtest \<equiv> \<lparr>sp_DownloadMbps = 0, sp_UploadMbps = 0, sp_LatencyMs = 0, sp_MeasuredAt = 0\<rparr>"

definition downloadBytes :: nat where "downloadBytes = 50000000"
definition uploadBytes :: nat where "uploadBytes = 20000000"

text \<open>The digits of \<open>itoa\<close>, from the last to the first.\<close>

function itoaLoop :: "int \<Rightarrow> string \<Rightarrow> string" where
  "itoaLoop n buf = (if 0 < n then itoaLoop (n div 10) (char_of (48 + nat (n mod 10)) # buf) else buf)"
  by pat_completeness auto
termination
  by (relation "measure (\<lambda>(n, _). nat n)") auto

declare itoaLoop.simps [simp del]

definition itoa :: "int \<Rightarrow> string" where
  "itoa n = (if n = 0 then ''0'' else itoaLoop n [])"

text \<open>
  An exchange that failed, or the nanoseconds it took and the bytes of the body that were read. The
  three exchanges of a measurement are arguments; \<open>badURL\<close> cannot happen for its constant addresses.
\<close>

type_synonym timed = "(int \<times> nat) option"

definition latencyOf :: "timed \<Rightarrow> rat" where
  "latencyOf t = (case t of None \<Rightarrow> 0 | Some (ns, _) \<Rightarrow> of_int (ns div 1000000))"

definition mbps :: "nat \<Rightarrow> int \<Rightarrow> rat" where
  "mbps n ns = (of_nat n * 8) / ((of_int ns / 1000000000) * 1000000)"

definition downloadOf :: "timed \<Rightarrow> rat" where
  "downloadOf t = (case t of None \<Rightarrow> 0 | Some (ns, n) \<Rightarrow> if 0 < ns \<and> 0 < n then mbps n ns else 0)"

definition uploadOf :: "timed \<Rightarrow> rat" where
  "uploadOf t = (case t of None \<Rightarrow> 0 | Some (ns, _) \<Rightarrow> if 0 < ns then mbps uploadBytes ns else 0)"

definition Measure :: "timed \<Rightarrow> timed \<Rightarrow> timed \<Rightarrow> int \<Rightarrow> Speedtest result" where
  "Measure lat down up now =
     Inr \<lparr>sp_DownloadMbps = downloadOf down, sp_UploadMbps = uploadOf up, sp_LatencyMs = latencyOf lat, sp_MeasuredAt = now\<rparr>"

definition refreshSpeed :: "Speedtest result \<Rightarrow> Speedtest \<Rightarrow> Speedtest" where
  "refreshSpeed r cur = (case r of Inl _ \<Rightarrow> cur | Inr st \<Rightarrow> st)"

lemma itoaLoop_dec: "0 < n \<Longrightarrow> itoaLoop n buf = dec_nat (nat n) @ buf"
proof (induction n buf rule: itoaLoop.induct)
  case (1 n buf)
  have d: "nat (n mod 10) = nat n mod 10" "nat (n div 10) = nat n div 10" using "1.prems"
    by (simp_all add: nat_mod_distrib nat_div_distrib)
  have c: "char_of (48 + nat n mod 10) = digit_char (nat n mod 10)" by (simp add: digit_char_def)
  show ?case
  proof (cases "0 < n div 10")
    case True
    then have "\<not> nat n < 10" using "1.prems" by linarith
    then show ?thesis using 1 True d c
      by (subst itoaLoop.simps) (simp add: dec_nat.simps [of "nat n"])
  next
    case False
    then have "n div 10 = 0" "nat n < 10" using "1.prems" by linarith+
    then show ?thesis using "1.prems" d c
      by (subst itoaLoop.simps) (simp add: itoaLoop.simps [of 0] dec_nat.simps [of "nat n"])
  qed
qed

text \<open>The speed test's own integer formatting is the standard one on numbers that are not negative.\<close>

lemma itoa_Itoa: "0 \<le> n \<Longrightarrow> itoa n = Itoa n"
proof (cases "n = 0")
  case True
  have "Itoa 0 = ''0''" by code_simp
  then show ?thesis using True by (simp add: itoa_def)
qed (use itoaLoop_dec [of n "[]"] in \<open>simp add: itoa_def Itoa_def\<close>)

lemma itoa_negative: "n < 0 \<Longrightarrow> itoa n = []"
  by (simp add: itoa_def itoaLoop.simps)

text \<open>A rate is never negative.\<close>

lemma Measure_nonneg:
  assumes "Measure lat down up now = Inr st" "\<And>ns k. lat = Some (ns, k) \<Longrightarrow> 0 \<le> ns"
  shows "0 \<le> sp_DownloadMbps st \<and> 0 \<le> sp_UploadMbps st \<and> 0 \<le> sp_LatencyMs st"
  using assms by (auto simp: Measure_def downloadOf_def uploadOf_def latencyOf_def mbps_def split: option.splits)

end
