(* ===== verification/GatewayClient.thy ===== *)
theory GatewayClient
  imports Settings Identity Probes
begin

text \<open>
  The client of the gateway (\<open>src/internal/gatewayclient\<close>): registration in two steps, the stored
  credentials, the refresh of the token, the messages of the control connection, the handling of
  incoming frames, the periodic reports and the reconnection loop. HTTP exchanges and the events of
  the WebSocket are arguments; \<open>jerr\<close> is the decoder's error.
\<close>

section \<open>Credentials\<close>

definition settingNodeID :: string where "settingNodeID = ''gateway_node_id''"
definition settingNodeToken :: string where "settingNodeToken = ''gateway_node_token''"
definition settingNodeKey :: string where "settingNodeKey = ''gateway_node_key''"
definition settingGatewayPublicKey :: string where "settingGatewayPublicKey = ''gateway_public_key''"

lemmas setting_names = settingNodeID_def settingNodeToken_def settingNodeKey_def settingGatewayPublicKey_def

record Credentials =
  cr_NodeID :: string
  cr_NodeToken :: string
  cr_NodeKey :: string
  cr_GatewayPublicKey :: string

text \<open>A failed read of the key or of the gateway's key counts as no value.\<close>

definition LoadCredentials :: "('s \<Rightarrow> string \<Rightarrow> string result \<times> 's) \<Rightarrow> 's \<Rightarrow> Credentials result \<times> 's" where
  "LoadCredentials get st =
     (case get st settingNodeID of
        (Inl e, st1) \<Rightarrow> (Inl e, st1)
      | (Inr nodeID, st1) \<Rightarrow>
          (case get st1 settingNodeToken of
             (Inl e, st2) \<Rightarrow> (Inl e, st2)
           | (Inr nodeToken, st2) \<Rightarrow>
               (case get st2 settingNodeKey of
                  (nodeKey, st3) \<Rightarrow>
                    (case get st3 settingGatewayPublicKey of
                       (gwPub, st4) \<Rightarrow>
                         (Inr \<lparr>cr_NodeID = nodeID, cr_NodeToken = nodeToken,
                               cr_NodeKey = case_sum (\<lambda>_. []) id nodeKey,
                               cr_GatewayPublicKey = case_sum (\<lambda>_. []) id gwPub\<rparr>, st4)))))"

text \<open>The last two settings are written only if there is a value.\<close>

definition putUnlessEmpty ::
  "('s \<Rightarrow> string \<Rightarrow> string \<Rightarrow> error option \<times> 's) \<Rightarrow> 's \<Rightarrow> string \<Rightarrow> string \<Rightarrow> error option \<times> 's" where
  "putUnlessEmpty put st key v = (if v \<noteq> [] then put st key v else (None, st))"

definition SaveCredentials ::
  "('s \<Rightarrow> string \<Rightarrow> string \<Rightarrow> error option \<times> 's) \<Rightarrow> 's \<Rightarrow> Credentials option \<Rightarrow> error option \<times> 's" where
  "SaveCredentials put st cred =
     (case cred of
        None \<Rightarrow> (Some (Errorf ''nil credentials''), st)
      | Some c \<Rightarrow>
          (case put st settingNodeID (cr_NodeID c) of
             (Some e, st1) \<Rightarrow> (Some e, st1)
           | (None, st1) \<Rightarrow>
               (case put st1 settingNodeToken (cr_NodeToken c) of
                  (Some e, st2) \<Rightarrow> (Some e, st2)
                | (None, st2) \<Rightarrow>
                    (case putUnlessEmpty put st2 settingNodeKey (cr_NodeKey c) of
                       (Some e, st3) \<Rightarrow> (Some e, st3)
                     | (None, st3) \<Rightarrow> putUnlessEmpty put st3 settingGatewayPublicKey (cr_GatewayPublicKey c)))))"


section \<open>Registration\<close>

record RegistrationInput =
  ri_GatewayURL :: string
  ri_RegistrationToken :: string
  ri_OrgEnrollmentSecret :: string
  ri_WalletChain :: string
  ri_Mnemonic :: string
  ri_PeerID :: string
  ri_DID :: string
  ri_Name :: string
  ri_Region :: string
  ri_Zone :: string
  ri_APIBaseURL :: string
  ri_NodeKey :: string
  ri_AccessMode :: string
  ri_DeploymentProfile :: string

definition registrationToken :: "RegistrationInput \<Rightarrow> string" where
  "registrationToken i =
     (if TrimSpace (ri_RegistrationToken i) \<noteq> [] then TrimSpace (ri_RegistrationToken i)
      else TrimSpace (ri_OrgEnrollmentSecret i))"

definition truncate200 :: "string \<Rightarrow> string" where
  "truncate200 b = take 200 b"

definition jsonPost :: "string \<Rightarrow> (string \<times> string) list \<Rightarrow> string \<Rightarrow> HttpRequest" where
  "jsonPost url auth body =
     \<lparr>rq_Method = ''POST'', rq_URL = url, rq_Header = (''Content-Type'', ''application/json'') # auth, rq_Body = body\<rparr>"

text \<open>At most one mebibyte of the answer is read.\<close>

definition postJSON :: "'w exchange \<Rightarrow> string \<Rightarrow> string \<Rightarrow> 'w \<Rightarrow> (string \<times> nat) result \<times> 'w" where
  "postJSON ex url body w =
     (case ex w (jsonPost url [] body) of
        (Inl e, w1) \<Rightarrow> (Inl e, w1)
      | (Inr resp, w1) \<Rightarrow> (Inr (take 1048576 (rs_Body resp), rs_Status resp), w1))"

text \<open>A Go map of strings is written in the order of its keys.\<close>

abbreviation strMap :: "(string \<times> string) list \<Rightarrow> json" where
  "strMap kvs \<equiv> JObj (map (\<lambda>(k, v). (k, JStr v)) kvs)"

record Challenge =
  ch_FlowID :: string
  ch_Message :: string
  ch_GatewayPublicKey :: string

definition decodeChallenge :: "string \<Rightarrow> Challenge option" where
  "decodeChallenge raw =
     (case json_dec raw of
        None \<Rightarrow> None
      | Some v \<Rightarrow>
          (if \<not> is_struct v then None
           else case (string_field ''flow_id'' v, string_field ''message'' v, string_field ''gateway_public_key'' v) of
                  (Some f, Some m, Some g) \<Rightarrow> Some \<lparr>ch_FlowID = f, ch_Message = m, ch_GatewayPublicKey = g\<rparr>
                | _ \<Rightarrow> None))"

record Registered =
  rg_NodeID :: string
  rg_PeerID :: string
  rg_NodeToken :: string
  rg_NodeKey :: string
  rg_GatewayPublicKey :: string

definition decodeRegistered :: "string \<Rightarrow> Registered option" where
  "decodeRegistered raw =
     (case json_dec raw of
        None \<Rightarrow> None
      | Some v \<Rightarrow>
          (if \<not> is_struct v then None
           else case (string_field ''node_id'' v, string_field ''peer_id'' v, string_field ''node_token'' v,
                      string_field ''node_key'' v, string_field ''gateway_public_key'' v) of
                  (Some n, Some p, Some t, Some k, Some g) \<Rightarrow>
                    Some \<lparr>rg_NodeID = n, rg_PeerID = p, rg_NodeToken = t, rg_NodeKey = k, rg_GatewayPublicKey = g\<rparr>
                | _ \<Rightarrow> None))"

definition registerURL :: "RegistrationInput \<Rightarrow> string" where
  "registerURL i = TrimRight (TrimSpace (ri_GatewayURL i)) ''/'' @ ''/api/v2/nodes/register''"

definition step1Body :: "RegistrationInput \<Rightarrow> string" where
  "step1Body i = json_enc (strMap [(''peer_id'', ri_PeerID i), (''registration_token'', registrationToken i)])"

definition step2Body :: "RegistrationInput \<Rightarrow> string \<Rightarrow> string \<Rightarrow> Challenge \<Rightarrow> string \<Rightarrow> string" where
  "step2Body i walletAddr pubKey c signature =
     json_enc (strMap
       [(''access_mode'', if ri_AccessMode i \<noteq> ''private'' then ''public'' else ri_AccessMode i),
        (''api_base_url'', ri_APIBaseURL i), (''chain'', CanonicalChain (ri_WalletChain i)),
        (''deployment_profile'', TrimSpace (ri_DeploymentProfile i)), (''did'', ri_DID i), (''flow_id'', ch_FlowID c),
        (''name'', ri_Name i), (''node_key'', ri_NodeKey i), (''peer_id'', ri_PeerID i), (''public_key'', pubKey),
        (''region'', ri_Region i), (''registration_token'', registrationToken i), (''signature'', signature),
        (''wallet_address'', walletAddr), (''zone'', ri_Zone i)])"

text \<open>What the node accepts of the gateway's second answer.\<close>

definition acceptRegistered :: "RegistrationInput \<Rightarrow> Challenge \<Rightarrow> Registered \<Rightarrow> Credentials result" where
  "acceptRegistered i c out =
     (let nodeID = (if rg_PeerID out \<noteq> [] then rg_PeerID out else rg_NodeID out)
      in if nodeID = [] \<or> rg_NodeToken out = [] \<or> rg_NodeKey out = []
         then Inl (Errorf ''gateway returned incomplete registration response'')
         else if nodeID \<noteq> ri_PeerID i
         then Inl (Errorf (''gateway node_id '' @ Quote nodeID @ '' does not match local peer_id '' @ Quote (ri_PeerID i)))
         else Inr \<lparr>cr_NodeID = nodeID, cr_NodeToken = rg_NodeToken out, cr_NodeKey = rg_NodeKey out,
                   cr_GatewayPublicKey = (if rg_GatewayPublicKey out = [] then ch_GatewayPublicKey c else rg_GatewayPublicKey out)\<rparr>)"

definition registerStep2 ::
  "'w exchange \<Rightarrow> error \<Rightarrow> RegistrationInput \<Rightarrow> string \<Rightarrow> string \<Rightarrow> Challenge \<Rightarrow> string \<Rightarrow> 'w \<Rightarrow> Credentials result \<times> 'w" where
  "registerStep2 ex jerr i walletAddr pubKey c signature w =
     (case postJSON ex (registerURL i) (step2Body i walletAddr pubKey c signature) w of
        (Inl e, w1) \<Rightarrow> (Inl e, w1)
      | (Inr (raw, status), w1) \<Rightarrow>
          (if status \<noteq> 200 then (Inl (Errorf (''register step2: '' @ Itoa (int status) @ '': '' @ truncate200 raw)), w1)
           else case decodeRegistered raw of
                  None \<Rightarrow> (Inl (Wrapf ''parse registration response: '' jerr []), w1)
                | Some out \<Rightarrow> (acceptRegistered i c out, w1)))"

definition registerStep1 ::
  "'w exchange \<Rightarrow> error \<Rightarrow> RegistrationInput \<Rightarrow> 'w \<Rightarrow> Challenge result \<times> 'w" where
  "registerStep1 ex jerr i w =
     (case postJSON ex (registerURL i) (step1Body i) w of
        (Inl e, w1) \<Rightarrow> (Inl e, w1)
      | (Inr (raw, status), w1) \<Rightarrow>
          (if status \<noteq> 200 then (Inl (Errorf (''register step1: '' @ Itoa (int status) @ '': '' @ truncate200 raw)), w1)
           else case decodeChallenge raw of
                  None \<Rightarrow> (Inl (Wrapf ''parse challenge: '' jerr []), w1)
                | Some c \<Rightarrow>
                    (if ch_FlowID c = [] \<or> ch_Message c = [] then (Inl (Errorf ''gateway returned empty challenge''), w1)
                     else (Inr c, w1))))"

definition Register :: "Crypto \<Rightarrow> 'w exchange \<Rightarrow> error \<Rightarrow> RegistrationInput \<Rightarrow> 'w \<Rightarrow> Credentials result \<times> 'w" where
  "Register cy ex jerr i w =
     (if TrimRight (TrimSpace (ri_GatewayURL i)) ''/'' = [] then (Inl (Errorf ''gateway URL is empty''), w)
      else if registrationToken i = [] then (Inl (Errorf ''node registration token is empty''), w)
      else if ri_PeerID i = [] then (Inl (Errorf ''peer_id is empty''), w)
      else case AddressFromMnemonic cy (ri_Mnemonic i) (ri_WalletChain i) of
             Inl e \<Rightarrow> (Inl (Wrapf ''wallet address: '' e []), w)
           | Inr walletAddr \<Rightarrow>
               (case PublicKeyFromMnemonic cy (ri_Mnemonic i) (ri_WalletChain i) of
                  Inl e \<Rightarrow> (Inl (Wrapf ''wallet public key: '' e []), w)
                | Inr pubKey \<Rightarrow>
                    (case registerStep1 ex jerr i w of
                       (Inl e, w1) \<Rightarrow> (Inl e, w1)
                     | (Inr c, w1) \<Rightarrow>
                         (case SignChallengeWithMnemonic cy (ri_Mnemonic i) (ri_WalletChain i) (ch_Message c) of
                            Inl e \<Rightarrow> (Inl (Wrapf ''sign challenge: '' e []), w1)
                          | Inr (_, _, signature) \<Rightarrow> registerStep2 ex jerr i walletAddr pubKey c signature w1))))"

definition decodeToken :: "string \<Rightarrow> string option" where
  "decodeToken raw =
     (case json_dec raw of None \<Rightarrow> None | Some v \<Rightarrow> if is_struct v then string_field ''node_token'' v else None)"

definition RefreshNodeToken ::
  "'w exchange \<Rightarrow> error \<Rightarrow> string \<Rightarrow> string \<Rightarrow> string \<Rightarrow> 'w \<Rightarrow> string result \<times> 'w" where
  "RefreshNodeToken ex jerr gatewayURL peerID0 nodeKey0 w =
     (let base = TrimRight (TrimSpace gatewayURL) ''/''; peerID = TrimSpace peerID0; nodeKey = TrimSpace nodeKey0
      in if base = [] \<or> peerID = [] \<or> nodeKey = []
         then (Inl (Errorf ''gateway URL, peer_id and node_key are required''), w)
         else case ex w (jsonPost (base @ ''/api/v2/nodes/token/refresh'') [(''Authorization'', ''Bearer '' @ nodeKey)]
                     (json_enc (strMap [(''peer_id'', peerID)]))) of
                (Inl e, w1) \<Rightarrow> (Inl e, w1)
              | (Inr resp, w1) \<Rightarrow>
                  (let raw = take 1048576 (rs_Body resp)
                   in if rs_Status resp \<noteq> 200
                      then (Inl (Errorf (''token refresh: '' @ Itoa (int (rs_Status resp)) @ '': '' @ truncate200 raw)), w1)
                      else case decodeToken raw of
                             None \<Rightarrow> (Inl (Wrapf ''parse refresh response: '' jerr []), w1)
                           | Some tok \<Rightarrow>
                               (if tok = [] then (Inl (Errorf ''gateway returned empty node_token''), w1) else (Inr tok, w1))))"

definition PostFirewallCredentials ::
  "'w exchange \<Rightarrow> string \<Rightarrow> string \<Rightarrow> string \<Rightarrow> string \<Rightarrow> string \<Rightarrow> string \<Rightarrow> 'w \<Rightarrow> error option \<times> 'w" where
  "PostFirewallCredentials ex gatewayURL peerID nodeToken user password adminURL w =
     (let base = TrimRight (TrimSpace gatewayURL) ''/''
      in if base = [] \<or> peerID = [] \<or> TrimSpace nodeToken = [] \<or> password = [] then (None, w)
         else case ex w (jsonPost (base @ ''/api/v2/nodes/'' @ peerID @ ''/firewall/credentials'')
                     [(''Authorization'', ''Bearer '' @ nodeToken)]
                     (json_enc (strMap [(''admin_password'', password), (''admin_url'', adminURL), (''admin_user'', user)]))) of
                (Inl e, w1) \<Rightarrow> (Some e, w1)
              | (Inr resp, w1) \<Rightarrow>
                  (if rs_Status resp div 100 \<noteq> 2
                   then (Some (Errorf (''report firewall credentials: '' @ Itoa (int (rs_Status resp)) @ '' '' @
                                       TrimSpace (take 512 (rs_Body resp)))), w1)
                   else (None, w1)))"


section \<open>Messages\<close>

record HelloIdentity =
  hi_PeerID :: string
  hi_DID :: string
  hi_IPHash :: string

record Spec =
  sx_CPU :: string
  sx_MemMB :: int
  sx_Region :: string
  sx_Zone :: string
  sx_IP :: string

record HelloDrop =
  hp_Enabled :: bool
  hp_AcceptsPublicUploads :: bool
  hp_WebUIAvailable :: bool

record WireGuardEndpoint =
  ew_Host :: string
  ew_Port :: int
  ew_PublicKey :: string

record VLESSEndpoint =
  el_Port :: int
  el_PublicKey :: string
  el_ShortIDs :: "string list option"
  el_SNI :: string

record Hysteria2Endpoint =
  eh_Port :: int
  eh_Obfs :: string

record Endpoints =
  en_WireGuard :: WireGuardEndpoint
  en_VLESSReality :: VLESSEndpoint
  en_Hysteria2 :: Hysteria2Endpoint

text \<open>Maps from names to states are association lists in the order of the names.\<close>

record Hello =
  he_NodeID :: string
  he_Version :: string
  he_Identity :: HelloIdentity
  he_Spec :: Spec
  he_AccessMode :: string
  he_Drop :: "HelloDrop option"
  he_Endpoints :: Endpoints
  he_DeploymentProfile :: string
  he_Services :: "(string \<times> string) list"

record Load =
  ld_WGPeersRegistered :: int
  ld_WGPeersConnected :: int
  ld_ProxySessions :: int
  ld_CPUPct :: rat
  ld_MemPct :: rat
  ld_RxBytes :: int
  ld_TxBytes :: int

record DropStatus =
  dt_State :: string
  dt_KuboVersion :: string
  dt_RepoSizeBytes :: int
  dt_StorageMaxBytes :: int
  dt_NumObjects :: int

record Heartbeat =
  hb_TS :: int
  hb_Status :: string
  hb_Load :: Load
  hb_Speedtest :: Speedtest
  hb_Versions :: "(string \<times> string) list"
  hb_Services :: "(string \<times> string) list"
  hb_Drop :: "DropStatus option"

record PeerUsage =
  pu_PeerID :: string
  pu_RxBytesDelta :: int
  pu_TxBytesDelta :: int
  pu_LastHandshake :: int

text \<open>The list of peers is nil in a report made after a failed read.\<close>

record UsageReport =
  ur_TS :: int
  ur_Peers :: "PeerUsage list option"

record Command =
  cd_Action :: string
  cd_RequestID :: string
  cd_Args :: "json option"

record CommandResult =
  cs_RequestID :: string
  cs_OK :: bool
  cs_Error :: string

text \<open>Encoding: \<open>optional\<close> is a member with \<open>omitempty\<close>; \<open>fmt\<close> prints a number that is not an integer.\<close>

definition optional :: "string \<Rightarrow> json \<Rightarrow> bool \<Rightarrow> (string \<times> json) list" where
  "optional k v isEmpty = (if isEmpty then [] else [(k, v)])"

definition loadJSON :: "(rat \<Rightarrow> string) \<Rightarrow> Load \<Rightarrow> json" where
  "loadJSON fmt l =
     JObj [(''wg_peers_registered'', JInt (ld_WGPeersRegistered l)), (''wg_peers_connected'', JInt (ld_WGPeersConnected l)),
           (''proxy_sessions'', JInt (ld_ProxySessions l)), (''cpu_pct'', JNum (fmt (ld_CPUPct l))),
           (''mem_pct'', JNum (fmt (ld_MemPct l))), (''rx_bytes'', JInt (ld_RxBytes l)), (''tx_bytes'', JInt (ld_TxBytes l))]"

definition speedtestJSON :: "(rat \<Rightarrow> string) \<Rightarrow> Speedtest \<Rightarrow> json" where
  "speedtestJSON fmt s =
     JObj [(''download_mbps'', JNum (fmt (sp_DownloadMbps s))), (''upload_mbps'', JNum (fmt (sp_UploadMbps s))),
           (''latency_ms'', JNum (fmt (sp_LatencyMs s))), (''measured_at'', JInt (sp_MeasuredAt s))]"

definition dropStatusJSON :: "DropStatus \<Rightarrow> json" where
  "dropStatusJSON d =
     JObj [(''state'', JStr (dt_State d)), (''kubo_version'', JStr (dt_KuboVersion d)), (''repo_size_bytes'', JInt (dt_RepoSizeBytes d)),
           (''storage_max_bytes'', JInt (dt_StorageMaxBytes d)), (''num_objects'', JInt (dt_NumObjects d))]"

definition heartbeatJSON :: "(rat \<Rightarrow> string) \<Rightarrow> Heartbeat \<Rightarrow> json" where
  "heartbeatJSON fmt h =
     JObj ([(''ts'', JInt (hb_TS h)), (''status'', JStr (hb_Status h)), (''load'', loadJSON fmt (hb_Load h)),
            (''speedtest'', speedtestJSON fmt (hb_Speedtest h)), (''versions'', strMap (hb_Versions h))] @
           optional ''services'' (strMap (hb_Services h)) (hb_Services h = []) @
           (case hb_Drop h of None \<Rightarrow> [] | Some d \<Rightarrow> [(''drop'', dropStatusJSON d)]))"

definition helloDropJSON :: "HelloDrop \<Rightarrow> json" where
  "helloDropJSON d =
     JObj [(''enabled'', JBool (hp_Enabled d)), (''accepts_public_uploads'', JBool (hp_AcceptsPublicUploads d)),
           (''webui_available'', JBool (hp_WebUIAvailable d))]"

definition endpointsJSON :: "Endpoints \<Rightarrow> json" where
  "endpointsJSON e =
     (let w = en_WireGuard e; v = en_VLESSReality e; h = en_Hysteria2 e in
      JObj [(''wireguard'', JObj (optional ''host'' (JStr (ew_Host w)) (ew_Host w = []) @
               [(''port'', JInt (ew_Port w)), (''public_key'', JStr (ew_PublicKey w))])),
            (''vless_reality'', JObj [(''port'', JInt (el_Port v)), (''public_key'', JStr (el_PublicKey v)),
               (''short_ids'', case el_ShortIDs v of None \<Rightarrow> JNull | Some ids \<Rightarrow> JList (map JStr ids)), (''sni'', JStr (el_SNI v))]),
            (''hysteria2'', JObj [(''port'', JInt (eh_Port h)), (''obfs'', JStr (eh_Obfs h))])])"

definition helloJSON :: "Hello \<Rightarrow> json" where
  "helloJSON h =
     (let i = he_Identity h; s = he_Spec h in
      JObj ([(''node_id'', JStr (he_NodeID h)), (''version'', JStr (he_Version h)),
             (''identity'', JObj [(''peer_id'', JStr (hi_PeerID i)), (''did'', JStr (hi_DID i)), (''ip_hash'', JStr (hi_IPHash i))]),
             (''spec'', JObj ([(''cpu'', JStr (sx_CPU s)), (''mem_mb'', JInt (sx_MemMB s)), (''region'', JStr (sx_Region s))] @
                optional ''zone'' (JStr (sx_Zone s)) (sx_Zone s = []) @ [(''ip'', JStr (sx_IP s))])),
             (''capabilities'', JObj (optional ''access_mode'' (JStr (he_AccessMode h)) (he_AccessMode h = []) @
                (case he_Drop h of None \<Rightarrow> [] | Some d \<Rightarrow> [(''drop'', helloDropJSON d)]))),
             (''endpoints'', endpointsJSON (he_Endpoints h))] @
            optional ''deployment_profile'' (JStr (he_DeploymentProfile h)) (he_DeploymentProfile h = []) @
            optional ''services'' (strMap (he_Services h)) (he_Services h = [])))"

definition peerUsageJSON :: "PeerUsage \<Rightarrow> json" where
  "peerUsageJSON u =
     JObj [(''peer_id'', JStr (pu_PeerID u)), (''rx_bytes_delta'', JInt (pu_RxBytesDelta u)),
           (''tx_bytes_delta'', JInt (pu_TxBytesDelta u)), (''last_handshake'', JInt (pu_LastHandshake u))]"

definition usageJSON :: "UsageReport \<Rightarrow> json" where
  "usageJSON u =
     JObj [(''ts'', JInt (ur_TS u)),
           (''peers'', case ur_Peers u of None \<Rightarrow> JNull | Some ps \<Rightarrow> JList (map peerUsageJSON ps))]"

definition resultJSON :: "CommandResult \<Rightarrow> json" where
  "resultJSON r = JObj [(''request_id'', JStr (cs_RequestID r)), (''ok'', JBool (cs_OK r)), (''error'', JStr (cs_Error r))]"

definition wrap :: "string \<Rightarrow> json \<Rightarrow> string" where
  "wrap msgType payload = json_enc (JObj [(''type'', JStr msgType), (''data'', payload)])"

text \<open>A raw member: the last one of that name, kept as a tree.\<close>

definition raw_field :: "string \<Rightarrow> json \<Rightarrow> json option" where
  "raw_field name v = (case members name v of [] \<Rightarrow> None | ms \<Rightarrow> Some (last ms))"

record Envelope =
  vp_Type :: string
  vp_Data :: "json option"

definition decodeEnvelope :: "string \<Rightarrow> Envelope option" where
  "decodeEnvelope raw =
     (case json_dec raw of
        None \<Rightarrow> None
      | Some v \<Rightarrow>
          (if \<not> is_struct v then None
           else map_option (\<lambda>t. \<lparr>vp_Type = t, vp_Data = raw_field ''data'' v\<rparr>) (string_field ''type'' v)))"

definition decodeHelloAck :: "json option \<Rightarrow> int option" where
  "decodeHelloAck d =
     (case d of None \<Rightarrow> None | Some v \<Rightarrow> if is_struct v then int_field ''heartbeat_interval_sec'' v else None)"

definition decodeCommand :: "json option \<Rightarrow> Command option" where
  "decodeCommand d =
     (case d of
        None \<Rightarrow> None
      | Some v \<Rightarrow>
          (if \<not> is_struct v then None
           else case (string_field ''action'' v, string_field ''request_id'' v) of
                  (Some a, Some r) \<Rightarrow> Some \<lparr>cd_Action = a, cd_RequestID = r, cd_Args = raw_field ''args'' v\<rparr>
                | _ \<Rightarrow> None))"


text \<open>\<open>PostRESTHeartbeat\<close>: the heartbeat once more over HTTP.\<close>

definition restHeartbeatBody :: "(rat \<Rightarrow> string) \<Rightarrow> Heartbeat \<Rightarrow> string" where
  "restHeartbeatBody fmt h =
     json_enc (JObj [(''load'', loadJSON fmt (hb_Load h)), (''rx_bytes'', JInt (ld_RxBytes (hb_Load h))),
       (''speedtest'', speedtestJSON fmt (hb_Speedtest h)), (''status'', JStr (hb_Status h)),
       (''tx_bytes'', JInt (ld_TxBytes (hb_Load h))), (''version'', JStr (lookupState ''node'' (hb_Versions h)))])"

definition PostRESTHeartbeat ::
  "(rat \<Rightarrow> string) \<Rightarrow> 'w exchange \<Rightarrow> string \<Rightarrow> string \<Rightarrow> string \<Rightarrow> Heartbeat \<Rightarrow> 'w \<Rightarrow> error option \<times> 'w" where
  "PostRESTHeartbeat fmt ex gatewayURL peerID0 nodeToken h w =
     (let base = TrimRight (TrimSpace gatewayURL) ''/''; peerID = TrimSpace peerID0
      in if base = [] \<or> peerID = [] \<or> TrimSpace nodeToken = []
         then (Some (Errorf ''gateway URL, peer_id, and node token are required''), w)
         else case ex w \<lparr>rq_Method = ''POST'', rq_URL = base @ ''/api/v2/nodes/'' @ peerID @ ''/heartbeat'',
                  rq_Header = [(''Authorization'', ''Bearer '' @ nodeToken), (''Content-Type'', ''application/json'')],
                  rq_Body = restHeartbeatBody fmt h\<rparr> of
                (Inl e, w1) \<Rightarrow> (Some e, w1)
              | (Inr resp, w1) \<Rightarrow>
                  (if rs_Status resp \<noteq> 204 then (Some (Errorf (''rest heartbeat: status '' @ Itoa (int (rs_Status resp)))), w1)
                   else (None, w1)))"


section \<open>The control connection\<close>

text \<open>The interfaces \<open>SnapshotProvider\<close> and \<open>CommandHandler\<close>, on the state \<open>'b\<close> of the node.\<close>

record 'b Handler =
  hd_BuildHello :: "'b \<Rightarrow> string \<Rightarrow> Hello \<times> 'b"
  hd_BuildHeartbeat :: "'b \<Rightarrow> string \<Rightarrow> Heartbeat \<times> 'b"
  hd_BuildUsageReport :: "'b \<Rightarrow> UsageReport \<times> 'b"
  hd_HandleCommand :: "'b \<Rightarrow> Command \<Rightarrow> CommandResult \<times> 'b"
  hd_Status :: "'b \<Rightarrow> string"

record Client =
  gc_gatewayURL :: string
  gc_nodeToken :: string
  gc_nodeID :: string
  gc_heartbeatSec :: int
  gc_connected :: bool

definition defaultHeartbeatSec :: int where "defaultHeartbeatSec = 30"

definition newClient :: "string \<Rightarrow> string \<Rightarrow> string \<Rightarrow> Client" where
  "newClient gatewayURL nodeID nodeToken =
     \<lparr>gc_gatewayURL = TrimRight gatewayURL ''/'', gc_nodeToken = nodeToken, gc_nodeID = nodeID,
      gc_heartbeatSec = defaultHeartbeatSec, gc_connected = False\<rparr>"

text \<open>\<open>strings.Replace\<close> of the first occurrence.\<close>

fun replaceOnce :: "string \<Rightarrow> string \<Rightarrow> string \<Rightarrow> string" where
  "replaceOnce [] old new = (if old = [] then new else [])"
| "replaceOnce (c # s) old new =
     (if HasPrefix (c # s) old then new @ drop (length old) (c # s) else c # replaceOnce s old new)"

definition wsURL :: "Client \<Rightarrow> string" where
  "wsURL c = replaceOnce (replaceOnce (gc_gatewayURL c) ''https://'' ''wss://'') ''http://'' ''ws://'' @ ''/api/v2/nodes/ws''"

definition isAuthDialError :: "error option \<Rightarrow> bool" where
  "isAuthDialError err =
     (case err of
        None \<Rightarrow> False
      | Some e \<Rightarrow>
          (let m = ToLower (Error e)
           in Contains m ''bad handshake'' \<or> Contains m ''401'' \<or> Contains m ''unauthorized''))"

text \<open>What the client writes: a text frame, a ping, or the heartbeat over HTTP.\<close>

datatype Output = TextFrame string | PingFrame | RestHeartbeat Heartbeat

text \<open>
  A frame from the gateway; \<open>werr\<close> is the result of writing the answer. An error of this function is
  logged and does not end the session.
\<close>

definition handleFrame ::
  "'b Handler \<Rightarrow> ('b \<Rightarrow> 'b) option \<Rightarrow> error \<Rightarrow> error option \<Rightarrow> string \<Rightarrow> Client \<Rightarrow> 'b \<Rightarrow>
   error option \<times> Output list \<times> Client \<times> 'b" where
  "handleFrame h onReconnect jerr werr raw c b =
     (case decodeEnvelope raw of
        None \<Rightarrow> (Some jerr, [], c, b)
      | Some envl \<Rightarrow>
          (if vp_Type envl = ''hello_ack'' then
             (case decodeHelloAck (vp_Data envl) of
                None \<Rightarrow> (Some jerr, [], c, b)
              | Some n \<Rightarrow>
                  (None, [], if 0 < n then c\<lparr>gc_heartbeatSec := n\<rparr> else c,
                   case onReconnect of None \<Rightarrow> b | Some f \<Rightarrow> f b))
           else if vp_Type envl = ''command'' then
             (case decodeCommand (vp_Data envl) of
                None \<Rightarrow> (Some jerr, [], c, b)
              | Some cmd \<Rightarrow>
                  (case hd_HandleCommand h b cmd of
                     (res, b1) \<Rightarrow>
                       (case werr of
                          Some e \<Rightarrow> (Some e, [], c, b1)
                        | None \<Rightarrow> (None, [TextFrame (wrap ''command_result'' (resultJSON res))], c, b1))))
           else (None, [], c, b)))"

text \<open>
  The events of a session: a frame or a read error, and the three timers, each with the result of
  writing. Both pumps end the session with their first error; a list of events that is used up is a
  cancelled context.
\<close>

datatype Event =
    Incoming "string result" "error option"
  | HeartbeatDue "error option"
  | UsageDue "error option"
  | PingDue "error option"

fun sessionEvent ::
  "'b Handler \<Rightarrow> ('b \<Rightarrow> 'b) option \<Rightarrow> error \<Rightarrow> (rat \<Rightarrow> string) \<Rightarrow> Event \<Rightarrow> Client \<Rightarrow> 'b \<Rightarrow>
   error option \<times> Output list \<times> Client \<times> 'b" where
  "sessionEvent h onReconnect jerr fmt (Incoming (Inl e) werr) c b = (Some e, [], c, b)"
| "sessionEvent h onReconnect jerr fmt (Incoming (Inr raw) werr) c b =
     (case handleFrame h onReconnect jerr werr raw c b of (_, out, c1, b1) \<Rightarrow> (None, out, c1, b1))"
| "sessionEvent h onReconnect jerr fmt (HeartbeatDue werr) c b =
     (case hd_BuildHeartbeat h b (hd_Status h b) of
        (hb, b1) \<Rightarrow>
          (case werr of
             Some e \<Rightarrow> (Some e, [], c, b1)
           | None \<Rightarrow> (None, [TextFrame (wrap ''heartbeat'' (heartbeatJSON fmt hb)), RestHeartbeat hb], c, b1)))"
| "sessionEvent h onReconnect jerr fmt (UsageDue werr) c b =
     (case hd_BuildUsageReport h b of
        (ur, b1) \<Rightarrow>
          (case werr of
             Some e \<Rightarrow> (Some e, [], c, b1)
           | None \<Rightarrow> (None, [TextFrame (wrap ''usage_report'' (usageJSON ur))], c, b1)))"
| "sessionEvent h onReconnect jerr fmt (PingDue werr) c b =
     (case werr of Some e \<Rightarrow> (Some e, [], c, b) | None \<Rightarrow> (None, [PingFrame], c, b))"

fun pump ::
  "'b Handler \<Rightarrow> ('b \<Rightarrow> 'b) option \<Rightarrow> error \<Rightarrow> (rat \<Rightarrow> string) \<Rightarrow> Event list \<Rightarrow> Client \<Rightarrow> 'b \<Rightarrow>
   error option \<times> Output list \<times> Client \<times> 'b" where
  "pump h onReconnect jerr fmt [] c b = (None, [], c, b)"
| "pump h onReconnect jerr fmt (e # es) c b =
     (case sessionEvent h onReconnect jerr fmt e c b of
        (Some err, out, c1, b1) \<Rightarrow> (Some err, out, c1, b1)
      | (None, out, c1, b1) \<Rightarrow>
          (case pump h onReconnect jerr fmt es c1 b1 of (err, out2, c2, b2) \<Rightarrow> (err, out @ out2, c2, b2)))"

text \<open>One attempt: the results of dialling and of writing the greeting, the events, and the draw of the random generator.\<close>

record Attempt =
  at_Dial :: "error option"
  at_HelloWrite :: "error option"
  at_Events :: "Event list"
  at_Rand :: "int \<Rightarrow> int"

definition session ::
  "'b Handler \<Rightarrow> ('b \<Rightarrow> 'b) option \<Rightarrow> error \<Rightarrow> (rat \<Rightarrow> string) \<Rightarrow> Attempt \<Rightarrow> Client \<Rightarrow> 'b \<Rightarrow>
   error option \<times> Output list \<times> Client \<times> 'b" where
  "session h onReconnect jerr fmt a c b =
     (case at_Dial a of
        Some e \<Rightarrow> (Some (Wrapf ''ws dial: '' e []), [], c, b)
      | None \<Rightarrow>
          (case hd_BuildHello h b (gc_nodeID c) of
             (hello, b1) \<Rightarrow>
               (case at_HelloWrite a of
                  Some e \<Rightarrow> (Some e, [], c\<lparr>gc_connected := False\<rparr>, b1)
                | None \<Rightarrow>
                    (case pump h onReconnect jerr fmt (at_Events a) (c\<lparr>gc_connected := True\<rparr>) b1 of
                       (err, out, c2, b2) \<Rightarrow>
                         (err, TextFrame (wrap ''hello'' (helloJSON hello)) # out, c2\<lparr>gc_connected := False\<rparr>, b2)))))"

text \<open>
  After a session: a refused token is exchanged for a fresh one and the next attempt follows at
  once; otherwise the client sleeps for the backoff with a jitter of a tenth around it. Durations
  are nanoseconds.
\<close>

abbreviation second :: int where "second \<equiv> 1000000000"

definition freshToken ::
  "('b \<Rightarrow> string result \<times> 'b) option \<Rightarrow> error option \<Rightarrow> 'b \<Rightarrow> string \<times> 'b" where
  "freshToken refresh err b =
     (case refresh of
        Some f \<Rightarrow> if isAuthDialError err then (case f b of (r, b1) \<Rightarrow> (case_sum (\<lambda>_. []) id r, b1)) else ([], b)
      | None \<Rightarrow> ([], b))"

definition afterSession ::
  "('b \<Rightarrow> string result \<times> 'b) option \<Rightarrow> error option \<Rightarrow> (int \<Rightarrow> int) \<Rightarrow> int \<Rightarrow> Client \<Rightarrow> 'b \<Rightarrow>
   int option \<times> int \<times> Client \<times> 'b" where
  "afterSession refresh err rand backoff c b =
     (case freshToken refresh err b of
        (tok, b1) \<Rightarrow>
          (if tok \<noteq> [] then (None, second, c\<lparr>gc_nodeToken := tok\<rparr>, b1)
           else (Some (backoff + rand (backoff div 5) - backoff div 10),
                 if backoff < 60 * second then backoff * 2 else backoff, c, b1)))"

fun runClient ::
  "'b Handler \<Rightarrow> ('b \<Rightarrow> 'b) option \<Rightarrow> ('b \<Rightarrow> string result \<times> 'b) option \<Rightarrow> error \<Rightarrow> (rat \<Rightarrow> string) \<Rightarrow>
   Attempt list \<Rightarrow> int \<Rightarrow> Client \<Rightarrow> 'b \<Rightarrow> int option list \<times> Output list \<times> int \<times> Client \<times> 'b" where
  "runClient h onReconnect refresh jerr fmt [] backoff c b = ([], [], backoff, c, b)"
| "runClient h onReconnect refresh jerr fmt (a # as) backoff c b =
     (case session h onReconnect jerr fmt a c b of
        (err, out, c1, b1) \<Rightarrow>
          (case afterSession refresh err (at_Rand a) backoff c1 b1 of
             (sleep, backoff2, c2, b2) \<Rightarrow>
               (case runClient h onReconnect refresh jerr fmt as backoff2 c2 b2 of
                  (sleeps, out2, rest) \<Rightarrow> (sleep # sleeps, out @ out2, rest))))"


section \<open>Stored credentials\<close>

lemma setting_names_distinct: "distinct [settingNodeID, settingNodeToken, settingNodeKey, settingGatewayPublicKey]"
  by (simp add: setting_names)

definition saved :: "(string \<Rightarrow> string) \<Rightarrow> Credentials \<Rightarrow> Credentials" where
  "saved m c = c\<lparr>cr_NodeKey := (if cr_NodeKey c \<noteq> [] then cr_NodeKey c else m settingNodeKey),
                 cr_GatewayPublicKey := (if cr_GatewayPublicKey c \<noteq> [] then cr_GatewayPublicKey c else m settingGatewayPublicKey)\<rparr>"

definition stored :: "(string \<Rightarrow> string) \<Rightarrow> Credentials" where
  "stored m = \<lparr>cr_NodeID = m settingNodeID, cr_NodeToken = m settingNodeToken, cr_NodeKey = m settingNodeKey,
     cr_GatewayPublicKey = m settingGatewayPublicKey\<rparr>"

context settings_store
begin

lemma putUnlessEmpty_look:
  "putUnlessEmpty put st k v = (None, st') \<Longrightarrow> look st' = (if v \<noteq> [] then (look st)(k := v) else look st)"
  by (auto simp: putUnlessEmpty_def dest: put_ok split: if_splits)

lemma Save_stored:
  assumes "SaveCredentials put st (Some c) = (None, st')"
  shows "stored (look st') = saved (look st) c"
proof -
  obtain s1 s2 s3 where "put st settingNodeID (cr_NodeID c) = (None, s1)" "put s1 settingNodeToken (cr_NodeToken c) = (None, s2)"
    "putUnlessEmpty put s2 settingNodeKey (cr_NodeKey c) = (None, s3)"
    "putUnlessEmpty put s3 settingGatewayPublicKey (cr_GatewayPublicKey c) = (None, st')"
    using assms by (auto simp: SaveCredentials_def split: prod.splits option.splits)
  then have "look st' = (let m = (look st)(settingNodeID := cr_NodeID c, settingNodeToken := cr_NodeToken c);
      m1 = (if cr_NodeKey c \<noteq> [] then m(settingNodeKey := cr_NodeKey c) else m)
      in if cr_GatewayPublicKey c \<noteq> [] then m1(settingGatewayPublicKey := cr_GatewayPublicKey c) else m1)"
    by (auto simp: put_ok putUnlessEmpty_look Let_def dest!: put_ok putUnlessEmpty_look)
  then show ?thesis
    using setting_names_distinct by (auto simp: stored_def saved_def Let_def)
qed

lemma Load_stored:
  assumes "LoadCredentials get st = (Inr c, st')"
  shows "cr_NodeID c = look st settingNodeID" "cr_NodeToken c = look st settingNodeToken" "look st' = look st"
proof -
  obtain s1 s2 s3 k p where g: "get st settingNodeID = (Inr (cr_NodeID c), s1)" "get s1 settingNodeToken = (Inr (cr_NodeToken c), s2)"
    "get s2 settingNodeKey = (k, s3)" "get s3 settingGatewayPublicKey = (p, st')"
    using assms by (auto simp: LoadCredentials_def split: prod.splits sum.splits)
  then have "look s1 = look st" "look s2 = look s1" "look s3 = look s2" "look st' = look s3" by (auto dest: get_keeps)
  then show "cr_NodeID c = look st settingNodeID" "cr_NodeToken c = look st settingNodeToken" "look st' = look st"
    using get_ok [OF g(1)] get_ok [OF g(2)] by simp_all
qed

end

lemma LoadCredentials_quiet:
  "db_faults s = [] \<Longrightarrow> LoadCredentials GetSetting s = (Inr (stored (db_look s)), s)"
proof -
  assume "db_faults s = []"
  then have "GetSetting s k = (Inr (db_look s k), s)" for k
    by (simp add: GetSetting_def db_look_def db_call_ok split: option.splits)
  then show ?thesis by (simp add: LoadCredentials_def stored_def)
qed



section \<open>Registration\<close>

lemma postJSON_ok:
  "postJSON ex url body w = (Inr (raw, status), w') \<Longrightarrow>
   \<exists>resp. ex w (jsonPost url [] body) = (Inr resp, w') \<and> raw = take 1048576 (rs_Body resp) \<and> status = rs_Status resp"
  by (auto simp: postJSON_def split: prod.splits sum.splits)

lemma registerStep1_ok:
  assumes "registerStep1 ex jerr i w = (Inr c, w')"
  shows "\<exists>resp. ex w (jsonPost (registerURL i) [] (step1Body i)) = (Inr resp, w') \<and> rs_Status resp = 200 \<and>
    decodeChallenge (take 1048576 (rs_Body resp)) = Some c" "ch_FlowID c \<noteq> []" "ch_Message c \<noteq> []"
  using assms
  by (auto simp: registerStep1_def split: prod.splits sum.splits if_splits option.splits dest!: postJSON_ok)

lemma registerStep2_ok:
  assumes "registerStep2 ex jerr i addr pub c sig w = (Inr cred, w')"
  shows "\<exists>resp out. ex w (jsonPost (registerURL i) [] (step2Body i addr pub c sig)) = (Inr resp, w') \<and> rs_Status resp = 200 \<and>
    decodeRegistered (take 1048576 (rs_Body resp)) = Some out \<and> acceptRegistered i c out = Inr cred"
  using assms
  by (auto simp: registerStep2_def split: prod.splits sum.splits if_splits option.splits dest!: postJSON_ok)

lemma acceptRegistered_ok:
  "acceptRegistered i c out = Inr cred \<Longrightarrow>
   cr_NodeID cred = ri_PeerID i \<and> cr_NodeToken cred = rg_NodeToken out \<and> cr_NodeKey cred = rg_NodeKey out \<and>
   rg_NodeToken out \<noteq> [] \<and> rg_NodeKey out \<noteq> []"
  by (auto simp: acceptRegistered_def Let_def split: if_splits)

lemma Register_own:
  assumes "Register cy ex jerr i w = (Inr cred, w')"
  shows "cr_NodeID cred = ri_PeerID i" "cr_NodeID cred \<noteq> []" "cr_NodeToken cred \<noteq> []" "cr_NodeKey cred \<noteq> []"
  using assms
  by (auto simp: Register_def split: if_splits sum.splits prod.splits dest!: registerStep2_ok acceptRegistered_ok)

text \<open>
  C12. A registration that succeeds proved the ownership of the wallet it names: the node asked for a
  challenge with its registration token, and then sent the signature of exactly that challenge
  together with the address and the public key of the very account that signed it. The answer was
  accepted only for the node's own identity and with a token and a key in it.
\<close>

theorem Register_proves_wallet:
  assumes "Register cy ex jerr i w = (Inr cred, w')"
  shows "\<exists>c addr pub sig w1 resp1 resp2 out.
    registrationToken i \<noteq> [] \<and>
    ex w (jsonPost (registerURL i) [] (step1Body i)) = (Inr resp1, w1) \<and> rs_Status resp1 = 200 \<and>
    decodeChallenge (take 1048576 (rs_Body resp1)) = Some c \<and> ch_Message c \<noteq> [] \<and>
    SignChallengeWithMnemonic cy (ri_Mnemonic i) (ri_WalletChain i) (ch_Message c) = Inr (addr, pub, sig) \<and>
    ex w1 (jsonPost (registerURL i) [] (step2Body i addr pub c sig)) = (Inr resp2, w') \<and> rs_Status resp2 = 200 \<and>
    decodeRegistered (take 1048576 (rs_Body resp2)) = Some out \<and>
    cr_NodeID cred = ri_PeerID i \<and> cr_NodeToken cred = rg_NodeToken out \<and> rg_NodeToken out \<noteq> [] \<and>
    cr_NodeKey cred = rg_NodeKey out \<and> rg_NodeKey out \<noteq> []"
proof -
  obtain addr0 pub0 where a: "AddressFromMnemonic cy (ri_Mnemonic i) (ri_WalletChain i) = Inr addr0"
    "PublicKeyFromMnemonic cy (ri_Mnemonic i) (ri_WalletChain i) = Inr pub0" "registrationToken i \<noteq> []"
    using assms by (auto simp: Register_def split: if_splits sum.splits)
  obtain r1 w1 where s1: "registerStep1 ex jerr i w = (r1, w1)" by (rule prod.exhaust)
  obtain c where c: "r1 = Inr c" using assms a s1 by (cases r1) (auto simp: Register_def split: if_splits)
  obtain addr pub sig where s: "SignChallengeWithMnemonic cy (ri_Mnemonic i) (ri_WalletChain i) (ch_Message c) = Inr (addr, pub, sig)"
    "registerStep2 ex jerr i addr0 pub0 c sig w1 = (Inr cred, w')"
    using assms a s1 c by (auto simp: Register_def split: if_splits sum.splits)
  have "addr0 = addr" "pub0 = pub" using signer_agrees [OF a(1) s(1)] a(2) by simp_all
  then show ?thesis
    using registerStep1_ok [OF s1 [unfolded c]] registerStep2_ok [OF s(2)] s(1) a(3) acceptRegistered_ok by blast
qed


section \<open>Reconnecting\<close>

lemma afterSession_cases:
  assumes "afterSession refresh err rand backoff c b = (sleep, backoff', c', b')"
  obtains (refreshed) tok where "sleep = None" "backoff' = second" "tok \<noteq> []" "gc_nodeToken c' = tok" "isAuthDialError err"
  | (slept) "sleep = Some (backoff + rand (backoff div 5) - backoff div 10)"
      "backoff' = (if backoff < 60 * second then backoff * 2 else backoff)" "c' = c"
  using assms
  by (auto simp: afterSession_def freshToken_def split: prod.splits if_splits option.splits)

definition draws :: "(int \<Rightarrow> int) \<Rightarrow> bool" where
  "draws rand \<longleftrightarrow> (\<forall>n > 0. 0 \<le> rand n \<and> rand n < n)"

lemma sleep_bounds:
  fixes k :: nat
  assumes "draws rand"
  shows "9 * 2 ^ k * second \<le> 10 * (2 ^ k * second + rand (2 ^ k * second div 5) - 2 ^ k * second div 10)"
    "10 * (2 ^ k * second + rand (2 ^ k * second div 5) - 2 ^ k * second div 10) < 11 * 2 ^ k * second"
proof -
  let ?p = "2 ^ k :: int"
  have d: "?p * second div 5 = ?p * 200000000" "?p * second div 10 = ?p * 100000000"
    by (simp_all add: div_mult_swap [symmetric] mult.commute)
  have "0 < ?p * 200000000" by simp
  then have "0 \<le> rand (?p * 200000000)" "rand (?p * 200000000) < ?p * 200000000" using assms by (auto simp: draws_def)
  then show "9 * 2 ^ k * second \<le> 10 * (2 ^ k * second + rand (2 ^ k * second div 5) - 2 ^ k * second div 10)"
    "10 * (2 ^ k * second + rand (2 ^ k * second div 5) - 2 ^ k * second div 10) < 11 * 2 ^ k * second"
    unfolding d by simp_all
qed


definition waits :: "nat \<Rightarrow> int \<Rightarrow> bool" where
  "waits k d \<longleftrightarrow> 9 * 2 ^ k * second \<le> 10 * d \<and> 10 * d < 11 * 2 ^ k * second"

lemma afterSession_backoff:
  assumes "afterSession refresh err rand (2 ^ k * second) c b = (sleep, backoff', c', b')" "draws rand" "k \<le> 6"
  shows "\<exists>k' \<le> 6. backoff' = 2 ^ k' * second \<and>
    (\<forall>d. sleep = Some d \<longrightarrow> waits k d \<and> k' = min (Suc k) 6) \<and> (refresh = None \<longrightarrow> sleep \<noteq> None)"
  using assms(1)
proof (cases rule: afterSession_cases)
  case (refreshed tok)
  then have "refresh \<noteq> None" using assms(1) by (cases refresh) (auto simp: afterSession_def freshToken_def)
  then show ?thesis using refreshed by (intro exI [of _ 0]) simp
next
  case slept
  have "(if 2 ^ k * second < 60 * second then 2 ^ k * second * 2 else 2 ^ k * second) = 2 ^ min (Suc k) 6 * second"
  proof (cases "k = 6")
    case False
    then have "k \<in> {0, 1, 2, 3, 4, 5}" using assms(3) by auto
    then show ?thesis by auto
  qed simp
  then show ?thesis
    using slept sleep_bounds [OF assms(2), of k] by (intro exI [of _ "min (Suc k) 6"]) (simp add: waits_def)
qed

lemma runClient_backoff:
  assumes "\<forall>a \<in> set as. draws (at_Rand a)" "k \<le> 6"
    and "runClient h onReconnect refresh jerr fmt as (2 ^ k * second) c b = (sleeps, res)"
  shows "length sleeps = length as \<and> (\<forall>d. Some d \<in> set sleeps \<longrightarrow> (\<exists>j \<le> 6. waits j d)) \<and>
    (refresh = None \<longrightarrow> (\<forall>n < length as. \<exists>d. sleeps ! n = Some d \<and> waits (min (k + n) 6) d))"
  using assms
proof (induction as arbitrary: k c b sleeps res)
  case Nil
  then show ?case by simp
next
  case (Cons a as)
  obtain err out1 c1 b1 where s: "session h onReconnect jerr fmt a c b = (err, out1, c1, b1)" by (metis prod.exhaust)
  obtain sleep backoff2 c2 b2 where f: "afterSession refresh err (at_Rand a) (2 ^ k * second) c1 b1 = (sleep, backoff2, c2, b2)"
    by (metis prod.exhaust)
  obtain sleeps2 res2 where r: "runClient h onReconnect refresh jerr fmt as backoff2 c2 b2 = (sleeps2, res2)"
    by (rule prod.exhaust)
  have sl: "sleeps = sleep # sleeps2" using Cons.prems(3) s f r by (auto split: prod.splits)
  obtain k' where k': "k' \<le> 6" "backoff2 = 2 ^ k' * second" "\<And>d. sleep = Some d \<Longrightarrow> waits k d \<and> k' = min (Suc k) 6"
    "refresh = None \<Longrightarrow> sleep \<noteq> None"
    using afterSession_backoff [OF f _ Cons.prems(2)] Cons.prems(1) by auto
  have ih: "length sleeps2 = length as" "\<And>d. Some d \<in> set sleeps2 \<Longrightarrow> \<exists>j \<le> 6. waits j d"
    "\<And>n. refresh = None \<Longrightarrow> n < length as \<Longrightarrow> \<exists>d. sleeps2 ! n = Some d \<and> waits (min (k' + n) 6) d"
    using Cons.IH [of k' c2 b2 sleeps2 res2] Cons.prems(1) k'(1,2) r by auto
  have "\<exists>d. sleeps ! n = Some d \<and> waits (min (k + n) 6) d" if none: "refresh = None" and n: "n < length (a # as)" for n
  proof (cases n)
    case 0
    then show ?thesis using k'(3,4) none sl Cons.prems(2) by (auto simp: min_def)
  next
    case (Suc m)
    have "k' = min (Suc k) 6" using k'(3,4) none by auto
    then have "min (k' + m) 6 = min (k + n) 6" using Suc by simp
    then show ?thesis using ih(3) [OF none, of m] Suc n sl by simp
  qed
  moreover have "\<exists>j \<le> 6. waits j d" if "Some d \<in> set sleeps" for d
    using that sl ih(2) k'(3) Cons.prems(2) by auto
  ultimately show ?case using sl ih(1) by simp
qed




section \<open>What the client relies on\<close>

text \<open>
  The contract of a handler: everything the client asks of it keeps \<open>inv\<close>, and the answer to a
  command carries the command's identifier.
\<close>

locale gateway_handler =
  fixes h :: "'b Handler" and inv :: "'b \<Rightarrow> bool"
  assumes hello_inv: "inv b \<Longrightarrow> hd_BuildHello h b n = (he, b') \<Longrightarrow> inv b'"
    and heartbeat_inv: "inv b \<Longrightarrow> hd_BuildHeartbeat h b st = (hb, b') \<Longrightarrow> inv b'"
    and usage_inv: "inv b \<Longrightarrow> hd_BuildUsageReport h b = (ur, b') \<Longrightarrow> inv b'"
    and command_inv: "inv b \<Longrightarrow> hd_HandleCommand h b cmd = (res, b') \<Longrightarrow> inv b'"
    and command_id: "hd_HandleCommand h b cmd = (res, b') \<Longrightarrow> cs_RequestID res = cd_RequestID cmd"
begin

lemma frame_inv:
  assumes "inv b" "onReconnect = None" "handleFrame h onReconnect jerr werr raw c b = (e, out, c', b')"
  shows "inv b'"
  using assms
  by (auto simp: handleFrame_def dest: command_inv split: option.splits if_splits prod.splits)

lemma event_inv:
  assumes "inv b" "onReconnect = None" "sessionEvent h onReconnect jerr fmt ev c b = (e, out, c', b')"
  shows "inv b'"
proof (cases ev)
  case (Incoming r werr)
  then show ?thesis using assms by (cases r) (auto dest: frame_inv split: prod.splits)
next
  case (HeartbeatDue werr)
  then show ?thesis using assms by (auto dest: heartbeat_inv split: prod.splits option.splits)
next
  case (UsageDue werr)
  then show ?thesis using assms by (auto dest: usage_inv split: prod.splits option.splits)
next
  case (PingDue werr)
  then show ?thesis using assms by (auto split: option.splits)
qed

lemma pump_inv:
  "inv b \<Longrightarrow> onReconnect = None \<Longrightarrow> pump h onReconnect jerr fmt es c b = (e, out, c', b') \<Longrightarrow> inv b'"
proof (induction es arbitrary: c b e out)
  case (Cons ev es)
  obtain e1 out1 c1 b1 where s: "sessionEvent h onReconnect jerr fmt ev c b = (e1, out1, c1, b1)" by (metis prod.exhaust)
  have "inv b1" by (rule event_inv [OF Cons.prems(1,2) s])
  then show ?case using Cons s by (cases e1) (auto split: prod.splits)
qed simp

lemma session_inv:
  assumes "inv b" "onReconnect = None" "session h onReconnect jerr fmt a c b = (e, out, c', b')"
  shows "inv b'"
  using assms by (auto simp: session_def dest: hello_inv pump_inv split: prod.splits option.splits)

lemma run_inv:
  assumes "\<And>f b r b'. refresh = Some f \<Longrightarrow> inv b \<Longrightarrow> f b = (r, b') \<Longrightarrow> inv b'" "onReconnect = None"
  shows "inv b \<Longrightarrow> runClient h onReconnect refresh jerr fmt as backoff c b = (sleeps, out, backoff', c', b') \<Longrightarrow> inv b'"
proof (induction as arbitrary: backoff c b sleeps out)
  case (Cons a as)
  obtain err out1 c1 b1 where s: "session h onReconnect jerr fmt a c b = (err, out1, c1, b1)" by (metis prod.exhaust)
  obtain sleep backoff2 c2 b2 where f: "afterSession refresh err (at_Rand a) backoff c1 b1 = (sleep, backoff2, c2, b2)"
    by (metis prod.exhaust)
  have "inv b1" by (rule session_inv [OF Cons.prems(1) assms(2) s])
  then have "inv b2" using f assms(1)
    by (auto simp: afterSession_def freshToken_def split: prod.splits option.splits if_splits)
  then show ?case using Cons.IH Cons.prems(2) s f by (auto split: prod.splits)
qed simp

end

text \<open>Frames as the gateway and the node write them can be read back.\<close>

lemma wrap_decode: "json_ok v \<Longrightarrow> decodeEnvelope (wrap t v) = Some \<lparr>vp_Type = t, vp_Data = Some v\<rparr>"
proof -
  assume "json_ok v"
  then have "json_ok (JObj [(''type'', JStr t), (''data'', v)])" by (auto intro!: json_ok.intros)
  from json_roundtrip [OF this] show ?thesis
    by (simp add: decodeEnvelope_def wrap_def is_struct_def string_field_def field_def members_def raw_field_def
        EqualFold_def ToLower_def lower_char_def)
qed

definition commandJSON :: "Command \<Rightarrow> json" where
  "commandJSON cmd = JObj ([(''action'', JStr (cd_Action cmd)), (''request_id'', JStr (cd_RequestID cmd))] @
     (case cd_Args cmd of None \<Rightarrow> [] | Some v \<Rightarrow> [(''args'', v)]))"

lemma decodeCommand_json: "decodeCommand (Some (commandJSON cmd)) = Some cmd"
  by (cases "cd_Args cmd")
    (simp_all add: decodeCommand_def commandJSON_def is_struct_def string_field_def field_def members_def raw_field_def
      EqualFold_def ToLower_def lower_char_def)

lemma json_ok_command: "(\<And>v. cd_Args cmd = Some v \<Longrightarrow> json_ok v) \<Longrightarrow> json_ok (commandJSON cmd)"
  by (auto simp: commandJSON_def intro!: json_ok.intros split: option.splits)

lemma json_ok_result: "json_ok (resultJSON r)"
  by (auto simp: resultJSON_def intro!: json_ok.intros)

lemma handleFrame_command:
  assumes "\<And>v. cd_Args cmd = Some v \<Longrightarrow> json_ok v" "hd_HandleCommand h b cmd = (res, b')"
  shows "handleFrame h onReconnect jerr None (wrap ''command'' (commandJSON cmd)) c b =
    (None, [TextFrame (wrap ''command_result'' (resultJSON res))], c, b')"
  using assms(2) by (simp add: handleFrame_def wrap_decode [OF json_ok_command [OF assms(1)]] decodeCommand_json)

section \<open>The frames of the node\<close>

lemma json_ok_iff:
  "json_ok JNull" "json_ok (JBool b)" "json_ok (JStr s)" "json_ok (JInt n)" "json_ok (JNum s) = json_number s"
  "json_ok (JList vs) = (\<forall>v \<in> set vs. json_ok v)" "json_ok (JObj kvs) = (\<forall>kv \<in> set kvs. json_ok (snd kv))"
  by (force intro: json_ok.intros elim: json_okE)+

lemma json_ok_payloads:
  "json_ok (helloJSON he)" "(\<And>q. json_number (fmt q)) \<Longrightarrow> json_ok (heartbeatJSON fmt hb)" "json_ok (usageJSON ur)"
proof -
  have e: "json_ok (endpointsJSON e)" for e
    by (auto simp: endpointsJSON_def Let_def optional_def json_ok_iff split: option.split)
  show "json_ok (helloJSON he)"
    by (auto simp: helloJSON_def Let_def e helloDropJSON_def optional_def json_ok_iff split: option.split)
  show "json_ok (usageJSON ur)"
    by (auto simp: usageJSON_def peerUsageJSON_def json_ok_iff split: option.split)
  show "(\<And>q. json_number (fmt q)) \<Longrightarrow> json_ok (heartbeatJSON fmt hb)"
    by (auto simp: heartbeatJSON_def loadJSON_def speedtestJSON_def dropStatusJSON_def optional_def json_ok_iff split: option.split)
qed

text \<open>The messages a node may send: each has one of four types, and the data of that type.\<close>

definition payload :: "(rat \<Rightarrow> string) \<Rightarrow> string \<Rightarrow> json \<Rightarrow> bool" where
  "payload fmt t v \<longleftrightarrow>
     t = ''hello'' \<and> (\<exists>he. v = helloJSON he) \<or> t = ''heartbeat'' \<and> (\<exists>hb. v = heartbeatJSON fmt hb) \<or>
     t = ''usage_report'' \<and> (\<exists>ur. v = usageJSON ur) \<or> t = ''command_result'' \<and> (\<exists>res. v = resultJSON res)"

definition well_typed :: "(rat \<Rightarrow> string) \<Rightarrow> Output \<Rightarrow> bool" where
  "well_typed fmt out \<longleftrightarrow>
     (\<forall>s. out = TextFrame s \<longrightarrow> (\<exists>t v. decodeEnvelope s = Some \<lparr>vp_Type = t, vp_Data = Some v\<rparr> \<and> payload fmt t v))"

lemma well_typed_other [simp]: "well_typed fmt PingFrame" "well_typed fmt (RestHeartbeat hb)"
  by (simp_all add: well_typed_def)

lemma well_typed_wrap:
  assumes "\<And>q. json_number (fmt q)"
  shows "well_typed fmt (TextFrame (wrap ''hello'' (helloJSON he)))" "well_typed fmt (TextFrame (wrap ''heartbeat'' (heartbeatJSON fmt hb)))"
    "well_typed fmt (TextFrame (wrap ''usage_report'' (usageJSON ur)))" "well_typed fmt (TextFrame (wrap ''command_result'' (resultJSON res)))"
  using wrap_decode [OF json_ok_payloads(1)] wrap_decode [OF json_ok_payloads(2) [OF assms]] wrap_decode [OF json_ok_payloads(3)]
    wrap_decode [OF json_ok_result]
  by (auto simp: well_typed_def payload_def)

lemma sessionEvent_typed:
  assumes "\<And>q. json_number (fmt q)" "sessionEvent h onReconnect jerr fmt ev c b = (e, out, c', b')"
  shows "\<forall>o' \<in> set out. well_typed fmt o'"
  using assms(2)
proof (cases ev)
  case (Incoming r werr)
  then show ?thesis
    using assms(2) by (cases r) (auto simp: handleFrame_def well_typed_wrap [OF assms(1)] split: prod.splits option.splits if_splits)
qed (auto simp: well_typed_wrap [OF assms(1)] split: prod.splits option.splits)

lemma pump_typed:
  assumes "\<And>q. json_number (fmt q)"
  shows "pump h onReconnect jerr fmt es c b = (e, out, c', b') \<Longrightarrow> \<forall>o' \<in> set out. well_typed fmt o'"
proof (induction es arbitrary: c b e out c' b')
  case (Cons ev es)
  obtain e1 out1 c1 b1 where s: "sessionEvent h onReconnect jerr fmt ev c b = (e1, out1, c1, b1)" by (metis prod.exhaust)
  obtain e2 out2 c2 b2 where p: "pump h onReconnect jerr fmt es c1 b1 = (e2, out2, c2, b2)" by (metis prod.exhaust)
  show ?case
    using Cons.prems s p sessionEvent_typed [OF assms s] Cons.IH [OF p] by (cases e1) auto
qed simp

lemma session_typed:
  assumes "\<And>q. json_number (fmt q)" "session h onReconnect jerr fmt a c b = (e, out, c', b')"
  shows "\<forall>o' \<in> set out. well_typed fmt o'"
  using assms(2)
  by (auto simp: session_def well_typed_wrap [OF assms(1)] dest!: pump_typed [OF assms(1)] split: option.splits prod.splits)

text \<open>
  C19. The node speaks the protocol: every text frame it ever writes, over any number of sessions and
  whatever the gateway sends, is an envelope that reads back as one of the four messages of a node
  with the data of that message, provided that floating-point numbers are written as JSON numbers.
\<close>

theorem frames_well_typed:
  assumes "\<forall>q. json_number (fmt q)"
    and "runClient h onReconnect refresh jerr fmt as backoff c b = (sleeps, out, backoff', c', b')"
  shows "\<forall>o' \<in> set out. well_typed fmt o'"
  using assms(2)
proof (induction as arbitrary: backoff c b sleeps out)
  case (Cons a as)
  obtain err out1 c1 b1 where s: "session h onReconnect jerr fmt a c b = (err, out1, c1, b1)" by (metis prod.exhaust)
  obtain sleep backoff2 c2 b2 where f: "afterSession refresh err (at_Rand a) backoff c1 b1 = (sleep, backoff2, c2, b2)"
    by (metis prod.exhaust)
  obtain sleeps2 out2 rest where r: "runClient h onReconnect refresh jerr fmt as backoff2 c2 b2 = (sleeps2, out2, rest)"
    by (metis prod.exhaust)
  have "\<forall>o' \<in> set out1. well_typed fmt o'" by (rule session_typed [OF _ s]) (use assms(1) in simp)
  moreover have "out = out1 @ out2" "rest = (backoff', c', b')" using Cons.prems s f r by auto
  ultimately show ?case using Cons.IH r by auto
qed simp


section \<open>Witnesses\<close>

definition ex_registration :: RegistrationInput where
  "ex_registration =
     \<lparr>ri_GatewayURL = ''https://gw/'', ri_RegistrationToken = ''tok'', ri_OrgEnrollmentSecret = [], ri_WalletChain = ''eth'',
      ri_Mnemonic = ''abandon'', ri_PeerID = ''12D3'', ri_DID = ''did:erebrus:12D3'', ri_Name = ''n'', ri_Region = ''US'', ri_Zone = [],
      ri_APIBaseURL = [], ri_NodeKey = [], ri_AccessMode = ''private'', ri_DeploymentProfile = ''standard''\<rparr>"

text \<open>A gateway that answers the first request with a challenge and the next with credentials.\<close>

definition ex_gateway :: "nat exchange" where
  "ex_gateway w r =
     (Inr \<lparr>rs_Status = 200,
           rs_Body = json_enc (strMap (if w = 0 then [(''flow_id'', ''f''), (''message'', ''sign me'')]
             else [(''peer_id'', ''12D3''), (''node_token'', ''t1''), (''node_key'', ''k1'')]))\<rparr>, Suc w)"

theorem Register_proves_wallet_witness:
  "\<exists>cred. Register ex_crypto ex_gateway (Errorf ''json'') ex_registration 0 = (Inr cred, 2) \<and> cr_NodeID cred = ''12D3'' \<and> cr_NodeKey cred \<noteq> []"
proof -
  have "is_ok (fst (Register ex_crypto ex_gateway (Errorf ''json'') ex_registration 0)) \<and>
      snd (Register ex_crypto ex_gateway (Errorf ''json'') ex_registration 0) = 2" by code_simp
  then obtain cred where r: "Register ex_crypto ex_gateway (Errorf ''json'') ex_registration 0 = (Inr cred, 2)"
    by (auto simp: prod_eq_iff elim: is_okE)
  have "ri_PeerID ex_registration = ''12D3''" by (simp add: ex_registration_def)
  then show ?thesis using Register_proves_wallet [OF r] r by auto
qed

definition ex_attempt :: Attempt where
  "ex_attempt = \<lparr>at_Dial = Some (Errorf ''refused''), at_HelloWrite = None, at_Events = [], at_Rand = (\<lambda>n. n div 2)\<rparr>"


definition ex_talk :: Attempt where
  "ex_talk = \<lparr>at_Dial = None, at_HelloWrite = None, at_Events = [PingDue None, Incoming (Inl (Errorf ''closed'')) None], at_Rand = (\<lambda>n. n div 2)\<rparr>"

theorem frames_well_typed_witness:
  "\<forall>h :: unit Handler. list_all (well_typed (\<lambda>_. Itoa 0))
     (fst (snd (runClient h None None (Errorf ''json'') (\<lambda>_. Itoa 0) [ex_talk] second (newClient ''https://gw'' ''n'' ''t'') ())))"
proof
  fix h :: "unit Handler"
  obtain sleeps out backoff' c' b' where r: "runClient h None None (Errorf ''json'') (\<lambda>_. Itoa 0) [ex_talk] second (newClient ''https://gw'' ''n'' ''t'') () =
      (sleeps, out, backoff', c', b')" by (metis prod.exhaust)
  show "list_all (well_typed (\<lambda>_. Itoa 0))
     (fst (snd (runClient h None None (Errorf ''json'') (\<lambda>_. Itoa 0) [ex_talk] second (newClient ''https://gw'' ''n'' ''t'') ())))"
    using frames_well_typed [OF _ r] r by (simp add: list_all_iff)
qed

text \<open>
  A message with the digits 401 anywhere counts as a refused token, so an address in a failed dial
  can make the client ask for a fresh one.
\<close>

lemma address_is_auth_error: "isAuthDialError (Some (Wrapf ''ws dial: '' (Errorf ''dial tcp 10.0.0.7:4011: connect: connection refused'') []))"
  by code_simp

end
