(* ===== verification/Sentinel.thy ===== *)
theory Sentinel
  imports Http
begin

text \<open>
  The Sentinel sidecar (\<open>src/internal/sentinel/\<close>): the policy writer, which renders rules into
  fragments of an Unbound configuration, and the control server around it. The generated
  directory is a map from file names to contents; \<open>sn_disk\<close> is the schedule of the file operations
  that fail. The writer goes through a Go map, so the order of the five files is an argument.
\<close>

section \<open>Policies\<close>

record Rule =
  rl_RuleType :: string
  rl_Target :: string
  rl_Action :: string
  rl_Value :: string
  rl_Enabled :: bool

record Policy =
  po_OrgID :: string
  po_NodeID :: string
  po_Rules :: "Rule list"
  po_Upstreams :: "string list"

definition dnsZone :: "string \<Rightarrow> string" where
  "dnsZone host = TrimSuffix (TrimSpace (ToLower host)) ''.'' @ ''.''"

definition zoneLine :: "string \<Rightarrow> string \<Rightarrow> string" where
  "zoneLine zone kind = ''local-zone: '' @ Quote zone @ '' '' @ kind @ NL"

definition blockActions :: "string list" where
  "blockActions = [''block'', ''domain_block'', ''wildcard_domain_block'']"

definition allowActions :: "string list" where
  "allowActions = [''allow'', ''domain_allow'']"

definition rewriteActions :: "string list" where
  "rewriteActions = [''rewrite'', ''dns_rewrite'']"

definition ruleAction :: "Rule \<Rightarrow> string" where
  "ruleAction r = ToLower (TrimSpace (rl_Action r))"

definition blockZone :: "Rule \<Rightarrow> string" where
  "blockZone r =
     (if HasPrefix (TrimSpace (rl_Target r)) ''*.'' then dnsZone (TrimPrefix (TrimSpace (rl_Target r)) ''*.'')
      else dnsZone (rl_Target r))"

definition rewriteValue :: "Rule \<Rightarrow> string" where
  "rewriteValue r = (let v = TrimSpace (rl_Value r) in if v = [] then TrimSpace (rl_Action r) else v)"

text \<open>The loop over the rules: the three fragments built so far.\<close>

fun renderRules :: "Rule list \<Rightarrow> string \<times> string \<times> string \<Rightarrow> string \<times> string \<times> string" where
  "renderRules [] acc = acc"
| "renderRules (r # rs) (blocks, allows, rewrites) =
     (if \<not> rl_Enabled r then renderRules rs (blocks, allows, rewrites)
      else if ruleAction r \<in> set blockActions then
        renderRules rs (blocks @ zoneLine (blockZone r) ''always_nxdomain'', allows, rewrites)
      else if ruleAction r \<in> set allowActions then
        renderRules rs (blocks, allows @ zoneLine (dnsZone (rl_Target r)) ''transparent'', rewrites)
      else if ruleAction r \<in> set rewriteActions then
        (let v = rewriteValue r in
         if v \<in> {[], ''rewrite'', ''dns_rewrite''} then renderRules rs (blocks, allows, rewrites)
         else renderRules rs (blocks, allows,
                rewrites @ zoneLine (dnsZone (rl_Target r)) ''static'' @
                ''local-data: '' @ Quote (dnsZone (rl_Target r)) @ '' 60 IN A '' @ v @ NL))
      else renderRules rs (blocks, allows, rewrites))"

definition upstreamLine :: "string \<Rightarrow> string" where
  "upstreamLine u =
     (let addr = TrimPrefix (TrimPrefix u ''tls://'') ''https://''
      in if Contains addr ''@'' then ''  forward-addr: '' @ addr @ NL else ''  forward-addr: '' @ addr @ ''@853'' @ NL)"

definition renderUpstreams :: "string list \<Rightarrow> string" where
  "renderUpstreams us =
     (if us = [] then []
      else ''forward-zone:'' @ NL @ ''  name: '' @ [CHR 0x22] @ ''.'' @ [CHR 0x22] @ NL @ ''  forward-tls-upstream: yes'' @ NL @
           concat (map upstreamLine us))"

definition renderPolicy :: "Policy \<Rightarrow> string \<rightharpoonup> string" where
  "renderPolicy p =
     (case renderRules (po_Rules p) ([], [], []) of
        (blocks, allows, rewrites) \<Rightarrow>
          [''blocklist.conf'' \<mapsto> blocks, ''allowlist.conf'' \<mapsto> allows, ''rewrites.conf'' \<mapsto> rewrites,
           ''upstreams.conf'' \<mapsto> renderUpstreams (po_Upstreams p),
           ''base.conf'' \<mapsto> ''# generated by erebrus-sentinel'' @ NL])"

definition policyFiles :: "string list" where
  "policyFiles = [''blocklist.conf'', ''allowlist.conf'', ''rewrites.conf'', ''upstreams.conf'', ''base.conf'']"


section \<open>Decoding\<close>

definition decodeRule :: "json \<Rightarrow> Rule option" where
  "decodeRule v =
     (if \<not> is_struct v then None
      else case (string_field ''rule_type'' v, string_field ''target'' v, string_field ''action'' v,
                 string_field ''value'' v, bool_field ''enabled'' v) of
             (Some t, Some g, Some a, Some x, Some e) \<Rightarrow>
               Some \<lparr>rl_RuleType = t, rl_Target = g, rl_Action = a, rl_Value = x, rl_Enabled = e\<rparr>
           | _ \<Rightarrow> None)"

definition decodePolicy :: "json \<Rightarrow> Policy option" where
  "decodePolicy v =
     (if \<not> is_struct v then None
      else case (string_field ''org_id'' v, string_field ''node_id'' v, field (into_list decodeRule) [] ''rules'' v,
                 strings_field ''upstreams'' v) of
             (Some org, Some node, Some rules, Some ups) \<Rightarrow>
               Some \<lparr>po_OrgID = org, po_NodeID = node, po_Rules = rules, po_Upstreams = ups\<rparr>
           | _ \<Rightarrow> None)"

definition emptyPolicy :: Policy where
  "emptyPolicy = \<lparr>po_OrgID = [], po_NodeID = [], po_Rules = [], po_Upstreams = []\<rparr>"

definition ParsePolicy :: "string \<Rightarrow> Policy option" where
  "ParsePolicy raw =
     (if raw = [] then Some emptyPolicy
      else case json_dec raw of None \<Rightarrow> None | Some v \<Rightarrow> decodePolicy v)"


section \<open>The control server\<close>

record SentinelSrv =
  sn_confDir :: string
  sn_licensed :: bool
  sn_lastApply :: int
  sn_rules :: nat
  sn_files :: "string \<rightharpoonup> string"
  sn_disk :: "string option list"

definition disk_call :: "SentinelSrv \<Rightarrow> error option \<times> SentinelSrv" where
  "disk_call s =
     (case sn_disk s of
        [] \<Rightarrow> (None, s)
      | f # fs \<Rightarrow> (map_option Errorf f, s\<lparr>sn_disk := fs\<rparr>))"

fun writeFiles :: "(string \<rightharpoonup> string) \<Rightarrow> string list \<Rightarrow> SentinelSrv \<Rightarrow> error option \<times> SentinelSrv" where
  "writeFiles body [] s = (None, s)"
| "writeFiles body (f # fs) s =
     (case disk_call s of
        (Some e, s1) \<Rightarrow> (Some e, s1)
      | (None, s1) \<Rightarrow> writeFiles body fs (s1\<lparr>sn_files := (sn_files s1)(f := body f)\<rparr>))"

definition writerApply :: "string list \<Rightarrow> Policy \<Rightarrow> SentinelSrv \<Rightarrow> error option \<times> SentinelSrv" where
  "writerApply order p s =
     (case disk_call s of
        (Some e, s1) \<Rightarrow> (Some e, s1)
      | (None, s1) \<Rightarrow> writeFiles (renderPolicy p) order s1)"

definition sentinelApply :: "string list \<Rightarrow> int \<Rightarrow> Policy \<Rightarrow> SentinelSrv \<Rightarrow> error option \<times> SentinelSrv" where
  "sentinelApply order now p s =
     (if \<not> sn_licensed s then (Some (Errorf ''sentinel unlicensed''), s)
      else case writerApply order p s of
             (Some e, s1) \<Rightarrow> (Some e, s1)
           | (None, s1) \<Rightarrow> (None, s1\<lparr>sn_rules := length (po_Rules p), sn_lastApply := now\<rparr>))"

definition newSentinel :: "string \<Rightarrow> string \<Rightarrow> SentinelSrv" where
  "newSentinel confDir envLicensed =
     \<lparr>sn_confDir = (if confDir = [] then ''/etc/unbound/conf.d/generated'' else confDir),
      sn_licensed = (envLicensed \<noteq> ''false''), sn_lastApply = 0, sn_rules = 0, sn_files = Map.empty, sn_disk = []\<rparr>"

definition handlePolicyApply :: "string list \<Rightarrow> int \<Rightarrow> HttpRequest \<Rightarrow> SentinelSrv \<Rightarrow> HttpResponse \<times> SentinelSrv" where
  "handlePolicyApply order now r s =
     (if rq_Method r \<noteq> ''POST'' then (httpError ''method not allowed'' 405, s)
      else case Option.bind (json_dec_first (rq_Body r)) decodePolicy of
             None \<Rightarrow> (httpError ''invalid body'' 400, s)
           | Some p \<Rightarrow>
               (case sentinelApply order now p s of
                  (Some e, s1) \<Rightarrow> (httpError (Error e) 500, s1)
                | (None, s1) \<Rightarrow> (jsonResponse (JObj [(''status'', JStr ''applied'')]), s1)))"

text \<open>\<open>/rules/sync\<close> is the same handler.\<close>

definition handleRulesSync :: "string list \<Rightarrow> int \<Rightarrow> HttpRequest \<Rightarrow> SentinelSrv \<Rightarrow> HttpResponse \<times> SentinelSrv" where
  "handleRulesSync = handlePolicyApply"

definition licensedField :: "json \<Rightarrow> bool option" where
  "licensedField v =
     fold (\<lambda>m acc. case m of JBool b \<Rightarrow> Some b | JNull \<Rightarrow> None | _ \<Rightarrow> acc) (members ''licensed'' v) None"

definition handleLicenseCheck :: "HttpRequest \<Rightarrow> SentinelSrv \<Rightarrow> HttpResponse \<times> SentinelSrv" where
  "handleLicenseCheck r s =
     (if rq_Method r \<noteq> ''POST'' then (httpError ''method not allowed'' 405, s)
      else let s1 = (case Option.bind (json_dec_first (rq_Body r)) licensedField of
                       None \<Rightarrow> s | Some b \<Rightarrow> s\<lparr>sn_licensed := b\<rparr>)
           in (jsonResponse (JObj [(''licensed'', JBool (sn_licensed s1))]), s1))"

text \<open>The three commands of a reload: control channel, its status, and the signal.\<close>

definition reloadUnbound :: "error option \<Rightarrow> error option \<Rightarrow> error option \<Rightarrow> error option" where
  "reloadUnbound reload status killall =
     (if reload = None then None else case status of Some e \<Rightarrow> Some e | None \<Rightarrow> killall)"

definition handleReload :: "error option \<Rightarrow> error option \<Rightarrow> error option \<Rightarrow> HttpRequest \<Rightarrow> HttpResponse" where
  "handleReload reload status killall r =
     (if rq_Method r \<noteq> ''POST'' then httpError ''method not allowed'' 405
      else case reloadUnbound reload status killall of
             Some e \<Rightarrow> httpError (Error e) 500
           | None \<Rightarrow> jsonResponse (JObj [(''status'', JStr ''reloaded'')]))"

definition handleHealth :: HttpResponse where
  "handleHealth = jsonResponse (JObj [(''status'', JStr ''ok'')])"

definition handleMetrics :: "SentinelSrv \<Rightarrow> HttpResponse" where
  "handleMetrics s = jsonResponse (JObj [(''licensed'', JBool (sn_licensed s)), (''rules_active'', JInt (int (sn_rules s)))])"

text \<open>The time of the last policy is formatted by \<open>time.Time\<close>'s own encoder.\<close>

definition handleStatus :: "(int \<Rightarrow> string) \<Rightarrow> SentinelSrv \<Rightarrow> HttpResponse" where
  "handleStatus fmtTime s =
     jsonResponse (JObj [(''conf_dir'', JStr (sn_confDir s)), (''last_apply'', JStr (fmtTime (sn_lastApply s))),
                         (''licensed'', JBool (sn_licensed s)), (''rules'', JInt (int (sn_rules s)))])"


text \<open>The routes of the server, and the paths it does not know.\<close>

definition sentinelServe ::
  "string \<Rightarrow> string list \<Rightarrow> int \<Rightarrow> (int \<Rightarrow> string) \<Rightarrow> error option \<times> error option \<times> error option \<Rightarrow> SentinelSrv exchange" where
  "sentinelServe base order now fmtTime cmds s r =
     (if rq_URL r = base @ ''/health'' then (Inr handleHealth, s)
      else if rq_URL r = base @ ''/status'' then (Inr (handleStatus fmtTime s), s)
      else if rq_URL r = base @ ''/license/check'' then (case handleLicenseCheck r s of (resp, s') \<Rightarrow> (Inr resp, s'))
      else if rq_URL r = base @ ''/policy/apply'' then (case handlePolicyApply order now r s of (resp, s') \<Rightarrow> (Inr resp, s'))
      else if rq_URL r = base @ ''/rules/sync'' then (case handleRulesSync order now r s of (resp, s') \<Rightarrow> (Inr resp, s'))
      else if rq_URL r = base @ ''/reload'' then (Inr (case cmds of (a, b, c) \<Rightarrow> handleReload a b c r), s)
      else if rq_URL r = base @ ''/metrics'' then (Inr (handleMetrics s), s)
      else (Inr (httpError ''404 page not found'' 404), s))"


section \<open>Rendering\<close>

abbreviation blocking :: "Rule \<Rightarrow> bool" where
  "blocking r \<equiv> rl_Enabled r \<and> ruleAction r \<in> set blockActions"

lemma actions_disjoint:
  "a \<in> set blockActions \<Longrightarrow> a \<notin> set allowActions" "a \<in> set blockActions \<Longrightarrow> a \<notin> set rewriteActions"
  by (auto simp: blockActions_def allowActions_def rewriteActions_def)

lemma renderRules_blocks:
  "fst (renderRules rs acc) = fst acc @ concat (map (\<lambda>r. zoneLine (blockZone r) ''always_nxdomain'') (filter blocking rs))"
proof (induction rs arbitrary: acc)
  case (Cons r rs)
  obtain b a w where acc: "acc = (b, a, w)" by (cases acc)
  have "renderRules (r # rs) acc = renderRules rs (if blocking r then b @ zoneLine (blockZone r) ''always_nxdomain'' else b,
      fst (snd (if \<not> rl_Enabled r \<or> ruleAction r \<in> set blockActions then acc
                else if ruleAction r \<in> set allowActions then (b, a @ zoneLine (dnsZone (rl_Target r)) ''transparent'', w) else acc)),
      snd (snd (renderRules [r] acc)))"
    using acc by (simp add: Let_def)
  then show ?case using Cons.IH acc by simp
qed simp

lemma Split_line: "CHR 0x0A \<notin> set l \<Longrightarrow> Split (l @ NL @ rest) (CHR 0x0A) = l # Split rest (CHR 0x0A)"
  by (induction l) auto

lemma zoneLine_split:
  "CHR 0x0A \<notin> set kind \<Longrightarrow>
   Split (zoneLine z kind @ rest) (CHR 0x0A) = (''local-zone: '' @ Quote z @ '' '' @ kind) # Split rest (CHR 0x0A)"
  using Split_line [of "''local-zone: '' @ Quote z @ '' '' @ kind" rest] Quote_no_newline [of z]
  by (simp add: zoneLine_def)

lemma zoneLines_split:
  "Split (concat (map (\<lambda>r. zoneLine (f r) ''always_nxdomain'') rs)) (CHR 0x0A) =
   map (\<lambda>r. ''local-zone: '' @ Quote (f r) @ '' always_nxdomain'') rs @ [[]]"
  by (induction rs) (simp_all add: zoneLine_split)


section \<open>Writing\<close>

lemma disk_callE:
  assumes "disk_call s = (oe, s')"
  obtains fs where "s' = s\<lparr>sn_disk := fs\<rparr>"
proof (cases "sn_disk s")
  case Nil
  then have "s' = s\<lparr>sn_disk := sn_disk s\<rparr>" using assms by (simp add: disk_call_def)
  then show thesis by (rule that)
next
  case (Cons f fs)
  then have "s' = s\<lparr>sn_disk := fs\<rparr>" using assms by (simp add: disk_call_def)
  then show thesis by (rule that)
qed

lemma writeFiles_ok:
  "writeFiles body fs s = (None, s') \<Longrightarrow>
   sn_files s' = (\<lambda>f. if f \<in> set fs then body f else sn_files s f) \<and> sn_licensed s' = sn_licensed s"
proof (induction fs arbitrary: s)
  case (Cons f fs)
  obtain oe s1 where c: "disk_call s = (oe, s1)" by (rule prod.exhaust)
  then obtain ds where s1: "s1 = s\<lparr>sn_disk := ds\<rparr>" by (rule disk_callE)
  have "oe = None" using Cons.prems c by (cases oe) simp_all
  then have "writeFiles body fs (s1\<lparr>sn_files := (sn_files s1)(f := body f)\<rparr>) = (None, s')" using Cons.prems c by simp
  from Cons.IH [OF this] s1 show ?case by (auto simp: fun_eq_iff)
qed simp

lemma sentinelApply_ok:
  assumes "sentinelApply order now p s = (None, s')"
  shows "sn_licensed s \<and> sn_files s' = (\<lambda>f. if f \<in> set order then renderPolicy p f else sn_files s f) \<and>
    sn_rules s' = length (po_Rules p) \<and> sn_lastApply s' = now"
proof -
  obtain oe s1 where c: "disk_call s = (oe, s1)" by (rule prod.exhaust)
  then obtain ds where s1: "s1 = s\<lparr>sn_disk := ds\<rparr>" by (rule disk_callE)
  have lic: "sn_licensed s" using assms by (auto simp: sentinelApply_def split: if_splits)
  have oe: "oe = None" using assms lic c by (cases oe) (auto simp: sentinelApply_def writerApply_def)
  obtain oe2 s2 where w: "writeFiles (renderPolicy p) order s1 = (oe2, s2)" by (rule prod.exhaust)
  have "oe2 = None" "s' = s2\<lparr>sn_rules := length (po_Rules p), sn_lastApply := now\<rparr>"
    using assms lic c oe w by (cases oe2; auto simp: sentinelApply_def writerApply_def)+
  then show ?thesis using writeFiles_ok [of "renderPolicy p" order s1 s2] w s1 lic by (simp add: fun_eq_iff)
qed


lemma handlePolicyApply_ok:
  assumes "handlePolicyApply order now r s = (resp, s')" "rs_Status resp div 100 = 2"
  shows "rq_Method r = ''POST'' \<and> (\<exists>p. Option.bind (json_dec_first (rq_Body r)) decodePolicy = Some p \<and>
      sentinelApply order now p s = (None, s'))"
  using assms by (auto simp: handlePolicyApply_def httpError_def jsonResponse_def split: if_splits option.splits prod.splits)


section \<open>Properties\<close>

text \<open>
  The block list is exact: its lines are, in order, one zone line for each enabled rule whose
  action is a block, and nothing else. No target can add a line of its own, since targets are
  quoted.
\<close>

theorem blocklist_lines:
  "\<exists>b. renderPolicy p ''blocklist.conf'' = Some b \<and>
     Split b (CHR 0x0A) = map (\<lambda>r. ''local-zone: '' @ Quote (blockZone r) @ '' always_nxdomain'') (filter blocking (po_Rules p)) @ [[]]"
proof -
  obtain b a w where r: "renderRules (po_Rules p) ([], [], []) = (b, a, w)" by (rule prod_cases3)
  then have "b = concat (map (\<lambda>r. zoneLine (blockZone r) ''always_nxdomain'') (filter blocking (po_Rules p)))"
    using renderRules_blocks [of "po_Rules p" "([], [], [])"] by simp
  then show ?thesis using r by (simp add: renderPolicy_def zoneLines_split)
qed

text \<open>
  C38. A policy takes effect only on a licensed sidecar, and then completely: when the handler
  answers 200 the sidecar was licensed, the body was a policy, and the five generated files are its
  rendering, whatever the order in which they were written; other files are untouched. When the
  sidecar is not licensed nothing changes and the answer is an error.
\<close>

theorem handlePolicyApply_licensed:
  assumes "set order = set policyFiles" "handlePolicyApply order now r s = (resp, s')"
  shows "(rs_Status resp = 200 \<longrightarrow>
      sn_licensed s \<and> (\<exists>p. Option.bind (json_dec_first (rq_Body r)) decodePolicy = Some p \<and>
        sn_files s' = (\<lambda>f. if f \<in> set policyFiles then renderPolicy p f else sn_files s f) \<and> sn_rules s' = length (po_Rules p))) \<and>
    (\<not> sn_licensed s \<longrightarrow> s' = s \<and> rs_Status resp \<noteq> 200)"
proof (cases "rq_Method r = ''POST''")
  case False
  then show ?thesis using assms by (auto simp: handlePolicyApply_def httpError_def)
next
  case True
  show ?thesis
  proof (cases "Option.bind (json_dec_first (rq_Body r)) decodePolicy")
    case None
    then show ?thesis using assms True by (auto simp: handlePolicyApply_def httpError_def)
  next
    case (Some p)
    obtain oe s1 where a: "sentinelApply order now p s = (oe, s1)" by (rule prod.exhaust)
    show ?thesis
    proof (cases oe)
      case None
      then show ?thesis
        using assms True Some a sentinelApply_ok [of order now p s s1] by (simp add: handlePolicyApply_def)
    next
      case e: (Some e)
      then have "\<not> sn_licensed s \<longrightarrow> s1 = s" using a by (auto simp: sentinelApply_def)
      then show ?thesis using assms True Some a e by (auto simp: handlePolicyApply_def httpError_def)
    qed
  qed
qed


section \<open>Rewrites\<close>

text \<open>
  The value of a rewrite is printed as it is: a line break in it adds a line of configuration, and
  an action written with a capital is taken for the value when none is given.
\<close>

definition ex_rule :: "string \<Rightarrow> string \<Rightarrow> string \<Rightarrow> Rule" where
  "ex_rule target action v = \<lparr>rl_RuleType = ''domain'', rl_Target = target, rl_Action = action, rl_Value = v, rl_Enabled = True\<rparr>"

lemma rewrite_value_injects:
  "length (Split (snd (snd (renderRules [ex_rule ''a.b'' ''rewrite'' (''10.0.0.9'' @ NL @ ''include: x'')] ([], [], [])))) (CHR 0x0A)) = 4"
  by code_simp

lemma capital_action_is_value:
  "snd (snd (renderRules [ex_rule ''a.b'' ''Rewrite'' []] ([], [], []))) =
     zoneLine ''a.b.'' ''static'' @ ''local-data: '' @ Quote ''a.b.'' @ '' 60 IN A Rewrite'' @ NL"
  by code_simp


section \<open>Witness\<close>

definition ex_policy_body :: string where
  "ex_policy_body = json_enc (JObj [(''org_id'', JStr ''o1''), (''rules'', JList [JObj [(''target'', JStr ''*.Ads.example''),
     (''action'', JStr ''block''), (''enabled'', JBool True)]])])"

definition ex_post :: "string \<Rightarrow> HttpRequest" where
  "ex_post body = \<lparr>rq_Method = ''POST'', rq_URL = [], rq_Header = [], rq_Body = body\<rparr>"

theorem handlePolicyApply_licensed_witness:
  "\<exists>p s'. handlePolicyApply policyFiles 5 (ex_post ex_policy_body) (newSentinel [] []) =
       (jsonResponse (JObj [(''status'', JStr ''applied'')]), s') \<and>
     decodePolicy (the (json_dec_first ex_policy_body)) = Some p \<and> sn_files s' ''blocklist.conf'' = renderPolicy p ''blocklist.conf''"
proof -
  obtain resp s' where h: "handlePolicyApply policyFiles 5 (ex_post ex_policy_body) (newSentinel [] []) = (resp, s')"
    by (rule prod.exhaust)
  have st: "fst (handlePolicyApply policyFiles 5 (ex_post ex_policy_body) (newSentinel [] [])) = jsonResponse (JObj [(''status'', JStr ''applied'')])"
    by code_simp
  have "''blocklist.conf'' \<in> set policyFiles" by (simp add: policyFiles_def)
  moreover have "rs_Status (jsonResponse (JObj [(''status'', JStr ''applied'')])) = 200" by (simp add: jsonResponse_def)
  ultimately show ?thesis
    using handlePolicyApply_licensed [OF refl h] h st by (auto simp: ex_post_def bind_eq_Some_conv)
qed

end
