(* ===== verification/Firewall.thy ===== *)
theory Firewall
  imports Sentinel Config "HOL-Library.List_Lexorder" "HOL-Library.Char_ord"
begin

text \<open>
  The firewall client (\<open>src/internal/firewall/client.go\<close>): applying a policy from the gateway to the
  Sentinel sidecar or to AdGuard Home, restarting it, and its administrator credentials. Requests
  go through an exchange function; a URL that does not parse counts as a failed exchange.
\<close>

section \<open>Payload\<close>

record SyncPayload =
  py_OrgID :: string
  py_NodeID :: string
  py_ServiceKind :: string
  py_Rules :: "Rule list"
  py_Upstreams :: "string list option"
  py_Licensed :: bool
  py_ShieldAdmin :: string

text \<open>A list that keeps the difference between nil and empty.\<close>

definition into_slice :: "json \<Rightarrow> string list option \<Rightarrow> string list option option" where
  "into_slice v old = (case v of JNull \<Rightarrow> Some None | _ \<Rightarrow> map_option Some (into_list (\<lambda>x. into_string x []) v []))"

definition decodePayload :: "json \<Rightarrow> SyncPayload option" where
  "decodePayload v =
     (if \<not> is_struct v then None
      else case (string_field ''org_id'' v, string_field ''node_id'' v, string_field ''service_kind'' v,
                 field (into_list decodeRule) [] ''rules'' v, field into_slice None ''upstreams'' v,
                 bool_field ''licensed'' v, string_field ''shield_admin_url'' v) of
             (Some org, Some node, Some kind, Some rules, Some ups, Some lic, Some adm) \<Rightarrow>
               Some \<lparr>py_OrgID = org, py_NodeID = node, py_ServiceKind = kind, py_Rules = rules,
                     py_Upstreams = ups, py_Licensed = lic, py_ShieldAdmin = adm\<rparr>
           | _ \<Rightarrow> None)"

definition emptyPayload :: SyncPayload where
  "emptyPayload = \<lparr>py_OrgID = [], py_NodeID = [], py_ServiceKind = [], py_Rules = [], py_Upstreams = None,
     py_Licensed = False, py_ShieldAdmin = []\<rparr>"

definition ruleJSON :: "Rule \<Rightarrow> json" where
  "ruleJSON r =
     JObj ([(''rule_type'', JStr (rl_RuleType r)), (''target'', JStr (rl_Target r)), (''action'', JStr (rl_Action r))] @
           (if rl_Value r = [] then [] else [(''value'', JStr (rl_Value r))]) @
           [(''enabled'', JBool (rl_Enabled r))])"

text \<open>The policy for the sidecar; the rules are nil when there are none.\<close>

definition payloadPolicyJSON :: "SyncPayload \<Rightarrow> json" where
  "payloadPolicyJSON p =
     JObj [(''org_id'', JStr (py_OrgID p)), (''node_id'', JStr (py_NodeID p)),
           (''rules'', if py_Rules p = [] then JNull else JList (map ruleJSON (py_Rules p))),
           (''upstreams'', case py_Upstreams p of None \<Rightarrow> JNull | Some us \<Rightarrow> JList (map JStr us))]"


section \<open>Client\<close>

record FwClient =
  fc_cfg :: Config
  fc_licensed :: bool

definition newFwClient :: "Config \<Rightarrow> FwClient" where
  "newFwClient cfg = \<lparr>fc_cfg = cfg, fc_licensed = True\<rparr>"

definition statusError :: "string \<Rightarrow> HttpResponse \<Rightarrow> nat \<Rightarrow> error" where
  "statusError url resp limit =
     Errorf (url @ '': '' @ Itoa (int (rs_Status resp)) @ '' '' @ TrimSpace (take limit (rs_Body resp)))"

text \<open>\<open>post\<close> and \<open>postAuth\<close>: a nil body sends no content type.\<close>

definition fwPost ::
  "'w exchange \<Rightarrow> (string \<times> string) list \<Rightarrow> string \<Rightarrow> string option \<Rightarrow> 'w \<Rightarrow> error option \<times> 'w" where
  "fwPost ex auth url0 body w =
     (let url = TrimSpace url0 in
      if url = [] then (Some (Errorf ''empty URL''), w)
      else case ex w \<lparr>rq_Method = ''POST'', rq_URL = url,
               rq_Header = (if body = None then [] else [(''Content-Type'', ''application/json'')]) @ auth,
               rq_Body = (case body of None \<Rightarrow> [] | Some b \<Rightarrow> b)\<rparr> of
             (Inl e, w') \<Rightarrow> (Some e, w')
           | (Inr resp, w') \<Rightarrow>
               (if rs_Status resp div 100 \<noteq> 2 then (Some (statusError url resp 512), w') else (None, w')))"

definition adminUser :: "FwClient \<Rightarrow> string" where
  "adminUser c = (if cfg_ShieldAdminUser (fc_cfg c) \<noteq> [] then cfg_ShieldAdminUser (fc_cfg c) else ''admin'')"

definition adminAuth :: "FwClient \<Rightarrow> (string \<times> string) list" where
  "adminAuth c = [basicAuth (adminUser c) (cfg_ShieldAdminPassword (fc_cfg c))]"

definition fwGetAuth :: "'w exchange \<Rightarrow> FwClient \<Rightarrow> string \<Rightarrow> 'w \<Rightarrow> string result \<times> 'w" where
  "fwGetAuth ex c url0 w =
     (let url = TrimSpace url0 in
      if url = [] then (Inl (Errorf ''empty URL''), w)
      else case ex w \<lparr>rq_Method = ''GET'', rq_URL = url, rq_Header = adminAuth c, rq_Body = []\<rparr> of
             (Inl e, w') \<Rightarrow> (Inl e, w')
           | (Inr resp, w') \<Rightarrow>
               (if rs_Status resp div 100 \<noteq> 2 then (Inl (statusError url resp 1048576), w')
                else (Inr (take 1048576 (rs_Body resp)), w')))"

definition shieldBase :: "FwClient \<Rightarrow> string" where
  "shieldBase c = TrimRight (cfg_ShieldAdminURL (fc_cfg c)) ''/''"

definition syncSentinel :: "'w exchange \<Rightarrow> FwClient \<Rightarrow> SyncPayload \<Rightarrow> 'w \<Rightarrow> error option \<times> 'w" where
  "syncSentinel ex c p w =
     (if \<not> fc_licensed c then (Some (Errorf ''sentinel unlicensed''), w)
      else let api = cfg_SentinelAPIURL (fc_cfg c);
               (_, w1) = fwPost ex [] (api @ ''/license/check'') (Some (json_enc (JObj [(''licensed'', JBool (fc_licensed c))]))) w
           in if \<not> fc_licensed c then (Some (Errorf ''sentinel unlicensed''), w1)
              else case fwPost ex [] (api @ ''/policy/apply'') (Some (json_enc (payloadPolicyJSON p))) w1 of
                     (Some e, w2) \<Rightarrow> (Some e, w2)
                   | (None, w2) \<Rightarrow> fwPost ex [] (api @ ''/reload'') None w2)"

definition syncShield :: "'w exchange \<Rightarrow> FwClient \<Rightarrow> 'w \<Rightarrow> error option \<times> 'w" where
  "syncShield ex c w =
     (if shieldBase c = [] then (None, w)
      else fwPost ex (adminAuth c) (shieldBase c @ ''/control/cache_clear'') (Some ''{}'') w)"

text \<open>The message of a decoding error is the decoder's.\<close>

definition Sync :: "'w exchange \<Rightarrow> error \<Rightarrow> string \<Rightarrow> FwClient \<Rightarrow> 'w \<Rightarrow> error option \<times> FwClient \<times> 'w" where
  "Sync ex decErr raw c w =
     (if \<not> HasFirewallService (fc_cfg c) then (Some (Errorf ''firewall service not configured''), c, w)
      else case (if raw = [] then Some emptyPayload else Option.bind (json_dec raw) decodePayload) of
             None \<Rightarrow> (Some (Wrapf ''invalid sync args: '' decErr []), c, w)
           | Some p \<Rightarrow>
               (let c1 = c\<lparr>fc_licensed := py_Licensed p\<rparr>
                in if cfg_FirewallProvider (fc_cfg c) = FirewallUnboundErebrus
                   then (case syncSentinel ex c1 p w of (oe, w') \<Rightarrow> (oe, c1, w'))
                   else if cfg_FirewallProvider (fc_cfg c) = FirewallAdGuardHome
                   then (case syncShield ex c1 w of (oe, w') \<Rightarrow> (oe, c1, w'))
                   else (Some (Errorf (''unsupported firewall provider '' @ Quote (cfg_FirewallProvider (fc_cfg c)))), c1, w)))"

definition Restart :: "'w exchange \<Rightarrow> FwClient \<Rightarrow> 'w \<Rightarrow> error option \<times> 'w" where
  "Restart ex c w =
     (if cfg_FirewallProvider (fc_cfg c) = FirewallUnboundErebrus
      then fwPost ex [] (cfg_SentinelAPIURL (fc_cfg c) @ ''/reload'') None w
      else if cfg_FirewallProvider (fc_cfg c) = FirewallAdGuardHome
      then (if shieldBase c = [] then (None, w)
            else fwPost ex [] (shieldBase c @ ''/control/restart'') (Some ''{}'') w)
      else (Some (Errorf ''firewall not configured''), w))"

definition AdminCredentials :: "FwClient \<Rightarrow> string \<times> string \<times> string" where
  "AdminCredentials c = (adminUser c, cfg_ShieldAdminPassword (fc_cfg c), shieldBase c)"

definition configureBody :: "string \<Rightarrow> string \<Rightarrow> string" where
  "configureBody user password =
     json_enc (JObj [(''dns'', JObj [(''ip'', JStr ''0.0.0.0''), (''port'', JInt 53)]),
                     (''password'', JStr password), (''username'', JStr user),
                     (''web'', JObj [(''ip'', JStr ''0.0.0.0''), (''port'', JInt 3000)])])"

definition defaultShieldUpstreams :: "string list" where
  "defaultShieldUpstreams = [''1.1.1.1'', ''1.0.0.1'']"

definition shieldUpstreams :: "FwClient \<Rightarrow> string list" where
  "shieldUpstreams c =
     (let raw = TrimSpace (cfg_ShieldUpstreamDNS (fc_cfg c));
          out = filter (\<lambda>u. u \<noteq> []) (map TrimSpace (Split raw CHR '',''))
      in if raw = [] then defaultShieldUpstreams else if out = [] then defaultShieldUpstreams else out)"

definition isStockUpstreams :: "json option \<Rightarrow> bool" where
  "isStockUpstreams v =
     (case v of
        Some (JList vs) \<Rightarrow>
          list_all (\<lambda>x. Contains (case x of JStr s \<Rightarrow> s | _ \<Rightarrow> []) ''dns10.quad9.net'') vs
      | _ \<Rightarrow> True)"

text \<open>
  An object decoded into a Go map keeps the last member of each name; a map is written in the
  order of the names, with the numbers as \<open>fmtNum\<close> prints them.
\<close>

fun lastByKey :: "(string \<times> 'a) list \<Rightarrow> (string \<times> 'a) list" where
  "lastByKey [] = []"
| "lastByKey (kv # kvs) = (if fst kv \<in> fst ` set kvs then lastByKey kvs else kv # lastByKey kvs)"

fun reprint :: "(string \<Rightarrow> string) \<Rightarrow> json \<Rightarrow> json" where
  "reprint fmtNum (JNum s) = JNum (fmtNum s)"
| "reprint fmtNum (JList vs) = JList (map (reprint fmtNum) vs)"
| "reprint fmtNum (JObj kvs) = JObj (sort_key fst (lastByKey (map (\<lambda>kv. (fst kv, reprint fmtNum (snd kv))) kvs)))"
| "reprint fmtNum v = v"

text \<open>A call that returns an error or nil, or panics.\<close>

datatype outcome = Returned "error option" | Panicked

definition ensureShieldUpstreams ::
  "'w exchange \<Rightarrow> (string \<Rightarrow> string) \<Rightarrow> error \<Rightarrow> FwClient \<Rightarrow> 'w \<Rightarrow> outcome \<times> 'w" where
  "ensureShieldUpstreams ex fmtNum decErr c w =
     (if shieldBase c = [] then (Returned None, w)
      else case fwGetAuth ex c (shieldBase c @ ''/control/dns_info'') w of
             (Inl e, w1) \<Rightarrow> (Returned (Some e), w1)
           | (Inr raw, w1) \<Rightarrow>
               (case json_dec raw of
                  Some (JObj kvs) \<Rightarrow>
                    (if \<not> isStockUpstreams (map_of (lastByKey kvs) ''upstream_dns'') then (Returned None, w1)
                     else let cfg = filter (\<lambda>(k, _). k \<noteq> ''upstream_dns'') kvs @
                                    [(''upstream_dns'', JList (map JStr (shieldUpstreams c)))]
                          in case fwPost ex (adminAuth c) (shieldBase c @ ''/control/dns_config'')
                                    (Some (json_enc (reprint fmtNum (JObj cfg)))) w1 of
                               (oe, w2) \<Rightarrow> (Returned oe, w2))
                | Some JNull \<Rightarrow> (Panicked, w1)
                | _ \<Rightarrow> (Returned (Some (Wrapf ''parse adguard dns_info: '' decErr [])), w1)))"

definition ConfigureAdmin ::
  "'w exchange \<Rightarrow> (string \<Rightarrow> string) \<Rightarrow> error \<Rightarrow> FwClient \<Rightarrow> 'w \<Rightarrow> outcome \<times> 'w" where
  "ConfigureAdmin ex fmtNum decErr c w =
     (if cfg_FirewallProvider (fc_cfg c) \<noteq> FirewallAdGuardHome \<or> cfg_ShieldAdminPassword (fc_cfg c) = [] then (Returned None, w)
      else if shieldBase c = [] then (Returned None, w)
      else let (_, w1) = fwPost ex [] (shieldBase c @ ''/control/install/configure'')
                           (Some (configureBody (adminUser c) (cfg_ShieldAdminPassword (fc_cfg c)))) w
           in ensureShieldUpstreams ex fmtNum decErr c w1)"

definition SetAdminPassword ::
  "'w exchange \<Rightarrow> string \<Rightarrow> string \<Rightarrow> FwClient \<Rightarrow> 'w \<Rightarrow> error option \<times> FwClient \<times> 'w" where
  "SetAdminPassword ex user0 password c w =
     (if cfg_FirewallProvider (fc_cfg c) \<noteq> FirewallAdGuardHome \<or> password = [] then (None, c, w)
      else if shieldBase c = [] then (None, c, w)
      else let user = (if user0 = [] then adminUser c else user0);
               c1 = c\<lparr>fc_cfg := (fc_cfg c)\<lparr>cfg_ShieldAdminUser := user, cfg_ShieldAdminPassword := password\<rparr>\<rparr>
           in case fwPost ex [] (shieldBase c @ ''/control/install/configure'') (Some (configureBody user password)) w of
                (oe, w1) \<Rightarrow> (oe, c1, w1))"

definition ResetCredentials :: "'w exchange \<Rightarrow> FwClient \<Rightarrow> 'w \<Rightarrow> error option \<times> 'w" where
  "ResetCredentials ex c w =
     (if cfg_FirewallProvider (fc_cfg c) \<noteq> FirewallAdGuardHome \<or> shieldBase c = [] then (None, w)
      else (None, snd (fwPost ex [] (shieldBase c @ ''/control/cache_clear'') (Some ''{}'') w)))"

text \<open>A \<open>licensed\<close> of the wrong type leaves the field false; the error is ignored.\<close>

definition licensedOf :: "string \<Rightarrow> bool" where
  "licensedOf raw =
     (case json_dec raw of
        Some v \<Rightarrow> fold (\<lambda>m acc. case m of JBool b \<Rightarrow> b | _ \<Rightarrow> acc) (members ''licensed'' v) False
      | None \<Rightarrow> False)"

definition CheckLicense :: "'w exchange \<Rightarrow> FwClient \<Rightarrow> 'w \<Rightarrow> bool result \<times> FwClient \<times> 'w" where
  "CheckLicense ex c w =
     (if cfg_FirewallProvider (fc_cfg c) \<noteq> FirewallUnboundErebrus then (Inr True, c, w)
      else case ex w \<lparr>rq_Method = ''POST'', rq_URL = TrimRight (cfg_SentinelAPIURL (fc_cfg c)) ''/'' @ ''/license/check'',
               rq_Header = [(''Content-Type'', ''application/json'')], rq_Body = ''{}''\<rparr> of
             (Inl e, w1) \<Rightarrow> (Inl e, c, w1)
           | (Inr resp, w1) \<Rightarrow>
               (if rs_Status resp div 100 \<noteq> 2 then (Inl (Errorf (''license check: '' @ Itoa (int (rs_Status resp)))), c, w1)
                else let lic = licensedOf (take 65536 (rs_Body resp)) in (Inr lic, c\<lparr>fc_licensed := lic\<rparr>, w1)))"


section \<open>The policy on the wire\<close>

definition payloadPolicy :: "SyncPayload \<Rightarrow> Policy" where
  "payloadPolicy p =
     \<lparr>po_OrgID = py_OrgID p, po_NodeID = py_NodeID p, po_Rules = py_Rules p,
      po_Upstreams = (case py_Upstreams p of None \<Rightarrow> [] | Some us \<Rightarrow> us)\<rparr>"

lemma json_ok_rule: "json_ok (ruleJSON r)"
  by (auto simp: ruleJSON_def intro!: json_ok.intros split: if_splits)

lemma json_ok_policy: "json_ok (payloadPolicyJSON p)"
  by (auto simp: payloadPolicyJSON_def json_ok_rule intro!: json_ok.intros split: if_splits option.splits)

lemma decodeRule_ruleJSON: "decodeRule (ruleJSON r) = Some r"
  by (simp add: decodeRule_def ruleJSON_def is_struct_def string_field_def bool_field_def field_def members_def
      EqualFold_def ToLower_def lower_char_def)

lemma those_map_Some: "(\<And>x. x \<in> set xs \<Longrightarrow> f (g x) = Some x) \<Longrightarrow> those (map f (map g xs)) = Some xs"
  by (induction xs) simp_all

lemma decodePolicy_payload: "decodePolicy (payloadPolicyJSON p) = Some (payloadPolicy p)"
proof -
  have r: "those (map decodeRule (map ruleJSON (py_Rules p))) = Some (py_Rules p)"
    by (rule those_map_Some) (simp add: decodeRule_ruleJSON)
  have u: "those (map (\<lambda>v. into_string v []) (map JStr us)) = Some us" for us
    by (rule those_map_Some) simp
  show ?thesis
    using r u
    by (auto simp: decodePolicy_def payloadPolicyJSON_def payloadPolicy_def is_struct_def string_field_def
        strings_field_def field_def members_def EqualFold_def ToLower_def lower_char_def comp_def split: option.splits)
qed

lemma json_first_roundtrip: "json_ok v \<Longrightarrow> json_dec_first (json_enc v) = Some v"
  using parse_enc(1) [of v "[]"] by (simp add: json_dec_first_def)


section \<open>The sidecar behind the client\<close>

lemma TrimSpace_url: "api \<noteq> [] \<Longrightarrow> \<not> IsSpace (hd api) \<Longrightarrow> path \<noteq> [] \<Longrightarrow> \<not> IsSpace (last path) \<Longrightarrow> TrimSpace (api @ path) = api @ path"
  by (rule TrimSpace_id) simp

text \<open>
  What the client relies on: a policy the sidecar accepts is the one its files render, and neither
  a license notice nor a reload changes the files.
\<close>

locale policy_sidecar =
  fixes ex :: "'w exchange" and api :: string and files :: "'w \<Rightarrow> string \<rightharpoonup> string"
  assumes accepted: "ex w r = (Inr resp, w') \<Longrightarrow> rq_URL r = api @ ''/policy/apply'' \<Longrightarrow> rs_Status resp div 100 = 2 \<Longrightarrow>
      Option.bind (json_dec_first (rq_Body r)) decodePolicy = Some p \<Longrightarrow> f \<in> set policyFiles \<Longrightarrow> files w' f = renderPolicy p f"
    and reload_keeps: "ex w r = (x, w') \<Longrightarrow> rq_URL r = api @ ''/reload'' \<Longrightarrow> files w' = files w"
    and api_url: "api \<noteq> []" "\<not> IsSpace (hd api)"
begin

lemma urls: "TrimSpace (api @ ''/policy/apply'') = api @ ''/policy/apply''" "TrimSpace (api @ ''/reload'') = api @ ''/reload''"
  by (rule TrimSpace_url [OF api_url]; simp add: IsSpace_def)+

lemma post_reload: "fwPost ex [] (api @ ''/reload'') body w = (oe, w') \<Longrightarrow> files w' = files w"
  by (auto simp: fwPost_def Let_def urls api_url split: prod.splits sum.splits if_splits dest!: reload_keeps)

lemma post_policy:
  assumes "fwPost ex [] (api @ ''/policy/apply'') (Some (json_enc (payloadPolicyJSON p))) w = (None, w')" "f \<in> set policyFiles"
  shows "files w' f = renderPolicy (payloadPolicy p) f"
proof -
  let ?r = "\<lparr>rq_Method = ''POST'', rq_URL = api @ ''/policy/apply'', rq_Header = [(''Content-Type'', ''application/json'')],
    rq_Body = json_enc (payloadPolicyJSON p)\<rparr>"
  obtain x w1 where e: "ex w ?r = (x, w1)" by (rule prod.exhaust)
  then obtain resp where "x = Inr resp" "w1 = w'" "rs_Status resp div 100 = 2"
    using assms(1) by (cases x) (auto simp: fwPost_def urls api_url Let_def split: if_splits)
  then show ?thesis
    using accepted [of w ?r resp w' "payloadPolicy p" f] e assms(2)
    by (simp add: json_first_roundtrip json_ok_policy decodePolicy_payload)
qed

lemma syncSentinel_applies:
  assumes "syncSentinel ex c p w = (None, w')" "cfg_SentinelAPIURL (fc_cfg c) = api" "f \<in> set policyFiles"
  shows "files w' f = renderPolicy (payloadPolicy p) f"
proof -
  obtain x w1 where "fwPost ex [] (api @ ''/license/check'') (Some (json_enc (JObj [(''licensed'', JBool (fc_licensed c))]))) w = (x, w1)"
    by (rule prod.exhaust)
  moreover obtain oe w2 where a: "fwPost ex [] (api @ ''/policy/apply'') (Some (json_enc (payloadPolicyJSON p))) w1 = (oe, w2)"
    by (rule prod.exhaust)
  ultimately have "oe = None" "fwPost ex [] (api @ ''/reload'') None w2 = (None, w')"
    using assms(1,2) by (cases oe; auto simp: syncSentinel_def Let_def split: if_splits)+
  then show ?thesis using post_policy [of p w1 w2 f] post_reload a assms(3) by metis
qed

end

lemma URL_append_neq: "base @ x = base @ y \<longleftrightarrow> x = y"
  by simp

lemma sentinelServe_reload: "sentinelServe base order now fmtTime cmds s r = (x, s') \<Longrightarrow> rq_URL r = base @ ''/reload'' \<Longrightarrow> s' = s"
  by (auto simp: sentinelServe_def)

lemma sentinelServe_apply:
  "sentinelServe base order now fmtTime cmds s r = (x, s') \<Longrightarrow> rq_URL r = base @ ''/policy/apply'' \<Longrightarrow>
   \<exists>resp. x = Inr resp \<and> handlePolicyApply order now r s = (resp, s')"
  by (auto simp: sentinelServe_def split: prod.splits)

definition sidecarBase :: string where
  "sidecarBase = ''http://erebrus-sentinel:8788''"

lemma sidecar_order:
  assumes "set order = set policyFiles"
  shows "policy_sidecar (sentinelServe sidecarBase order now fmtTime cmds) sidecarBase sn_files"
proof unfold_locales
  fix w r resp w' p f
  assume s: "sentinelServe sidecarBase order now fmtTime cmds w r = (Inr resp, w')" "rq_URL r = sidecarBase @ ''/policy/apply''"
    "rs_Status resp div 100 = 2" "Option.bind (json_dec_first (rq_Body r)) decodePolicy = Some p" "f \<in> set policyFiles"
  from sentinelServe_apply [OF s(1,2)] have "handlePolicyApply order now r w = (resp, w')" by simp
  from handlePolicyApply_ok [OF this s(3)] s(4) have "sentinelApply order now p w = (None, w')" by auto
  from sentinelApply_ok [OF this] s(5) assms show "sn_files w' f = renderPolicy p f" by simp
next
  show "sidecarBase \<noteq> []" "\<not> IsSpace (hd sidecarBase)" by code_simp+
qed (auto dest: sentinelServe_reload)

interpretation sidecar: policy_sidecar "sentinelServe sidecarBase policyFiles now fmtTime cmds" sidecarBase sn_files
  for now fmtTime cmds
  by (rule sidecar_order) simp

lemma SyncE:
  assumes "Sync ex decErr raw c w = (None, c', w')" "cfg_FirewallProvider (fc_cfg c) = FirewallUnboundErebrus"
  obtains p where "(if raw = [] then Some emptyPayload else Option.bind (json_dec raw) decodePayload) = Some p"
    "c' = c\<lparr>fc_licensed := py_Licensed p\<rparr>" "syncSentinel ex c' p w = (None, w')"
  using assms by (auto simp: Sync_def Let_def split: if_splits option.splits prod.splits)

text \<open>The three requests of a synchronisation, answered by a licensed sidecar on a working host.\<close>

lemma fwPost_sidecar:
  assumes "path \<in> {''/license/check'', ''/policy/apply'', ''/reload''}"
  shows "fwPost ex [] (sidecarBase @ path) body w =
    (case ex w \<lparr>rq_Method = ''POST'', rq_URL = sidecarBase @ path,
        rq_Header = (if body = None then [] else [(''Content-Type'', ''application/json'')]), rq_Body = (case body of None \<Rightarrow> [] | Some b \<Rightarrow> b)\<rparr> of
       (Inl e, w') \<Rightarrow> (Some e, w')
     | (Inr resp, w') \<Rightarrow> if rs_Status resp div 100 \<noteq> 2 then (Some (statusError (sidecarBase @ path) resp 512), w') else (None, w'))"
proof -
  have "TrimSpace (sidecarBase @ path) = sidecarBase @ path" using assms by (auto intro!: TrimSpace_id) code_simp+
  moreover have "path \<noteq> []" using assms by auto
  ultimately show ?thesis by (simp add: fwPost_def Let_def)
qed

lemma license_notice: "Option.bind (json_dec_first (json_enc (JObj [(''licensed'', JBool b)]))) licensedField = Some b"
proof -
  have "json_ok (JObj [(''licensed'', JBool b)])" by (auto intro!: json_ok.intros)
  from json_first_roundtrip [OF this] show ?thesis by (simp add: licensedField_def members_def)
qed

lemma writeFiles_succeeds: "sn_disk s = [] \<Longrightarrow> \<exists>s'. writeFiles body fs s = (None, s')"
  by (induction fs arbitrary: s) (simp_all add: disk_call_def)

lemma sentinelApply_succeeds: "sn_licensed s \<Longrightarrow> sn_disk s = [] \<Longrightarrow> \<exists>s'. sentinelApply order now p s = (None, s')"
  using writeFiles_succeeds [of s "renderPolicy p" order] by (auto simp: sentinelApply_def writerApply_def disk_call_def)

lemma post_license:
  assumes "Option.bind (json_dec_first body) licensedField = Some b"
  shows "fwPost (sentinelServe sidecarBase order now fmtTime cmds) [] (sidecarBase @ ''/license/check'') (Some body) s =
    (None, s\<lparr>sn_licensed := b\<rparr>)"
  by (subst fwPost_sidecar) (simp_all add: sentinelServe_def handleLicenseCheck_def assms jsonResponse_def)

lemma post_apply:
  assumes "Option.bind (json_dec_first body) decodePolicy = Some p" "sentinelApply order now p s = (None, s')"
  shows "fwPost (sentinelServe sidecarBase order now fmtTime cmds) [] (sidecarBase @ ''/policy/apply'') (Some body) s = (None, s')"
  by (subst fwPost_sidecar) (simp_all add: sentinelServe_def handlePolicyApply_def assms jsonResponse_def)

lemma syncSentinel_succeeds:
  assumes "cfg_SentinelAPIURL (fc_cfg c) = sidecarBase" "fc_licensed c" "sn_disk s = []"
  shows "\<exists>s'. syncSentinel (sentinelServe sidecarBase order now fmtTime (None, b, k)) c p s = (None, s')"
proof -
  let ?ex = "sentinelServe sidecarBase order now fmtTime (None, b, k)"
  have l: "fwPost ?ex [] (sidecarBase @ ''/license/check'') (Some (json_enc (JObj [(''licensed'', JBool True)]))) s = (None, s\<lparr>sn_licensed := True\<rparr>)"
    by (rule post_license [OF license_notice])
  obtain s2 where s2: "sentinelApply order now (payloadPolicy p) (s\<lparr>sn_licensed := True\<rparr>) = (None, s2)"
    using sentinelApply_succeeds [of "s\<lparr>sn_licensed := True\<rparr>"] assms(3) by fastforce
  have a: "fwPost ?ex [] (sidecarBase @ ''/policy/apply'') (Some (json_enc (payloadPolicyJSON p))) (s\<lparr>sn_licensed := True\<rparr>) = (None, s2)"
    by (rule post_apply [OF _ s2]) (simp add: json_first_roundtrip json_ok_policy decodePolicy_payload)
  have "fwPost ?ex [] (sidecarBase @ ''/reload'') None s2 = (None, s2)"
    by (subst fwPost_sidecar) (simp_all add: sentinelServe_def handleReload_def reloadUnbound_def jsonResponse_def)
  then show ?thesis using assms l a by (simp add: syncSentinel_def Let_def del: json_enc.simps)
qed


section \<open>Properties\<close>

text \<open>
  C28. End to end: when \<open>Sync\<close> reports success with the Sentinel sidecar on the other side, the
  gateway's payload was licensed and the sidecar's generated files are the rendering of exactly
  the rules and upstreams of that payload, through both JSON encodings and whatever the order in
  which the sidecar wrote its files.
\<close>

theorem Sync_applies:
  assumes "set order = set policyFiles" "cfg_FirewallProvider (fc_cfg c) = FirewallUnboundErebrus" "cfg_SentinelAPIURL (fc_cfg c) = sidecarBase"
    and "Sync (sentinelServe sidecarBase order now fmtTime cmds) decErr raw c s = (None, c', s')"
  shows "\<exists>p. (if raw = [] then Some emptyPayload else Option.bind (json_dec raw) decodePayload) = Some p \<and>
    py_Licensed p \<and> fc_licensed c' \<and> (\<forall>f \<in> set policyFiles. sn_files s' f = renderPolicy (payloadPolicy p) f)"
proof -
  from assms(4,2) obtain p where p: "(if raw = [] then Some emptyPayload else Option.bind (json_dec raw) decodePayload) = Some p"
    "c' = c\<lparr>fc_licensed := py_Licensed p\<rparr>" "syncSentinel (sentinelServe sidecarBase order now fmtTime cmds) c' p s = (None, s')"
    by (rule SyncE)
  have "py_Licensed p" using p(2,3) by (auto simp: syncSentinel_def split: if_splits)
  moreover have "\<forall>f \<in> set policyFiles. sn_files s' f = renderPolicy (payloadPolicy p) f"
    using policy_sidecar.syncSentinel_applies [OF sidecar_order [OF assms(1)] p(3)] assms(3) p(2) by simp
  ultimately show ?thesis using p by (intro exI [of _ p]) simp
qed

text \<open>
  C29. A licensed payload gets through: on a working host, with a sidecar whose reload works, \<open>Sync\<close>
  succeeds, even when the sidecar was not licensed before.
\<close>

theorem Sync_succeeds:
  assumes "HasFirewallService (fc_cfg c)" "cfg_FirewallProvider (fc_cfg c) = FirewallUnboundErebrus" "cfg_SentinelAPIURL (fc_cfg c) = sidecarBase"
    and "raw \<noteq> []" "Option.bind (json_dec raw) decodePayload = Some p" "py_Licensed p" "sn_disk s = []"
  shows "fst (Sync (sentinelServe sidecarBase order now fmtTime (None, b, k)) decErr raw c s) = None"
proof -
  obtain s' where "syncSentinel (sentinelServe sidecarBase order now fmtTime (None, b, k)) (c\<lparr>fc_licensed := True\<rparr>) p s = (None, s')"
    using syncSentinel_succeeds [of "c\<lparr>fc_licensed := True\<rparr>"] assms(3,7) by fastforce
  then show ?thesis using assms by (simp add: Sync_def Let_def)
qed

text \<open>
  Resolvers an operator chose are left alone: when AdGuard reports upstreams that are not all
  the shipped default, the client sends nothing after reading them.
\<close>

theorem operator_upstreams_kept:
  assumes "shieldBase c \<noteq> []" "fwGetAuth ex c (shieldBase c @ ''/control/dns_info'') w = (Inr raw, w1)"
    and "json_dec raw = Some (JObj kvs)" "map_of (lastByKey kvs) ''upstream_dns'' = Some (JList vs)"
    and "JStr u \<in> set vs" "\<not> Contains u ''dns10.quad9.net''"
  shows "ensureShieldUpstreams ex fmtNum decErr c w = (Returned None, w1)"
proof -
  have "\<not> isStockUpstreams (Some (JList vs))" using assms(5,6) by (auto simp: isStockUpstreams_def list_all_iff intro!: bexI [of _ "JStr u"])
  then show ?thesis using assms(1-4) by (simp add: ensureShieldUpstreams_def)
qed


section \<open>A license that is withdrawn\<close>

text \<open>
  The client refuses an unlicensed payload before it talks to the sidecar, so the sidecar never
  hears that the license is gone, and keeps serving the last policy and accepting others.
\<close>

lemma unlicensed_not_sent:
  assumes "HasFirewallService (fc_cfg c)" "cfg_FirewallProvider (fc_cfg c) = FirewallUnboundErebrus"
    and "raw \<noteq> []" "Option.bind (json_dec raw) decodePayload = Some p" "\<not> py_Licensed p"
  shows "Sync ex decErr raw c w = (Some (Errorf ''sentinel unlicensed''), c\<lparr>fc_licensed := False\<rparr>, w)"
  using assms by (simp add: Sync_def syncSentinel_def Let_def)

text \<open>AdGuard answering \<open>null\<close> makes the client write to a nil map.\<close>

lemma null_dns_info_panics:
  assumes "shieldBase c \<noteq> []" "fwGetAuth ex c (shieldBase c @ ''/control/dns_info'') w = (Inr ''null'', w1)"
  shows "ensureShieldUpstreams ex fmtNum decErr c w = (Panicked, w1)"
proof -
  have "json_dec ''null'' = Some JNull" by code_simp
  then show ?thesis using assms by (simp add: ensureShieldUpstreams_def)
qed


section \<open>Witnesses\<close>

definition ex_payload :: string where
  "ex_payload = json_enc (JObj [(''org_id'', JStr ''o1''), (''licensed'', JBool True), (''upstreams'', JList [JStr ''tls://9.9.9.9'']),
     (''rules'', JList [JObj [(''target'', JStr ''ads.example''), (''action'', JStr ''block''), (''enabled'', JBool True)]])])"

definition ex_fw :: FwClient where
  "ex_fw = newFwClient (ex_config\<lparr>cfg_FirewallProvider := FirewallUnboundErebrus, cfg_SentinelAPIURL := sidecarBase, cfg_ErebrusProfile := ''sentinel''\<rparr>)"

definition ex_serve :: "SentinelSrv exchange" where
  "ex_serve = sentinelServe sidecarBase policyFiles 5 (\<lambda>_. ''t'') (None, None, None)"

lemma ex_fw_cfg: "HasFirewallService (fc_cfg ex_fw)" "cfg_FirewallProvider (fc_cfg ex_fw) = FirewallUnboundErebrus"
  "cfg_SentinelAPIURL (fc_cfg ex_fw) = sidecarBase"
  by code_simp+

lemma ex_payload_ok: "ex_payload \<noteq> []" "map_option py_Licensed (Option.bind (json_dec ex_payload) decodePayload) = Some True"
  by code_simp+

theorem Sync_succeeds_witness:
  "fst (Sync ex_serve (Errorf ''syntax'') ex_payload ex_fw (newSentinel [] ''false'')) = None"
proof -
  obtain p where p: "Option.bind (json_dec ex_payload) decodePayload = Some p" "py_Licensed p" using ex_payload_ok(2) by auto
  show ?thesis
    unfolding ex_serve_def
    by (rule Sync_succeeds [OF ex_fw_cfg ex_payload_ok(1) p]) (simp add: newSentinel_def)
qed

theorem Sync_applies_witness:
  "\<exists>p c' s'. Sync ex_serve (Errorf ''syntax'') ex_payload ex_fw (newSentinel [] []) = (None, c', s') \<and>
     Option.bind (json_dec ex_payload) decodePayload = Some p \<and> sn_files s' ''blocklist.conf'' = renderPolicy (payloadPolicy p) ''blocklist.conf''"
proof -
  have "fst (Sync ex_serve (Errorf ''syntax'') ex_payload ex_fw (newSentinel [] [])) = None" by code_simp
  then obtain c' s' where s: "Sync ex_serve (Errorf ''syntax'') ex_payload ex_fw (newSentinel [] []) = (None, c', s')"
    by (metis prod.collapse)
  have "''blocklist.conf'' \<in> set policyFiles" by (simp add: policyFiles_def)
  then show ?thesis
    using Sync_applies [OF refl ex_fw_cfg(2,3) s [unfolded ex_serve_def]] s ex_payload_ok(1) by auto
qed

definition ex_adguard :: "nat exchange" where
  "ex_adguard n r = (Inr \<lparr>rs_Status = 200, rs_Body = json_enc (JObj [(''upstream_dns'', JList [JStr ''9.9.9.9''])])\<rparr>, Suc n)"

definition ex_shield :: FwClient where
  "ex_shield = newFwClient (ex_config\<lparr>cfg_ShieldAdminURL := ''http://adguard:3000/''\<rparr>)"

theorem operator_upstreams_kept_witness:
  "ensureShieldUpstreams ex_adguard id (Errorf ''syntax'') ex_shield 0 = (Returned None, 1)"
proof -
  let ?v = "JObj [(''upstream_dns'', JList [JStr ''9.9.9.9''])]"
  have n: "\<not> Contains ''9.9.9.9'' ''dns10.quad9.net''" by code_simp
  have "shieldBase ex_shield \<noteq> []"
    "fwGetAuth ex_adguard ex_shield (shieldBase ex_shield @ ''/control/dns_info'') 0 = (Inr (json_enc ?v), 1)"
    "json_dec (json_enc ?v) = Some ?v"
    "map_of (lastByKey [(''upstream_dns'', JList [JStr ''9.9.9.9''])]) ''upstream_dns'' = Some (JList [JStr ''9.9.9.9''])"
    by code_simp+
  from operator_upstreams_kept [OF this list.set_intros(1) n] show ?thesis .
qed

end
