(* ===== verification/Bridge.thy ===== *)
theory Bridge
  imports Api GatewayClient Firewall
begin

text \<open>
  The bridge between the node and the gateway (\<open>src/internal/node/gateway.go\<close>): the greeting, the
  heartbeats, the usage reports and the commands. It works on the node service inside the HTTP
  server of theory \<open>Api\<close>, whose status it mirrors; the configuration is the one object all of them
  share, the firewall client included. Raw arguments of a command are kept as the value they denote;
  where the code passes them on, the model passes their compact encoding.
\<close>

section \<open>State\<close>

record ('w, 'k) GatewayBridge =
  gb_srv :: "(NodeSvc, 'k) Server"
  gb_peerID :: string
  gb_did :: string
  gb_nodeID :: string
  gb_status :: string
  gb_lastUsage :: "string \<rightharpoonup> int \<times> int"
  gb_speedtest :: "Speedtest option"
  gb_agent :: "Agent option"
  gb_fw :: "FwClient option"
  gb_fwWorld :: 'w

text \<open>
  What the bridge reads from outside: the exchange with the firewall, the parser of keys, the
  readings of the host and of the device, the clock in nanoseconds and a fresh short id.
\<close>

record 'w BridgeEnv =
  be_ex :: "'w exchange"
  be_decErr :: error
  be_ParseKey :: "string \<Rightarrow> u8 list result"
  be_crypto :: Crypto
  be_numCPU :: nat
  be_mem :: "(int \<times> rat) result"
  be_cpu :: "rat list result"
  be_now :: int
  be_dev :: "DevicePeer list result"
  be_shortID :: string

definition NewGatewayBridge ::
  "(NodeSvc, 'k) Server \<Rightarrow> string \<Rightarrow> string \<Rightarrow> string \<Rightarrow> Speedtest option \<Rightarrow> Agent option \<Rightarrow> FwClient option \<Rightarrow> 'w \<Rightarrow>
   ('w, 'k) GatewayBridge" where
  "NewGatewayBridge srv peerID did nodeID speedtestCache agent fw w =
     \<lparr>gb_srv = srv, gb_peerID = peerID, gb_did = did, gb_nodeID = nodeID, gb_status = ''online'', gb_lastUsage = Map.empty,
      gb_speedtest = speedtestCache, gb_agent = agent, gb_fw = fw, gb_fwWorld = w\<rparr>"

abbreviation gb_cfg :: "('w, 'k) GatewayBridge \<Rightarrow> Config" where "gb_cfg g \<equiv> sv_cfg (gb_srv g)"
abbreviation gb_nd :: "('w, 'k) GatewayBridge \<Rightarrow> NodeSvc" where "gb_nd g \<equiv> sv_prov (gb_srv g)"
abbreviation gb_drop :: "('w, 'k) GatewayBridge \<Rightarrow> DropSvc option" where "gb_drop g \<equiv> sv_drop (gb_srv g)"

abbreviation setNode :: "NodeSvc \<Rightarrow> ('w, 'k) GatewayBridge \<Rightarrow> ('w, 'k) GatewayBridge" where
  "setNode nd g \<equiv> g\<lparr>gb_srv := (gb_srv g)\<lparr>sv_prov := nd\<rparr>\<rparr>"

abbreviation setStore :: "Store \<Rightarrow> ('w, 'k) GatewayBridge \<Rightarrow> ('w, 'k) GatewayBridge" where
  "setStore st g \<equiv> setNode ((gb_nd g)\<lparr>nd_wg := (nd_wg (gb_nd g))\<lparr>wg_st := st\<rparr>\<rparr>) g"

text \<open>The status of the bridge, and of the HTTP server through its hook.\<close>

definition bridgeSetStatus :: "string \<Rightarrow> ('w, 'k) GatewayBridge \<Rightarrow> ('w, 'k) GatewayBridge" where
  "bridgeSetStatus status g = g\<lparr>gb_status := status, gb_srv := SetStatus status (gb_srv g)\<rparr>"


section \<open>Snapshots\<close>

definition hostMemMB :: "'w BridgeEnv \<Rightarrow> int" where
  "hostMemMB en = (case be_mem en of Inl _ \<Rightarrow> 0 | Inr (bytes, _) \<Rightarrow> bytes div (1024 * 1024))"

definition memUsedPct :: "'w BridgeEnv \<Rightarrow> rat" where
  "memUsedPct en = (case be_mem en of Inl _ \<Rightarrow> 0 | Inr (_, pct) \<Rightarrow> pct)"

definition cpuUsedPct :: "'w BridgeEnv \<Rightarrow> rat" where
  "cpuUsedPct en = (case be_cpu en of Inr (pct # _) \<Rightarrow> pct | _ \<Rightarrow> 0)"

text \<open>A Go map, given in the order of its keys.\<close>

definition serviceSnapshot :: "('w, 'k) GatewayBridge \<Rightarrow> (string \<times> string) list" where
  "serviceSnapshot g =
     (let base = [(''vpn'', ''active'')];
          s1 = (case gb_agent g of None \<Rightarrow> base | Some a \<Rightarrow> fold (\<lambda>(name, st). setState name st) (ag_snapshot a) base);
          s2 = (case gb_drop g of None \<Rightarrow> s1 | Some d \<Rightarrow> setState ''drop'' (dp_State (ds_snapshot d)) s1)
      in sort_key fst s2)"

definition dropCapability :: "('w, 'k) GatewayBridge \<Rightarrow> HelloDrop option" where
  "dropCapability g =
     map_option (\<lambda>d. \<lparr>hp_Enabled = cfg_DropEnabled (ds_cfg d), hp_AcceptsPublicUploads = DropAcceptsPublicUploads (ds_cfg d),
                      hp_WebUIAvailable = WebUIAvailable d\<rparr>) (gb_drop g)"

definition cachedSpeedtest :: "('w, 'k) GatewayBridge \<Rightarrow> Speedtest" where
  "cachedSpeedtest g = (case gb_speedtest g of None \<Rightarrow> noSpeedtest | Some s \<Rightarrow> s)"

definition helloEndpoints :: "('w, 'k) GatewayBridge \<Rightarrow> Endpoints" where
  "helloEndpoints g =
     (let cfg = gb_cfg g;
          wgEp = \<lparr>ew_Host = cfg_WGEndpointHost cfg, ew_Port = WGEndpointPortInt cfg, ew_PublicKey = wg_publicKey (nd_wg (gb_nd g))\<rparr>
      in case nd_stealth (gb_nd g) of
           Some sm \<Rightarrow>
             (if cfg_EnableStealth cfg then
                (let p = stealthParams cfg (sm_secrets sm)
                 in \<lparr>en_WireGuard = wgEp,
                     en_VLESSReality = \<lparr>el_Port = VLESSPortInt cfg, el_PublicKey = par_RealityPublicKey p,
                       el_ShortIDs = Some [par_RealityShortID p], el_SNI = par_SNI p\<rparr>,
                     en_Hysteria2 = \<lparr>eh_Port = Hysteria2PortInt cfg,
                       eh_Obfs = (if cfg_Hysteria2ObfsPassword cfg \<noteq> [] then ''salamander'' else [])\<rparr>\<rparr>)
              else \<lparr>en_WireGuard = wgEp, en_VLESSReality = \<lparr>el_Port = 0, el_PublicKey = [], el_ShortIDs = None, el_SNI = []\<rparr>,
                    en_Hysteria2 = \<lparr>eh_Port = 0, eh_Obfs = []\<rparr>\<rparr>)
         | None \<Rightarrow>
             \<lparr>en_WireGuard = wgEp, en_VLESSReality = \<lparr>el_Port = 0, el_PublicKey = [], el_ShortIDs = None, el_SNI = []\<rparr>,
              en_Hysteria2 = \<lparr>eh_Port = 0, eh_Obfs = []\<rparr>\<rparr>)"

definition BuildHello :: "'w BridgeEnv \<Rightarrow> ('w, 'k) GatewayBridge \<Rightarrow> string \<Rightarrow> Hello \<times> ('w, 'k) GatewayBridge" where
  "BuildHello en g _ =
     (let cfg = gb_cfg g
      in (\<lparr>he_NodeID = gb_peerID g, he_Version = cfg_Version cfg,
           he_Identity = \<lparr>hi_PeerID = gb_peerID g, hi_DID = gb_did g, hi_IPHash = HashIP (be_crypto en) (cfg_WGEndpointHost cfg)\<rparr>,
           he_Spec = \<lparr>sx_CPU = Itoa (int (be_numCPU en)) @ '' CPU'', sx_MemMB = hostMemMB en, sx_Region = cfg_Region cfg,
                      sx_Zone = cfg_Zone cfg, sx_IP = cfg_WGEndpointHost cfg\<rparr>,
           he_AccessMode = GatewayAccessMode (cfg_Mode cfg), he_Drop = dropCapability g, he_Endpoints = helloEndpoints g,
           he_DeploymentProfile = cfg_ErebrusProfile cfg, he_Services = serviceSnapshot g\<rparr>, g))"

text \<open>A failed listing counts as no peers.\<close>

definition BuildHeartbeat :: "'w BridgeEnv \<Rightarrow> ('w, 'k) GatewayBridge \<Rightarrow> string \<Rightarrow> Heartbeat \<times> ('w, 'k) GatewayBridge" where
  "BuildHeartbeat en g status =
     (let live = Stats (be_now en) (be_dev en);
          (peers, st) = ListPeers (nd_store (gb_nd g));
          kubo = (case gb_drop g of None \<Rightarrow> [] | Some d \<Rightarrow> dp_KuboVersion (ds_snapshot d))
      in (\<lparr>hb_TS = be_now en div 1000000000, hb_Status = status,
           hb_Load = \<lparr>ld_WGPeersRegistered = (case peers of Inl _ \<Rightarrow> 0 | Inr ps \<Rightarrow> int (length ps)),
                      ld_WGPeersConnected = ds_Connected live, ld_ProxySessions = 0, ld_CPUPct = cpuUsedPct en,
                      ld_MemPct = memUsedPct en, ld_RxBytes = ds_RxBytes live, ld_TxBytes = ds_TxBytes live\<rparr>,
           hb_Speedtest = cachedSpeedtest g,
           hb_Versions = (if kubo \<noteq> [] then [(''kubo'', kubo)] else []) @
                         [(''node'', cfg_Version (gb_cfg g)), (''singbox'', ''1.11.15'')],
           hb_Services = serviceSnapshot g,
           hb_Drop = map_option (\<lambda>d. \<lparr>dt_State = dp_State (ds_snapshot d), dt_KuboVersion = dp_KuboVersion (ds_snapshot d),
                         dt_RepoSizeBytes = dp_RepoSizeBytes (ds_snapshot d),
                         dt_StorageMaxBytes = dp_StorageMaxBytes (ds_snapshot d),
                         dt_NumObjects = dp_NumObjects (ds_snapshot d)\<rparr>) (gb_drop g)\<rparr>,
          setStore st g))"


section \<open>Usage\<close>

definition counters :: "(string \<rightharpoonup> int \<times> int) \<Rightarrow> string \<Rightarrow> int \<times> int" where
  "counters lu pid = (case lu pid of None \<Rightarrow> (0, 0) | Some c \<Rightarrow> c)"

text \<open>A counter that fell was reset: everything it shows is new.\<close>

definition delta :: "int \<Rightarrow> int \<Rightarrow> int" where
  "delta cur prev = (let d = int64 (cur - prev) in if d < 0 then cur else d)"

fun usageLoop ::
  "(string \<rightharpoonup> string) \<Rightarrow> PeerTransfer list \<Rightarrow> (string \<rightharpoonup> int \<times> int) \<Rightarrow> PeerUsage list \<times> (string \<rightharpoonup> int \<times> int)" where
  "usageLoop byKey [] lu = ([], lu)"
| "usageLoop byKey (tr # trs) lu =
     (case byKey (pt_WGPublicKey tr) of
        None \<Rightarrow> usageLoop byKey trs lu
      | Some pid \<Rightarrow>
          (let prev = counters lu pid;
               dRx = delta (pt_RxBytes tr) (fst prev);
               dTx = delta (pt_TxBytes tr) (snd prev);
               (out, lu') = usageLoop byKey trs (lu(pid \<mapsto> (pt_RxBytes tr, pt_TxBytes tr)))
           in if dRx = 0 \<and> dTx = 0 then (out, lu')
              else (\<lparr>pu_PeerID = pid, pu_RxBytesDelta = dRx, pu_TxBytesDelta = dTx,
                     pu_LastHandshake = pt_LastHandshake tr\<rparr> # out, lu')))"

definition BuildUsageReport :: "'w BridgeEnv \<Rightarrow> ('w, 'k) GatewayBridge \<Rightarrow> UsageReport \<times> ('w, 'k) GatewayBridge" where
  "BuildUsageReport en g =
     (case ListPeers (nd_store (gb_nd g)) of
        (Inl e, st) \<Rightarrow> (\<lparr>ur_TS = be_now en div 1000000000, ur_Peers = None\<rparr>, setStore st g)
      | (Inr peers, st) \<Rightarrow>
          (case usageLoop (map_of (rev (map (\<lambda>p. (peer_WGPublicKey p, peer_ID p)) peers))) (PeerTransfers (be_dev en)) (gb_lastUsage g) of
             (out, lu) \<Rightarrow>
               (\<lparr>ur_TS = be_now en div 1000000000, ur_Peers = Some out\<rparr>, (setStore st g)\<lparr>gb_lastUsage := lu\<rparr>)))"


section \<open>Commands\<close>

abbreviation succeeded :: "Command \<Rightarrow> CommandResult" where
  "succeeded cmd \<equiv> \<lparr>cs_RequestID = cd_RequestID cmd, cs_OK = True, cs_Error = []\<rparr>"

abbreviation failed :: "Command \<Rightarrow> string \<Rightarrow> CommandResult" where
  "failed cmd msg \<equiv> \<lparr>cs_RequestID = cd_RequestID cmd, cs_OK = False, cs_Error = msg\<rparr>"

definition answer :: "Command \<Rightarrow> error option \<Rightarrow> CommandResult" where
  "answer cmd oe = (case oe of None \<Rightarrow> succeeded cmd | Some e \<Rightarrow> failed cmd (Error e))"

text \<open>The carriers work on the node's database.\<close>

definition cmdRotateReality :: "'w BridgeEnv \<Rightarrow> Command \<Rightarrow> ('w, 'k) GatewayBridge \<Rightarrow> CommandResult \<times> ('w, 'k) GatewayBridge" where
  "cmdRotateReality en cmd g =
     (case nd_stealth (gb_nd g) of
        None \<Rightarrow> (failed cmd ''stealth not enabled'', g)
      | Some sm \<Rightarrow>
          (case RotateReality (gb_cfg g) SetSetting (be_shortID en) (sm\<lparr>sm_st := nd_store (gb_nd g)\<rparr>) of
             (r, sm') \<Rightarrow>
               (case r of Inl e \<Rightarrow> failed cmd (Error e) | Inr _ \<Rightarrow> succeeded cmd,
                setNode ((gb_nd g)\<lparr>nd_stealth := Some sm', nd_wg := (nd_wg (gb_nd g))\<lparr>wg_st := sm_st sm'\<rparr>\<rparr>) g)))"

definition resyncArgs :: "json option \<Rightarrow> string list option" where
  "resyncArgs args = (case args of None \<Rightarrow> None | Some v \<Rightarrow> if is_struct v then strings_field ''peer_ids'' v else None)"

definition cmdResyncPeers :: "'w BridgeEnv \<Rightarrow> Command \<Rightarrow> ('w, 'k) GatewayBridge \<Rightarrow> CommandResult \<times> ('w, 'k) GatewayBridge" where
  "cmdResyncPeers en cmd g =
     (case resyncArgs (cd_Args cmd) of
        None \<Rightarrow> (failed cmd ''invalid args'', g)
      | Some ids \<Rightarrow>
          (case ResyncPeers (gb_cfg g) (be_ParseKey en) (gb_nd g) ids of
             (Inl e, nd) \<Rightarrow> (failed cmd (Error e), setNode nd g)
           | (Inr missing, nd) \<Rightarrow>
               (if missing \<noteq> []
                then (succeeded cmd)\<lparr>cs_Error := json_enc (JObj [(''missing_on_node'', JList (map JStr missing))])\<rparr>
                else succeeded cmd, setNode nd g)))"

text \<open>A call of the firewall client, on the shared configuration.\<close>

definition onFirewall ::
  "Command \<Rightarrow> (FwClient \<Rightarrow> 'w \<Rightarrow> error option \<times> FwClient \<times> 'w) \<Rightarrow> ('w, 'k) GatewayBridge \<Rightarrow>
   CommandResult \<times> ('w, 'k) GatewayBridge" where
  "onFirewall cmd call g =
     (case gb_fw g of
        None \<Rightarrow> (failed cmd ''firewall not configured'', g)
      | Some c \<Rightarrow>
          (case call (c\<lparr>fc_cfg := gb_cfg g\<rparr>) (gb_fwWorld g) of
             (oe, c', w) \<Rightarrow>
               (answer cmd oe,
                g\<lparr>gb_fw := Some c', gb_fwWorld := w, gb_srv := (gb_srv g)\<lparr>sv_cfg := fc_cfg c'\<rparr>\<rparr>)))"

definition passwordArgs :: "json option \<Rightarrow> (string \<times> string) option" where
  "passwordArgs args =
     (case args of
        None \<Rightarrow> None
      | Some v \<Rightarrow>
          (if \<not> is_struct v then None
           else case (string_field ''admin_user'' v, string_field ''admin_password'' v) of
                  (Some u, Some p) \<Rightarrow> if p = [] then None else Some (u, p)
                | _ \<Rightarrow> None))"

definition HandleCommand :: "'w BridgeEnv \<Rightarrow> ('w, 'k) GatewayBridge \<Rightarrow> Command \<Rightarrow> CommandResult \<times> ('w, 'k) GatewayBridge" where
  "HandleCommand en g cmd =
     (let a = cd_Action cmd in
      if a = ''drain'' then (succeeded cmd, bridgeSetStatus ''draining'' g)
      else if a = ''undrain'' then (succeeded cmd, bridgeSetStatus ''online'' g)
      else if a = ''rotate_reality'' then cmdRotateReality en cmd g
      else if a = ''resync_peers'' then cmdResyncPeers en cmd g
      else if a = ''sync_apps'' then (succeeded cmd, g)
      else if a = ''sync_firewall'' then
        onFirewall cmd (Sync (be_ex en) (be_decErr en) (case cd_Args cmd of None \<Rightarrow> [] | Some v \<Rightarrow> json_enc v)) g
      else if a = ''restart_firewall'' then
        onFirewall cmd (\<lambda>c w. case Restart (be_ex en) c w of (oe, w') \<Rightarrow> (oe, c, w')) g
      else if a = ''reset_firewall_credentials'' then
        onFirewall cmd (\<lambda>c w. case ResetCredentials (be_ex en) c w of (oe, w') \<Rightarrow> (oe, c, w')) g
      else if a = ''set_firewall_credentials'' then
        (if gb_fw g = None then (failed cmd ''firewall not configured'', g)
         else case passwordArgs (cd_Args cmd) of
                None \<Rightarrow> (failed cmd ''invalid args'', g)
              | Some (user, password) \<Rightarrow> onFirewall cmd (SetAdminPassword (be_ex en) user password) g)
      else (failed cmd ''unknown action'', g))"

text \<open>The handler of the control connection; \<open>env n\<close> is the outside at the \<open>n\<close>-th call.\<close>

definition bridgeHandler :: "(nat \<Rightarrow> 'w BridgeEnv) \<Rightarrow> (nat \<times> ('w, 'k) GatewayBridge) Handler" where
  "bridgeHandler world =
     \<lparr>hd_BuildHello = (\<lambda>(n, g) nodeID. apsnd (Pair (Suc n)) (BuildHello (world n) g nodeID)),
      hd_BuildHeartbeat = (\<lambda>(n, g) status. apsnd (Pair (Suc n)) (BuildHeartbeat (world n) g status)),
      hd_BuildUsageReport = (\<lambda>(n, g). apsnd (Pair (Suc n)) (BuildUsageReport (world n) g)),
      hd_HandleCommand = (\<lambda>(n, g) cmd. apsnd (Pair (Suc n)) (HandleCommand (world n) g cmd)),
      hd_Status = (\<lambda>(n, g). gb_status g)\<rparr>"


section \<open>The node behind the bridge\<close>

definition bridge_inv :: "('w, 'k) GatewayBridge \<Rightarrow> bool" where
  "bridge_inv g \<longleftrightarrow> node_inv (gb_cfg g) (gb_nd g)"

lemma bridge_inv_store:
  "bridge_inv g \<longleftrightarrow> ipv4_subnet (cfg_WGIPv4Subnet (gb_cfg g)) \<and> store_inv (cfg_WGIPv4Subnet (gb_cfg g)) (nd_store (gb_nd g))"
  by (simp add: bridge_inv_def node_inv_def)

lemma BuildHeartbeat_inv: "bridge_inv g \<Longrightarrow> BuildHeartbeat en g st = (hb, g') \<Longrightarrow> bridge_inv g'"
  by (auto simp: BuildHeartbeat_def bridge_inv_store Let_def split: prod.splits elim!: ListPeersE)

lemma BuildUsageReport_inv: "bridge_inv g \<Longrightarrow> BuildUsageReport en g = (ur, g') \<Longrightarrow> bridge_inv g'"
  by (auto simp: BuildUsageReport_def bridge_inv_store split: prod.splits sum.splits elim!: ListPeersE)

context settings_frame
begin

lemma RotateReality_P:
  assumes "RotateReality cfg put sid m = (r, m')" "P (sm_st m)"
  shows "P (sm_st m')"
proof -
  obtain oe s1 where p: "put (sm_st m) keyRealityShortID sid = (oe, s1)" by (rule prod.exhaust)
  have s1: "P s1" by (rule put_P [OF p assms(2)])
  have started: "SStart cfg (snd (SClose m1)) = (e, m2) \<Longrightarrow> sm_st m1 = s1 \<Longrightarrow> sm_st m2 = s1" for m1 e m2
    using SStart_keeps SClose_keeps by metis
  show ?thesis
    using assms p s1
    by (auto simp: RotateReality_def Let_def split: option.splits if_splits prod.splits dest: started)
qed

end

lemma GetSetting_inv: "GetSetting s k = (r, s') \<Longrightarrow> store_inv subnet s \<Longrightarrow> store_inv subnet s'"
  by (auto simp: GetSetting_def split: prod.splits option.splits elim!: db_callE)

interpretation tables: settings_frame GetSetting SetSetting "store_inv subnet" for subnet
  by unfold_locales (auto intro: GetSetting_inv SetSetting_inv)

interpretation peer_rows: settings_frame GetSetting SetSetting "\<lambda>s. db_peers s = rows" for rows
  by unfold_locales (auto simp: GetSetting_def SetSetting_def split: prod.splits option.splits elim!: db_callE)

lemma ResyncPeers_view:
  assumes "ResyncPeers cfg ParseKey nd keep = (r, nd')"
  shows "node_inv cfg nd \<Longrightarrow> node_inv cfg nd'"
    and "r = Inr missing \<Longrightarrow> node_ids nd' = node_ids nd \<inter> set keep \<and> set missing = set keep - node_ids nd"
proof -
  have loop: "node_inv cfg n \<Longrightarrow> resyncLoop cfg ParseKey keep ps n = (oe, n') \<Longrightarrow> node_inv cfg n'" for ps n oe n'
  proof (induction ps arbitrary: n)
    case (Cons p ps)
    obtain e n1 where d: "nodeDeletePeer cfg ParseKey n (peer_ID p) = (e, n1)" by (rule prod.exhaust)
    have "node_inv cfg n1" using nodeDeletePeer_view(1) [OF d Cons.prems(1)] .
    then show ?case using Cons d by (cases e) (auto split: if_splits)
  qed simp
  obtain rl s1 where l: "ListPeers (nd_store nd) = (rl, s1)" by (rule prod.exhaust)
  then obtain fs where s1: "s1 = (nd_store nd)\<lparr>db_faults := fs\<rparr>" by (auto elim: ListPeersE)
  let ?nd1 = "nd\<lparr>nd_wg := (nd_wg nd)\<lparr>wg_st := s1\<rparr>\<rparr>"
  have nd1: "node_inv cfg ?nd1 = node_inv cfg nd" by (simp add: node_inv_def s1)
  show "node_inv cfg nd \<Longrightarrow> node_inv cfg nd'"
    using assms l nd1 loop by (auto simp: ResyncPeers_def split: sum.splits prod.splits option.splits)
  show "node_ids nd' = node_ids nd \<inter> set keep \<and> set missing = set keep - node_ids nd" if "r = Inr missing"
  proof -
    have ok: "rl = Inr (listed (nd_store nd))" "resyncLoop cfg ParseKey keep (listed (nd_store nd)) ?nd1 = (None, nd')"
      "missing = filter (\<lambda>i. i \<notin> peer_ID ` set (listed (nd_store nd))) (remdups keep)"
      using assms that l by (auto simp: ResyncPeers_def split: sum.splits prod.splits option.splits elim: ListPeersE)
    have "peer_ID ` set (listed (nd_store nd)) = node_ids nd" by (auto simp: node_ids_def image_image)
    then show ?thesis using resyncLoop_rows [OF ok(2)] ok(3) s1 by (auto simp: node_ids_def)
  qed
qed

text \<open>The firewall client changes nothing of the configuration the node depends on.\<close>

lemma Sync_subnet: "Sync ex decErr raw c w = (oe, c', w') \<Longrightarrow> cfg_WGIPv4Subnet (fc_cfg c') = cfg_WGIPv4Subnet (fc_cfg c)"
  by (auto simp: Sync_def Let_def split: if_splits option.splits prod.splits)

lemma SetAdminPassword_subnet: "SetAdminPassword ex u p c w = (oe, c', w') \<Longrightarrow> cfg_WGIPv4Subnet (fc_cfg c') = cfg_WGIPv4Subnet (fc_cfg c)"
  by (auto simp: SetAdminPassword_def Let_def split: if_splits prod.splits)

lemma onFirewall_inv:
  assumes "bridge_inv g" "onFirewall cmd call g = (res, g')"
    and "\<And>c w oe c' w'. call c w = (oe, c', w') \<Longrightarrow> cfg_WGIPv4Subnet (fc_cfg c') = cfg_WGIPv4Subnet (fc_cfg c)"
  shows "bridge_inv g'"
  using assms(1,2)
  by (auto simp: onFirewall_def bridge_inv_store split: option.splits prod.splits dest!: assms(3))

lemma cmdRotateReality_inv: "bridge_inv g \<Longrightarrow> cmdRotateReality en cmd g = (res, g') \<Longrightarrow> bridge_inv g'"
  by (auto simp: cmdRotateReality_def bridge_inv_store split: option.splits prod.splits dest!: tables.RotateReality_P)

lemma cmdResyncPeers_inv: "bridge_inv g \<Longrightarrow> cmdResyncPeers en cmd g = (res, g') \<Longrightarrow> bridge_inv g'"
  by (auto simp: cmdResyncPeers_def bridge_inv_def split: option.splits sum.splits prod.splits intro: ResyncPeers_view(1))

lemma bridgeSetStatus_inv [simp]: "bridge_inv (bridgeSetStatus st g) = bridge_inv g"
  by (simp add: bridgeSetStatus_def SetStatus_def bridge_inv_def)

lemma HandleCommand_inv: "bridge_inv g \<Longrightarrow> HandleCommand en g cmd = (res, g') \<Longrightarrow> bridge_inv g'"
  unfolding HandleCommand_def Let_def
  by (auto elim: onFirewall_inv intro: cmdRotateReality_inv cmdResyncPeers_inv dest: Sync_subnet SetAdminPassword_subnet
      split: if_splits option.splits prod.splits)

lemma HandleCommand_id: "HandleCommand en g cmd = (res, g') \<Longrightarrow> cs_RequestID res = cd_RequestID cmd"
  unfolding HandleCommand_def Let_def
  by (auto simp: cmdRotateReality_def cmdResyncPeers_def onFirewall_def answer_def
      split: if_splits option.splits prod.splits sum.splits)

lemma bridgeHandler_sel [simp]:
  "hd_BuildHello (bridgeHandler world) (n, g) i = apsnd (Pair (Suc n)) (BuildHello (world n) g i)"
  "hd_BuildHeartbeat (bridgeHandler world) (n, g) st = apsnd (Pair (Suc n)) (BuildHeartbeat (world n) g st)"
  "hd_BuildUsageReport (bridgeHandler world) (n, g) = apsnd (Pair (Suc n)) (BuildUsageReport (world n) g)"
  "hd_HandleCommand (bridgeHandler world) (n, g) cmd = apsnd (Pair (Suc n)) (HandleCommand (world n) g cmd)"
  by (simp_all add: bridgeHandler_def)

lemma apsnd_eq: "apsnd f p = (x, y) \<longleftrightarrow> (\<exists>z. p = (x, z) \<and> y = f z)"
  by (cases p) auto

interpretation bridge: gateway_handler "bridgeHandler world" "\<lambda>b. bridge_inv (snd b)" for world
  by unfold_locales
    (auto simp: apsnd_eq BuildHello_def Let_def
      intro: BuildHeartbeat_inv BuildUsageReport_inv HandleCommand_inv HandleCommand_id)

text \<open>The gateway can take peers away but never add one, and it leaves the guards of the API alone.\<close>

definition narrowed :: "Config \<Rightarrow> string set \<Rightarrow> ('w, 'k) GatewayBridge \<Rightarrow> bool" where
  "narrowed cfg0 ids g \<longleftrightarrow> sv_cfg0 (gb_srv g) = cfg0 \<and> node_ids (gb_nd g) \<subseteq> ids"

lemma ids_of_rows: "db_peers (nd_store nd') = db_peers (nd_store nd) \<Longrightarrow> node_ids nd' = node_ids nd"
  by (simp add: node_ids_def)

lemma nodeDeletePeer_ids:
  assumes "nodeDeletePeer cfg ParseKey nd pid = (oe, nd')"
  shows "node_ids nd' \<subseteq> node_ids nd"
proof -
  obtain od s1 where d: "DeletePeer (nd_store nd) pid = (od, s1)" by (rule prod.exhaust)
  obtain oa w2 where a: "Apply cfg ParseKey ((nd_wg nd)\<lparr>wg_st := s1\<rparr>) = (oa, w2)" by (rule prod.exhaust)
  have s1: "node_ids (nd\<lparr>nd_wg := (nd_wg nd)\<lparr>wg_st := s1\<rparr>\<rparr>) \<subseteq> node_ids nd" using d by (auto simp: node_ids_def elim: DeletePeerE)
  moreover have "db_peers (wg_st w2) = db_peers s1" using Apply_store [OF a] by auto
  ultimately have "node_ids (nd\<lparr>nd_wg := w2\<rparr>) \<subseteq> node_ids nd" by (simp add: node_ids_def)
  then show ?thesis
    using assms d a s1 by (cases od; cases oa) (auto simp: nodeDeletePeer_def countPeer_view)
qed

lemma nodeUpsertPeer_ids:
  assumes "nodeUpsertPeer cfg ParseKey dr nd pid req = Some (r, nd')" "pid \<noteq> []"
  shows "node_ids nd' \<subseteq> insert pid (node_ids nd)"
proof -
  let ?gen = "\<lparr>gen_ProxyUUID = dr_ProxyUUID dr, gen_ProxyPassword = dr_ProxyPassword dr\<rparr>"
  obtain r1 s1 where u: "UpsertPeer (nd_store nd) (requestPeer pid req) (cfg_WGIPv4Subnet cfg) ?gen (dr_Now dr) = Some (r1, s1)"
    using assms by (auto simp: nodeUpsertPeer_def Let_def split: option.splits)
  obtain oe w2 where a: "Apply cfg ParseKey ((nd_wg nd)\<lparr>wg_st := s1\<rparr>) = (oe, w2)" by (rule prod.exhaust)
  have "col_id ` set (db_peers s1) \<subseteq> insert pid (node_ids nd)"
    using u by (cases rule: UpsertPeerE) (auto simp: node_ids_def update_row_def created_peer_def requestPeer_def row_of_def)
  then have s1: "node_ids (nd\<lparr>nd_wg := (nd_wg nd)\<lparr>wg_st := s1\<rparr>\<rparr>) \<subseteq> insert pid (node_ids nd)" by (simp add: node_ids_def)
  moreover have "db_peers (wg_st w2) = db_peers s1" using Apply_store [OF a] by auto
  ultimately have "node_ids (nd\<lparr>nd_wg := w2\<rparr>) \<subseteq> insert pid (node_ids nd)" by (simp add: node_ids_def)
  then show ?thesis
    using assms u a s1 by (cases r1; cases oe) (auto simp: nodeUpsertPeer_def Let_def countPeer_view)
qed

lemma ResyncPeers_ids:
  assumes "ResyncPeers cfg ParseKey nd keep = (r, nd')"
  shows "node_ids nd' \<subseteq> node_ids nd"
proof -
  have loop: "resyncLoop cfg ParseKey keep ps n = (oe, n') \<Longrightarrow> node_ids n' \<subseteq> node_ids n" for ps n oe n'
  proof (induction ps arbitrary: n)
    case (Cons p ps)
    obtain e n1 where d: "nodeDeletePeer cfg ParseKey n (peer_ID p) = (e, n1)" by (rule prod.exhaust)
    then show ?case using Cons nodeDeletePeer_ids [OF d] by (cases e) (auto split: if_splits)
  qed simp
  obtain rl s1 where l: "ListPeers (nd_store nd) = (rl, s1)" by (rule prod.exhaust)
  then have "node_ids (nd\<lparr>nd_wg := (nd_wg nd)\<lparr>wg_st := s1\<rparr>\<rparr>) = node_ids nd" by (auto simp: node_ids_def elim: ListPeersE)
  then show ?thesis
    using assms l by (auto simp: ResyncPeers_def split: sum.splits prod.splits option.splits dest!: loop)
qed

lemma cmds_narrowed:
  "narrowed cfg0 ids g \<Longrightarrow> cmdRotateReality en cmd g = (res, g') \<Longrightarrow> narrowed cfg0 ids g'"
  "narrowed cfg0 ids g \<Longrightarrow> cmdResyncPeers en cmd g = (res, g') \<Longrightarrow> narrowed cfg0 ids g'"
  "narrowed cfg0 ids g \<Longrightarrow> onFirewall cmd call g = (res, g') \<Longrightarrow> narrowed cfg0 ids g'"
proof -
  assume n: "narrowed cfg0 ids g"
  show "cmdRotateReality en cmd g = (res, g') \<Longrightarrow> narrowed cfg0 ids g'"
    using n by (auto simp: cmdRotateReality_def narrowed_def node_ids_def split: option.splits prod.splits
        dest!: peer_rows.RotateReality_P)
  show "onFirewall cmd call g = (res, g') \<Longrightarrow> narrowed cfg0 ids g'"
    using n by (auto simp: onFirewall_def narrowed_def split: option.splits prod.splits)
  assume c: "cmdResyncPeers en cmd g = (res, g')"
  have "gb_nd g' = gb_nd g \<or> (\<exists>ids' r. ResyncPeers (gb_cfg g) (be_ParseKey en) (gb_nd g) ids' = (r, gb_nd g'))"
    "sv_cfg0 (gb_srv g') = sv_cfg0 (gb_srv g)"
    using c by (auto simp: cmdResyncPeers_def split: option.splits sum.splits prod.splits)
  then show "narrowed cfg0 ids g'" using n by (auto simp: narrowed_def dest!: ResyncPeers_ids)
qed

lemma bridgeSetStatus_narrowed [simp]: "narrowed cfg0 ids (bridgeSetStatus st g) = narrowed cfg0 ids g"
  by (simp add: bridgeSetStatus_def SetStatus_def narrowed_def)

lemma HandleCommand_narrowed: "narrowed cfg0 ids g \<Longrightarrow> HandleCommand en g cmd = (res, g') \<Longrightarrow> narrowed cfg0 ids g'"
  unfolding HandleCommand_def Let_def
  by (auto split: if_splits option.splits prod.splits intro: cmds_narrowed)

lemma reports_narrowed:
  "narrowed cfg0 ids g \<Longrightarrow> BuildHeartbeat en g st = (hb, g') \<Longrightarrow> narrowed cfg0 ids g'"
  "narrowed cfg0 ids g \<Longrightarrow> BuildUsageReport en g = (ur, g') \<Longrightarrow> narrowed cfg0 ids g'"
  by (auto simp: BuildHeartbeat_def BuildUsageReport_def narrowed_def node_ids_def Let_def split: prod.splits sum.splits elim!: ListPeersE)

interpretation narrowing: gateway_handler "bridgeHandler world" "\<lambda>b. narrowed cfg0 ids (snd b)" for world cfg0 ids
  by unfold_locales
    (auto simp: apsnd_eq BuildHello_def Let_def intro: reports_narrowed HandleCommand_narrowed HandleCommand_id)

text \<open>No command changes the subnet of the node.\<close>

lemma onFirewall_subnet:
  assumes "onFirewall cmd call g = (res, g')"
    and "\<And>c w oe c' w'. call c w = (oe, c', w') \<Longrightarrow> cfg_WGIPv4Subnet (fc_cfg c') = cfg_WGIPv4Subnet (fc_cfg c)"
  shows "cfg_WGIPv4Subnet (gb_cfg g') = cfg_WGIPv4Subnet (gb_cfg g)"
  using assms(1) by (auto simp: onFirewall_def split: option.splits prod.splits dest!: assms(2))

lemma cmds_subnet:
  "cmdRotateReality en cmd g = (res, g') \<Longrightarrow> gb_cfg g' = gb_cfg g"
  "cmdResyncPeers en cmd g = (res, g') \<Longrightarrow> gb_cfg g' = gb_cfg g"
  by (auto simp: cmdRotateReality_def cmdResyncPeers_def split: option.splits prod.splits sum.splits)

lemma HandleCommand_subnet:
  "HandleCommand en g cmd = (res, g') \<Longrightarrow> cfg_WGIPv4Subnet (gb_cfg g') = cfg_WGIPv4Subnet (gb_cfg g)"
  unfolding HandleCommand_def Let_def
  by (auto simp: bridgeSetStatus_def SetStatus_def dest!: cmds_subnet elim!: onFirewall_subnet dest: Sync_subnet SetAdminPassword_subnet
      split: if_splits option.splits prod.splits)

interpretation same_subnet: gateway_handler "bridgeHandler world" "\<lambda>b. cfg_WGIPv4Subnet (gb_cfg (snd b)) = subnet" for world subnet
  by unfold_locales
    (auto simp: apsnd_eq BuildHello_def BuildHeartbeat_def BuildUsageReport_def Let_def dest: HandleCommand_subnet intro: HandleCommand_id
      split: prod.splits sum.splits)


section \<open>Properties\<close>

text \<open>
  The gateway cannot break the node: whatever the gateway sends over any number of sessions, in
  whatever order the timers fire and whatever writes, reads and database calls fail, the node keeps
  its invariant, provided the token refresher keeps it.
\<close>

theorem gateway_keeps_node:
  assumes "bridge_inv g" "\<forall>f b r b'. refresher = Some f \<longrightarrow> bridge_inv (snd b) \<longrightarrow> f b = (r, b') \<longrightarrow> bridge_inv (snd b')"
    and "runClient (bridgeHandler world) None refresher jerr fmt attempts backoff c (n, g) = (sleeps, out, backoff', c', (n', g'))"
  shows "bridge_inv g'"
  using bridge.run_inv [of refresher None "(n, g)" world jerr fmt attempts backoff c sleeps out backoff' c' "(n', g')"] assms
  by auto

text \<open>
  C10. Resynchronisation over the wire: a frame that asks for it is answered by exactly one frame,
  which carries the identifier of the request. If the answer is positive the node has exactly
  those of its peers that the gateway listed; the text of the answer is empty if it had all of
  them, and names exactly the missing ones otherwise. The node keeps its invariant in any case.
\<close>

theorem resync_over_the_wire:
  assumes "bridge_inv g"
    and "handleFrame (bridgeHandler world) None jerr None
      (wrap ''command'' (commandJSON \<lparr>cd_Action = ''resync_peers'', cd_RequestID = rid,
         cd_Args = Some (JObj [(''peer_ids'', JList (map JStr ids))])\<rparr>)) c (n, g) = (e, out, c', (n', g'))"
  shows "bridge_inv g' \<and> e = None \<and> c' = c \<and>
    (\<exists>res. out = [TextFrame (wrap ''command_result'' (resultJSON res))] \<and>
       decodeEnvelope (wrap ''command_result'' (resultJSON res)) = Some \<lparr>vp_Type = ''command_result'', vp_Data = Some (resultJSON res)\<rparr> \<and>
       cs_RequestID res = rid \<and>
       (cs_OK res \<longrightarrow> node_ids (gb_nd g') = node_ids (gb_nd g) \<inter> set ids \<and>
          (\<exists>missing. set missing = set ids - node_ids (gb_nd g) \<and>
             cs_Error res = (if missing = [] then [] else json_enc (JObj [(''missing_on_node'', JList (map JStr missing))])))))"
proof -
  let ?cmd = "\<lparr>cd_Action = ''resync_peers'', cd_RequestID = rid, cd_Args = Some (JObj [(''peer_ids'', JList (map JStr ids))])\<rparr>"
  obtain res g1 where h: "HandleCommand (world n) g ?cmd = (res, g1)" by (rule prod.exhaust)
  have "json_ok (JObj [(''peer_ids'', JList (map JStr ids))])" by (auto intro!: json_ok.intros)
  then have "handleFrame (bridgeHandler world) None jerr None (wrap ''command'' (commandJSON ?cmd)) c (n, g) =
      (None, [TextFrame (wrap ''command_result'' (resultJSON res))], c, (Suc n, g1))"
    by (intro handleFrame_command) (auto simp: h)
  then have o: "e = None" "out = [TextFrame (wrap ''command_result'' (resultJSON res))]" "c' = c" "g' = g1"
    using assms(2) by simp_all
  have ids: "those (map (\<lambda>v. into_string v []) (map JStr ids)) = Some ids"
    by (rule those_map_Some) simp
  then have args: "resyncArgs (cd_Args ?cmd) = Some ids"
    by (simp add: resyncArgs_def is_struct_def strings_field_def field_def members_def EqualFold_def ToLower_def lower_char_def comp_def)
  obtain r nd where rs: "ResyncPeers (gb_cfg g) (be_ParseKey (world n)) (gb_nd g) ids = (r, nd)" by (rule prod.exhaust)
  have "HandleCommand (world n) g ?cmd = cmdResyncPeers (world n) ?cmd g" by (simp add: HandleCommand_def Let_def)
  then have "cs_OK res \<longrightarrow> gb_nd g1 = nd \<and> (\<exists>missing. r = Inr missing \<and>
      cs_Error res = (if missing = [] then [] else json_enc (JObj [(''missing_on_node'', JList (map JStr missing))])))"
    using h rs args by (cases r) (auto simp: cmdResyncPeers_def)
  then have "cs_OK res \<longrightarrow> node_ids (gb_nd g1) = node_ids (gb_nd g) \<inter> set ids \<and>
      (\<exists>missing. set missing = set ids - node_ids (gb_nd g) \<and>
         cs_Error res = (if missing = [] then [] else json_enc (JObj [(''missing_on_node'', JList (map JStr missing))])))"
    using ResyncPeers_view(2) [OF rs] by metis
  moreover have "cs_RequestID res = rid" using HandleCommand_id [OF h] by simp
  ultimately show ?thesis
    unfolding o using HandleCommand_inv [OF assms(1) h] wrap_decode [OF json_ok_result] by blast
qed


text \<open>
  C22. Draining: after the gateway's drain command every request to provision a peer is refused and
  changes nothing, while the peers, the device and the database stay as they are and the heartbeats
  say so; the undrain command ends it.
\<close>

theorem drain_refuses_peers:
  assumes "cd_Action cmd = ''drain''" "HandleCommand en g cmd = (res, g1)"
    and "cd_Action cmd' = ''undrain''" "HandleCommand en' g1 cmd' = (res', g2)"
  shows "cs_OK res \<and> gb_nd g1 = gb_nd g \<and> hb_Status (fst (BuildHeartbeat en' g1 (gb_status g1))) = ''draining'' \<and>
    (\<forall>ev put i rep s. reaches ev put (RPutPeer i) (gb_srv g1) \<longrightarrow> serve ev put (gb_srv g1) = Some (rep, s) \<longrightarrow>
       re_Status rep \<in> {400, 409} \<and> s = gb_srv g1) \<and>
    cs_OK res' \<and> gb_nd g2 = gb_nd g \<and> sv_status (gb_srv g2) = ''online'' \<and> gb_status g2 = ''online''"
proof -
  have g1: "res = succeeded cmd" "g1 = bridgeSetStatus ''draining'' g" using assms(1,2) by (simp_all add: HandleCommand_def)
  have g2: "res' = succeeded cmd'" "g2 = bridgeSetStatus ''online'' g1" using assms(3,4) by (simp_all add: HandleCommand_def)
  have st: "sv_status (gb_srv g1) = ''draining''" "gb_status g1 = ''draining''"
    by (simp_all add: g1 bridgeSetStatus_def SetStatus_def)
  have "re_Status rep \<in> {400, 409} \<and> s = gb_srv g1"
    if "reaches ev put (RPutPeer i) (gb_srv g1)" "serve ev put (gb_srv g1) = Some (rep, s)" for ev put i rep s
    using that serve_reaches [OF that(1)] st(1)
    by (auto simp: handlePutPeer_def split: option.splits if_splits)
  then show ?thesis
    using st by (auto simp: g1 g2 bridgeSetStatus_def SetStatus_def BuildHeartbeat_def Let_def split: prod.splits)
qed


section \<open>Usage adds up\<close>

definition counter :: "int \<Rightarrow> bool" where
  "counter n \<longleftrightarrow> 0 \<le> n \<and> n \<le> 9223372036854775807"

lemma delta_counter: "counter cur \<Longrightarrow> counter prev \<Longrightarrow> delta cur prev = (if cur < prev then cur else cur - prev)"
  by (auto simp: delta_def counter_def in_int64_def Let_def)

definition usageOf :: "string \<Rightarrow> (PeerUsage \<Rightarrow> int) \<Rightarrow> PeerUsage list \<Rightarrow> int" where
  "usageOf pid f us = sum_list (map f (filter (\<lambda>u. pu_PeerID u = pid) us))"

lemma usageOf_simps [simp]:
  "usageOf pid f [] = 0" "usageOf pid f (u # us) = (if pu_PeerID u = pid then f u else 0) + usageOf pid f us"
  by (simp_all add: usageOf_def)

lemma usageLoop_other:
  assumes "\<forall>tr \<in> set trs. byKey (pt_WGPublicKey tr) \<noteq> Some pid" "usageLoop byKey trs lu = (out, lu')"
  shows "usageOf pid f out = 0 \<and> lu' pid = lu pid"
  using assms
proof (induction trs arbitrary: lu out lu')
  case (Cons tr trs)
  show ?case
  proof (cases "byKey (pt_WGPublicKey tr)")
    case None
    then show ?thesis using Cons by simp
  next
    case (Some p)
    obtain out1 lu1 where l: "usageLoop byKey trs (lu(p \<mapsto> (pt_RxBytes tr, pt_TxBytes tr))) = (out1, lu1)" by (rule prod.exhaust)
    have "p \<noteq> pid" using Cons.prems(1) Some by auto
    moreover have "usageOf pid f out1 = 0 \<and> lu1 pid = lu pid" using Cons.IH [OF _ l] Cons.prems(1) \<open>p \<noteq> pid\<close> by auto
    ultimately show ?thesis using Cons.prems(2) Some l by (auto simp: Let_def split: if_splits)
  qed
qed simp

lemma usageLoop_peer:
  assumes "distinct (map pt_WGPublicKey trs)" "\<forall>k. byKey k = Some pid \<longrightarrow> k = pt_WGPublicKey tr"
    and "tr \<in> set trs" "byKey (pt_WGPublicKey tr) = Some pid" "usageLoop byKey trs lu = (out, lu')"
  shows "lu' pid = Some (pt_RxBytes tr, pt_TxBytes tr) \<and>
    usageOf pid pu_RxBytesDelta out = delta (pt_RxBytes tr) (fst (counters lu pid)) \<and>
    usageOf pid pu_TxBytesDelta out = delta (pt_TxBytes tr) (snd (counters lu pid))"
  using assms(1,3,5)
proof (induction trs arbitrary: lu out lu')
  case (Cons t trs)
  show ?case
  proof (cases "t = tr")
    case True
    let ?lu = "lu(pid \<mapsto> (pt_RxBytes tr, pt_TxBytes tr))"
    obtain out1 lu1 where l: "usageLoop byKey trs ?lu = (out1, lu1)" by (rule prod.exhaust)
    have "\<forall>x \<in> set trs. byKey (pt_WGPublicKey x) \<noteq> Some pid" using Cons.prems(1) True assms(2) by force
    then have "usageOf pid f out1 = 0 \<and> lu1 pid = ?lu pid" for f by (rule usageLoop_other [OF _ l])
    then show ?thesis using Cons.prems(3) True assms(4) l by (auto simp: Let_def split: if_splits)
  next
    case False
    then have tr: "tr \<in> set trs" "pt_WGPublicKey t \<noteq> pt_WGPublicKey tr" using Cons.prems(1,2) by auto
    show ?thesis
    proof (cases "byKey (pt_WGPublicKey t)")
      case None
      then show ?thesis using Cons tr by simp
    next
      case (Some p)
      then have "p \<noteq> pid" using assms(2) tr(2) by auto
      moreover obtain out1 lu1 where l: "usageLoop byKey trs (lu(p \<mapsto> (pt_RxBytes t, pt_TxBytes t))) = (out1, lu1)" by (rule prod.exhaust)
      moreover have c: "counters (lu(p \<mapsto> (pt_RxBytes t, pt_TxBytes t))) pid = counters lu pid"
        using \<open>p \<noteq> pid\<close> by (simp add: counters_def)
      moreover have "distinct (map pt_WGPublicKey trs)" using Cons.prems(1) by simp
      note Cons.IH [OF this tr(1) l, unfolded c]
      ultimately show ?thesis
        using Cons.prems(3) Some by (auto simp: Let_def split: if_splits)
    qed
  qed
qed simp

lemma byKey_row:
  assumes "peers_unique (db_peers s)" "row \<in> set (db_peers s)"
  defines "byKey \<equiv> map_of (rev (map (\<lambda>p. (peer_WGPublicKey p, peer_ID p)) (listed s)))"
  shows "byKey (col_wg_public_key row) = Some (col_id row)" "byKey k = Some (col_id row) \<Longrightarrow> k = col_wg_public_key row"
proof -
  let ?rows = "sort_key col_created_at (db_peers s)"
  let ?kv = "map (\<lambda>r. (col_wg_public_key r, col_id r)) ?rows"
  have e: "map (\<lambda>p. (peer_WGPublicKey p, peer_ID p)) (listed s) = ?kv" by (simp add: scanPeer_def)
  have d: "distinct (map fst (rev ?kv))"
    using assms(1) by (simp add: peers_unique_def rev_map [symmetric] comp_def distinct_map inj_on_def)
  show "byKey (col_wg_public_key row) = Some (col_id row)"
    unfolding byKey_def e by (rule map_of_is_SomeI [OF d]) (use assms(2) in auto)
  show "k = col_wg_public_key row" if "byKey k = Some (col_id row)"
  proof -
    have "(k, col_id row) \<in> set ?kv" using map_of_SomeD [OF that [unfolded byKey_def e]] by auto
    then obtain r where "r \<in> set (db_peers s)" "col_id r = col_id row" "k = col_wg_public_key r" by auto
    then show ?thesis using assms(1,2) by (auto simp: peers_unique_def distinct_map inj_on_def)
  qed
qed


fun usageReports :: "'w BridgeEnv list \<Rightarrow> ('w, 'k) GatewayBridge \<Rightarrow> UsageReport list \<times> ('w, 'k) GatewayBridge" where
  "usageReports [] g = ([], g)"
| "usageReports (en # ens) g =
     (case BuildUsageReport en g of (ur, g1) \<Rightarrow> (case usageReports ens g1 of (urs, g2) \<Rightarrow> (ur # urs, g2)))"

definition reported :: "string \<Rightarrow> (PeerUsage \<Rightarrow> int) \<Rightarrow> UsageReport list \<Rightarrow> int" where
  "reported pid f urs = sum_list (map (\<lambda>ur. usageOf pid f (case ur_Peers ur of None \<Rightarrow> [] | Some us \<Rightarrow> us)) urs)"

text \<open>The device of \<open>en\<close> shows \<open>p\<close> for the key, among peers with different keys.\<close>

definition shows_peer :: "string \<Rightarrow> 'w BridgeEnv \<Rightarrow> DevicePeer \<Rightarrow> bool" where
  "shows_peer k en p \<longleftrightarrow>
     (case be_dev en of
        Inl _ \<Rightarrow> False
      | Inr ps \<Rightarrow> distinct (map dp_PublicKey ps) \<and> p \<in> set ps \<and> dp_PublicKey p = k \<and>
                  counter (dp_ReceiveBytes p) \<and> counter (dp_TransmitBytes p))"

lemma shows_peer_transfer:
  assumes "shows_peer k en p"
  obtains tr where "tr \<in> set (PeerTransfers (be_dev en))" "pt_WGPublicKey tr = k" "pt_RxBytes tr = dp_ReceiveBytes p"
    "pt_TxBytes tr = dp_TransmitBytes p" "distinct (map pt_WGPublicKey (PeerTransfers (be_dev en)))"
proof -
  obtain ps where ps: "be_dev en = Inr ps" "distinct (map dp_PublicKey ps)" "p \<in> set ps" "dp_PublicKey p = k"
    using assms by (auto simp: shows_peer_def split: sum.splits)
  let ?tr = "\<lambda>p. \<lparr>pt_WGPublicKey = dp_PublicKey p, pt_RxBytes = dp_ReceiveBytes p, pt_TxBytes = dp_TransmitBytes p,
        pt_LastHandshake = (case dp_LastHandshake p of Some t \<Rightarrow> t div 1000000000 | None \<Rightarrow> 0)\<rparr>"
  have m: "PeerTransfers (be_dev en) = map ?tr ps" by (simp add: PeerTransfers_def ctrlPeerTransfers_def ps(1))
  show thesis by (rule that [of "?tr p"]) (use ps(2-4) in \<open>auto simp: m comp_def\<close>)
qed

lemma BuildUsageReport_step:
  assumes "BuildUsageReport en g = (ur, g1)" "peers_unique (db_peers (nd_store (gb_nd g)))"
    and "row \<in> set (db_peers (nd_store (gb_nd g)))" "shows_peer (col_wg_public_key row) en p"
    and "counters (gb_lastUsage g) (col_id row) = (a, b)" "counter a" "counter b" "a \<le> dp_ReceiveBytes p" "b \<le> dp_TransmitBytes p"
  shows "db_peers (nd_store (gb_nd g1)) = db_peers (nd_store (gb_nd g))"
    and "(ur_Peers ur = None \<and> gb_lastUsage g1 = gb_lastUsage g \<and> db_faults (nd_store (gb_nd g)) \<noteq> []) \<or>
      (counters (gb_lastUsage g1) (col_id row) = (dp_ReceiveBytes p, dp_TransmitBytes p) \<and>
       (\<exists>us. ur_Peers ur = Some us \<and> usageOf (col_id row) pu_RxBytesDelta us = dp_ReceiveBytes p - a \<and>
             usageOf (col_id row) pu_TxBytesDelta us = dp_TransmitBytes p - b) \<and>
       (db_faults (nd_store (gb_nd g)) = [] \<longrightarrow> db_faults (nd_store (gb_nd g1)) = []))"
proof -
  let ?s = "nd_store (gb_nd g)"
  let ?byKey = "map_of (rev (map (\<lambda>p. (peer_WGPublicKey p, peer_ID p)) (listed ?s)))"
  obtain r st where l: "ListPeers ?s = (r, st)" by (rule prod.exhaust)
  have q: "db_faults ?s = [] \<Longrightarrow> r = Inr (listed ?s) \<and> st = ?s" using l by (auto simp: ListPeers_def)
  obtain tr where tr: "tr \<in> set (PeerTransfers (be_dev en))" "pt_WGPublicKey tr = col_wg_public_key row"
    "pt_RxBytes tr = dp_ReceiveBytes p" "pt_TxBytes tr = dp_TransmitBytes p"
    "distinct (map pt_WGPublicKey (PeerTransfers (be_dev en)))" by (rule shows_peer_transfer [OF assms(4)])
  have c: "counter (dp_ReceiveBytes p)" "counter (dp_TransmitBytes p)"
    using assms(4) by (auto simp: shows_peer_def split: sum.splits)
  obtain out lu where u: "usageLoop ?byKey (PeerTransfers (be_dev en)) (gb_lastUsage g) = (out, lu)" by (rule prod.exhaust)
  have k: "?byKey (pt_WGPublicKey tr) = Some (col_id row)" unfolding tr(2) by (rule byKey_row(1) [OF assms(2,3)])
  have i: "\<forall>k. ?byKey k = Some (col_id row) \<longrightarrow> k = pt_WGPublicKey tr"
    unfolding tr(2) using byKey_row(2) [OF assms(2,3)] by blast
  have lu: "lu (col_id row) = Some (dp_ReceiveBytes p, dp_TransmitBytes p) \<and>
      usageOf (col_id row) pu_RxBytesDelta out = dp_ReceiveBytes p - a \<and>
      usageOf (col_id row) pu_TxBytesDelta out = dp_TransmitBytes p - b"
    using usageLoop_peer [OF tr(5) i tr(1) k u] assms(8,9) by (simp add: delta_counter tr(3,4) assms(5-7) c)
  show "db_peers (nd_store (gb_nd g1)) = db_peers ?s"
    using assms(1) l by (auto simp: BuildUsageReport_def split: sum.splits prod.splits elim!: ListPeersE)
  show "(ur_Peers ur = None \<and> gb_lastUsage g1 = gb_lastUsage g \<and> db_faults ?s \<noteq> []) \<or>
      (counters (gb_lastUsage g1) (col_id row) = (dp_ReceiveBytes p, dp_TransmitBytes p) \<and>
       (\<exists>us. ur_Peers ur = Some us \<and> usageOf (col_id row) pu_RxBytesDelta us = dp_ReceiveBytes p - a \<and>
             usageOf (col_id row) pu_TxBytesDelta us = dp_TransmitBytes p - b) \<and>
       (db_faults ?s = [] \<longrightarrow> db_faults (nd_store (gb_nd g1)) = []))"
    using l
  proof (cases rule: ListPeersE)
    case (fault e fs)
    then show ?thesis using assms(1) l q by (auto simp: BuildUsageReport_def)
  next
    case (ok fs)
    then show ?thesis using assms(1) l q u lu by (auto simp: BuildUsageReport_def counters_def)
  qed
qed


lemma reported_simps [simp]:
  "reported pid f [] = 0"
  "reported pid f (ur # urs) = usageOf pid f (case ur_Peers ur of None \<Rightarrow> [] | Some us \<Rightarrow> us) + reported pid f urs"
  by (simp_all add: reported_def)

lemma usageReports_telescope:
  assumes "usageReports ens g = (urs, g')" "peers_unique (db_peers (nd_store (gb_nd g)))"
    and "row \<in> set (db_peers (nd_store (gb_nd g)))" "list_all2 (shows_peer (col_wg_public_key row)) ens ps"
    and "counters (gb_lastUsage g) (col_id row) = (a, b)" "counter a" "counter b"
    and "sorted (a # map dp_ReceiveBytes ps)" "sorted (b # map dp_TransmitBytes ps)"
  shows "reported (col_id row) pu_RxBytesDelta urs = fst (counters (gb_lastUsage g') (col_id row)) - a \<and>
    reported (col_id row) pu_TxBytesDelta urs = snd (counters (gb_lastUsage g') (col_id row)) - b \<and>
    (db_faults (nd_store (gb_nd g)) = [] \<longrightarrow> ps \<noteq> [] \<longrightarrow>
       counters (gb_lastUsage g') (col_id row) = (dp_ReceiveBytes (last ps), dp_TransmitBytes (last ps)))"
  using assms
proof (induction ens arbitrary: g urs ps a b)
  case Nil
  then show ?case by simp
next
  case (Cons en ens)
  let ?pid = "col_id row"
  obtain p qs where ps: "ps = p # qs" "shows_peer (col_wg_public_key row) en p" "list_all2 (shows_peer (col_wg_public_key row)) ens qs"
    using Cons.prems(4) by (auto simp: list_all2_Cons1)
  obtain ur g1 where r: "BuildUsageReport en g = (ur, g1)" by (rule prod.exhaust)
  obtain urs1 where u: "usageReports ens g1 = (urs1, g')" "urs = ur # urs1"
    using Cons.prems(1) r by (auto split: prod.splits)
  have le: "a \<le> dp_ReceiveBytes p" "b \<le> dp_TransmitBytes p" using Cons.prems(8,9) ps(1) by simp_all
  note step = BuildUsageReport_step [OF r Cons.prems(2,3) ps(2) Cons.prems(5-7) le]
  have rows: "peers_unique (db_peers (nd_store (gb_nd g1)))" "row \<in> set (db_peers (nd_store (gb_nd g1)))"
    using Cons.prems(2,3) step(1) by simp_all
  from step(2) show ?case
  proof (elim disjE conjE exE)
    assume "ur_Peers ur = None" "gb_lastUsage g1 = gb_lastUsage g" "db_faults (nd_store (gb_nd g)) \<noteq> []"
    moreover have "sorted (a # map dp_ReceiveBytes qs)" "sorted (b # map dp_TransmitBytes qs)"
      using Cons.prems(8,9) ps(1) by simp_all
    ultimately show ?case
      using Cons.IH [OF u(1) rows ps(3), of a b] Cons.prems(5-7) u(2) by simp
  next
    fix us
    assume us: "counters (gb_lastUsage g1) ?pid = (dp_ReceiveBytes p, dp_TransmitBytes p)" "ur_Peers ur = Some us"
      "usageOf ?pid pu_RxBytesDelta us = dp_ReceiveBytes p - a" "usageOf ?pid pu_TxBytesDelta us = dp_TransmitBytes p - b"
      and q: "db_faults (nd_store (gb_nd g)) = [] \<longrightarrow> db_faults (nd_store (gb_nd g1)) = []"
    have c: "counter (dp_ReceiveBytes p)" "counter (dp_TransmitBytes p)"
      using ps(2) by (auto simp: shows_peer_def split: sum.splits)
    have s: "sorted (dp_ReceiveBytes p # map dp_ReceiveBytes qs)" "sorted (dp_TransmitBytes p # map dp_TransmitBytes qs)"
      using Cons.prems(8,9) ps(1) by simp_all
    note ih = Cons.IH [OF u(1) rows ps(3) us(1) c s]
    have "qs = [] \<Longrightarrow> ens = []" using ps(3) by simp
    then have "qs = [] \<Longrightarrow> counters (gb_lastUsage g') ?pid = (dp_ReceiveBytes p, dp_TransmitBytes p)"
      using u(1) us(1) by simp
    then show ?case using ih us(2-4) q u(2) ps(1) by auto
  qed
qed


text \<open>
  Arguments without a list are taken for an empty one: the command then removes every peer and is
  answered as a success.
\<close>

lemma resync_null_removes_all:
  assumes "ResyncPeers (gb_cfg g) (be_ParseKey en) (gb_nd g) [] = (Inr missing, nd)"
  shows "HandleCommand en g \<lparr>cd_Action = ''resync_peers'', cd_RequestID = rid, cd_Args = Some JNull\<rparr> =
      (\<lparr>cs_RequestID = rid, cs_OK = True, cs_Error = []\<rparr>, setNode nd g)" "node_ids nd = {}"
proof -
  have v: "node_ids nd = {}" "missing = []" using ResyncPeers_view(2) [OF assms] by auto
  then show "node_ids nd = {}" by simp
  have "resyncArgs (Some JNull) = Some []"
    by (simp add: resyncArgs_def is_struct_def strings_field_def field_def members_def)
  then show "HandleCommand en g \<lparr>cd_Action = ''resync_peers'', cd_RequestID = rid, cd_Args = Some JNull\<rparr> =
      (\<lparr>cs_RequestID = rid, cs_OK = True, cs_Error = []\<rparr>, setNode nd g)"
    using assms v(2) by (simp add: HandleCommand_def cmdResyncPeers_def Let_def)
qed



section \<open>Witnesses\<close>

definition ex_bridge :: "(unit, unit) GatewayBridge" where
  "ex_bridge = NewGatewayBridge (ex_srv\<lparr>sv_cfg := ex_wg_config\<rparr>) ''n1'' ''did:erebrus:n1'' ''n1'' None None None ()"

definition ex_counters :: "int \<Rightarrow> DevicePeer" where
  "ex_counters n = \<lparr>dp_PublicKey = ''ka'', dp_ReceiveBytes = n, dp_TransmitBytes = 2 * n, dp_LastHandshake = None\<rparr>"

definition ex_world :: "int \<Rightarrow> unit BridgeEnv" where
  "ex_world n =
     \<lparr>be_ex = (\<lambda>w r. (Inl (Errorf ''refused''), w)), be_decErr = Errorf ''json'', be_ParseKey = ex_ParseKey, be_crypto = ex_crypto,
      be_numCPU = 2, be_mem = Inl (Errorf ''mem''), be_cpu = Inr [], be_now = n, be_dev = Inr [ex_counters n], be_shortID = ''ab''\<rparr>"

lemma ex_bridge_inv: "bridge_inv ex_bridge"
  using ex_node_inv ex_node_subnet by (simp add: bridge_inv_def node_inv_def ex_bridge_def NewGatewayBridge_def ex_srv_def)

definition ex_session :: Attempt where
  "ex_session =
     \<lparr>at_Dial = None, at_HelloWrite = None,
      at_Events = [Incoming (Inr (wrap ''command'' (commandJSON \<lparr>cd_Action = ''drain'', cd_RequestID = ''r'', cd_Args = None\<rparr>))) None,
                   HeartbeatDue None, UsageDue None, Incoming (Inl (Errorf ''closed'')) None], at_Rand = (\<lambda>n. n div 2)\<rparr>"

theorem gateway_keeps_node_witness:
  "\<exists>sleeps out backoff' c' n' g'.
     runClient (bridgeHandler (\<lambda>n. ex_world (int n))) None None (Errorf ''json'') (\<lambda>_. ''0'') [ex_session] second
       (newClient ''https://gw'' ''n1'' ''t'') (0, ex_bridge) = (sleeps, out, backoff', c', (n', g')) \<and> bridge_inv g'"
proof -
  obtain sleeps out backoff' c' n' g' where r: "runClient (bridgeHandler (\<lambda>n. ex_world (int n))) None None (Errorf ''json'')
      (\<lambda>_. ''0'') [ex_session] second (newClient ''https://gw'' ''n1'' ''t'') (0, ex_bridge) = (sleeps, out, backoff', c', (n', g'))"
    by (metis prod.exhaust)
  show ?thesis using gateway_keeps_node [OF ex_bridge_inv _ r] r by blast
qed

theorem resync_over_the_wire_witness:
  "\<exists>e out c' n' g' res. handleFrame (bridgeHandler (\<lambda>n. ex_world (int n))) None (Errorf ''json'') None
      (wrap ''command'' (commandJSON \<lparr>cd_Action = ''resync_peers'', cd_RequestID = ''r'',
         cd_Args = Some (JObj [(''peer_ids'', JList (map JStr [''a'', ''b'']))])\<rparr>)) (newClient ''https://gw'' ''n1'' ''t'') (0, ex_bridge) =
      (e, out, c', (n', g')) \<and> bridge_inv g' \<and> out = [TextFrame (wrap ''command_result'' (resultJSON res))] \<and> cs_RequestID res = ''r''"
proof -
  obtain e out c' n' g' where r: "handleFrame (bridgeHandler (\<lambda>n. ex_world (int n))) None (Errorf ''json'') None
      (wrap ''command'' (commandJSON \<lparr>cd_Action = ''resync_peers'', cd_RequestID = ''r'',
         cd_Args = Some (JObj [(''peer_ids'', JList (map JStr [''a'', ''b'']))])\<rparr>)) (newClient ''https://gw'' ''n1'' ''t'') (0, ex_bridge) =
      (e, out, c', (n', g'))" by (metis prod.exhaust)
  show ?thesis using resync_over_the_wire [OF ex_bridge_inv r] r by blast
qed

theorem drain_refuses_peers_witness:
  "\<exists>g1 g2. HandleCommand (ex_world 1) ex_bridge \<lparr>cd_Action = ''drain'', cd_RequestID = ''r'', cd_Args = None\<rparr> =
       (\<lparr>cs_RequestID = ''r'', cs_OK = True, cs_Error = []\<rparr>, g1) \<and>
     hb_Status (fst (BuildHeartbeat (ex_world 2) g1 (gb_status g1))) = ''draining'' \<and>
     HandleCommand (ex_world 2) g1 \<lparr>cd_Action = ''undrain'', cd_RequestID = ''q'', cd_Args = None\<rparr> =
       (\<lparr>cs_RequestID = ''q'', cs_OK = True, cs_Error = []\<rparr>, g2) \<and> gb_status g2 = ''online''"
proof -
  let ?c = "\<lparr>cd_Action = ''drain'', cd_RequestID = ''r'', cd_Args = None\<rparr>"
  let ?c' = "\<lparr>cd_Action = ''undrain'', cd_RequestID = ''q'', cd_Args = None\<rparr>"
  define g1 where "g1 = snd (HandleCommand (ex_world 1) ex_bridge ?c)"
  have r: "HandleCommand (ex_world 1) ex_bridge ?c = (\<lparr>cs_RequestID = ''r'', cs_OK = True, cs_Error = []\<rparr>, g1)"
    by (simp add: HandleCommand_def g1_def)
  obtain g2 where r': "HandleCommand (ex_world 2) g1 ?c' = (\<lparr>cs_RequestID = ''q'', cs_OK = True, cs_Error = []\<rparr>, g2)"
    by (simp add: HandleCommand_def)
  show ?thesis using drain_refuses_peers [OF _ r _ r'] r r' by auto
qed

lemma ex_bridge_row:
  "map (\<lambda>r. (col_id r, col_wg_public_key r)) (db_peers (nd_store (gb_nd ex_bridge))) = [(''a'', ''ka'')] \<and>
   db_faults (nd_store (gb_nd ex_bridge)) = []"
  by (simp add: ex_bridge_def NewGatewayBridge_def ex_srv_def ex_node_def ex_wg_def ex_store_def ex_row_def fresh_store_def)


end
