(* ===== verification/Services.thy ===== *)
theory Services
  imports Store Json
begin

text \<open>
  The private service registry (\<open>src/internal/services/\<close>) with its access rules, and the built-in
  service templates (\<open>src/internal/templates/templates.go\<close>). The clock and the generated ids are
  arguments. The tags of a service are \<open>None\<close> for a nil slice.
\<close>

section \<open>Registry\<close>

record Service =
  sv_ID :: string
  sv_Name :: string
  sv_Type :: string
  sv_Protocol :: string
  sv_InternalAddr :: string
  sv_Port :: int
  sv_OwnerPeerID :: string
  sv_OwnerDID :: string
  sv_Visibility :: string
  sv_AuthMode :: string
  sv_Tags :: "string list option"
  sv_CreatedAt :: int
  sv_UpdatedAt :: int

definition tagsJSON :: "string list option \<Rightarrow> string" where
  "tagsJSON tags = json_enc (case tags of None \<Rightarrow> JNull | Some ts \<Rightarrow> JList (map JStr ts))"

text \<open>An element of the wrong type leaves the empty string, any other fault a nil slice.\<close>

definition tagsOf :: "string \<Rightarrow> string list option" where
  "tagsOf s =
     (case json_dec s of
        Some (JList vs) \<Rightarrow> Some (map (\<lambda>v. case v of JStr t \<Rightarrow> t | _ \<Rightarrow> []) vs)
      | _ \<Rightarrow> None)"

definition orDefault :: "string \<Rightarrow> string \<Rightarrow> string" where
  "orDefault s d = (if s = [] then d else s)"

definition publishDefaults :: "int \<Rightarrow> string \<Rightarrow> Service \<Rightarrow> Service" where
  "publishDefaults now uuid s =
     s\<lparr>sv_ID := orDefault (sv_ID s) (''svc_'' @ ReplaceAllChar (sv_Name s) CHR '' '' CHR ''-'' @ ''_'' @ take 8 uuid),
       sv_Protocol := orDefault (sv_Protocol s) ''http'',
       sv_Visibility := orDefault (sv_Visibility s) ''private'',
       sv_AuthMode := orDefault (sv_AuthMode s) ''vpn-peer'',
       sv_InternalAddr := orDefault (sv_InternalAddr s) (''127.0.0.1:'' @ Itoa (sv_Port s)),
       sv_CreatedAt := now, sv_UpdatedAt := now\<rparr>"

definition serviceToRow :: "Service \<Rightarrow> ServiceRow" where
  "serviceToRow s =
     \<lparr>svc_ID = sv_ID s, svc_Name = sv_Name s, svc_Type = sv_Type s, svc_Protocol = sv_Protocol s,
      svc_InternalAddr = sv_InternalAddr s, svc_Port = sv_Port s, svc_OwnerPeerID = sv_OwnerPeerID s,
      svc_OwnerDID = sv_OwnerDID s, svc_Visibility = sv_Visibility s, svc_AuthMode = sv_AuthMode s,
      svc_Tags = tagsJSON (sv_Tags s), svc_CreatedAt = sv_CreatedAt s, svc_UpdatedAt = sv_UpdatedAt s\<rparr>"

definition rowToService :: "ServiceRow \<Rightarrow> Service" where
  "rowToService r =
     \<lparr>sv_ID = svc_ID r, sv_Name = svc_Name r, sv_Type = svc_Type r, sv_Protocol = svc_Protocol r,
      sv_InternalAddr = svc_InternalAddr r, sv_Port = svc_Port r, sv_OwnerPeerID = svc_OwnerPeerID r,
      sv_OwnerDID = svc_OwnerDID r, sv_Visibility = svc_Visibility r, sv_AuthMode = svc_AuthMode r,
      sv_Tags = tagsOf (svc_Tags r), sv_CreatedAt = svc_CreatedAt r, sv_UpdatedAt = svc_UpdatedAt r\<rparr>"

definition Publish :: "Store \<Rightarrow> Service \<Rightarrow> int \<Rightarrow> string \<Rightarrow> Service result \<times> Store" where
  "Publish st s now uuid =
     (if sv_Name s = [] \<or> sv_Port s \<le> 0 then (Inl (Errorf ''name and port are required''), st)
      else let s' = publishDefaults now uuid s
           in case UpsertService st (serviceToRow s') of
                (Some e, st') \<Rightarrow> (Inl e, st')
              | (None, st') \<Rightarrow> (Inr s', st'))"

definition ListSvc :: "Store \<Rightarrow> Service list result \<times> Store" where
  "ListSvc st =
     (case ListServices st of
        (Inl e, st') \<Rightarrow> (Inl e, st')
      | (Inr rows, st') \<Rightarrow> (Inr (map rowToService rows), st'))"

definition GetSvc :: "Store \<Rightarrow> string \<Rightarrow> Service result \<times> Store" where
  "GetSvc st sid =
     (case GetService st sid of
        (Inl e, st') \<Rightarrow> (Inl e, st')
      | (Inr row, st') \<Rightarrow> (Inr (rowToService row), st'))"

definition RemoveSvc :: "Store \<Rightarrow> string \<Rightarrow> error option \<times> Store" where
  "RemoveSvc st sid = DeleteService st sid"

definition FindByName :: "Store \<Rightarrow> string \<Rightarrow> Service result \<times> Store" where
  "FindByName st nm =
     (case GetServiceByName st nm of
        (Inl e, st') \<Rightarrow> (Inl e, st')
      | (Inr row, st') \<Rightarrow> (Inr (rowToService row), st'))"


section \<open>Access rules\<close>

definition matchSubject :: "string \<Rightarrow> string \<Rightarrow> bool" where
  "matchSubject rule0 subject0 =
     (let rule = TrimSpace rule0; subject = TrimSpace subject0
      in if rule = ''public'' then True
         else if HasPrefix rule ''peer:'' then subject = TrimPrefix rule ''peer:''
         else if HasPrefix rule ''did:'' then subject = TrimPrefix rule ''did:''
         else if HasPrefix rule ''wallet:'' then EqualFold subject (TrimPrefix rule ''wallet:'')
         else rule = subject)"

definition AllowConnect :: "Store \<Rightarrow> Service option \<Rightarrow> string \<Rightarrow> bool result \<times> Store" where
  "AllowConnect st osvc subject =
     (case osvc of
        None \<Rightarrow> (Inl (Errorf ''service is nil''), st)
      | Some svc \<Rightarrow>
          (if sv_AuthMode svc = ''public'' then (Inr True, st)
           else if sv_AuthMode svc = ''vpn-peer'' then
             (if subject = [] then (Inr False, st)
              else if sv_OwnerPeerID svc \<noteq> [] \<and> subject = sv_OwnerPeerID svc then (Inr True, st)
              else case ListServiceACLs st (sv_ID svc) of
                     (Inl e, st') \<Rightarrow> (Inl e, st')
                   | (Inr acls, st') \<Rightarrow>
                       (Inr (list_ex (\<lambda>a. (acl_Action a = ''connect'' \<or> acl_Action a = []) \<and> matchSubject (acl_Subject a) subject) acls
                             \<or> sv_Visibility svc \<noteq> ''private'' \<or> sv_OwnerPeerID svc = subject), st'))
           else if sv_AuthMode svc = ''token'' then
             (case ListServiceACLs st (sv_ID svc) of
                (Inl e, st') \<Rightarrow> (Inl e, st')
              | (Inr acls, st') \<Rightarrow> (Inr (list_ex (\<lambda>a. matchSubject (acl_Subject a) subject) acls), st'))
           else (Inr (sv_Visibility svc = ''public''), st)))"

definition Grant :: "Store \<Rightarrow> string \<Rightarrow> string \<Rightarrow> string \<Rightarrow> string \<Rightarrow> int \<Rightarrow> error option \<times> Store" where
  "Grant st sid subject action newid now =
     InsertServiceACL st \<lparr>acl_ID = [], acl_ServiceID = sid, acl_Subject = subject, acl_Action = action, acl_CreatedAt = 0\<rparr> newid now"


section \<open>Templates\<close>

record Template =
  tm_Name :: string
  tm_Type :: string
  tm_Ports :: "int list"
  tm_Protocol :: string
  tm_DefaultVisibility :: string
  tm_DefaultAuth :: string
  tm_Description :: string

definition preset :: "string \<Rightarrow> string \<Rightarrow> int \<Rightarrow> string \<Rightarrow> Template" where
  "preset nm typ port descr =
     \<lparr>tm_Name = nm, tm_Type = typ, tm_Ports = [port], tm_Protocol = ''http'',
      tm_DefaultVisibility = ''private'', tm_DefaultAuth = ''vpn-peer'', tm_Description = descr\<rparr>"

definition Catalog :: "Template list" where
  "Catalog =
     [preset ''drop-room'' ''webdav'' 8787 ''WebDAV/file sharing'',
      preset ''ollama'' ''ai.llm'' 11434 ''Local Ollama LLM API'',
      preset ''openai-compatible-llm'' ''ai.llm'' 8080 ''OpenAI-compatible local endpoint'',
      preset ''nextcloud'' ''web'' 8080 ''Nextcloud'',
      preset ''home-assistant'' ''web'' 8123 ''Home Assistant'',
      preset ''dashboard'' ''web'' 3000 ''Local web dashboard'',
      preset ''static-site'' ''web'' 8080 ''Simple static site'']"

definition FindTemplate :: "string \<Rightarrow> Template result" where
  "FindTemplate nm =
     (case find (\<lambda>t. tm_Name t = nm) Catalog of
        None \<Rightarrow> Inl (Errorf (''unknown template '' @ Quote nm))
      | Some t \<Rightarrow> Inr t)"

definition templateService :: "Template \<Rightarrow> Service" where
  "templateService t =
     \<lparr>sv_ID = [], sv_Name = tm_Name t, sv_Type = tm_Type t, sv_Protocol = tm_Protocol t,
      sv_InternalAddr = [], sv_Port = hd (tm_Ports t), sv_OwnerPeerID = [], sv_OwnerDID = [],
      sv_Visibility = tm_DefaultVisibility t, sv_AuthMode = tm_DefaultAuth t, sv_Tags = None,
      sv_CreatedAt = 0, sv_UpdatedAt = 0\<rparr>"

definition Install :: "Store \<Rightarrow> string \<Rightarrow> int \<Rightarrow> string \<Rightarrow> Service result \<times> Store" where
  "Install st nm now uuid =
     (case FindTemplate nm of
        Inl e \<Rightarrow> (Inl e, st)
      | Inr t \<Rightarrow> Publish st (templateService t) now uuid)"


section \<open>Rows and services\<close>

lemma tagsOf_tagsJSON [simp]: "tagsOf (tagsJSON tags) = tags"
proof -
  have "json_ok (case tags of None \<Rightarrow> JNull | Some ts \<Rightarrow> JList (map JStr ts))"
    by (auto intro!: json_ok.intros split: option.split)
  from json_roundtrip [OF this] show ?thesis
    by (simp add: tagsOf_def tagsJSON_def comp_def split: option.split)
qed

lemma rowToService_toRow [simp]: "rowToService (serviceToRow s) = s"
  by (simp add: rowToService_def serviceToRow_def)

lemma serviceToRow_ID [simp]: "svc_ID (serviceToRow s) = sv_ID s"
  by (simp add: serviceToRow_def)

text \<open>What the upsert makes of an existing row: owner and time of creation stay.\<close>

definition merged :: "Service \<Rightarrow> ServiceRow \<Rightarrow> Service" where
  "merged s r = s\<lparr>sv_OwnerPeerID := svc_OwnerPeerID r, sv_OwnerDID := svc_OwnerDID r, sv_CreatedAt := svc_CreatedAt r\<rparr>"

definition mergeRow :: "ServiceRow \<Rightarrow> ServiceRow \<Rightarrow> ServiceRow" where
  "mergeRow row r =
     (if svc_ID r = svc_ID row
      then row\<lparr>svc_OwnerPeerID := svc_OwnerPeerID r, svc_OwnerDID := svc_OwnerDID r, svc_CreatedAt := svc_CreatedAt r\<rparr>
      else r)"

lemma UpsertServiceE:
  assumes "UpsertService st row = (oe, st')"
  obtains (failed) e fs where "oe = Some e" "st' = st\<lparr>db_faults := fs\<rparr>"
  | (inserted) fs where "oe = None" "\<forall>r \<in> set (db_services st). svc_ID r \<noteq> svc_ID row"
      "st' = st\<lparr>db_services := db_services st @ [row], db_faults := fs\<rparr>"
  | (updated) r fs where "oe = None" "r \<in> set (db_services st)" "svc_ID r = svc_ID row"
      "st' = st\<lparr>db_services := map (mergeRow row) (db_services st), db_faults := fs\<rparr>"
proof -
  obtain oe1 s1 where c: "db_call st = (oe1, s1)" by (rule prod.exhaust)
  then obtain fs where s1: "s1 = st\<lparr>db_faults := fs\<rparr>" by (rule db_callE)
  show thesis
  proof (cases oe1)
    case (Some e)
    show thesis by (rule failed [of e fs]) (use assms c s1 Some in \<open>auto simp: UpsertService_def\<close>)
  next
    case None
    show thesis
    proof (cases "\<exists>r \<in> set (db_services st). svc_ID r = svc_ID row")
      case False
      show thesis by (rule inserted [of fs]) (use assms c s1 None False in \<open>auto simp: UpsertService_def\<close>)
    next
      case True
      then obtain r where r: "r \<in> set (db_services st)" "svc_ID r = svc_ID row" by auto
      have m: "mergeRow row = (\<lambda>r. if svc_ID r = svc_ID row
          then r\<lparr>svc_Name := svc_Name row, svc_Type := svc_Type row, svc_Protocol := svc_Protocol row,
                 svc_InternalAddr := svc_InternalAddr row, svc_Port := svc_Port row,
                 svc_Visibility := svc_Visibility row, svc_AuthMode := svc_AuthMode row,
                 svc_Tags := svc_Tags row, svc_UpdatedAt := svc_UpdatedAt row\<rparr> else r)"
        by (auto simp: mergeRow_def fun_eq_iff)
      show thesis by (rule updated [of r fs]) (use assms c s1 None True r m in \<open>auto simp: UpsertService_def\<close>)
    qed
  qed
qed

lemma GetService_row:
  assumes "distinct (map svc_ID (db_services st))" "r \<in> set (db_services st)" "db_faults st = []"
  shows "GetService st (svc_ID r) = (Inr r, st)"
  using assms find_unique [of svc_ID "db_services st" r] by (simp add: GetService_def)

lemma mergeRow_ID [simp]: "svc_ID (mergeRow row r) = svc_ID r"
  by (simp add: mergeRow_def)

lemma rowToService_merge: "svc_ID r = sv_ID s \<Longrightarrow> rowToService (mergeRow (serviceToRow s) r) = merged s r"
  by (simp add: mergeRow_def merged_def rowToService_def serviceToRow_def)

lemma ListServiceACLs_ok [simp]:
  "db_faults st = [] \<Longrightarrow> ListServiceACLs st sid = (Inr (filter (\<lambda>a. acl_ServiceID a = sid) (db_acls st)), st)"
  by (simp add: ListServiceACLs_def)

lemma GrantE:
  assumes "Grant st sid subj act newid now = (None, st')"
  obtains a fs where "acl_ServiceID a = sid" "acl_Subject a = subj" "acl_Action a = act"
    "st' = st\<lparr>db_acls := db_acls st @ [a], db_faults := fs\<rparr>"
proof -
  obtain oe s1 where c: "db_call st = (oe, s1)" by (rule prod.exhaust)
  then obtain fs where s1: "s1 = st\<lparr>db_faults := fs\<rparr>" by (rule db_callE)
  let ?a = "\<lparr>acl_ID = newid, acl_ServiceID = sid, acl_Subject = subj, acl_Action = act, acl_CreatedAt = now\<rparr>"
  have "oe = None" using assms c by (cases oe) (auto simp: Grant_def InsertServiceACL_def Let_def)
  then show thesis
    using assms c s1 by (intro that [of ?a fs]) (auto simp: Grant_def InsertServiceACL_def Let_def split: if_splits)
qed

lemma PublishE:
  assumes "Publish st s now uuid = (Inr s', st')"
  obtains "sv_Name s \<noteq> []" "0 < sv_Port s" "s' = publishDefaults now uuid s" "UpsertService st (serviceToRow s') = (None, st')"
  using assms by (auto simp: Publish_def Let_def split: if_splits prod.splits option.splits)


section \<open>Looking services up\<close>

text \<open>
  What the private resolver relies on: a lookup gives the first service of that name and changes
  no service.
\<close>

locale service_directory =
  fixes lookup :: "'s \<Rightarrow> string \<Rightarrow> Service result \<times> 's"
    and entries :: "'s \<Rightarrow> Service list"
  assumes lookup_ok: "lookup st nm = (Inr svc, st') \<Longrightarrow> find (\<lambda>s. sv_Name s = nm) (entries st) = Some svc"
    and lookup_keeps: "lookup st nm = (r, st') \<Longrightarrow> entries st' = entries st"
begin

lemma lookup_named: "lookup st nm = (Inr svc, st') \<Longrightarrow> svc \<in> set (entries st) \<and> sv_Name svc = nm"
  by (drule lookup_ok) (auto simp: find_Some_iff)

end

definition db_entries :: "Store \<Rightarrow> Service list" where
  "db_entries st = map rowToService (db_services st)"

lemma rowToService_Name [simp]: "sv_Name (rowToService r) = svc_Name r"
  by (simp add: rowToService_def)

lemma find_SomeD: "find P xs = Some x \<Longrightarrow> x \<in> set xs \<and> P x"
  by (auto simp: find_Some_iff)

lemma find_map: "find P (map f xs) = map_option f (find (P \<circ> f) xs)"
  by (induction xs) auto

lemma FindByName_find:
  assumes "FindByName st nm = (r, st')"
  shows "db_entries st' = db_entries st \<and> (\<forall>svc. r = Inr svc \<longrightarrow> find (\<lambda>s. sv_Name s = nm) (db_entries st) = Some svc)"
proof -
  obtain oe s1 where c: "db_call st = (oe, s1)" by (rule prod.exhaust)
  then obtain fs where s1: "s1 = st\<lparr>db_faults := fs\<rparr>" by (rule db_callE)
  show ?thesis
    using assms c s1
    by (cases oe) (auto simp: FindByName_def GetServiceByName_def db_entries_def find_map comp_def split: option.splits)
qed

interpretation registry: service_directory FindByName db_entries
  by unfold_locales (use FindByName_find in blast)+


section \<open>Properties\<close>

text \<open>
  C34. Publishing and reading back: a successful \<open>Publish\<close> under a new id is read back as it was
  answered, tags included. Under an existing id the owner and the time of creation of the stored
  service stay; everything else is replaced.
\<close>

theorem Publish_Get:
  assumes "distinct (map svc_ID (db_services st))" "Publish st s now uuid = (Inr s', st')" "db_faults st' = []"
  shows "GetSvc st' (sv_ID s') =
    (Inr (case find (\<lambda>r. svc_ID r = sv_ID s') (db_services st) of None \<Rightarrow> s' | Some r \<Rightarrow> merged s' r), st')"
proof -
  from assms(2) have "UpsertService st (serviceToRow s') = (None, st')" by (rule PublishE)
  then show ?thesis
  proof (cases rule: UpsertServiceE)
    case (inserted fs)
    then have "find (\<lambda>r. svc_ID r = sv_ID s') (db_services st) = None" by (simp add: find_None_iff)
    moreover have "sv_ID s' \<notin> svc_ID ` set (db_services st)" using inserted by auto
    then have "GetService st' (sv_ID s') = (Inr (serviceToRow s'), st')"
      using inserted assms(1,3) GetService_row [of st' "serviceToRow s'"] by simp
    ultimately show ?thesis by (simp add: GetSvc_def)
  next
    case (updated r fs)
    then have f: "find (\<lambda>r. svc_ID r = sv_ID s') (db_services st) = Some r"
      using find_unique [OF assms(1) updated(2)] by simp
    have "GetService st' (svc_ID (mergeRow (serviceToRow s') r)) = (Inr (mergeRow (serviceToRow s') r), st')"
      using updated assms(1,3) by (intro GetService_row) (auto simp: comp_def)
    then show ?thesis using f updated by (simp add: GetSvc_def rowToService_merge)
  qed simp
qed

text \<open>
  C33. A grant does what it says and no more: for the service it names, a connection is allowed
  afterwards exactly when it was before or the new rule covers the subject and applies in the
  service's mode; for every other service nothing changes.
\<close>

theorem Grant_exact:
  assumes "Grant st sid subj act newid now = (None, st')" "db_faults st = []" "db_faults st' = []"
  shows "fst (AllowConnect st' (Some svc) x) =
    map_sum id (\<lambda>b. b \<or> sv_ID svc = sid \<and> matchSubject subj x \<and>
        (sv_AuthMode svc = ''token'' \<or> sv_AuthMode svc = ''vpn-peer'' \<and> x \<noteq> [] \<and> act \<in> {[], ''connect''}))
      (fst (AllowConnect st (Some svc) x))"
proof -
  from assms(1) obtain a fs where "acl_ServiceID a = sid" "acl_Subject a = subj" "acl_Action a = act"
    "st' = st\<lparr>db_acls := db_acls st @ [a], db_faults := fs\<rparr>" by (rule GrantE)
  then show ?thesis using assms(2,3) by (auto simp: AllowConnect_def)
qed

text \<open>
  A service installed from a template is closed: until somebody grants a rule, no subject may
  connect to it, whatever rules other services have.
\<close>

theorem Install_closed:
  assumes "acls_inv (db_services st) (db_acls st)" "Install st nm now uuid = (Inr svc, st')" "db_faults st' = []"
    and "\<forall>r \<in> set (db_services st). svc_ID r \<noteq> sv_ID svc"
  shows "AllowConnect st' (Some svc) x = (Inr False, st')"
proof -
  obtain t where t: "t \<in> set Catalog" "Publish st (templateService t) now uuid = (Inr svc, st')"
    using assms(2) by (auto simp: Install_def FindTemplate_def split: option.splits dest: find_SomeD)
  then have mode: "tm_DefaultAuth t = ''vpn-peer''" "tm_DefaultVisibility t = ''private''"
    by (auto simp: Catalog_def preset_def)
  from t(2) show ?thesis
  proof (rule PublishE)
    assume svc: "svc = publishDefaults now uuid (templateService t)" and u: "UpsertService st (serviceToRow svc) = (None, st')"
    from u have acls: "db_acls st' = db_acls st" by (cases rule: UpsertServiceE) simp_all
    have "\<forall>a \<in> set (db_acls st). acl_ServiceID a \<noteq> sv_ID svc" using assms(1,4) by (auto simp: acls_inv_def)
    then have "filter (\<lambda>a. acl_ServiceID a = sv_ID svc) (db_acls st') = []" using acls by (simp add: filter_empty_conv)
    then show ?thesis
      using svc mode assms(3) by (simp add: AllowConnect_def publishDefaults_def templateService_def orDefault_def)
  qed
qed


section \<open>A rule for a DID\<close>

text \<open>
  The prefix \<open>did:\<close> is cut off a rule as if it were a tag, although it is part of every DID: the
  rule for a DID does not match that DID.
\<close>

lemma did_rule_misses_did:
  "\<not> matchSubject ''did:key:z6Mk'' ''did:key:z6Mk'' \<and> matchSubject ''did:key:z6Mk'' ''key:z6Mk''"
  by code_simp


section \<open>Witnesses\<close>

definition ex_svc :: Service where
  "ex_svc = \<lparr>sv_ID = ''s1'', sv_Name = ''wiki'', sv_Type = ''web'', sv_Protocol = [], sv_InternalAddr = [],
     sv_Port = 8080, sv_OwnerPeerID = ''a'', sv_OwnerDID = [], sv_Visibility = [], sv_AuthMode = [],
     sv_Tags = Some [''team'', ''q<1>''], sv_CreatedAt = 0, sv_UpdatedAt = 0\<rparr>"

definition ex_published :: Store where
  "ex_published = snd (Publish ex_store ex_svc 7 ''uuid'')"

lemma ex_published_ok: "Publish ex_store ex_svc 7 ''uuid'' = (Inr (publishDefaults 7 ''uuid'' ex_svc), ex_published)"
  "db_faults ex_published = []" "map svc_ID (db_services ex_published) = [''s1'']" "sv_ID (publishDefaults 7 ''uuid'' ex_svc) = ''s1''"
  by (simp_all add: ex_published_def Publish_def Let_def ex_svc_def UpsertService_def ex_store_def fresh_store_def publishDefaults_def orDefault_def)

theorem Publish_Get_witness:
  "GetSvc ex_published ''s1'' = (Inr (publishDefaults 7 ''uuid'' ex_svc), ex_published)"
  using Publish_Get [OF _ ex_published_ok(1,2)] ex_published_ok(4) by (simp add: ex_store_def fresh_store_def)

theorem Grant_exact_witness:
  "\<exists>st'. Grant ex_published ''s1'' ''peer:b'' ''connect'' ''g1'' 8 = (None, st') \<and>
     fst (AllowConnect st' (Some (publishDefaults 7 ''uuid'' ex_svc)) ''b'') = Inr True \<and>
     fst (AllowConnect st' (Some (publishDefaults 7 ''uuid'' ex_svc)) ''c'') = Inr False"
proof -
  have "map_prod id db_faults (Grant ex_published ''s1'' ''peer:b'' ''connect'' ''g1'' 8) = (None, [])" by code_simp
  then obtain st' where g: "Grant ex_published ''s1'' ''peer:b'' ''connect'' ''g1'' 8 = (None, st')" "db_faults st' = []"
    by (cases "Grant ex_published ''s1'' ''peer:b'' ''connect'' ''g1'' 8") auto
  have "fst (AllowConnect ex_published (Some (publishDefaults 7 ''uuid'' ex_svc)) ''b'') = Inr False"
    "fst (AllowConnect ex_published (Some (publishDefaults 7 ''uuid'' ex_svc)) ''c'') = Inr False"
    "matchSubject ''peer:b'' ''b''" "\<not> matchSubject ''peer:b'' ''c''" by code_simp+
  moreover have "sv_AuthMode (publishDefaults 7 ''uuid'' ex_svc) = ''vpn-peer''" by code_simp
  ultimately show ?thesis
    using Grant_exact [OF g(1) ex_published_ok(2) g(2)] g(1) ex_published_ok(4) by simp
qed

theorem Install_closed_witness:
  "\<exists>svc st'. Install ex_published ''ollama'' 9 ''0123456789'' = (Inr svc, st') \<and> AllowConnect st' (Some svc) ''b'' = (Inr False, st')"
proof -
  have "map_prod (map_sum id sv_ID) db_faults (Install ex_published ''ollama'' 9 ''0123456789'') = (Inr ''svc_ollama_01234567'', [])"
    by code_simp
  then obtain svc st' where i: "Install ex_published ''ollama'' 9 ''0123456789'' = (Inr svc, st')"
      "sv_ID svc = ''svc_ollama_01234567''" "db_faults st' = []"
    by (cases "Install ex_published ''ollama'' 9 ''0123456789''") (auto simp: map_sum_eq_Inr)
  have "acls_inv (db_services ex_published) (db_acls ex_published)" by code_simp
  moreover have "\<forall>r \<in> set (db_services ex_published). svc_ID r \<noteq> sv_ID svc"
    unfolding i(2) by code_simp
  ultimately show ?thesis using Install_closed [OF _ i(1,3)] i(1) by blast
qed

end
