(* ===== verification/Dns.thy ===== *)
theory Dns
  imports Services
begin

text \<open>
  The private resolver and the forwarder (\<open>src/internal/dns/\<close>). Messages hold what the code reads
  and writes of them; the upstream exchange is a function of the address and the query. The
  resolver is written against a directory of services, which the registry provides.
\<close>

section \<open>Addresses\<close>

text \<open>\<open>net.SplitHostPort\<close>.\<close>

definition SplitHostPort :: "string \<Rightarrow> (string \<times> string) option" where
  "SplitHostPort s =
     (case cut_last CHR '':'' s of
        None \<Rightarrow> None
      | Some (pre, port) \<Rightarrow>
          (if take 1 s = ''['' then
             (let host = upto_first CHR '']'' (drop 1 s) in
              if pre \<noteq> ''['' @ host @ '']'' then None
              else if CHR ''['' \<in> set (drop 1 s) \<or> CHR '']'' \<in> set port then None
              else Some (host, port))
           else if CHR '':'' \<in> set pre then None
           else if CHR ''['' \<in> set s \<or> CHR '']'' \<in> set s then None
           else Some (pre, port)))"

definition withDNSPort :: "string \<Rightarrow> string" where
  "withDNSPort addr = (if Contains addr '':'' then addr else JoinHostPort addr ''53'')"

definition DefaultListenAddr :: "string \<Rightarrow> string \<Rightarrow> string" where
  "DefaultListenAddr subnet override =
     (if override \<noteq> [] then withDNSPort override
      else case ParseCIDR subnet of
             None \<Rightarrow> ''127.0.0.1:53''
           | Some (ip, _) \<Rightarrow> JoinHostPort (IP_String ip) ''53'')"


section \<open>Messages\<close>

record Question =
  q_Name :: string
  q_Type :: nat

datatype RR = A string nat IP | OtherRR string

record Msg =
  msg_Question :: "Question list"
  msg_Authoritative :: bool
  msg_Rcode :: nat
  msg_Answer :: "RR list"

abbreviation TypeA :: nat where "TypeA \<equiv> 1"
abbreviation RcodeSuccess :: nat where "RcodeSuccess \<equiv> 0"
abbreviation RcodeServerFailure :: nat where "RcodeServerFailure \<equiv> 2"
abbreviation RcodeNameError :: nat where "RcodeNameError \<equiv> 3"

definition SetReply :: "Msg \<Rightarrow> Msg" where
  "SetReply r = \<lparr>msg_Question = take 1 (msg_Question r), msg_Authoritative = False, msg_Rcode = RcodeSuccess, msg_Answer = []\<rparr>"


section \<open>Resolver\<close>

record DnsConfig =
  dns_Enabled :: bool
  dns_Domain :: string
  dns_ListenAddr :: string
  dns_Upstream :: string

definition dnsValidate :: "DnsConfig \<Rightarrow> error option" where
  "dnsValidate c =
     (if \<not> dns_Enabled c then None
      else if dns_Domain c = [] then Some (Errorf ''PRIVATE_DNS_DOMAIN is required when private DNS is enabled'')
      else if dns_ListenAddr c = [] then Some (Errorf ''PRIVATE_DNS_ADDR is required when private DNS is enabled'')
      else None)"

text \<open>The service a question asks for: the first label of a name below the private domain.\<close>

definition askedService :: "DnsConfig \<Rightarrow> Question \<Rightarrow> string option" where
  "askedService cfg q =
     (let name = TrimSuffix (ToLower (q_Name q)) ''.''; suffix = ''.'' @ ToLower (dns_Domain cfg)
      in if q_Type q \<noteq> TypeA \<or> \<not> HasSuffix name suffix then None
         else Some (upto_first CHR ''.'' (TrimSuffix name suffix)))"

definition serviceIP :: "Service \<Rightarrow> IP option" where
  "serviceIP svc =
     (let host = (case SplitHostPort (sv_InternalAddr svc) of
                    Some (h, _) \<Rightarrow> h
                  | None \<Rightarrow> hd (Split (sv_InternalAddr svc) CHR '':''))
      in case ParseIP host of None \<Rightarrow> None | Some ip \<Rightarrow> To4 ip)"

fun resolveQuestions ::
  "('s \<Rightarrow> string \<Rightarrow> Service result \<times> 's) \<Rightarrow> DnsConfig \<Rightarrow> Question list \<Rightarrow> 's \<Rightarrow> Msg \<Rightarrow> Msg \<times> 's" where
  "resolveQuestions lookup cfg [] st m = (m, st)"
| "resolveQuestions lookup cfg (q # qs) st m =
     (case askedService cfg q of
        None \<Rightarrow> resolveQuestions lookup cfg qs st m
      | Some svcName \<Rightarrow>
          (case lookup st svcName of
             (Inl e, st') \<Rightarrow> resolveQuestions lookup cfg qs st' (m\<lparr>msg_Rcode := RcodeNameError\<rparr>)
           | (Inr svc, st') \<Rightarrow>
               (case serviceIP svc of
                  None \<Rightarrow> resolveQuestions lookup cfg qs st' (m\<lparr>msg_Rcode := RcodeNameError\<rparr>)
                | Some ip \<Rightarrow>
                    resolveQuestions lookup cfg qs st' (m\<lparr>msg_Answer := msg_Answer m @ [A (q_Name q) 60 ip]\<rparr>))))"

definition forward :: "(string \<Rightarrow> Msg \<Rightarrow> Msg result) \<Rightarrow> DnsConfig \<Rightarrow> Msg \<Rightarrow> Msg result" where
  "forward exchange cfg r = exchange (withDNSPort (dns_Upstream cfg)) r"

definition dnsHandle ::
  "('s \<Rightarrow> string \<Rightarrow> Service result \<times> 's) \<Rightarrow> (string \<Rightarrow> Msg \<Rightarrow> Msg result) \<Rightarrow> DnsConfig \<Rightarrow> 's \<Rightarrow> Msg \<Rightarrow> Msg \<times> 's" where
  "dnsHandle lookup exchange cfg st r =
     (case resolveQuestions lookup cfg (msg_Question r) st ((SetReply r)\<lparr>msg_Authoritative := True\<rparr>) of
        (m, st') \<Rightarrow>
          (if msg_Answer m = [] \<and> msg_Question r \<noteq> [] then
             (case forward exchange cfg r of Inr fwd \<Rightarrow> (fwd, st') | Inl e \<Rightarrow> (m, st'))
           else (m, st')))"


section \<open>Forwarder\<close>

definition forwarderStart :: "string \<Rightarrow> string \<Rightarrow> error option" where
  "forwarderStart listen upstream =
     (if listen = [] \<or> TrimSpace upstream = [] then Some (Errorf ''forwarder listen and upstream are required'') else None)"

definition forwarderHandle :: "(string \<Rightarrow> Msg \<Rightarrow> Msg result) \<Rightarrow> string \<Rightarrow> Msg \<Rightarrow> Msg" where
  "forwarderHandle exchange upstream r =
     (case exchange (withDNSPort upstream) r of
        Inr fwd \<Rightarrow> fwd
      | Inl e \<Rightarrow> (SetReply r)\<lparr>msg_Rcode := RcodeServerFailure\<rparr>)"


section \<open>What the resolver answers\<close>

text \<open>An answer that comes from a registered service, for one of the questions.\<close>

definition answers_for :: "DnsConfig \<Rightarrow> Service list \<Rightarrow> Question list \<Rightarrow> RR \<Rightarrow> bool" where
  "answers_for cfg svcs qs rr \<longleftrightarrow>
     (\<exists>q \<in> set qs. \<exists>nm svc ip. askedService cfg q = Some nm \<and> find (\<lambda>s. sv_Name s = nm) svcs = Some svc \<and>
        serviceIP svc = Some ip \<and> rr = A (q_Name q) 60 ip)"

lemma answers_for_mono: "answers_for cfg svcs qs rr \<Longrightarrow> answers_for cfg svcs (q # qs) rr"
  by (auto simp: answers_for_def)

context service_directory
begin

lemma resolveQuestions_sound:
  "resolveQuestions lookup cfg qs st m = (m', st') \<Longrightarrow>
   entries st' = entries st \<and>
   (\<exists>as. msg_Answer m' = msg_Answer m @ as \<and> (\<forall>rr \<in> set as. answers_for cfg (entries st) qs rr))"
proof (induction qs arbitrary: st m)
  case (Cons q qs)
  show ?case
  proof (cases "askedService cfg q")
    case None
    then have "resolveQuestions lookup cfg qs st m = (m', st')" using Cons.prems by simp
    from Cons.IH [OF this] show ?thesis using answers_for_mono by blast
  next
    case (Some nm)
    obtain r s1 where l: "lookup st nm = (r, s1)" by (rule prod.exhaust)
    have keep: "entries s1 = entries st" using l by (rule lookup_keeps)
    define ip where "ip = (case r of Inl e \<Rightarrow> None | Inr svc \<Rightarrow> serviceIP svc)"
    define m1 where "m1 = (case ip of None \<Rightarrow> m\<lparr>msg_Rcode := RcodeNameError\<rparr> | Some a \<Rightarrow> m\<lparr>msg_Answer := msg_Answer m @ [A (q_Name q) 60 a]\<rparr>)"
    have "resolveQuestions lookup cfg qs s1 m1 = (m', st')"
      using Cons.prems Some l by (auto simp: m1_def ip_def split: sum.splits option.splits)
    from Cons.IH [OF this] keep obtain as where as: "entries st' = entries st" "msg_Answer m' = msg_Answer m1 @ as"
      "\<forall>rr \<in> set as. answers_for cfg (entries st) (q # qs) rr" using answers_for_mono by metis
    show ?thesis
    proof (cases ip)
      case None
      then show ?thesis using as by (auto simp: m1_def)
    next
      case ipS: (Some a)
      then obtain svc where svc: "r = Inr svc" "serviceIP svc = Some a" by (cases r) (auto simp: ip_def)
      then have "answers_for cfg (entries st) (q # qs) (A (q_Name q) 60 a)"
        using Some lookup_ok l by (auto simp: answers_for_def)
      then show ?thesis using as ipS by (intro conjI exI [of _ "A (q_Name q) 60 a # as"]) (auto simp: m1_def)
    qed
  qed
qed simp

lemma resolveQuestions_foreign:
  "\<forall>q \<in> set qs. askedService cfg q = None \<Longrightarrow> resolveQuestions lookup cfg qs st m = (m, st)"
  by (induction qs) simp_all

end


lemma resolveQuestions_authoritative:
  "resolveQuestions lookup cfg qs st m = (m', st') \<Longrightarrow> msg_Authoritative m' = msg_Authoritative m"
  by (induction qs arbitrary: st m) (fastforce split: option.splits prod.splits sum.splits)+


section \<open>Names and addresses of published services\<close>

lemma SplitHostPort_v4:
  assumes "length ip = 4" "set port \<inter> {CHR '':'', CHR ''['', CHR '']''} = {}"
  shows "SplitHostPort (v4_string ip @ '':'' @ port) = Some (v4_string ip, port)"
proof -
  have v: "\<forall>c \<in> set (v4_string ip). is_digit c \<or> c = CHR ''.''" using v4_string_chars [OF assms(1)] by blast
  then have n: "CHR '':'' \<notin> set (v4_string ip)" "CHR ''['' \<notin> set (v4_string ip)" "CHR '']'' \<notin> set (v4_string ip)"
    by (auto simp: is_digit_def)
  have "take 1 (v4_string ip @ '':'' @ port) \<noteq> ''[''" using n(2) by (cases "v4_string ip") auto
  then show ?thesis
    using n assms(2) cut_last_append [of "CHR '':''" port "v4_string ip"] by (auto simp: SplitHostPort_def)
qed

lemma serviceIP_v4:
  assumes "sv_InternalAddr svc = v4_string ip @ '':'' @ port" "length ip = 4" "set port \<inter> {CHR '':'', CHR ''['', CHR '']''} = {}"
  shows "serviceIP svc = Some ip"
  using assms SplitHostPort_v4 [OF assms(2,3)] by (simp add: serviceIP_def ParseIP_v4_string To4_As16)

lemma askedService_name:
  assumes "ToLower nm = nm" "CHR ''.'' \<notin> set nm" "q_Type q = TypeA" "q_Name q = nm @ ''.'' @ dns_Domain cfg @ ''.''"
  shows "askedService cfg q = Some nm"
proof -
  let ?suf = "''.'' @ ToLower (dns_Domain cfg)"
  have "ToLower (q_Name q) = (nm @ ?suf) @ ''.''" using assms(1,4) by (simp add: ToLower_def lower_char_def)
  then have n: "TrimSuffix (ToLower (q_Name q)) ''.'' = nm @ ?suf" by (simp only: TrimSuffix_append)
  have "upto_first CHR ''.'' nm = nm" using assms(2) by (auto simp: upto_first_def takeWhile_eq_all_conv)
  then show ?thesis
    using n assms(3) HasSuffix_append [of nm ?suf] TrimSuffix_append [of nm ?suf] by (simp add: askedService_def Let_def)
qed

lemma find_unique_name:
  assumes "x \<in> set xs" "P x" "\<forall>y \<in> set xs. P y \<longrightarrow> f y = f x" "distinct (map f xs)"
  shows "find P xs = Some x"
  using assms
proof (induction xs)
  case (Cons y ys)
  show ?case
  proof (cases "P y")
    case True
    then have "f y = f x" using Cons.prems(3) by simp
    then have "y = x" using Cons.prems(1,4) by (auto dest: image_eqI)
    then show ?thesis using True by simp
  next
    case False
    then have "x \<in> set ys" using Cons.prems(1,2) by auto
    moreover have "\<forall>y \<in> set ys. P y \<longrightarrow> f y = f x" using Cons.prems(3) by (meson list.set_intros(2))
    moreover have "distinct (map f ys)" using Cons.prems(4) by simp
    ultimately have "find P ys = Some x" using Cons.IH Cons.prems(2) by blast
    then show ?thesis using False by simp
  qed
qed simp

lemma mergeRow_fields:
  "svc_Name (mergeRow row r) = (if svc_ID r = svc_ID row then svc_Name row else svc_Name r)"
  "svc_InternalAddr (mergeRow row r) = (if svc_ID r = svc_ID row then svc_InternalAddr row else svc_InternalAddr r)"
  by (simp_all add: mergeRow_def)

lemma serviceToRow_fields [simp]:
  "svc_Name (serviceToRow s) = sv_Name s" "svc_InternalAddr (serviceToRow s) = sv_InternalAddr s"
  by (simp_all add: serviceToRow_def)

lemma Publish_FindByName:
  assumes "Publish st s now uuid = (Inr s', st')" "db_faults st' = []" "distinct (map svc_ID (db_services st))"
    and "\<forall>r \<in> set (db_services st). svc_Name r = sv_Name s \<longrightarrow> svc_ID r = sv_ID s'"
  shows "\<exists>svc. FindByName st' (sv_Name s) = (Inr svc, st') \<and> sv_InternalAddr svc = sv_InternalAddr s'"
proof -
  have u: "UpsertService st (serviceToRow s') = (None, st')" and s': "s' = publishDefaults now uuid s"
    using assms(1) by (auto elim: PublishE)
  have nm: "sv_Name s' = sv_Name s" using s' by (simp add: publishDefaults_def)
  from u obtain row where "row \<in> set (db_services st')" "svc_Name row = sv_Name s" "svc_ID row = sv_ID s'"
      "svc_InternalAddr row = sv_InternalAddr s'" "distinct (map svc_ID (db_services st'))"
      "\<forall>y \<in> set (db_services st'). svc_Name y = sv_Name s \<longrightarrow> svc_ID y = sv_ID s'"
  proof (cases rule: UpsertServiceE)
    case (inserted fs)
    show thesis
      by (rule that [of "serviceToRow s'"]) (use inserted assms(3,4) nm in auto)
  next
    case (updated r fs)
    show thesis
      by (rule that [of "mergeRow (serviceToRow s') r"])
        (use updated assms(3,4) nm in \<open>auto simp: mergeRow_fields comp_def\<close>)
  qed simp
  then have "find (\<lambda>r. svc_Name r = sv_Name s) (db_services st') = Some row"
    by (intro find_unique_name [where f = svc_ID]) auto
  then show ?thesis
    using assms(2) \<open>svc_InternalAddr row = _\<close> by (simp add: FindByName_def GetServiceByName_def rowToService_def)
qed


section \<open>Properties\<close>

text \<open>
  Every answer is accounted for: it is the upstream's reply to the same query, or the node's
  own authoritative reply, in which each record is the IPv4 address of the registered service that
  one of the questions names below the private domain. Answering changes no service.
\<close>

theorem dnsHandle_answers:
  assumes "dnsHandle FindByName exchange cfg st r = (m, st')"
  shows "db_entries st' = db_entries st \<and>
    (exchange (withDNSPort (dns_Upstream cfg)) r = Inr m \<or>
     msg_Authoritative m \<and> (\<forall>rr \<in> set (msg_Answer m). answers_for cfg (db_entries st) (msg_Question r) rr))"
proof -
  let ?m0 = "(SetReply r)\<lparr>msg_Authoritative := True\<rparr>"
  obtain m1 s1 where q: "resolveQuestions FindByName cfg (msg_Question r) st ?m0 = (m1, s1)" by (rule prod.exhaust)
  from registry.resolveQuestions_sound [OF q] have s: "db_entries s1 = db_entries st"
    "\<forall>rr \<in> set (msg_Answer m1). answers_for cfg (db_entries st) (msg_Question r) rr" by (auto simp: SetReply_def)
  have "msg_Authoritative m1" using resolveQuestions_authoritative [OF q] by simp
  then show ?thesis
    using assms q s by (auto simp: dnsHandle_def forward_def split: if_splits sum.splits)
qed



section \<open>Names the resolver does not find\<close>

text \<open>
  Questions are lowered before the lookup, names of services are not: a service with a capital in
  its name cannot be resolved, and the query for it, like every query for an unknown private name,
  is sent to the upstream resolver.
\<close>

definition ex_dns :: DnsConfig where
  "ex_dns = \<lparr>dns_Enabled = True, dns_Domain = ''ere'', dns_ListenAddr = ''10.0.0.1:53'', dns_Upstream = ''1.1.1.1''\<rparr>"

definition ex_query :: "string \<Rightarrow> Msg" where
  "ex_query nm = \<lparr>msg_Question = [\<lparr>q_Name = nm @ ''.ere.'', q_Type = TypeA\<rparr>], msg_Authoritative = False,
     msg_Rcode = RcodeSuccess, msg_Answer = []\<rparr>"

lemma capital_name_forwarded:
  "dnsHandle FindByName exchange ex_dns (snd (Publish ex_store (ex_svc\<lparr>sv_Name := ''Wiki''\<rparr>) 7 ''uuid'')) (ex_query ''Wiki'') =
     (case exchange ''1.1.1.1:53'' (ex_query ''Wiki'') of
        Inr m \<Rightarrow> m
      | Inl e \<Rightarrow> (ex_query ''Wiki'')\<lparr>msg_Authoritative := True, msg_Rcode := RcodeNameError\<rparr>,
      snd (Publish ex_store (ex_svc\<lparr>sv_Name := ''Wiki''\<rparr>) 7 ''uuid''))"
proof -
  let ?st = "snd (Publish ex_store (ex_svc\<lparr>sv_Name := ''Wiki''\<rparr>) 7 ''uuid'')"
  have "askedService ex_dns \<lparr>q_Name = ''Wiki.ere.'', q_Type = TypeA\<rparr> = Some ''wiki''"
    "withDNSPort (dns_Upstream ex_dns) = ''1.1.1.1:53''" by code_simp+
  moreover have "FindByName ?st ''wiki'' = (Inl errService, ?st)"
    by (simp add: Publish_def Let_def ex_svc_def UpsertService_def ex_store_def fresh_store_def publishDefaults_def
        orDefault_def serviceToRow_def FindByName_def GetServiceByName_def)
  ultimately show ?thesis
    by (simp add: dnsHandle_def ex_query_def SetReply_def forward_def split: sum.split)
qed


section \<open>Witnesses\<close>

theorem dnsHandle_answers_witness:
  "\<exists>m st'. dnsHandle FindByName (\<lambda>_ _. Inl (Errorf ''timeout'')) ex_dns ex_published (ex_query ''wiki'') = (m, st') \<and>
     msg_Answer m \<noteq> [] \<and> (\<forall>rr \<in> set (msg_Answer m). answers_for ex_dns (db_entries ex_published) (msg_Question (ex_query ''wiki'')) rr)"
proof -
  obtain m st' where h: "dnsHandle FindByName (\<lambda>_ _. Inl (Errorf ''timeout'')) ex_dns ex_published (ex_query ''wiki'') = (m, st')"
    by (rule prod.exhaust)
  have "msg_Answer (fst (dnsHandle FindByName (\<lambda>_ _. Inl (Errorf ''timeout'')) ex_dns ex_published (ex_query ''wiki''))) \<noteq> []"
    by code_simp
  then show ?thesis using dnsHandle_answers [OF h] h by auto
qed


end
