(* ===== verification/Transport.thy ===== *)
theory Transport
  imports Prelude Complex_Main "HOL-Library.Multiset"
begin

text \<open>
  The ladder of transports (\<open>src/internal/transport/\<close>): which transports a node offers, scoring of
  probes, the choice of the best one, and the node's own prober. Packet loss is a rational number:
  the code only doubles and truncates it, which is exact on the floating-point values concerned.
\<close>

type_synonym Kind = string

abbreviation KindDirectWG :: Kind where "KindDirectWG \<equiv> ''direct_wireguard_udp''"
abbreviation KindHysteria2 :: Kind where "KindHysteria2 \<equiv> ''hysteria2_quic_udp''"
abbreviation KindVLESSReality :: Kind where "KindVLESSReality \<equiv> ''vless_reality_tcp''"
abbreviation KindWebSocketTLS :: Kind where "KindWebSocketTLS \<equiv> ''websocket_tls_tcp''"
abbreviation KindHTTPSConnect :: Kind where "KindHTTPSConnect \<equiv> ''https_connect_tcp''"

definition DefaultLadder :: "Kind list" where
  "DefaultLadder = [KindDirectWG, KindHysteria2, KindVLESSReality, KindWebSocketTLS, KindHTTPSConnect]"

definition ImplementedLadder :: "bool \<Rightarrow> Kind list" where
  "ImplementedLadder stealthEnabled =
     (if \<not> stealthEnabled then [KindDirectWG] else [KindDirectWG, KindHysteria2, KindVLESSReality])"

record ProbeResult =
  pr_Kind :: Kind
  pr_Success :: bool
  pr_LatencyMs :: int
  pr_PacketLossPct :: rat
  pr_Error :: string
  pr_Score :: int

text \<open>Conversion of a float to an integer and division of integers: both cut off towards zero.\<close>

definition trunc :: "rat \<Rightarrow> int" where
  "trunc x = (if 0 \<le> x then \<lfloor>x\<rfloor> else \<lceil>x\<rceil>)"

definition quot :: "int \<Rightarrow> int \<Rightarrow> int" where
  "quot a b = (if 0 \<le> a then a div b else - ((- a) div b))"

definition Score :: "ProbeResult \<Rightarrow> bool \<Rightarrow> bool \<Rightarrow> int" where
  "Score r survived60s wasLastSuccess =
     (if \<not> pr_Success r then 0
      else let s0 = 100 - quot (pr_LatencyMs r) 10 - trunc (pr_PacketLossPct r * 2);
               s1 = (if survived60s then s0 + 20 else s0);
               s2 = (if wasLastSuccess then s1 + 10 else s1)
           in if s2 < 0 then 0 else s2)"

fun selectLoop :: "ProbeResult option \<Rightarrow> int \<Rightarrow> ProbeResult list \<Rightarrow> ProbeResult option" where
  "selectLoop best bestScore [] = best"
| "selectLoop best bestScore (r # rs) =
     (if \<not> pr_Success r then selectLoop best bestScore rs
      else let s = Score r False False
           in if best = None \<or> bestScore < s
              then selectLoop (Some (r\<lparr>pr_Score := s\<rparr>)) s rs
              else selectLoop best bestScore rs)"

definition SelectBest :: "ProbeResult list \<Rightarrow> ProbeResult option" where
  "SelectBest results = selectLoop None 0 results"

definition ladderIndex :: "Kind \<Rightarrow> nat" where
  "ladderIndex k = length (takeWhile (\<lambda>x. x \<noteq> k) DefaultLadder)"

definition SortByLadder :: "Kind list \<Rightarrow> Kind list" where
  "SortByLadder kinds = sort_key ladderIndex kinds"

definition IsImplemented :: "Kind \<Rightarrow> bool \<Rightarrow> bool" where
  "IsImplemented k stealthEnabled \<longleftrightarrow> k \<in> set (ImplementedLadder stealthEnabled)"

record LocalProber =
  lp_StealthEnabled :: bool
  lp_WGPort :: int
  lp_VLESSPort :: int
  lp_Hysteria2Port :: int

definition probeOne :: "LocalProber \<Rightarrow> Kind \<Rightarrow> ProbeResult" where
  "probeOne p k =
     (let outcome =
        (if k = KindDirectWG then
           (if lp_WGPort p > 0 then (True, []) else (False, ''wireguard port not configured''))
         else if k = KindHysteria2 then
           (if lp_StealthEnabled p \<and> lp_Hysteria2Port p > 0 then (True, []) else (False, ''hysteria2 not enabled''))
         else if k = KindVLESSReality then
           (if lp_StealthEnabled p \<and> lp_VLESSPort p > 0 then (True, []) else (False, ''vless+reality not enabled''))
         else (False, ''not implemented''))
      in \<lparr>pr_Kind = k, pr_Success = fst outcome, pr_LatencyMs = 1, pr_PacketLossPct = 0,
          pr_Error = snd outcome, pr_Score = 0\<rparr>)"

definition Probe :: "LocalProber \<Rightarrow> Kind list \<Rightarrow> ProbeResult list" where
  "Probe p kinds = map (probeOne p) kinds"

definition SelectTransport :: "(Kind list \<Rightarrow> ProbeResult list) \<Rightarrow> bool \<Rightarrow> ProbeResult option" where
  "SelectTransport prober stealthEnabled = SelectBest (prober (ImplementedLadder stealthEnabled))"


section \<open>Selection\<close>

definition scored :: "ProbeResult \<Rightarrow> ProbeResult" where
  "scored r = r\<lparr>pr_Score := Score r False False\<rparr>"

definition beats :: "ProbeResult list \<Rightarrow> nat \<Rightarrow> bool" where
  "beats rs i \<longleftrightarrow> i < length rs \<and> pr_Success (rs ! i) \<and>
     (\<forall>j < length rs. pr_Success (rs ! j) \<longrightarrow>
        Score (rs ! j) False False \<le> Score (rs ! i) False False \<and>
        (j < i \<longrightarrow> Score (rs ! j) False False < Score (rs ! i) False False))"

text \<open>The loop keeps the first best of the successful probes seen so far.\<close>

lemma selectLoop_best:
  assumes "beats rs i"
  shows "\<exists>k. beats (rs @ qs) k \<and> selectLoop (Some (scored (rs ! i))) (Score (rs ! i) False False) qs = Some (scored ((rs @ qs) ! k))"
  using assms
proof (induction qs arbitrary: rs i)
  case Nil
  then show ?case by (auto intro!: exI [of _ i])
next
  case (Cons q qs)
  show ?case
  proof (cases "pr_Success q \<and> Score (rs ! i) False False < Score q False False")
    case True
    then have "beats (rs @ [q]) (length rs)"
      using Cons.prems by (auto simp: beats_def nth_append less_Suc_eq intro: order.strict_trans1 less_imp_le)
    from Cons.IH [OF this] True show ?thesis by (simp add: scored_def Let_def)
  next
    case False
    have "beats (rs @ [q]) i" using Cons.prems False by (auto simp: beats_def nth_append less_Suc_eq not_less)
    from Cons.IH [OF this] False show ?thesis using Cons.prems by (auto simp: beats_def nth_append scored_def Let_def)
  qed
qed

lemma selectLoop_none:
  "\<forall>r \<in> set fs. \<not> pr_Success r \<Longrightarrow>
   (\<forall>r \<in> set qs. \<not> pr_Success r) \<and> selectLoop None 0 qs = None \<or>
   (\<exists>k. beats (fs @ qs) k \<and> selectLoop None 0 qs = Some (scored ((fs @ qs) ! k)))"
proof (induction qs arbitrary: fs)
  case (Cons q qs)
  show ?case
  proof (cases "pr_Success q")
    case True
    have "beats (fs @ [q]) (length fs)" using True Cons.prems by (auto simp: beats_def nth_append less_Suc_eq)
    from selectLoop_best [OF this, of qs] True show ?thesis by (simp add: scored_def Let_def)
  next
    case False
    then show ?thesis using Cons.IH [of "fs @ [q]"] Cons.prems by auto
  qed
qed simp

lemma sorted_ladder: "sorted (map ladderIndex (SortByLadder ks)) \<and> mset (SortByLadder ks) = mset ks"
  by (simp add: SortByLadder_def)


text \<open>The reference for the node's choice: the first configured transport of the ladder.\<close>

definition firstConfigured :: "LocalProber \<Rightarrow> Kind option" where
  "firstConfigured p =
     (if lp_WGPort p > 0 then Some KindDirectWG
      else if lp_StealthEnabled p \<and> lp_Hysteria2Port p > 0 then Some KindHysteria2
      else if lp_StealthEnabled p \<and> lp_VLESSPort p > 0 then Some KindVLESSReality
      else None)"


section \<open>Probers\<close>

text \<open>The interface \<open>Prober\<close>: one result per transport asked for, in that order.\<close>

locale transport_prober =
  fixes prober :: "Kind list \<Rightarrow> ProbeResult list"
  assumes kinds: "map pr_Kind (prober ks) = ks"
begin

lemma Select_offered:
  assumes "SelectTransport prober stealthEnabled = Some b"
  shows "IsImplemented (pr_Kind b) stealthEnabled \<and> pr_Success b \<and> pr_Score b = Score b False False"
proof -
  let ?rs = "prober (ImplementedLadder stealthEnabled)"
  obtain i where i: "beats ?rs i" "b = scored (?rs ! i)"
    using assms selectLoop_none [of "[]" ?rs] by (auto simp: SelectTransport_def SelectBest_def)
  then have len: "i < length ?rs" "pr_Success (?rs ! i)" by (auto simp: beats_def)
  then have "pr_Kind (?rs ! i) \<in> set (map pr_Kind ?rs)" by simp
  then show ?thesis using i(2) len kinds by (simp add: IsImplemented_def scored_def Score_def)
qed

end

interpretation local_prober: transport_prober "Probe p" for p
  by unfold_locales (simp add: Probe_def probeOne_def Let_def comp_def)


section \<open>Properties\<close>

text \<open>
  \<open>SelectBest\<close> finds nothing exactly when no probe succeeded; otherwise it returns, with its
  score, the first of the successful probes with the highest score.
\<close>

theorem SelectBest_first_best:
  "case SelectBest rs of
     None \<Rightarrow> \<forall>r \<in> set rs. \<not> pr_Success r
   | Some b \<Rightarrow> \<exists>i. beats rs i \<and> b = scored (rs ! i)"
  using selectLoop_none [of "[]" rs] by (auto simp: SelectBest_def split: option.split)

text \<open>
  With the node's own prober the choice is the first transport of the ladder that is
  configured: every probe that succeeds scores the same, so the order decides. What is chosen is
  always a transport the node implements.
\<close>

theorem Select_ladder_order:
  "map_option pr_Kind (SelectTransport (Probe p) (lp_StealthEnabled p)) = firstConfigured p \<and>
   pred_option (\<lambda>b. IsImplemented (pr_Kind b) (lp_StealthEnabled p)) (SelectTransport (Probe p) (lp_StealthEnabled p))"
proof -
  have impl: "pred_option (\<lambda>b. IsImplemented (pr_Kind b) (lp_StealthEnabled p)) (SelectTransport (Probe p) (lp_StealthEnabled p))"
    using local_prober.Select_offered [of p] by (auto simp: pred_option_def)
  have s: "Score (probeOne p k) False False = (if pr_Success (probeOne p k) then 100 else 0)" for k
    by (simp add: Score_def probeOne_def Let_def quot_def trunc_def)
  have "map_option pr_Kind (SelectTransport (Probe p) (lp_StealthEnabled p)) = firstConfigured p"
    by (simp add: SelectTransport_def Probe_def SelectBest_def ImplementedLadder_def s firstConfigured_def Let_def)
      (simp add: probeOne_def Let_def)
  then show ?thesis using impl by blast
qed


section \<open>Witness\<close>

definition ex_probe :: "Kind \<Rightarrow> int \<Rightarrow> ProbeResult" where
  "ex_probe k ms = \<lparr>pr_Kind = k, pr_Success = 0 < ms, pr_LatencyMs = ms, pr_PacketLossPct = 3 / 2, pr_Error = [], pr_Score = 0\<rparr>"

theorem SelectBest_first_best_witness:
  "\<exists>i. beats [ex_probe KindDirectWG 0, ex_probe KindHysteria2 50, ex_probe KindVLESSReality 20] i \<and>
     SelectBest [ex_probe KindDirectWG 0, ex_probe KindHysteria2 50, ex_probe KindVLESSReality 20] =
       Some (scored ([ex_probe KindDirectWG 0, ex_probe KindHysteria2 50, ex_probe KindVLESSReality 20] ! i)) \<and>
     \<not> beats [ex_probe KindDirectWG 0, ex_probe KindHysteria2 50, ex_probe KindVLESSReality 20] 1"
proof -
  let ?rs = "[ex_probe KindDirectWG 0, ex_probe KindHysteria2 50, ex_probe KindVLESSReality 20]"
  have "\<not> (\<forall>r \<in> set ?rs. \<not> pr_Success r)" by (simp add: ex_probe_def)
  moreover have "Score (ex_probe KindHysteria2 50) False False < Score (ex_probe KindVLESSReality 20) False False" by code_simp
  then have "\<not> beats ?rs 1" by (auto simp: beats_def ex_probe_def intro!: exI [of _ 2])
  ultimately show ?thesis using SelectBest_first_best [of ?rs] by (auto split: option.splits)
qed

end
