(* ===== verification/Startup.thy ===== *)
theory Startup
  imports Bridge Dns Transport
begin

text \<open>
  Starting the node (\<open>src/internal/nodeapp/run.go\<close>): the order in which the components come up, the
  resolution of the gateway credentials, the choice of the DNS service, the token refresher and the
  readiness provider, with the registrar (\<open>src/internal/registrar/registrar.go\<close>). Listening sockets,
  the libp2p host and the log are left out; what the started goroutines do is in the theories of
  their components.
\<close>

section \<open>Registrar\<close>

record NodeIdentity =
  ni_PeerID :: string
  ni_DID :: string
  ni_IPHash :: string
  ni_Region :: string
  ni_Spec :: string
  ni_Wallet :: string
  ni_Version :: string

datatype Registrar = Noop

text \<open>Unknown modes fall back to the registrar that does nothing.\<close>

definition newRegistrar :: "string \<Rightarrow> Registrar" where
  "newRegistrar mode = (if mode \<in> {[], ''off'', ''noop''} then Noop else Noop)"

fun registrarRegister :: "Registrar \<Rightarrow> NodeIdentity \<Rightarrow> error option" where
  "registrarRegister Noop i = None"

fun registrarUpdateStatus :: "Registrar \<Rightarrow> string \<Rightarrow> string \<Rightarrow> error option" where
  "registrarUpdateStatus Noop peerID status = None"


section \<open>Gateway credentials\<close>

definition noCredentials :: Credentials where
  "noCredentials = \<lparr>cr_NodeID = [], cr_NodeToken = [], cr_NodeKey = [], cr_GatewayPublicKey = []\<rparr>"

text \<open>Stored values come first, then configured ones; an identity that is not the node's own is dropped.\<close>

definition resolveIdentity :: "Config \<Rightarrow> string \<Rightarrow> Credentials \<Rightarrow> string \<times> string" where
  "resolveIdentity cfg peerID creds =
     (let nodeID = (if cr_NodeID creds = [] then cfg_NodeID cfg else cr_NodeID creds);
          nodeToken = (if cr_NodeToken creds = [] then cfg_NodeToken cfg else cr_NodeToken creds)
      in if nodeID \<noteq> [] \<and> nodeID \<noteq> peerID then ([], []) else (nodeID, nodeToken))"

definition adoptKeys :: "Credentials \<Rightarrow> Config \<Rightarrow> Config" where
  "adoptKeys creds cfg =
     (let cfg1 = (if cr_NodeKey creds \<noteq> [] then cfg\<lparr>cfg_NodeKey := cr_NodeKey creds, cfg_NodeAPIToken := cr_NodeKey creds\<rparr> else cfg)
      in if cr_GatewayPublicKey creds \<noteq> [] then cfg1\<lparr>cfg_GatewayPublicKey := cr_GatewayPublicKey creds\<rparr> else cfg1)"

definition registrationInput :: "Config \<Rightarrow> string \<Rightarrow> string \<Rightarrow> RegistrationInput" where
  "registrationInput cfg peerID did =
     \<lparr>ri_GatewayURL = cfg_GatewayURL cfg, ri_RegistrationToken = EffectiveRegistrationToken cfg, ri_OrgEnrollmentSecret = [],
      ri_WalletChain = cfg_WalletChain cfg, ri_Mnemonic = cfg_Mnemonic cfg, ri_PeerID = peerID, ri_DID = did,
      ri_Name = cfg_NodeName cfg, ri_Region = cfg_Region cfg, ri_Zone = cfg_Zone cfg, ri_APIBaseURL = PublicAPIBaseURL cfg,
      ri_NodeKey = EffectiveNodeKey cfg, ri_AccessMode = GatewayAccessMode (cfg_Mode cfg),
      ri_DeploymentProfile = cfg_ErebrusProfile cfg\<rparr>"

text \<open>After a registration: the configuration takes the new values, and they are stored.\<close>

definition adoptRegistration :: "Credentials \<Rightarrow> Config \<Rightarrow> Store \<Rightarrow> Config \<times> Store" where
  "adoptRegistration out cfg st =
     (let cfg1 = cfg\<lparr>cfg_NodeID := cr_NodeID out, cfg_NodeToken := cr_NodeToken out, cfg_NodeKey := cr_NodeKey out,
                     cfg_NodeAPIToken := cr_NodeKey out\<rparr>;
          cfg2 = (if cr_GatewayPublicKey out \<noteq> [] then cfg1\<lparr>cfg_GatewayPublicKey := cr_GatewayPublicKey out\<rparr> else cfg1)
      in (cfg2, snd (SaveCredentials SetSetting st (Some (out\<lparr>cr_GatewayPublicKey := cfg_GatewayPublicKey cfg2\<rparr>)))))"

text \<open>The identity and the token the control connection is started with, if any.\<close>

definition resolveGateway ::
  "Crypto \<Rightarrow> 'g exchange \<Rightarrow> error \<Rightarrow> string \<Rightarrow> string \<Rightarrow> Credentials \<Rightarrow> Config \<Rightarrow> Store \<Rightarrow> 'g \<Rightarrow>
   Config \<times> (string \<times> string) option \<times> Store \<times> 'g" where
  "resolveGateway cy ex jerr peerID did creds cfg st w =
     (let (nodeID, nodeToken) = resolveIdentity cfg peerID creds;
          cfg1 = adoptKeys creds cfg;
          (cfg2, nodeID2, nodeToken2, st2, w2) =
            (if (nodeID = [] \<or> nodeToken = []) \<and> cfg_GatewayAutoRegister cfg1 then
               (case Register cy ex jerr (registrationInput cfg1 peerID did) w of
                  (Inl e, w1) \<Rightarrow> (cfg1, nodeID, nodeToken, st, w1)
                | (Inr out, w1) \<Rightarrow>
                    (case adoptRegistration out cfg1 st of
                       (cfg2, st2) \<Rightarrow> (cfg2, cr_NodeID out, cr_NodeToken out, st2, w1)))
             else (cfg1, nodeID, nodeToken, st, w))
      in (cfg2\<lparr>cfg_NodeID := nodeID2\<rparr>, if nodeID2 \<noteq> [] \<and> nodeToken2 \<noteq> [] then Some (nodeID2, nodeToken2) else None, st2, w2))"

definition gatewayStart ::
  "Crypto \<Rightarrow> 'g exchange \<Rightarrow> error \<Rightarrow> string \<Rightarrow> string \<Rightarrow> Config \<Rightarrow> Store \<Rightarrow> 'g \<Rightarrow>
   Config \<times> (string \<times> string) option \<times> Store \<times> 'g" where
  "gatewayStart cy ex jerr peerID did cfg st w =
     (if \<not> GatewayEnabled cfg then (cfg, None, st, w)
      else case LoadCredentials GetSetting st of
             (loaded, st1) \<Rightarrow> resolveGateway cy ex jerr peerID did (case_sum (\<lambda>_. noCredentials) id loaded) cfg st1 w)"

text \<open>The refresher of the control connection; the key is the one of the start.\<close>

definition tokenRefresher ::
  "'g exchange \<Rightarrow> error \<Rightarrow> string \<Rightarrow> string \<Rightarrow> string \<Rightarrow> Config \<Rightarrow> Store \<Rightarrow> 'g \<Rightarrow> string result \<times> Config \<times> Store \<times> 'g" where
  "tokenRefresher ex jerr gatewayURL nodeID refreshKey cfg st w =
     (if refreshKey = [] then (Inl (Errorf ''node_key not configured''), cfg, st, w)
      else case RefreshNodeToken ex jerr gatewayURL nodeID refreshKey w of
             (Inl e, w1) \<Rightarrow> (Inl e, cfg, st, w1)
           | (Inr tok, w1) \<Rightarrow>
               (Inr tok, cfg\<lparr>cfg_NodeToken := tok\<rparr>,
                snd (SaveCredentials SetSetting st (Some \<lparr>cr_NodeID = nodeID, cr_NodeToken = tok, cr_NodeKey = refreshKey,
                       cr_GatewayPublicKey = cfg_GatewayPublicKey cfg\<rparr>)), w1))"

text \<open>
  The refresher as the control connection calls it, on the node's own configuration and database;
  \<open>gw n\<close> is the gateway at the \<open>n\<close>-th call.
\<close>

definition nodeRefresher ::
  "(nat \<Rightarrow> HttpRequest \<Rightarrow> HttpResponse result) \<Rightarrow> error \<Rightarrow> string \<Rightarrow> string \<Rightarrow>
   nat \<times> ('w, 'k) GatewayBridge \<Rightarrow> string result \<times> nat \<times> ('w, 'k) GatewayBridge" where
  "nodeRefresher gw jerr nodeID refreshKey b =
     (case b of (n, g) \<Rightarrow>
        (case tokenRefresher (\<lambda>w r. (gw n r, w)) jerr (cfg_GatewayURL (gb_cfg g)) nodeID refreshKey (gb_cfg g) (nd_store (gb_nd g)) () of
           (r, cfg, st, _) \<Rightarrow> (r, Suc n, setStore st (g\<lparr>gb_srv := (gb_srv g)\<lparr>sv_cfg := cfg\<rparr>\<rparr>))))"

text \<open>The report of the AdGuard administrator, made in the background once the connection runs.\<close>

definition reportShieldAdmin ::
  "'w exchange \<Rightarrow> 'g exchange \<Rightarrow> (string \<Rightarrow> string) \<Rightarrow> error \<Rightarrow> string \<Rightarrow> string \<Rightarrow> FwClient \<Rightarrow> 'w \<Rightarrow> 'g \<Rightarrow> outcome \<times> 'w \<times> 'g" where
  "reportShieldAdmin fwEx gwEx fmtNum decErr peerID nodeToken c w gw =
     (if cfg_FirewallProvider (fc_cfg c) = FirewallAdGuardHome \<and> cfg_ShieldAdminPassword (fc_cfg c) \<noteq> [] then
        (case ConfigureAdmin fwEx fmtNum decErr c w of
           (Panicked, w1) \<Rightarrow> (Panicked, w1, gw)
         | (Returned _, w1) \<Rightarrow>
             (case AdminCredentials c of
                (user, pass, url) \<Rightarrow>
                  (case PostFirewallCredentials gwEx (cfg_GatewayURL (fc_cfg c)) peerID nodeToken user pass url gw of
                     (_, gw1) \<Rightarrow> (Returned None, w1, gw1))))
      else (Returned None, w, gw))"


section \<open>Firewall licence and DNS\<close>

definition checkLicense :: "'w exchange \<Rightarrow> Config \<Rightarrow> 'w \<Rightarrow> Config \<times> FwClient \<times> 'w" where
  "checkLicense ex cfg w =
     (let c = newFwClient cfg in
      if HasFirewallService cfg \<and> cfg_FirewallProvider cfg = FirewallUnboundErebrus then
        (case CheckLicense ex c w of
           (Inl e, c1, w1) \<Rightarrow> (cfg\<lparr>cfg_SentinelLicensed := True\<rparr>, c1, w1)
         | (Inr licensed, c1, w1) \<Rightarrow> (cfg\<lparr>cfg_SentinelLicensed := licensed\<rparr>, c1, w1))
      else (cfg\<lparr>cfg_SentinelLicensed := True\<rparr>, c, w))"

datatype DnsPlan = NoDns | PrivateResolver DnsConfig | FirewallForwarder string string

definition dnsPlan :: "Config \<Rightarrow> DnsPlan" where
  "dnsPlan cfg =
     (let tunnelDNS = DefaultListenAddr (cfg_WGIPv4Subnet cfg) (cfg_PrivateDNSAddr cfg) in
      if cfg_PrivateDNSEnabled cfg then
        (let dc = \<lparr>dns_Enabled = True, dns_Domain = cfg_PrivateDNSDomain cfg, dns_ListenAddr = tunnelDNS,
                   dns_Upstream = (if HasFirewallService cfg then cfg_FirewallDNSAddr cfg else cfg_UpstreamDNS cfg)\<rparr>
         in case dnsValidate dc of Some e \<Rightarrow> NoDns | None \<Rightarrow> PrivateResolver dc)
      else if HasFirewallService cfg \<and> cfg_SentinelLicensed cfg then FirewallForwarder tunnelDNS (cfg_FirewallDNSAddr cfg)
      else NoDns)"


section \<open>The start\<close>

text \<open>What the start finds outside, and what it leaves running.\<close>

record ('w, 'g, 'k) RunEnv =
  ru_mkdir :: "error option"
  ru_open :: "Store result"
  ru_crypto :: Crypto
  ru_disk :: Disk
  ru_jerr :: error
  ru_wg :: WG
  ru_wgKeys :: "(string \<times> string) result"
  ru_fresh :: Fresh
  ru_selfSigned :: "(string \<times> string) result"
  ru_box :: "string option list"
  ru_fwEx :: "'w exchange"
  ru_fwWorld :: 'w
  ru_gwEx :: "'g exchange"
  ru_gateway :: 'g
  ru_kubo :: 'k

record ('w, 'g, 'k) Running =
  rn_bridge :: "('w, 'k) GatewayBridge"
  rn_client :: "Client option"
  rn_dns :: DnsPlan
  rn_wgOK :: bool
  rn_stealthOK :: bool
  rn_disk :: Disk
  rn_gateway :: 'g

definition newStealth :: "Store \<Rightarrow> string option list \<Rightarrow> Store SManager" where
  "newStealth st box =
     \<lparr>sm_st = st, sm_hasStore = True, sm_secrets = None, sm_certPEM = [], sm_keyPEM = [], sm_instance = None, sm_running = False,
      sm_box = box\<rparr>"

text \<open>The carriers: a failure is logged and the node goes on without them.\<close>

definition startStealth :: "Config \<Rightarrow> Fresh \<Rightarrow> (string \<times> string) result \<Rightarrow> Store SManager \<Rightarrow> bool \<times> Store SManager" where
  "startStealth cfg fr ss m =
     (case SInit GetSetting SetSetting fr ss m of
        (Some e, m1) \<Rightarrow> (False, m1)
      | (None, m1) \<Rightarrow>
          (case SStart cfg m1 of
             (Some e, m2) \<Rightarrow> (False, m2)
           | (None, m2) \<Rightarrow> (cfg_EnableStealth cfg, m2)))"

abbreviation newMetrics :: Metrics where
  "newMetrics \<equiv> \<lparr>mx_PeerProvisioned = 0, mx_PeerDeprovisioned = 0, mx_WGPeers = 0\<rparr>"

abbreviation newDropMetrics :: DropMetrics where
  "newDropMetrics \<equiv> \<lparr>dm_NodeOperations = [], dm_Uploads = [], dm_UploadBytes = 0, dm_DownloadBytes = 0\<rparr>"

definition startComponents :: "('w, 'g, 'k) RunEnv \<Rightarrow> Config \<Rightarrow> string \<Rightarrow> string \<Rightarrow> Store \<Rightarrow> ('w, 'g, 'k) Running" where
  "startComponents ru cfg peerID did st =
     (let (_, drp, disk) = dropStart (ru_jerr ru) (DeriveKuboIdentity (ru_crypto ru) (cfg_Mnemonic cfg))
                             (NewService cfg (Some newDropMetrics)) (ru_disk ru);
          (wgErr, wg) = Init cfg (ru_wgKeys ru) ((ru_wg ru)\<lparr>wg_st := st\<rparr>);
          (stealthOK, sm) = startStealth cfg (ru_fresh ru) (ru_selfSigned ru) (newStealth (wg_st wg) (ru_box ru));
          (cfg1, fw, w) = checkLicense (ru_fwEx ru) cfg (ru_fwWorld ru);
          (cfg2, gwID, st2, gw) = gatewayStart (ru_crypto ru) (ru_gwEx ru) (ru_jerr ru) peerID did cfg1 (sm_st sm) (ru_gateway ru);
          nd = \<lparr>nd_wg = wg\<lparr>wg_st := st2\<rparr>, nd_stealth = Some (sm\<lparr>sm_st := st2\<rparr>), nd_metrics = Some newMetrics\<rparr>;
          srv = \<lparr>sv_cfg = cfg2, sv_cfg0 = cfg2, sv_PeerID = peerID, sv_DID = did, sv_status = ''online'', sv_prov = nd,
                 sv_drop = Some drp, sv_kubo = ru_kubo ru\<rparr>
      in \<lparr>rn_bridge = NewGatewayBridge srv peerID did (case gwID of None \<Rightarrow> [] | Some (i, _) \<Rightarrow> i) (Some noSpeedtest)
            (Some (newAgent cfg2)) (Some fw) w,
          rn_client = map_option (\<lambda>(i, tok). newClient (cfg_GatewayURL cfg2) i tok) gwID,
          rn_dns = dnsPlan cfg1, rn_wgOK = (wgErr = None), rn_stealthOK = stealthOK, rn_disk = disk, rn_gateway = gw\<rparr>)"

definition startNode :: "('w, 'g, 'k) RunEnv \<Rightarrow> Config \<Rightarrow> ('w, 'g, 'k) Running result" where
  "startNode ru cfg =
     (case ru_mkdir ru of
        Some e \<Rightarrow> Inl (Wrapf ''create state dir: '' e [])
      | None \<Rightarrow>
          (case PeerIDFromMnemonic (ru_crypto ru) (cfg_Mnemonic cfg) of
             Inl e \<Rightarrow> Inl (Wrapf ''derive identity: '' e [])
           | Inr (peerID, did) \<Rightarrow>
               (case ru_open ru of
                  Inl e \<Rightarrow> Inl (Wrapf ''open store: '' e [])
                | Inr st \<Rightarrow> Inr (startComponents ru cfg peerID did st))))"

text \<open>The readiness provider handed to the HTTP server.\<close>

definition readinessInput :: "('w, 'g, 'k) Running \<Rightarrow> Input \<times> Store" where
  "readinessInput r =
     (let g = rn_bridge r; cfg = gb_cfg g;
          (gwReg, st) =
            (if GatewayEnabled cfg then
               (case LoadCredentials GetSetting (nd_store (gb_nd g)) of
                  (Inl e, st) \<Rightarrow> (False, st)
                | (Inr cred, st) \<Rightarrow> (cr_NodeID cred \<noteq> [] \<and> cr_NodeToken cred \<noteq> [], st))
             else (False, nd_store (gb_nd g)));
          gwConn = (GatewayEnabled cfg \<and> (case rn_client r of None \<Rightarrow> False | Some c \<Rightarrow> gc_connected c));
          (fwOK, fwDetail) =
            (if HasFirewallService cfg then (case gb_agent g of None \<Rightarrow> (True, []) | Some a \<Rightarrow> FirewallOK a) else (True, []))
      in (\<lparr>in_Cfg = Some cfg, in_IdentityConfigured = True, in_GatewayRegistered = gwReg, in_GatewayConnected = gwConn,
           in_WireGuardOK = rn_wgOK r, in_StealthListening = rn_stealthOK r, in_FirewallOK = fwOK, in_FirewallDetail = fwDetail,
           in_DropState = (case gb_drop g of None \<Rightarrow> [] | Some d \<Rightarrow> dp_State (ds_snapshot d))\<rparr>, st))"



section \<open>What the start keeps\<close>

context settings_frame
begin

lemma load_P: "LoadCredentials get st = (r, st') \<Longrightarrow> P st \<Longrightarrow> P st'"
  by (auto simp: LoadCredentials_def dest: get_P split: prod.splits sum.splits)

lemma putUnlessEmpty_P: "putUnlessEmpty put st k v = (oe, st') \<Longrightarrow> P st \<Longrightarrow> P st'"
  by (auto simp: putUnlessEmpty_def dest: put_P split: if_splits)

lemma save_P: "SaveCredentials put st c = (oe, st') \<Longrightarrow> P st \<Longrightarrow> P st'"
  by (auto simp: SaveCredentials_def dest: put_P putUnlessEmpty_P split: prod.splits option.splits)

end

text \<open>
  What the start does to the database it does through settings and through reads, so it keeps
  whatever these keep.
\<close>

locale tables_frame = settings_frame GetSetting SetSetting P for P :: "Store \<Rightarrow> bool" +
  assumes faults_P: "P s \<Longrightarrow> P (s\<lparr>db_faults := fs\<rparr>)"
begin

lemma keys_P: "loadOrCreateKeys newKey w = (oe, w') \<Longrightarrow> P (wg_st w) \<Longrightarrow> P (wg_st w')"
  by (auto simp: loadOrCreateKeys_def Let_def dest!: get_P dest: put_P split: prod.splits sum.splits option.splits if_splits)

lemma Init_P:
  assumes "Init cfg newKey w = (oe, w')" "P (wg_st w)"
  shows "P (wg_st w')"
proof -
  have os: "os_call v = (e, v') \<Longrightarrow> wg_st v' = wg_st v" for v e v' by (auto simp: os_call_def split: list.splits)
  obtain e1 w1 where k: "loadOrCreateKeys newKey w = (e1, w1)" by (rule prod.exhaust)
  obtain e2 w2 where c: "os_call w1 = (e2, w2)" by (rule prod.exhaust)
  obtain e3 w3 where f: "writeServerConf cfg w2 = (e3, w3)" by (rule prod.exhaust)
  have s1: "P (wg_st w1)" by (rule keys_P [OF k assms(2)])
  then have "P (wg_st w2)" using os [OF c] by simp
  moreover have "\<exists>fs. wg_st w3 = (wg_st w2)\<lparr>db_faults := fs\<rparr>"
    using f by (auto simp: writeServerConf_def Let_def split: prod.splits sum.splits option.splits elim!: ListPeersE dest!: os)
  ultimately have s3: "P (wg_st w2)" "P (wg_st w3)" using faults_P by auto
  obtain e4 w4 where o4: "os_call (w3\<lparr>wg_up := False\<rparr>) = (e4, w4)" by (rule prod.exhaust)
  obtain e5 w5 where o5: "os_call w4 = (e5, w5)" by (rule prod.exhaust)
  have "wg_st w5 = wg_st w3" using os [OF o4] os [OF o5] by simp
  moreover obtain e6 w6 where b: "BringUp w3 = (e6, w6)" by (rule prod.exhaust)
  ultimately have "wg_st w6 = wg_st w3" using b by (cases e5) (auto simp: BringUp_def o4 o5)
  then have "P (wg_st w6)" using s3(2) by simp
  moreover have "w' \<in> {w1, w2, w3, w6}" using assms(1) by (auto simp: Init_def k c f b split: option.splits)
  ultimately show ?thesis using s1 s3 by auto
qed

lemma stealth_P:
  assumes "startStealth cfg fr ss m = (ok, m')" "P (sm_st m)"
  shows "P (sm_st m')"
proof -
  obtain e1 m1 where i: "SInit GetSetting SetSetting fr ss m = (e1, m1)" by (rule prod.exhaust)
  have s1: "P (sm_st m1)" by (rule SInit_P [OF i assms(2)])
  obtain e2 m2 where s: "SStart cfg m1 = (e2, m2)" by (rule prod.exhaust)
  show ?thesis using assms(1) i s s1 SStart_keeps [OF s] by (auto simp: startStealth_def split: option.splits)
qed

lemma adopt_P:
  assumes "adoptRegistration out cfg st = (cfg', st')" "P st"
  shows "P st'"
proof -
  let ?c = "out\<lparr>cr_GatewayPublicKey := cfg_GatewayPublicKey cfg'\<rparr>"
  obtain oe s1 where s: "SaveCredentials SetSetting st (Some ?c) = (oe, s1)" by (rule prod.exhaust)
  have "st' = s1" using assms s by (auto simp: adoptRegistration_def Let_def split: if_splits)
  then show ?thesis using save_P [OF s assms(2)] by simp
qed

lemma gatewayStart_P:
  assumes "gatewayStart cy ex jerr peerID did cfg st w = (cfg', gid, st', w')" "P st"
  shows "P st'"
proof (cases "GatewayEnabled cfg")
  case True
  obtain r st1 where l: "LoadCredentials GetSetting st = (r, st1)" by (rule prod.exhaust)
  have "P st1" by (rule load_P [OF l assms(2)])
  then show ?thesis
    using assms(1) True l
    by (auto simp: gatewayStart_def resolveGateway_def Let_def dest: adopt_P split: prod.splits sum.splits if_splits)
qed (use assms in \<open>simp add: gatewayStart_def\<close>)

lemma start_P:
  assumes "P st"
  shows "P (nd_store (gb_nd (rn_bridge (startComponents ru cfg peerID did st))))"
proof -
  obtain od drp disk where d: "dropStart (ru_jerr ru) (DeriveKuboIdentity (ru_crypto ru) (cfg_Mnemonic cfg))
      (NewService cfg (Some newDropMetrics)) (ru_disk ru) = (od, drp, disk)" by (metis prod.exhaust)
  obtain we wg where w: "Init cfg (ru_wgKeys ru) ((ru_wg ru)\<lparr>wg_st := st\<rparr>) = (we, wg)" by (rule prod.exhaust)
  obtain ok sm where s: "startStealth cfg (ru_fresh ru) (ru_selfSigned ru) (newStealth (wg_st wg) (ru_box ru)) = (ok, sm)"
    by (rule prod.exhaust)
  obtain cfg1 fw fww where l: "checkLicense (ru_fwEx ru) cfg (ru_fwWorld ru) = (cfg1, fw, fww)" by (metis prod.exhaust)
  obtain cfg2 gid st2 gw where g: "gatewayStart (ru_crypto ru) (ru_gwEx ru) (ru_jerr ru) peerID did cfg1 (sm_st sm) (ru_gateway ru) =
      (cfg2, gid, st2, gw)" by (metis prod.exhaust)
  have "P (wg_st wg)" using Init_P [OF w] assms by simp
  then have "P (sm_st sm)" using stealth_P [OF s] by (simp add: newStealth_def)
  then have "P st2" by (rule gatewayStart_P [OF g])
  then show ?thesis by (simp add: startComponents_def d w s l g Let_def NewGatewayBridge_def)
qed

end

interpretation start_inv: tables_frame "store_inv subnet" for subnet
  by unfold_locales simp

interpretation start_rows: tables_frame "\<lambda>s. db_peers s = rows" for rows
  by unfold_locales simp

lemma adoptKeys_subnet [simp]: "cfg_WGIPv4Subnet (adoptKeys creds cfg) = cfg_WGIPv4Subnet cfg"
  by (simp add: adoptKeys_def Let_def)

lemma adoptRegistration_subnet: "adoptRegistration out cfg st = (cfg', st') \<Longrightarrow> cfg_WGIPv4Subnet cfg' = cfg_WGIPv4Subnet cfg"
  by (auto simp: adoptRegistration_def Let_def)

text \<open>The cases of the resolution: the known identity is kept, or the node registers.\<close>

lemma resolveGateway_cases:
  assumes "resolveGateway cy ex jerr peerID did creds cfg st w = (cfg', gid, st', w')"
    and "resolveIdentity cfg peerID creds = (nodeID, tok)"
  obtains (kept) "cfg' = (adoptKeys creds cfg)\<lparr>cfg_NodeID := nodeID\<rparr>" "st' = st"
      "gid = (if nodeID \<noteq> [] \<and> tok \<noteq> [] then Some (nodeID, tok) else None)" "nodeID \<noteq> [] \<and> tok \<noteq> [] \<longrightarrow> w' = w"
  | (registered) out cfg2 where "nodeID = [] \<or> tok = []"
      "Register cy ex jerr (registrationInput (adoptKeys creds cfg) peerID did) w = (Inr out, w')"
      "adoptRegistration out (adoptKeys creds cfg) st = (cfg2, st')" "cfg' = cfg2\<lparr>cfg_NodeID := cr_NodeID out\<rparr>"
      "gid = (if cr_NodeID out \<noteq> [] \<and> cr_NodeToken out \<noteq> [] then Some (cr_NodeID out, cr_NodeToken out) else None)"
proof -
  obtain r w1 where reg: "Register cy ex jerr (registrationInput (adoptKeys creds cfg) peerID did) w = (r, w1)" by (rule prod.exhaust)
  note g = assms(1) [unfolded resolveGateway_def assms(2) Let_def prod.case]
  show thesis
  proof (cases "(nodeID = [] \<or> tok = []) \<and> cfg_GatewayAutoRegister (adoptKeys creds cfg)")
    case False
    then show thesis using kept g by auto
  next
    case True
    show thesis
    proof (cases r)
      case (Inl e)
      then show thesis using kept g reg True by auto
    next
      case (Inr out)
      obtain cfg2 st2 where a: "adoptRegistration out (adoptKeys creds cfg) st = (cfg2, st2)" by (rule prod.exhaust)
      show thesis using registered [of out cfg2] g reg True Inr a by auto
    qed
  qed
qed


lemma gatewayStart_keeps:
  assumes "gatewayStart cy ex jerr peerID did cfg st w = (cfg', gid, st', w')"
  shows "cfg_WGIPv4Subnet cfg' = cfg_WGIPv4Subnet cfg"
    "gid = Some (nodeID, tok) \<Longrightarrow> GatewayEnabled cfg \<and> nodeID = peerID \<and> tok \<noteq> []"
proof -
  have "cfg_WGIPv4Subnet cfg' = cfg_WGIPv4Subnet cfg \<and>
    (gid = Some (nodeID, tok) \<longrightarrow> GatewayEnabled cfg \<and> nodeID = peerID \<and> tok \<noteq> [])"
  proof (cases "GatewayEnabled cfg")
    case False
    then show ?thesis using assms by (simp add: gatewayStart_def)
  next
    case True
    obtain r st1 where l: "LoadCredentials GetSetting st = (r, st1)" by (rule prod.exhaust)
    define creds where "creds = case_sum (\<lambda>_. noCredentials) id r"
    have g: "resolveGateway cy ex jerr peerID did creds cfg st1 w = (cfg', gid, st', w')"
      using assms True l by (simp add: gatewayStart_def creds_def)
    obtain i t where id: "resolveIdentity cfg peerID creds = (i, t)" by (rule prod.exhaust)
    have own: "i \<noteq> [] \<Longrightarrow> i = peerID" using id by (auto simp: resolveIdentity_def Let_def split: if_splits)
    from g id show ?thesis
    proof (cases rule: resolveGateway_cases)
      case kept
      then show ?thesis using own True by (auto split: if_splits)
    next
      case (registered out cfg2)
      have "cr_NodeID out = peerID" using Register_own [OF registered(2)] by (simp add: registrationInput_def)
      then show ?thesis
        using registered(4,5) adoptRegistration_subnet [OF registered(3)] True by (auto split: if_splits)
    qed
  qed
  then show "cfg_WGIPv4Subnet cfg' = cfg_WGIPv4Subnet cfg"
    "gid = Some (nodeID, tok) \<Longrightarrow> GatewayEnabled cfg \<and> nodeID = peerID \<and> tok \<noteq> []" by blast+
qed

lemma checkLicense_config: "checkLicense ex cfg w = (cfg', c, w') \<Longrightarrow> \<exists>b. cfg' = cfg\<lparr>cfg_SentinelLicensed := b\<rparr>"
  by (auto simp: checkLicense_def Let_def split: if_splits sum.splits prod.splits)

lemma startComponents_config:
  shows "cfg_WGIPv4Subnet (gb_cfg (rn_bridge (startComponents ru cfg peerID did st))) = cfg_WGIPv4Subnet cfg"
    "rn_client (startComponents ru cfg peerID did st) = Some c \<Longrightarrow> GatewayEnabled cfg \<and> gc_nodeID c = peerID \<and> gc_nodeToken c \<noteq> []"
proof -
  obtain od drp disk where d: "dropStart (ru_jerr ru) (DeriveKuboIdentity (ru_crypto ru) (cfg_Mnemonic cfg))
      (NewService cfg (Some newDropMetrics)) (ru_disk ru) = (od, drp, disk)" by (metis prod.exhaust)
  obtain we wg where w: "Init cfg (ru_wgKeys ru) ((ru_wg ru)\<lparr>wg_st := st\<rparr>) = (we, wg)" by (rule prod.exhaust)
  obtain ok sm where s: "startStealth cfg (ru_fresh ru) (ru_selfSigned ru) (newStealth (wg_st wg) (ru_box ru)) = (ok, sm)"
    by (rule prod.exhaust)
  obtain cfg1 fw fww where l: "checkLicense (ru_fwEx ru) cfg (ru_fwWorld ru) = (cfg1, fw, fww)" by (metis prod.exhaust)
  obtain cfg2 gid st2 gw where g: "gatewayStart (ru_crypto ru) (ru_gwEx ru) (ru_jerr ru) peerID did cfg1 (sm_st sm) (ru_gateway ru) =
      (cfg2, gid, st2, gw)" by (metis prod.exhaust)
  have cfg1: "cfg_WGIPv4Subnet cfg1 = cfg_WGIPv4Subnet cfg" "GatewayEnabled cfg1 = GatewayEnabled cfg"
    using checkLicense_config [OF l] by (auto simp: GatewayEnabled_def)
  then have "cfg_WGIPv4Subnet cfg2 = cfg_WGIPv4Subnet cfg" using gatewayStart_keeps(1) [OF g] by simp
  then show "cfg_WGIPv4Subnet (gb_cfg (rn_bridge (startComponents ru cfg peerID did st))) = cfg_WGIPv4Subnet cfg"
    by (simp add: startComponents_def d w s l g Let_def NewGatewayBridge_def)
  show "rn_client (startComponents ru cfg peerID did st) = Some c \<Longrightarrow> GatewayEnabled cfg \<and> gc_nodeID c = peerID \<and> gc_nodeToken c \<noteq> []"
    using gatewayStart_keeps(2) [OF g] cfg1(2) by (auto simp: startComponents_def d w s l g Let_def newClient_def)
qed

lemma startComponents_keeps:
  assumes "store_inv (cfg_WGIPv4Subnet cfg) st" "ipv4_subnet (cfg_WGIPv4Subnet cfg)"
  shows "bridge_inv (rn_bridge (startComponents ru cfg peerID did st))"
  using start_inv.start_P [OF assms(1)] assms(2) by (simp add: bridge_inv_store startComponents_config(1))

section \<open>Starting again\<close>

lemma SetSetting_quiet: "db_faults s = [] \<Longrightarrow> \<exists>s'. SetSetting s k v = (None, s') \<and> db_faults s' = []"
  by (simp add: SetSetting_def db_call_ok)

lemma putUnlessEmpty_quiet: "db_faults s = [] \<Longrightarrow> \<exists>s'. putUnlessEmpty SetSetting s k v = (None, s') \<and> db_faults s' = []"
  using SetSetting_quiet [of s k v] by (simp add: putUnlessEmpty_def)

lemma SaveCredentials_quiet:
  assumes "db_faults s = []"
  obtains s' where "SaveCredentials SetSetting s (Some c) = (None, s')" "db_faults s' = []"
    "stored (db_look s') = saved (db_look s) c"
proof -
  obtain s1 where s1: "SetSetting s settingNodeID (cr_NodeID c) = (None, s1)" "db_faults s1 = []"
    using SetSetting_quiet [OF assms] by blast
  obtain s2 where s2: "SetSetting s1 settingNodeToken (cr_NodeToken c) = (None, s2)" "db_faults s2 = []"
    using SetSetting_quiet [OF s1(2)] by blast
  obtain s3 where s3: "putUnlessEmpty SetSetting s2 settingNodeKey (cr_NodeKey c) = (None, s3)" "db_faults s3 = []"
    using putUnlessEmpty_quiet [OF s2(2)] by blast
  obtain s4 where s4: "putUnlessEmpty SetSetting s3 settingGatewayPublicKey (cr_GatewayPublicKey c) = (None, s4)" "db_faults s4 = []"
    using putUnlessEmpty_quiet [OF s3(2)] by blast
  have "SaveCredentials SetSetting s (Some c) = (None, s4)"
    by (simp add: SaveCredentials_def s1(1) s2(1) s3(1) s4(1))
  then show thesis using that s4(2) db.Save_stored by blast
qed

lemma gatewayStart_quiet:
  "db_faults st = [] \<Longrightarrow> GatewayEnabled cfg \<Longrightarrow>
   gatewayStart cy ex jerr peerID did cfg st w = resolveGateway cy ex jerr peerID did (stored (db_look st)) cfg st w"
  by (simp add: gatewayStart_def LoadCredentials_quiet)

lemma resolveGateway_known:
  "resolveIdentity cfg peerID creds = (nodeID, tok) \<Longrightarrow> nodeID \<noteq> [] \<Longrightarrow> tok \<noteq> [] \<Longrightarrow>
   resolveGateway cy ex jerr peerID did creds cfg st w = ((adoptKeys creds cfg)\<lparr>cfg_NodeID := nodeID\<rparr>, Some (nodeID, tok), st, w)"
  by (simp add: resolveGateway_def Let_def)

text \<open>Stored credentials of the node itself are all a start needs.\<close>

lemma gatewayStart_stored:
  assumes "db_faults st = []" "GatewayEnabled cfg" "cr_NodeID (stored (db_look st)) = peerID" "peerID \<noteq> []"
    and "cr_NodeToken (stored (db_look st)) = tok" "tok \<noteq> []"
  shows "gatewayStart cy ex jerr peerID did cfg st w =
    ((adoptKeys (stored (db_look st)) cfg)\<lparr>cfg_NodeID := peerID\<rparr>, Some (peerID, tok), st, w)"
proof -
  have "resolveIdentity cfg peerID (stored (db_look st)) = (peerID, tok)" using assms(3-6) by (simp add: resolveIdentity_def Let_def)
  then show ?thesis by (simp add: gatewayStart_quiet [OF assms(1,2)] resolveGateway_known assms(4,6))
qed

lemma adopt_again:
  fixes m :: "string \<Rightarrow> string"
  assumes "adoptRegistration out (adoptKeys (stored m) cfg) st = (cfg2, st')" "cr_NodeKey out \<noteq> []"
  shows "(adoptKeys (saved m (out\<lparr>cr_GatewayPublicKey := cfg_GatewayPublicKey cfg2\<rparr>)) cfg)\<lparr>cfg_NodeID := i\<rparr> =
    cfg2\<lparr>cfg_NodeID := i, cfg_NodeToken := cfg_NodeToken cfg\<rparr>"
  using assms by (auto simp: adoptRegistration_def adoptKeys_def saved_def stored_def Let_def split: if_splits)

lemma adoptRegistration_stored:
  assumes "adoptRegistration out cfg st = (cfg2, st')" "db_faults st = []"
  shows "db_faults st' = []" "stored (db_look st') = saved (db_look st) (out\<lparr>cr_GatewayPublicKey := cfg_GatewayPublicKey cfg2\<rparr>)"
proof -
  obtain s' where s': "SaveCredentials SetSetting st (Some (out\<lparr>cr_GatewayPublicKey := cfg_GatewayPublicKey cfg2\<rparr>)) = (None, s')"
    "db_faults s' = []" "stored (db_look s') = saved (db_look st) (out\<lparr>cr_GatewayPublicKey := cfg_GatewayPublicKey cfg2\<rparr>)"
    by (rule SaveCredentials_quiet [OF assms(2)])
  have "st' = s'" using assms(1) s'(1) by (auto simp: adoptRegistration_def Let_def split: if_splits)
  then show "db_faults st' = []" "stored (db_look st') = saved (db_look st) (out\<lparr>cr_GatewayPublicKey := cfg_GatewayPublicKey cfg2\<rparr>)"
    using s' by simp_all
qed

lemma start_again:
  assumes "db_faults st = []" "gatewayStart cy ex jerr peerID did cfg st w = (cfg1, Some (nodeID, tok), st1, w1)"
  shows "db_faults st1 = [] \<and> gatewayStart cy ex' jerr' peerID did cfg st1 w' =
    (cfg1\<lparr>cfg_NodeToken := cfg_NodeToken cfg\<rparr>, Some (nodeID, tok), st1, w')"
proof -
  have own: "GatewayEnabled cfg" "nodeID = peerID" "tok \<noteq> []" using gatewayStart_keeps(2) [OF assms(2)] by auto
  let ?m = "db_look st"
  have g: "resolveGateway cy ex jerr peerID did (stored ?m) cfg st w = (cfg1, Some (nodeID, tok), st1, w1)"
    using assms(2) by (simp add: gatewayStart_quiet [OF assms(1) own(1)])
  obtain i t where id: "resolveIdentity cfg peerID (stored ?m) = (i, t)" by (rule prod.exhaust)
  from g id show ?thesis
  proof (cases rule: resolveGateway_cases)
    case kept
    then have k: "i = nodeID" "t = tok" "nodeID \<noteq> []" "tok \<noteq> []" by (auto split: if_splits)
    have "cfg_NodeToken cfg1 = cfg_NodeToken cfg" using kept(1) by (simp add: adoptKeys_def Let_def)
    moreover have "cfg1\<lparr>cfg_NodeToken := cfg_NodeToken cfg1\<rparr> = cfg1" by simp
    ultimately have same: "cfg1\<lparr>cfg_NodeToken := cfg_NodeToken cfg\<rparr> = cfg1" by simp
    show ?thesis
      unfolding same using assms(1) kept(1,2) k
      by (simp add: gatewayStart_quiet [OF assms(1) own(1)] resolveGateway_known [OF id])
  next
    case (registered out cfg2)
    note r = Register_own [OF registered(2)]
    have out: "cr_NodeID out = peerID" "peerID \<noteq> []" "cr_NodeToken out = tok" "nodeID = peerID"
      using r registered(5) own(2) by (auto simp: registrationInput_def split: if_splits)
    note s = adoptRegistration_stored [OF registered(3) assms(1)]
    have "cr_NodeID (stored (db_look st1)) = peerID" "cr_NodeToken (stored (db_look st1)) = tok"
      using out by (simp_all add: s(2) saved_def)
    from gatewayStart_stored [OF s(1) own(1) this(1) out(2) this(2) own(3), of cy ex' jerr' did w'] show ?thesis
      using adopt_again [OF registered(3) r(4)] s registered(4) out by simp
  qed
qed

lemma refresh_again:
  assumes "db_faults st = []" "GatewayEnabled cfg" "peerID \<noteq> []"
    and "tokenRefresher gw jerr url peerID key cfg1 st w = (Inr tok, cfg2, st2, w2)"
  shows "\<exists>cfg3. gatewayStart cy ex' jerr' peerID did cfg st2 w' = (cfg3, Some (peerID, tok), st2, w')"
proof -
  let ?c = "\<lparr>cr_NodeID = peerID, cr_NodeToken = tok, cr_NodeKey = key, cr_GatewayPublicKey = cfg_GatewayPublicKey cfg1\<rparr>"
  obtain s' where s': "SaveCredentials SetSetting st (Some ?c) = (None, s')" "db_faults s' = []"
    "stored (db_look s') = saved (db_look st) ?c" by (rule SaveCredentials_quiet [OF assms(1)])
  obtain r w1 where r: "RefreshNodeToken gw jerr url peerID key w = (r, w1)" by (rule prod.exhaust)
  then have "r = Inr tok" "st2 = s'" using assms(4) s'(1) by (auto simp: tokenRefresher_def split: if_splits sum.splits)
  moreover have "tok \<noteq> []" using r \<open>r = Inr tok\<close>
    by (auto simp: RefreshNodeToken_def Let_def split: if_splits sum.splits prod.splits option.splits)
  ultimately show ?thesis
    by (simp add: gatewayStart_stored [OF s'(2) assms(2) _ assms(3)] s'(3) saved_def)
qed


section \<open>Properties\<close>



text \<open>
  An unlicensed Sentinel: with private DNS the queries of the tunnel still go to the firewall; only
  the plain forwarder is left out.
\<close>

lemma unlicensed_dns_forwarded:
  assumes "cfg_PrivateDNSEnabled cfg" "HasFirewallService cfg" "\<not> cfg_SentinelLicensed cfg" "dnsPlan cfg = PrivateResolver dc"
  shows "dns_Upstream dc = cfg_FirewallDNSAddr cfg"
  using assms by (auto simp: dnsPlan_def Let_def split: option.splits if_splits)


section \<open>Witnesses\<close>

definition ex_start_cfg :: Config where
  "ex_start_cfg = ex_wg_config\<lparr>cfg_Mnemonic := ''abandon'', cfg_WalletChain := ''eth'', cfg_GatewayURL := ''https://gw'',
     cfg_GatewayAutoRegister := True, cfg_NodeRegistrationToken := ''tok''\<rparr>"

text \<open>An environment in which everything fails that may fail.\<close>

definition ex_run :: "(unit, nat, unit) RunEnv" where
  "ex_run = \<lparr>ru_mkdir = None, ru_open = Inr ex_store, ru_crypto = ex_crypto, ru_disk = ex_disk, ru_jerr = Errorf ''json'',
     ru_wg = ex_wg, ru_wgKeys = Inl (Errorf ''entropy''), ru_fresh = ex_fresh ''1'', ru_selfSigned = Inl (Errorf ''entropy''),
     ru_box = [], ru_fwEx = (\<lambda>w r. (Inl (Errorf ''refused''), w)), ru_fwWorld = (), ru_gwEx = (\<lambda>w r. (Inl (Errorf ''refused''), w)),
     ru_gateway = 0, ru_kubo = ()\<rparr>"

lemma ex_start_store: "store_inv (cfg_WGIPv4Subnet ex_start_cfg) ex_store" "ipv4_subnet (cfg_WGIPv4Subnet ex_start_cfg)"
  using ex_node_inv ex_node_subnet by (simp_all add: ex_start_cfg_def ex_node_def ex_wg_def)



end
