(* ===== verification/Cli.thy ===== *)
theory Cli
  imports Carriers Startup
begin

text \<open>
  The command line of the node (\<open>src/internal/nodeapp\<close>: \<open>entry.go\<close>, \<open>rotate.go\<close>, \<open>services.go\<close>,
  \<open>templates.go\<close>, \<open>status.go\<close>): the dispatch, the operator commands with their arguments and exit
  codes, and the start of the node itself. What a command writes to standard output is a list of
  lines and of encoded values.
\<close>

section \<open>Durations\<close>

text \<open>
  \<open>time.ParseDuration\<close> on unsigned 64-bit integers. The product of a fraction with its unit is a
  floating-point one and an argument: \<open>fmul f unit k\<close> for the digits \<open>f\<close> after the point, \<open>k\<close> of them.
\<close>

type_synonym fraction = "nat \<Rightarrow> nat \<Rightarrow> nat \<Rightarrow> nat"

definition timeQuote :: "string \<Rightarrow> string" where
  "timeQuote s = CHR 0x22 # concat (map (\<lambda>c. let n = (of_char c :: nat) in
     if n = 34 \<or> n = 92 then [CHR 0x5C, c]
     else if n < 32 \<or> 128 \<le> n then [CHR 0x5C, CHR ''x'', hex_char (n div 16), hex_char (n mod 16)] else [c]) s) @ [CHR 0x22]"

definition invalidDuration :: "string \<Rightarrow> error" where
  "invalidDuration orig = Errorf (''time: invalid duration '' @ timeQuote orig)"

fun leadingInt :: "nat \<Rightarrow> string \<Rightarrow> (nat \<times> string) option" where
  "leadingInt x [] = Some (x, [])"
| "leadingInt x (c # s) =
     (if \<not> is_digit c then Some (x, c # s)
      else if 2 ^ 63 div 10 < x then None
      else if 2 ^ 63 < x * 10 + digit_val c then None
      else leadingInt (x * 10 + digit_val c) s)"

fun leadingFraction :: "nat \<Rightarrow> nat \<Rightarrow> bool \<Rightarrow> string \<Rightarrow> nat \<times> nat \<times> string" where
  "leadingFraction x k overflow [] = (x, k, [])"
| "leadingFraction x k overflow (c # s) =
     (if \<not> is_digit c then (x, k, c # s)
      else if overflow \<or> (2 ^ 63 - 1) div 10 < x \<or> 2 ^ 63 < x * 10 + digit_val c then leadingFraction x k True s
      else leadingFraction (x * 10 + digit_val c) (Suc k) False s)"

definition unitMap :: "string \<rightharpoonup> nat" where
  "unitMap = map_of [(''ns'', 1), (''us'', 1000), ([CHR 0xC2, CHR 0xB5, CHR ''s''], 1000), ([CHR 0xCE, CHR 0xBC, CHR ''s''], 1000),
     (''ms'', 1000000), (''s'', 1000000000), (''m'', 60000000000), (''h'', 3600000000000)]"

abbreviation starts_number :: "char \<Rightarrow> bool" where
  "starts_number c \<equiv> c = CHR ''.'' \<or> is_digit c"

definition fractionPart :: "string \<Rightarrow> nat \<times> nat \<times> string \<times> bool" where
  "fractionPart s =
     (if s \<noteq> [] \<and> hd s = CHR ''.''
      then (case leadingFraction 0 0 False (tl s) of (f, k, r) \<Rightarrow> (f, k, r, length r \<noteq> length (tl s)))
      else (0, 0, s, False))"

definition durationPart :: "fraction \<Rightarrow> string \<Rightarrow> string \<Rightarrow> (nat \<times> string) result" where
  "durationPart fmul orig s =
     (if s = [] \<or> \<not> starts_number (hd s) then Inl (invalidDuration orig)
      else case leadingInt 0 s of
             None \<Rightarrow> Inl (invalidDuration orig)
           | Some (v, s1) \<Rightarrow>
               (case fractionPart s1 of
                  (f, k, s2, post) \<Rightarrow>
                    (let u = takeWhile (\<lambda>c. \<not> starts_number c) s2; s3 = dropWhile (\<lambda>c. \<not> starts_number c) s2
                     in if length s1 = length s \<and> \<not> post then Inl (invalidDuration orig)
                        else if u = [] then Inl (Errorf (''time: missing unit in duration '' @ timeQuote orig))
                        else case unitMap u of
                               None \<Rightarrow> Inl (Errorf (''time: unknown unit '' @ timeQuote u @ '' in duration '' @ timeQuote orig))
                             | Some n \<Rightarrow>
                                 (if 2 ^ 63 div n < v then Inl (invalidDuration orig)
                                  else if 0 < f then
                                    (if 2 ^ 63 < v * n + fmul f n k then Inl (invalidDuration orig)
                                     else Inr (v * n + fmul f n k, s3))
                                  else Inr (v * n, s3)))))"

lemma leadingInt_length: "leadingInt x s = Some (v, r) \<Longrightarrow> length r \<le> length s"
  by (induction x s rule: leadingInt.induct) (auto split: if_splits)

lemma leadingFraction_length: "leadingFraction x k b s = (f, k', r) \<Longrightarrow> length r \<le> length s"
  by (induction x k b s rule: leadingFraction.induct) (auto split: if_splits)

lemma fractionPart_length: "fractionPart s = (f, k, r, post) \<Longrightarrow> length r \<le> length s"
  by (cases s) (auto simp: fractionPart_def dest: leadingFraction_length split: if_splits prod.splits)

lemma durationPart_length: "durationPart fmul orig s = Inr (v, r) \<Longrightarrow> length r < length s"
proof -
  assume d: "durationPart fmul orig s = Inr (v, r)"
  then obtain v1 s1 f k s2 post where p: "leadingInt 0 s = Some (v1, s1)" "fractionPart s1 = (f, k, s2, post)"
    "takeWhile (\<lambda>c. \<not> starts_number c) s2 \<noteq> []" "r = dropWhile (\<lambda>c. \<not> starts_number c) s2"
    by (auto simp: durationPart_def Let_def split: if_splits option.splits prod.splits)
  have "length s2 = length (takeWhile (\<lambda>c. \<not> starts_number c) s2) + length r"
    unfolding p(4) by (metis length_append takeWhile_dropWhile_id)
  then show ?thesis using p(3) leadingInt_length [OF p(1)] fractionPart_length [OF p(2)] by (cases "takeWhile (\<lambda>c. \<not> starts_number c) s2") auto
qed

function durationLoop :: "fraction \<Rightarrow> string \<Rightarrow> string \<Rightarrow> nat \<Rightarrow> nat result" where
  "durationLoop fmul orig s d =
     (if s = [] then Inr d
      else case durationPart fmul orig s of
             Inl e \<Rightarrow> Inl e
           | Inr (v, r) \<Rightarrow>
               (if 2 ^ 63 < (d + v) mod 2 ^ 64 then Inl (invalidDuration orig) else durationLoop fmul orig r ((d + v) mod 2 ^ 64)))"
  by pat_completeness auto
termination
  by (relation "measure (\<lambda>(_, _, s, _). length s)") (auto dest: durationPart_length)

declare durationLoop.simps [simp del]

definition ParseDuration :: "fraction \<Rightarrow> string \<Rightarrow> int result" where
  "ParseDuration fmul orig =
     (let neg = (orig \<noteq> [] \<and> hd orig = CHR ''-'');
          s = (if orig \<noteq> [] \<and> (hd orig = CHR ''-'' \<or> hd orig = CHR ''+'') then tl orig else orig)
      in if s = ''0'' then Inr 0
         else if s = [] then Inl (invalidDuration orig)
         else case durationLoop fmul orig s 0 of
                Inl e \<Rightarrow> Inl e
              | Inr d \<Rightarrow>
                  (if neg then Inr (- int d)
                   else if 2 ^ 63 - 1 < d then Inl (invalidDuration orig)
                   else Inr (int d)))"


section \<open>Commands\<close>

text \<open>
  What is written to standard output: lines, and values through the JSON encoder of the library.
  A command returns, ends the process at once with a code, or panics.
\<close>

datatype Printed =
    Line string
  | ServicesJSON "Service list"
  | ServiceJSON Service
  | CatalogJSON "Template list"
  | ReportJSON Report

datatype Return = Returns "error option" | Exits nat | Panics

text \<open>What the commands find outside; \<open>ce_status\<close> is the answer of the running node to its status request.\<close>

record ('w, 'g, 'k) CliEnv =
  ce_getenv :: "string \<Rightarrow> string"
  ce_dotenv :: "string \<Rightarrow> string"
  ce_hostname :: "string result"
  ce_open :: "Store result"
  ce_crypto :: Crypto
  ce_now :: int
  ce_uuid :: string
  ce_fmul :: fraction
  ce_sha256 :: "u8 list \<Rightarrow> u8 list"
  ce_clock :: Clock
  ce_ids :: "string list"
  ce_newIds :: "string list"
  ce_fresh :: "nat \<Rightarrow> Fresh"
  ce_selfSigned :: "nat \<Rightarrow> (string \<times> string) result"
  ce_box :: "string option list"
  ce_status :: "string \<Rightarrow> (nat \<times> string) result"
  ce_jerr :: error
  ce_run :: "('w, 'g, 'k) RunEnv"

text \<open>Commands give the output, the way they end and the database as they leave it, if they opened it.\<close>

type_synonym command = "Printed list \<times> Return \<times> Store option"

abbreviation fails :: "error \<Rightarrow> command" where
  "fails e \<equiv> ([], Returns (Some e), None)"

subsection \<open>Rotation\<close>

definition flagGrace :: string where "flagGrace = ''--grace-period''"
definition flagPeer :: string where "flagPeer = ''--peer''"

fun rotateArgs :: "fraction \<Rightarrow> string list \<Rightarrow> int \<Rightarrow> string \<Rightarrow> (int \<times> string) result" where
  "rotateArgs fmul [] grace peerID = Inr (grace, peerID)"
| "rotateArgs fmul (a # args) grace peerID =
     (if a = flagGrace then
        (case args of
           [] \<Rightarrow> Inl (Errorf ''--grace-period requires a value'')
         | v # args' \<Rightarrow>
             (case ParseDuration fmul v of
                Inl e \<Rightarrow> Inl (Wrapf ''invalid grace period: '' e [])
              | Inr d \<Rightarrow> rotateArgs fmul args' d peerID))
      else if a = flagPeer then
        (case args of
           [] \<Rightarrow> Inl (Errorf ''--peer requires a value'')
         | v # args' \<Rightarrow> rotateArgs fmul args' grace v)
      else if a \<noteq> ''carriers'' \<and> HasPrefix a ''-'' then Inl (Errorf (''unknown flag '' @ a))
      else rotateArgs fmul args grace peerID)"

definition runRotateCarriers :: "('w, 'g, 'k) CliEnv \<Rightarrow> string list \<Rightarrow> command" where
  "runRotateCarriers ce args =
     (case rotateArgs (ce_fmul ce) args 86400000000000 [] of
        Inl e \<Rightarrow> fails e
      | Inr (grace, peerID) \<Rightarrow>
          (let cfg = Load (ce_getenv ce) (ce_hostname ce)
           in case ce_open ce of
                Inl e \<Rightarrow> fails e
              | Inr st \<Rightarrow>
                  (case SInit GetSetting SetSetting (ce_fresh ce 0) (ce_selfSigned ce 0) (newStealth st (ce_box ce)) of
                     (Some e, m) \<Rightarrow> ([], Returns (Some e), Some (sm_st m))
                   | (None, m) \<Rightarrow>
                       (case Rotate (ce_sha256 ce) cfg (ce_clock ce) grace peerID (ce_ids ce) (ce_newIds ce)
                               (ce_fresh ce 1) (ce_fresh ce 2) (ce_selfSigned ce 1) (Some m) of
                          (Some e, om) \<Rightarrow> ([], Returns (Some e), map_option sm_st om)
                        | (None, om) \<Rightarrow>
                            ([Line ''carrier secrets rotated. Restart the node to serve the new credentials; old ones remain valid for the grace period.''],
                             Returns None, map_option sm_st om)))))"

subsection \<open>Services\<close>

definition runServicesCLI :: "('w, 'g, 'k) CliEnv \<Rightarrow> string list \<Rightarrow> command" where
  "runServicesCLI ce args =
     (case args of
        [] \<Rightarrow> fails (Errorf ''usage: erebrus services list|inspect <id>|remove <id>|serve --name <name> --port <port> [--type <type>]'')
      | a # rest \<Rightarrow>
          (case ce_open ce of
             Inl e \<Rightarrow> fails e
           | Inr st \<Rightarrow>
               (if a = ''list'' then
                  (case ListSvc st of
                     (Inl e, st1) \<Rightarrow> ([], Returns (Some e), Some st1)
                   | (Inr items, st1) \<Rightarrow> ([ServicesJSON items], Returns None, Some st1))
                else if a = ''inspect'' then
                  (case rest of
                     [] \<Rightarrow> ([], Returns (Some (Errorf ''usage: erebrus services inspect <service-id>'')), Some st)
                   | sid # _ \<Rightarrow>
                       (case GetSvc st sid of
                          (Inl e, st1) \<Rightarrow> ([], Returns (Some e), Some st1)
                        | (Inr svc, st1) \<Rightarrow> ([ServiceJSON svc], Returns None, Some st1)))
                else if a = ''remove'' then
                  (case rest of
                     [] \<Rightarrow> ([], Returns (Some (Errorf ''usage: erebrus services remove <service-id>'')), Some st)
                   | sid # _ \<Rightarrow> (case RemoveSvc st sid of (oe, st1) \<Rightarrow> ([], Returns oe, Some st1)))
                else ([], Returns (Some (Errorf (''unknown services subcommand '' @ Quote a))), Some st))))"

text \<open>A flag at the end of the arguments has no value: the index is out of range.\<close>

definition numError :: "string \<Rightarrow> error" where
  "numError s = Errorf (''strconv.Atoi: parsing '' @ Quote s @ '': '' @ (if fst (Atoi s) = 0 then ''invalid syntax'' else ''value out of range''))"

fun serveArgs :: "string list \<Rightarrow> string \<Rightarrow> int \<Rightarrow> string \<Rightarrow> Return + string \<times> int \<times> string" where
  "serveArgs [] name port typ = Inr (name, port, typ)"
| "serveArgs (a # args) name port typ =
     (if a = ''--name'' then (case args of [] \<Rightarrow> Inl Panics | v # args' \<Rightarrow> serveArgs args' v port typ)
      else if a = ''--port'' then
        (case args of
           [] \<Rightarrow> Inl Panics
         | v # args' \<Rightarrow> if snd (Atoi v) then Inl (Returns (Some (numError v))) else serveArgs args' name (fst (Atoi v)) typ)
      else if a = ''--type'' then (case args of [] \<Rightarrow> Inl Panics | v # args' \<Rightarrow> serveArgs args' name port v)
      else serveArgs args name port typ)"

definition cliService :: "string \<Rightarrow> int \<Rightarrow> string \<Rightarrow> Service" where
  "cliService name port typ =
     \<lparr>sv_ID = [], sv_Name = name, sv_Type = typ, sv_Protocol = [], sv_InternalAddr = [], sv_Port = port, sv_OwnerPeerID = [],
      sv_OwnerDID = [], sv_Visibility = [], sv_AuthMode = [], sv_Tags = None, sv_CreatedAt = 0, sv_UpdatedAt = 0\<rparr>"

definition runServeCLI :: "('w, 'g, 'k) CliEnv \<Rightarrow> string list \<Rightarrow> command" where
  "runServeCLI ce args =
     (case serveArgs args [] 0 [] of
        Inl r \<Rightarrow> ([], r, None)
      | Inr (name, port, typ) \<Rightarrow>
          (if name = [] \<or> port = 0 then fails (Errorf ''usage: erebrus serve --name <name> --port <port> [--type <type>]'')
           else case ce_open ce of
                  Inl e \<Rightarrow> fails e
                | Inr st \<Rightarrow>
                    (case Publish st (cliService name port typ) (ce_now ce) (ce_uuid ce) of
                       (Inl e, st1) \<Rightarrow> ([], Returns (Some e), Some st1)
                     | (Inr svc, st1) \<Rightarrow> ([ServiceJSON svc], Returns None, Some st1))))"

subsection \<open>Templates\<close>

definition runTemplatesCLI :: "('w, 'g, 'k) CliEnv \<Rightarrow> string list \<Rightarrow> command" where
  "runTemplatesCLI ce args =
     (case args of
        [] \<Rightarrow> fails (Errorf ''usage: erebrus templates list|install <name>'')
      | a # rest \<Rightarrow>
          (if a = ''list'' then ([CatalogJSON Catalog], Returns None, None)
           else if a = ''install'' then
             (case rest of
                [] \<Rightarrow> fails (Errorf ''usage: erebrus templates install <name>'')
              | nm # _ \<Rightarrow>
                  (case ce_open ce of
                     Inl e \<Rightarrow> fails e
                   | Inr st \<Rightarrow>
                       (case Install st nm (ce_now ce) (ce_uuid ce) of
                          (Inl e, st1) \<Rightarrow> ([], Returns (Some e), Some st1)
                        | (Inr svc, st1) \<Rightarrow> ([ServiceJSON svc], Returns None, Some st1))))
           else fails (Errorf (''unknown templates subcommand '' @ Quote a))))"


subsection \<open>Status\<close>

definition envOr :: "(string \<Rightarrow> string) \<Rightarrow> string \<Rightarrow> string \<Rightarrow> string" where
  "envOr getenv key dflt = (if getenv key \<noteq> [] then getenv key else dflt)"

definition statusURL :: "(string \<Rightarrow> string) \<Rightarrow> string" where
  "statusURL getenv = ''http://127.0.0.1:'' @ envOr getenv ''HTTP_PORT'' ''9080'' @ ''/api/v2/status''"

text \<open>A field of a struct that is itself a struct: its members are merged into what is there.\<close>

definition into_check :: "json \<Rightarrow> Check option" where
  "into_check v =
     (if \<not> is_struct v then None
      else case (string_field ''id'' v, bool_field ''ok'' v, string_field ''detail'' v, bool_field ''optional'' v) of
             (Some i, Some k, Some d, Some p) \<Rightarrow> Some \<lparr>ck_ID = i, ck_OK = k, ck_Detail = d, ck_Optional = p\<rparr>
           | _ \<Rightarrow> None)"

definition merge :: "(json \<Rightarrow> 'a \<Rightarrow> 'a option) \<Rightarrow> string \<Rightarrow> json \<Rightarrow> 'a \<Rightarrow> 'a option" where
  "merge conv name v old = field conv old name v"

definition into_report :: "json \<Rightarrow> Report \<Rightarrow> Report option" where
  "into_report v old =
     (if \<not> is_struct v then None
      else case (merge into_bool ''ok'' v (rp_OK old), merge (into_list into_check) ''checks'' v (rp_Checks old),
                 merge (into_list (\<lambda>m. into_string m [])) ''warnings'' v (rp_Warnings old)) of
             (Some k, Some cs, Some ws) \<Rightarrow> Some \<lparr>rp_OK = k, rp_Checks = cs, rp_Warnings = ws\<rparr>
           | _ \<Rightarrow> None)"

abbreviation noReport :: Report where
  "noReport \<equiv> \<lparr>rp_OK = False, rp_Checks = [], rp_Warnings = []\<rparr>"

definition report_field :: "json \<Rightarrow> Report option" where
  "report_field v = (if is_struct v then field into_report noReport ''readiness'' v else None)"

text \<open>The parts of the answer that are printed; capabilities are a map from names to any value.\<close>

record StatusView =
  vw_AccessMode :: string
  vw_PeerID :: string
  vw_DID :: string
  vw_WalletChain :: string
  vw_WalletLabel :: string
  vw_WalletAddress :: string
  vw_PublicKey :: string
  vw_Endpoint :: string
  vw_Capabilities :: "(string \<times> json) list"
  vw_Readiness :: Report

definition into_struct :: "string list \<Rightarrow> json \<Rightarrow> string list \<Rightarrow> string list option" where
  "into_struct names v old =
     (if \<not> is_struct v then None else those (map2 (\<lambda>n s. merge into_string n v s) names old))"

fun into_map :: "json \<Rightarrow> (string \<times> json) list \<Rightarrow> (string \<times> json) list option" where
  "into_map (JObj kvs) old = Some (rev kvs @ old)"
| "into_map JNull old = Some []"
| "into_map _ old = None"

definition identityNames :: "string list" where
  "identityNames = [''peer_id'', ''did'', ''wallet_chain'', ''wallet_chain_label'', ''wallet_address'']"

definition into_endpoints :: "json \<Rightarrow> string list \<Rightarrow> string list option" where
  "into_endpoints v old = (if is_struct v then merge (into_struct [''public_key'', ''endpoint'']) ''wireguard'' v old else None)"

definition decodeStatus :: "string \<Rightarrow> StatusView option" where
  "decodeStatus body =
     (case json_dec body of
        None \<Rightarrow> None
      | Some v \<Rightarrow>
          (if \<not> is_struct v then None
           else case (string_field ''access_mode'' v, field (into_struct identityNames) (replicate 5 []) ''identity'' v,
                      field into_endpoints (replicate 2 []) ''endpoints'' v, field into_map [] ''capabilities'' v, report_field v) of
                  (Some a, Some ids, Some eps, Some caps, Some r) \<Rightarrow>
                    Some \<lparr>vw_AccessMode = a, vw_PeerID = ids ! 0, vw_DID = ids ! 1, vw_WalletChain = ids ! 2, vw_WalletLabel = ids ! 3,
                          vw_WalletAddress = ids ! 4, vw_PublicKey = eps ! 0, vw_Endpoint = eps ! 1, vw_Capabilities = caps,
                          vw_Readiness = r\<rparr>
                | _ \<Rightarrow> None))"

definition capability :: "string \<Rightarrow> StatusView \<Rightarrow> string" where
  "capability name vw = (case map_of (vw_Capabilities vw) name of Some (JStr s) \<Rightarrow> s | _ \<Rightarrow> [])"

definition checkMark :: "Check \<Rightarrow> string" where
  "checkMark c = (if ck_OK c then ''ok'' else ''FAIL'')"

definition checkLine :: "Check \<Rightarrow> string" where
  "checkLine c =
     ''  ['' @ checkMark c @ ''] '' @ ck_ID c @ (if ck_Optional c then '' (optional)'' else []) @
     (if ck_Detail c \<noteq> [] then '' '' @ DASH @ '' '' @ ck_Detail c else [])"

definition statusLines :: "StatusView \<Rightarrow> string list" where
  "statusLines vw =
     [''Access: '' @ vw_AccessMode vw] @
     (let s = capability ''access_hint'' vw in if s \<noteq> [] then [''  '' @ s] else []) @
     (let s = capability ''region_label'' vw in if s \<noteq> [] then [''Region: '' @ s] else []) @
     (let s = capability ''zone_label'' vw in if s \<noteq> [] then [''Zone: '' @ s] else []) @
     [''Peer ID: '' @ vw_PeerID vw, ''DID: '' @ vw_DID vw] @
     (if vw_WalletAddress vw \<noteq> []
      then [''Wallet ('' @ (if vw_WalletLabel vw = [] then vw_WalletChain vw else vw_WalletLabel vw) @ ''): '' @ vw_WalletAddress vw] else []) @
     (if vw_PublicKey vw \<noteq> []
      then (''WireGuard public key: '' @ vw_PublicKey vw) #
           (if vw_Endpoint vw \<noteq> [] then [''WireGuard endpoint: '' @ vw_Endpoint vw] else []) else []) @
     [''Readiness: '' @ SummaryLine (vw_Readiness vw)] @ map checkLine (rp_Checks (vw_Readiness vw)) @
     map (\<lambda>w. ''  ! '' @ w) (rp_Warnings (vw_Readiness vw))"

definition readyExit :: "bool \<Rightarrow> Return" where
  "readyExit ok = (if ok then Returns None else Exits 1)"

definition printStatus :: "Report \<Rightarrow> bool \<Rightarrow> Printed list \<times> Return" where
  "printStatus rep jsonOut =
     ((if jsonOut then [ReportJSON rep]
       else Line (''Readiness (preboot): '' @ SummaryLine rep) #
            map (\<lambda>c. Line (''  ['' @ checkMark c @ ''] '' @ ck_ID c @ '' '' @ DASH @ '' '' @ ck_Detail c)) (rp_Checks rep)),
      readyExit (rp_OK rep))"

fun statusArgs :: "string list \<Rightarrow> bool \<Rightarrow> bool \<Rightarrow> (bool \<times> bool) result" where
  "statusArgs [] preboot jsonOut = Inr (preboot, jsonOut)"
| "statusArgs (a # args) preboot jsonOut =
     (if a = ''--preboot'' then statusArgs args True jsonOut
      else if a = ''--json'' then statusArgs args preboot True
      else Inl (Errorf (''unknown flag: '' @ a)))"

definition liveStatus :: "error \<Rightarrow> bool \<Rightarrow> string \<Rightarrow> Printed list \<times> Return" where
  "liveStatus jerr jsonOut body =
     (if jsonOut then
        ([Line body],
         case json_dec body of
           None \<Rightarrow> Returns (Some jerr)
         | Some v \<Rightarrow> (case report_field v of None \<Rightarrow> Returns (Some jerr) | Some r \<Rightarrow> readyExit (rp_OK r)))
      else case decodeStatus body of
             None \<Rightarrow> ([], Returns (Some jerr))
           | Some vw \<Rightarrow> (map Line (statusLines vw), readyExit (rp_OK (vw_Readiness vw))))"

definition runStatusCLI :: "('w, 'g, 'k) CliEnv \<Rightarrow> string list \<Rightarrow> Printed list \<times> Return" where
  "runStatusCLI ce args =
     (case statusArgs args False False of
        Inl e \<Rightarrow> ([], Returns (Some e))
      | Inr (preboot, jsonOut) \<Rightarrow>
          (if preboot then
             (case Validate (ce_getenv ce) (Load (ce_getenv ce) (ce_hostname ce)) of
                (Some e, _) \<Rightarrow> ([], Returns (Some e))
              | (None, cfg) \<Rightarrow> printStatus (Preboot (Some cfg)) jsonOut)
           else
             (let url = statusURL (ce_getenv ce)
              in case ce_status ce url of
                   Inl e \<Rightarrow> ([], Returns (Some (Wrapf (''node not reachable at '' @ url @ '': '') e '' (is erebrus running?)'')))
                 | Inr (code, body) \<Rightarrow>
                     (if code \<noteq> 200 then ([], Returns (Some (Errorf (''status '' @ Itoa (int code) @ '': '' @ body))))
                      else liveStatus (ce_jerr ce) jsonOut body))))"

section \<open>The process\<close>

text \<open>The process ends with a code, its output and its messages, crashes, or serves as a node.\<close>

datatype 'r Process =
    Ended nat "Printed list" "string list"
  | Crashed "Printed list"
  | Serving 'r

definition finish :: "string \<Rightarrow> Printed list \<Rightarrow> Return \<Rightarrow> 'r Process" where
  "finish name out r =
     (case r of
        Returns None \<Rightarrow> Ended 0 out []
      | Returns (Some e) \<Rightarrow> Ended 1 out [name @ '': '' @ Error e]
      | Exits n \<Rightarrow> Ended n out []
      | Panics \<Rightarrow> Crashed out)"

definition ended :: "string \<Rightarrow> command \<Rightarrow> 'r Process \<times> Store option" where
  "ended name c = (case c of (out, r, st) \<Rightarrow> (finish name out r, st))"

text \<open>Without a command the node itself is started, under the environment with the file \<open>.env\<close> read unless it is turned off.\<close>

definition runNode :: "('w, 'g, 'k) CliEnv \<Rightarrow> ('w, 'g, 'k) Running Process \<times> Store option" where
  "runNode ce =
     (let getenv = (if ce_getenv ce ''LOAD_CONFIG_FILE'' = [] then ce_dotenv ce else ce_getenv ce)
      in case Validate getenv (Load getenv (ce_hostname ce)) of
           (Some e, _) \<Rightarrow> (Ended 1 [] [''invalid configuration: '' @ Error e], None)
         | (None, cfg) \<Rightarrow>
             (case startNode (ce_run ce) cfg of
                Inl e \<Rightarrow> (Ended 1 [] [''node exited with error: '' @ Error e], None)
              | Inr r \<Rightarrow> (Serving r, Some (nd_store (gb_nd (rn_bridge r))))))"

definition Main :: "('w, 'g, 'k) CliEnv \<Rightarrow> string list \<Rightarrow> ('w, 'g, 'k) Running Process \<times> Store option" where
  "Main ce args =
     (case drop 1 args of
        [] \<Rightarrow> runNode ce
      | a # rest \<Rightarrow>
          (if a = ''genmnemonic'' then
             (case GenerateMnemonic (ce_crypto ce) of
                Inl e \<Rightarrow> (Ended 1 [] [''genmnemonic: '' @ Error e], None)
              | Inr m \<Rightarrow> (Ended 0 [Line m] [], None))
           else if a \<in> {''version'', ''--version'', ''-v''} then (Ended 0 [Line Version] [], None)
           else if a = ''templates'' then ended a (runTemplatesCLI ce rest)
           else if a = ''serve'' then ended a (runServeCLI ce rest)
           else if a = ''services'' then ended a (runServicesCLI ce rest)
           else if a = ''rotate'' then
             (if rest = [] \<or> hd rest \<noteq> ''carriers''
              then (Ended 2 [] [''usage: erebrus-node rotate carriers [--grace-period 24h] [--peer <peer-id>]''], None)
              else ended a (runRotateCarriers ce rest))
           else if a = ''status'' then (case runStatusCLI ce rest of (out, r) \<Rightarrow> (finish a out r, None))
           else runNode ce))"


section \<open>What the commands leave alone\<close>

context settings_frame
begin

lemma RotateAll_P:
  assumes "RotateAllSecrets cfg get put fr fr' ss m = (oe, m')" "P (sm_st m)"
  shows "P (sm_st m')"
proof (cases "sm_hasStore m")
  case False
  then show ?thesis using assms by (simp add: RotateAllSecrets_def)
next
  case True
  obtain e1 m1 where i: "(if sm_secrets m = None then SInit get put fr' ss m else (None, m)) = (e1, m1)" by (rule prod.exhaust)
  have p1: "P (sm_st m1)" using i assms(2) by (auto dest: SInit_P split: if_splits)
  obtain e2 s2 where s2: "put (sm_st m1) keyVLESSUUID (fr_UUID fr) = (e2, s2)" by (rule prod.exhaust)
  obtain e3 s3 where s3: "put s2 keyRealityShortID (fr_ShortID fr) = (e3, s3)" by (rule prod.exhaust)
  obtain e4 s4 where s4: "put s3 keyHysteria2Pass (fr_Password fr) = (e4, s4)" by (rule prod.exhaust)
  obtain r5 s5 where s5: "loadOrCreateSecrets get put fr' s4 = (r5, s5)" by (rule prod.exhaust)
  have p: "P s2" "P s3" "P s4" "P s5" using put_P s2 s3 s4 secrets_P [OF s5] p1 by metis+
  have started: "SStart cfg (snd (SClose m2)) = (e, m3) \<Longrightarrow> sm_st m3 = sm_st m2" for m2 e m3
    using SStart_keeps SClose_keeps by metis
  have closed: "sm_st (snd (SClose m2)) = sm_st m2" for m2 using SClose_keeps [of m2] by (metis prod.collapse)
  show ?thesis
    using assms(1) True i s2 s3 s4 s5 p p1
    by (auto simp: RotateAllSecrets_def Let_def closed dest: started split: option.splits sum.splits if_splits)
qed

end

text \<open>The invariant of the database together with its rows of peers.\<close>

definition keeps :: "string \<Rightarrow> peer_row list \<Rightarrow> Store \<Rightarrow> bool" where
  "keeps subnet rows s \<longleftrightarrow> store_inv subnet s \<and> db_peers s = rows"

interpretation operator: settings_frame GetSetting SetSetting "keeps subnet rows" for subnet rows
  by unfold_locales (auto simp: keeps_def dest: tables.get_P tables.put_P peer_rows.get_P peer_rows.put_P)

lemma services_keep:
  "keeps subnet rows s \<Longrightarrow> ListSvc s = (rl, s') \<Longrightarrow> keeps subnet rows s'"
  "keeps subnet rows s \<Longrightarrow> GetSvc s i = (rg, s') \<Longrightarrow> keeps subnet rows s'"
  "keeps subnet rows s \<Longrightarrow> RemoveSvc s i = (oe, s') \<Longrightarrow> keeps subnet rows s'"
  "keeps subnet rows s \<Longrightarrow> Publish s svc now uuid = (rp, s') \<Longrightarrow> keeps subnet rows s'"
proof -
  assume k: "keeps subnet rows s"
  show "ListSvc s = (rl, s') \<Longrightarrow> keeps subnet rows s'" "GetSvc s i = (rg, s') \<Longrightarrow> keeps subnet rows s'"
    using k by (auto simp: keeps_def ListSvc_def ListServices_def GetSvc_def GetService_def
        split: prod.splits sum.splits option.splits elim!: db_callE)
  have "DeleteService s i = (oe, s') \<Longrightarrow> db_peers s' = db_peers s" for i oe s'
    by (auto simp: DeleteService_def Let_def split: prod.splits option.splits if_splits elim!: db_callE)
  then show "RemoveSvc s i = (oe, s') \<Longrightarrow> keeps subnet rows s'" using k DeleteService_inv by (auto simp: keeps_def RemoveSvc_def)
  have "UpsertService s row = (oe, s') \<Longrightarrow> db_peers s' = db_peers s" for row oe s'
    by (auto elim: UpsertServiceE)
  then show "Publish s svc now uuid = (rp, s') \<Longrightarrow> keeps subnet rows s'"
    using k UpsertService_inv by (auto simp: keeps_def Publish_def Let_def split: if_splits prod.splits option.splits)
qed

lemma Install_keeps: "keeps subnet rows s \<Longrightarrow> Install s nm now uuid = (r, s') \<Longrightarrow> keeps subnet rows s'"
  by (auto simp: Install_def intro: services_keep(4) split: sum.splits)

lemma recordItems_keeps:
  "keeps subnet rows s \<Longrightarrow> recordItems sha scope peer created expires items ids s = (oe, s') \<Longrightarrow> keeps subnet rows s'"
proof (induction sha scope peer created expires items ids s rule: recordItems.induct)
  case (2 sha scope peer created expires transport material items ids s)
  show ?case
  proof (cases "material = []")
    case True
    then show ?thesis using "2.IH"(1) "2.prems" by simp
  next
    case False
    let ?c = "\<lparr>cc_ID = [], cc_Transport = transport, cc_SecretHash = hashSecret sha material, cc_CreatedAt = created,
      cc_ExpiresAt = expires, cc_Active = True, cc_Scope = scope, cc_PeerID = peer\<rparr>"
    obtain e s1 where i: "InsertCarrierCredential s ?c (hd ids) created = (e, s1)" by (rule prod.exhaust)
    have "db_peers s1 = db_peers s"
      using i by (auto simp: InsertCarrierCredential_def Let_def split: prod.splits option.splits if_splits elim!: db_callE)
    then have "keeps subnet rows s1" using "2.prems"(1) InsertCarrierCredential_inv [OF _ i] by (simp add: keeps_def)
    then show ?thesis using "2.IH"(2) [OF False i [symmetric]] "2.prems"(2) False i by (cases e) auto
  qed
qed simp


lemma archiveCurrent_keeps:
  "archiveCurrent sha cfg scope peer expires now ids m = (oe, m') \<Longrightarrow> keeps subnet rows (sm_st m) \<Longrightarrow> keeps subnet rows (sm_st m')"
  by (auto simp: archiveCurrent_def Let_def dest: recordItems_keeps split: if_splits prod.splits)

lemma Deactivate_keeps: "keeps subnet rows s \<Longrightarrow> keeps subnet rows (snd (DeactivateExpiredCarrierCredentials s now))"
proof -
  assume k: "keeps subnet rows s"
  obtain n s' where d: "DeactivateExpiredCarrierCredentials s now = (n, s')" by (rule prod.exhaust)
  have "db_peers s' = db_peers s"
    using d by (auto simp: DeactivateExpiredCarrierCredentials_def Let_def split: prod.splits option.splits elim!: db_callE)
  then show ?thesis using k d Deactivate_inv by (auto simp: keeps_def)
qed

lemma Rotate_keeps:
  assumes "Rotate sha cfg clk grace peer ids ids' fr fr' ss (Some m) = (oe, om)" "keeps subnet rows (sm_st m)"
  shows "\<exists>m'. om = Some m' \<and> keeps subnet rows (sm_st m')"
proof -
  let ?g = "if grace \<le> 0 then 86400000000000 else grace"
  let ?scope = "if peer \<noteq> [] then ''peer'' else ''node''"
  obtain e1 m1 where a: "archiveCurrent sha cfg ?scope peer (unixSec (clk_grace clk + ?g)) (unixSec (clk_archive clk)) ids m = (e1, m1)"
    by (rule prod.exhaust)
  obtain e2 m2 where r: "RotateAllSecrets cfg GetSetting SetSetting fr fr' ss m1 = (e2, m2)" by (rule prod.exhaust)
  obtain e3 s3 where i: "recordItems sha ?scope peer (unixSec (clk_now clk)) 0 (materials (stealthParams cfg (sm_secrets m2))) ids' (sm_st m2) = (e3, s3)"
    by (rule prod.exhaust)
  have k: "keeps subnet rows (sm_st m1)" by (rule archiveCurrent_keeps [OF a assms(2)])
  have k2: "keeps subnet rows (sm_st m2)" by (rule operator.RotateAll_P [OF r k])
  have k3: "keeps subnet rows s3" by (rule recordItems_keeps [OF k2 i])
  show ?thesis
    using assms(1) a r i k k2 k3 Deactivate_keeps [OF k3]
    by (cases e1; cases e2; cases e3) (auto simp: Rotate_def Let_def)
qed

lemma commands_keep:
  assumes "ce_open ce = Inr st" "keeps subnet rows st"
  shows "runServicesCLI ce args = (out, r, Some st') \<Longrightarrow> keeps subnet rows st'"
    "runServeCLI ce args = (out, r, Some st') \<Longrightarrow> keeps subnet rows st'"
    "runTemplatesCLI ce args = (out, r, Some st') \<Longrightarrow> keeps subnet rows st'"
    "runRotateCarriers ce args = (out, r, Some st') \<Longrightarrow> keeps subnet rows st'"
proof -
  show "runServicesCLI ce args = (out, r, Some st') \<Longrightarrow> keeps subnet rows st'"
    using assms by (auto simp: runServicesCLI_def dest: services_keep(1-3) split: list.splits if_splits prod.splits sum.splits)
  show "runServeCLI ce args = (out, r, Some st') \<Longrightarrow> keeps subnet rows st'"
    using assms by (auto simp: runServeCLI_def dest: services_keep(4) split: sum.splits prod.splits if_splits)
  show "runTemplatesCLI ce args = (out, r, Some st') \<Longrightarrow> keeps subnet rows st'"
    using assms by (auto simp: runTemplatesCLI_def dest: Install_keeps split: list.splits if_splits prod.splits sum.splits)
  obtain e m where i: "SInit GetSetting SetSetting (ce_fresh ce 0) (ce_selfSigned ce 0) (newStealth st (ce_box ce)) = (e, m)"
    by (rule prod.exhaust)
  have m: "keeps subnet rows (sm_st m)" using operator.SInit_P [OF i] assms(2) by (simp add: newStealth_def)
  show "runRotateCarriers ce args = (out, r, Some st') \<Longrightarrow> keeps subnet rows st'"
    using assms(1) i m
    by (auto simp: runRotateCarriers_def Let_def dest!: Rotate_keeps [OF _ m] split: sum.splits prod.splits option.splits)
qed

section \<open>Properties\<close>

text \<open>
  C21. Operator commands leave the clients alone: whatever command is given with whatever arguments,
  and whichever database calls fail, the process that does not serve as a node leaves the database
  with its invariant and with exactly the peers it had.
\<close>

theorem operator_commands_keep_peers:
  assumes "ce_open ce = Inr st" "store_inv subnet st" "Main ce args = (p, Some st')" "\<forall>r. p \<noteq> Serving r"
  shows "store_inv subnet st' \<and> db_peers st' = db_peers st"
proof -
  have "keeps subnet (db_peers st) st" using assms(2) by (simp add: keeps_def)
  note k = commands_keep [OF assms(1) this]
  have "runNode ce \<noteq> (p, Some st')"
    using assms(4) by (auto simp: runNode_def Let_def split: prod.splits option.splits sum.splits)
  then have "keeps subnet (db_peers st) st'"
    using assms(3) by (auto simp: Main_def ended_def split: list.splits if_splits sum.splits prod.splits dest: k)
  then show ?thesis by (simp add: keeps_def)
qed


definition readyBody :: "string \<Rightarrow> bool" where
  "readyBody body =
     (case json_dec body of None \<Rightarrow> False | Some v \<Rightarrow> (case report_field v of None \<Rightarrow> False | Some rep \<Rightarrow> rp_OK rep))"

text \<open>A positive status: of the configuration before a start, or in a readable answer of the running node.\<close>

definition positiveStatus :: "('w, 'g, 'k) CliEnv \<Rightarrow> string list \<Rightarrow> bool" where
  "positiveStatus ce args =
     (case statusArgs args False False of
        Inl _ \<Rightarrow> False
      | Inr (True, _) \<Rightarrow>
          (case Validate (ce_getenv ce) (Load (ce_getenv ce) (ce_hostname ce)) of
             (None, cfg) \<Rightarrow> rp_OK (Preboot (Some cfg))
           | _ \<Rightarrow> False)
      | Inr (False, jsonOut) \<Rightarrow>
          (case ce_status ce (statusURL (ce_getenv ce)) of
             Inr (code, body) \<Rightarrow>
               code = 200 \<and> (jsonOut \<or> decodeStatus body \<noteq> None) \<and> readyBody body
           | Inl _ \<Rightarrow> False))"

lemma decodeStatus_report: "decodeStatus body = Some vw \<Longrightarrow> \<exists>v. json_dec body = Some v \<and> report_field v = Some (vw_Readiness vw)"
  by (auto simp: decodeStatus_def split: option.splits if_splits prod.splits)

lemma liveStatus_ends:
  "liveStatus jerr jsonOut body = (out, r) \<Longrightarrow>
   r \<in> {Returns None, Exits 1, Returns (Some jerr)} \<and>
   (r = Returns None \<longleftrightarrow> (jsonOut \<or> decodeStatus body \<noteq> None) \<and> readyBody body)"
  by (auto simp: liveStatus_def readyExit_def readyBody_def dest!: decodeStatus_report split: if_splits option.splits)

text \<open>
  C39. The exit code of the status command is 0 exactly if the arguments are known and the status is
  positive: of the configuration before a start if that is asked for, and otherwise in the answer of
  the running node, which must be a 200 that can be read. In every other case the code is 1; the
  command never crashes, never starts a node and does not open the database.
\<close>

theorem status_exit_code:
  "\<exists>code out msgs. Main ce (prog # ''status'' # args) = (Ended code out msgs, None) \<and> code = (if positiveStatus ce args then 0 else 1)"
proof -
  obtain out r where s: "runStatusCLI ce args = (out, r)" by (rule prod.exhaust)
  have "r = Returns None \<or> r = Exits 1 \<or> (\<exists>e. r = Returns (Some e))" "r = Returns None \<longleftrightarrow> positiveStatus ce args"
    using s
    by (auto simp: runStatusCLI_def positiveStatus_def printStatus_def readyExit_def Let_def dest!: liveStatus_ends
        split: sum.splits if_splits option.splits prod.splits bool.splits)
  then show ?thesis using s by (auto simp: Main_def finish_def)
qed

text \<open>The report as the node writes it, and the command reading it.\<close>

definition checkJSON :: "Check \<Rightarrow> json" where
  "checkJSON c =
     JObj ([(''id'', JStr (ck_ID c)), (''ok'', JBool (ck_OK c))] @ (if ck_Detail c \<noteq> [] then [(''detail'', JStr (ck_Detail c))] else []) @
           (if ck_Optional c then [(''optional'', JBool True)] else []))"

definition reportJSON :: "Report \<Rightarrow> json" where
  "reportJSON r =
     JObj ([(''ok'', JBool (rp_OK r)), (''checks'', JList (map checkJSON (rp_Checks r)))] @
           (if rp_Warnings r \<noteq> [] then [(''warnings'', JList (map JStr (rp_Warnings r)))] else []))"

lemmas field_simps_json = is_struct_def string_field_def bool_field_def field_def members_def EqualFold_def ToLower_def lower_char_def

lemma into_check_JSON: "into_check (checkJSON c) = Some c"
  by (cases c) (auto simp: into_check_def checkJSON_def field_simps_json)

lemma into_report_JSON: "into_report (reportJSON r) noReport = Some r"
proof -
  have c: "those (map into_check (map checkJSON cs)) = Some cs" for cs by (rule those_map_Some) (simp add: into_check_JSON)
  have w: "those (map (\<lambda>m. into_string m []) (map JStr ws)) = Some ws" for ws by (rule those_map_Some) simp
  show ?thesis
    using c [of "rp_Checks r"] w [of "rp_Warnings r"]
    by (cases r) (auto simp: into_report_def reportJSON_def merge_def field_simps_json)
qed

lemma json_ok_report: "json_ok (reportJSON r)"
  by (auto simp: reportJSON_def checkJSON_def intro!: json_ok.intros)

lemma report_field_JSON:
  assumes "\<forall>kv \<in> set (pre @ post). \<not> EqualFold (fst kv) ''readiness''"
  shows "report_field (JObj (pre @ (''readiness'', reportJSON r) # post)) = Some r"
proof -
  have "filter (\<lambda>(k, _). EqualFold k ''readiness'') pre = []" "filter (\<lambda>(k, _). EqualFold k ''readiness'') post = []"
    using assms by (force simp: filter_empty_conv)+
  then have "members ''readiness'' (JObj (pre @ (''readiness'', reportJSON r) # post)) = [reportJSON r]"
    by (simp add: members_def EqualFold_def)
  then show ?thesis by (simp add: report_field_def is_struct_def field_def into_report_JSON)
qed



text \<open>A flag without its value crashes the process.\<close>

lemma serve_flag_panics: "Main ce [prog, ''serve'', ''--name''] = (Crashed [], None)"
  by (simp add: Main_def runServeCLI_def ended_def finish_def)

subsection \<open>Durations\<close>

lemma leadingInt_dec:
  assumes "list_all is_digit s" "r \<noteq> [] \<longrightarrow> \<not> is_digit (hd r)" "foldl (\<lambda>x c. x * 10 + digit_val c) x s \<le> 2 ^ 63 div 10"
  shows "leadingInt x (s @ r) = Some (foldl (\<lambda>x c. x * 10 + digit_val c) x s, r)"
  using assms(1,3)
proof (induction s arbitrary: x)
  case Nil
  then show ?case using assms(2) by (cases r) auto
next
  case (Cons c s)
  have mono: "y \<le> foldl (\<lambda>x c. x * 10 + digit_val c) y s" for y
  proof (induction s arbitrary: y)
    case (Cons a s)
    have "y \<le> y * 10 + digit_val a" by simp
    also have "\<dots> \<le> foldl (\<lambda>x c. x * 10 + digit_val c) (y * 10 + digit_val a) s" by (rule Cons.IH)
    finally show ?case by simp
  qed simp
  have "x * 10 + digit_val c \<le> 2 ^ 63 div 10" using Cons.prems(2) mono [of "x * 10 + digit_val c"] by simp
  then show ?case using Cons by simp
qed


lemma dec_nat_value: "foldl (\<lambda>x c. x * 10 + digit_val c) 0 (dec_nat n) = n"
proof (induction n rule: dec_nat.induct)
  case (1 n)
  then show ?case by (cases "n < 10") (simp_all add: dec_nat.simps [of n])
qed

lemma digit_not_sign: "is_digit c \<Longrightarrow> c \<noteq> CHR ''-'' \<and> c \<noteq> CHR ''+''"
  by (auto simp: is_digit_def)

lemma durationPart_hours:
  assumes "n \<le> 2562047"
  shows "durationPart fmul orig (dec_nat n @ ''h'') = Inr (n * 3600000000000, [])"
proof -
  have d: "list_all is_digit (dec_nat n)" by (simp add: list_all_iff dec_nat_digits)
  then have "is_digit (hd (dec_nat n))" by (simp add: list_all_iff)
  moreover have "\<not> is_digit CHR ''h''" by (simp add: is_digit_def)
  moreover have "leadingInt 0 (dec_nat n @ ''h'') = Some (n, ''h'')"
    using leadingInt_dec [OF d, of "''h''" 0] assms \<open>\<not> is_digit CHR ''h''\<close> by (simp add: dec_nat_value)
  moreover have "fractionPart ''h'' = (0, 0, ''h'', False)" by (simp add: fractionPart_def)
  ultimately show ?thesis
    using assms by (simp add: durationPart_def unitMap_def)
qed

text \<open>
  Durations in hours are read as written: any whole number of hours that fits a duration is parsed
  to its nanoseconds, so the grace period given to the rotation is the one that is used.
\<close>

theorem ParseDuration_hours:
  assumes "n \<le> 2562047"
  shows "ParseDuration fmul (dec_nat n @ ''h'') = Inr (int n * 3600000000000) \<and>
    rotateArgs fmul [''carriers'', ''--grace-period'', dec_nat n @ ''h'', ''--peer'', peer] grace [] = Inr (int n * 3600000000000, peer)"
proof -
  have hd: "is_digit (hd (dec_nat n @ ''h''))" using dec_nat_digits [of "hd (dec_nat n)" n] by simp
  have l: "durationLoop fmul orig (dec_nat n @ ''h'') 0 = Inr (n * 3600000000000)" for orig
    using assms by (simp add: durationLoop.simps durationPart_hours [OF assms])
  have z: "dec_nat n @ ''h'' \<noteq> ''0''" by (simp add: append_eq_Cons_conv)
  have "ParseDuration fmul (dec_nat n @ ''h'') = Inr (int n * 3600000000000)"
    using assms digit_not_sign [OF hd] z l by (simp add: ParseDuration_def Let_def)
  then show ?thesis by (simp add: flagGrace_def flagPeer_def HasPrefix_def)
qed

text \<open>Every duration that is accepted fits 64 bits.\<close>

lemma durationLoop_le: "durationLoop fmul orig s d = Inr r \<Longrightarrow> d \<le> 2 ^ 63 \<Longrightarrow> r \<le> 2 ^ 63"
proof (induction fmul orig s d rule: durationLoop.induct)
  case (1 fmul orig s d)
  then show ?case by (subst (asm) durationLoop.simps) (auto split: if_splits sum.splits)
qed

lemma ParseDuration_int64: "ParseDuration fmul s = Inr d \<Longrightarrow> in_int64 d"
  by (auto simp: ParseDuration_def Let_def in_int64_def dest!: durationLoop_le split: if_splits sum.splits)



section \<open>Witnesses\<close>

definition ex_report :: Report where
  "ex_report = \<lparr>rp_OK = False, rp_Checks = [\<lparr>ck_ID = ''wireguard'', ck_OK = False, ck_Detail = ''interface not up'', ck_Optional = False\<rparr>],
     rp_Warnings = [''w'']\<rparr>"

definition ex_cli :: "(unit, nat, unit) CliEnv" where
  "ex_cli =
     \<lparr>ce_getenv = (\<lambda>_. []), ce_dotenv = (\<lambda>_. []), ce_hostname = Inr ''host'', ce_open = Inr ex_store, ce_crypto = ex_crypto, ce_now = 7,
      ce_uuid = ''0123456789'', ce_fmul = (\<lambda>_ _ _. 0), ce_sha256 = ex_sha, ce_clock = ex_clock, ce_ids = [''1'', ''2'', ''3''],
      ce_newIds = [''4'', ''5'', ''6''], ce_fresh = (\<lambda>n. ex_fresh (dec_nat n)), ce_selfSigned = (\<lambda>_. Inr (''c'', ''k'')), ce_box = [],
      ce_status = (\<lambda>_. Inr (200, json_enc (JObj [(''status'', JStr ''online''), (''readiness'', reportJSON ex_report)]))),
      ce_jerr = Errorf ''json'', ce_run = ex_run\<rparr>"

theorem operator_commands_keep_peers_witness:
  "\<exists>out msgs st'. Main ex_cli [''erebrus'', ''serve'', ''--name'', ''wiki'', ''--port'', ''8080''] = (Ended 0 out msgs, Some st') \<and>
     db_peers st' = db_peers ex_store"
proof -
  let ?m = "Main ex_cli [''erebrus'', ''serve'', ''--name'', ''wiki'', ''--port'', ''8080'']"
  let ?e = "ended ''serve'' (runServeCLI ex_cli [''--name'', ''wiki'', ''--port'', ''8080'']) :: (unit, nat, unit) Running Process \<times> Store option"
  have "(case fst ?e of Ended c _ _ \<Rightarrow> c = 0 | _ \<Rightarrow> False) \<and> snd ?e \<noteq> None" by code_simp
  moreover have "?m = ?e" by (simp add: Main_def)
  ultimately have "(case fst ?m of Ended c _ _ \<Rightarrow> c = 0 | _ \<Rightarrow> False) \<and> snd ?m \<noteq> None" by simp
  then obtain out msgs st' where m: "?m = (Ended 0 out msgs, Some st')"
    by (cases ?m) (auto split: Process.splits)
  have "ce_open ex_cli = Inr ex_store" by (simp add: ex_cli_def)
  from operator_commands_keep_peers [OF this ex_start_store(1) m] m show ?thesis by auto
qed


theorem ParseDuration_hours_witness: "ParseDuration (\<lambda>_ _ _. 0) (dec_nat 24 @ ''h'') = Inr 86400000000000"
  using ParseDuration_hours [of 24 "\<lambda>_ _ _. 0"] by simp

end
