(* ===== verification/Spec2Isabelle.thy ===== *)
theory Spec2Isabelle
  imports Cli
begin

text \<open>
  A verification of the Erebrus node (\<open>src/\<close>, written in Go): a VPN node that serves WireGuard
  clients on behalf of a gateway. Everything below is a translation of the Go sources into
  functions of HOL, with theorems about those functions.

  \<^bold>\<open>The program.\<close> A node keeps its peers, services and settings in a local SQLite database, configures
  a WireGuard device from it, runs stealth carriers (sing-box) beside it, and optionally a Drop store
  (a Kubo sidecar) and a DNS firewall (the Sentinel sidecar or AdGuard Home). The gateway talks to it
  in two ways: by HTTP calls to the node's API, which carry a node key and a signed token, and over a
  WebSocket the node opens, on which commands come in and heartbeats, usage reports and command
  results go out. An operator uses the command line.

  \<^bold>\<open>Theories and sources.\<close> Definitions have the names of the Go functions, records the names of
  the structs, with a short prefix per struct for the fields.
  \<^item> \<open>Prelude\<close>, \<open>Json\<close>, \<open>Http\<close>, \<open>NetIP\<close>: what the sources use of the language and its standard library:
    error values and \<open>errors.Is\<close>, \<open>strings\<close>, \<open>strconv\<close>, \<open>hex\<close>, \<open>encoding/json\<close>, \<open>net/http\<close>, \<open>net\<close>.
  \<^item> \<open>IPAlloc\<close>, \<open>Store\<close> (\<open>internal/store\<close>): the address search, the tables with their constraints, and
    every operation of the database. \<open>Settings\<close>: the interface to the settings table.
  \<^item> \<open>Config\<close> (\<open>internal/config\<close>), \<open>Readiness\<close> (\<open>internal/readiness\<close>).
  \<^item> \<open>WireGuard\<close> (\<open>internal/wg\<close>), \<open>Stealth\<close> (\<open>internal/stealth\<close>), \<open>Carriers\<close> (\<open>internal/carriers\<close>),
    \<open>Transport\<close> (\<open>internal/transport\<close>).
  \<^item> \<open>Node\<close> (\<open>internal/node/service.go\<close>): provisioning, deleting, resynchronising and listing peers.
  \<^item> \<open>Services\<close> (\<open>internal/services\<close>, \<open>internal/templates\<close>), \<open>Dns\<close> (\<open>internal/dns\<close>).
  \<^item> \<open>Sentinel\<close> (\<open>internal/sentinel\<close>), \<open>Firewall\<close> (\<open>internal/firewall\<close>): the sidecar and its client; the
    client's theorems are about the two together.
  \<^item> \<open>Streams\<close>, \<open>Kubo\<close>, \<open>Drop\<close> (\<open>internal/drop\<close>): bounded streams, the Kubo client, the Drop service.
  \<^item> \<open>Identity\<close> (\<open>internal/p2p/identity.go\<close>, \<open>internal/wallet\<close>, \<open>internal/registrar\<close>), \<open>Probes\<close>
    (\<open>internal/serviceagent\<close>, \<open>internal/speedtest\<close>).
  \<^item> \<open>GatewayAuth\<close> (\<open>internal/gatewayauth\<close>, \<open>internal/api/middleware.go\<close>), \<open>Api\<close> (\<open>internal/api\<close>): the guard,
    the routes and every handler; \<open>serve\<close> is one request from the router to the reply.
  \<^item> \<open>GatewayClient\<close> (\<open>internal/gatewayclient\<close>): registration, credentials, the frames of the control
    connection, a session and the reconnection loop. \<open>Bridge\<close> (\<open>internal/node/gateway.go\<close>): what the node
    answers on it.
  \<^item> \<open>Startup\<close> (\<open>internal/nodeapp/run.go\<close>), \<open>Cli\<close> (the other files of \<open>internal/nodeapp\<close>): the start of the node
    and the command line, from \<open>Main\<close> on.
  \<^item> This theory composes them: \<open>node_run\<close> is a started node that takes the steps of all its parts in
    any order.

  \<^bold>\<open>State and failures.\<close> State is passed explicitly. The state of the node is nested as the Go
  pointers are: the bridge (\<open>GatewayBridge\<close>) holds the HTTP server, the server holds the node service, that holds
  the WireGuard manager with the database, and the stealth manager. The
  configuration, which the Go objects share by pointer, is kept in one place of the bridge. Go errors
  are values of type \<open>error\<close>, results have type \<open>error + 'a\<close>, and a panic the code can run into is
  a value too. Every call of the database, of the operating system and of sing-box may fail: the
  states carry a schedule with one entry per call, and the theorems hold for every schedule. What
  comes from outside (the clock, random values, uuids, the key and signature libraries, HTTP
  exchanges, the events of the WebSocket, Kubo, AdGuard) is an argument of the definitions.

  \<^bold>\<open>Interfaces.\<close> Each locale is an interface of the code, or a class of predicates that a family
  of operations keeps, and is interpreted on the model's own definitions: \<open>settings_store\<close> and
  \<open>settings_frame\<close> (the settings table, and what survives writes to it), \<open>tables_frame\<close> (what
  survives a start of the node), \<open>service_directory\<close> (the registry, for the resolver),
  \<open>transport_prober\<close>, \<open>policy_sidecar\<close> (Sentinel, for the firewall client), \<open>bounded_stream\<close> (both
  stream bounds), \<open>provisioner\<close> (the node service, for the API) and \<open>gateway_handler\<close> (the bridge, for
  the client of the gateway).

  \<^bold>\<open>What is shown.\<close>
  \<^item> The whole node: the database of a running node stays sound in every interleaving and under every
    failure, and a peer that appears while it runs was put by an authorised request (this theory).
    The start succeeds whenever directory, identity and database can be had, and a restart uses the stored
    credentials (\<open>Startup\<close>). Operator commands keep the peers; the exit code of the status command
    is the readiness of the node (\<open>Cli\<close>).
  \<^item> The database: addresses are the lowest free hosts of the subnet, operations are atomic, the search ends,
    and every reachable database has distinct ids, keys, addresses and uuids (\<open>IPAlloc\<close>, \<open>Store\<close>).
  \<^item> The peers: a successful request leaves the device configured for exactly the enabled rows, and
    fetched credentials are the ones provisioned (\<open>WireGuard\<close>, \<open>Node\<close>, \<open>Api\<close>).
  \<^item> The gateway: private routes open to exactly the calls with key and token (\<open>GatewayAuth\<close>, \<open>Api\<close>);
    usage reports add up to the counters, resynchronisation is exact over the wire, draining refuses
    peers (\<open>Bridge\<close>); registration proves the wallet, frames are well typed, the pauses between
    connections are bounded (\<open>GatewayClient\<close>).
  \<^item> Sidecars and carriers: a policy that is reported as applied is the policy the files have
    (\<open>Firewall\<close>); uploads stay within the storage and have the declared size and digest, a foreign
    repository is never adopted (\<open>Drop\<close>, \<open>Kubo\<close>); secrets are stable and rotations are recorded
    (\<open>Stealth\<close>, \<open>Carriers\<close>).
  \<^item> Services: published services are read back, resolve by name, and are open to exactly those a rule
    covers (\<open>Services\<close>, \<open>Dns\<close>).
  Some theories end with lemmas on inputs where the code does something its authors will not
  have meant.

  \<^bold>\<open>Termination and bounds.\<close> The address search is a \<open>partial_function\<close>; it is shown to return for
  every IPv4 subnet, and \<open>None\<close> in an operation that allocates stands for a search that does not end.
  Copying a stream takes fuel: each read that does not end the loop delivers at least a
  byte, so the length of the source, which the definitions pass, is enough (\<open>bounded_stream\<close>). All other functions are
  total; a session of the control connection runs over the list of its events, and the reconnection loop over
  a list of sessions.

  \<^bold>\<open>Atomicity.\<close> A step of \<open>node_run\<close> is a whole handler. The Go handlers run concurrently and each operation
  takes the lock or the transaction of its component; interleavings inside of a handler, between its
  calls of two components, are not modelled.

  \<^bold>\<open>Not modelled.\<close> Listening sockets, signals, tickers and log lines (the runtime's). The libp2p host and
  its discovery (\<open>internal/p2p/p2p.go\<close>), the logger and the Prometheus registry
  (\<open>internal/telemetry\<close>), the registries of sing-box protocols (\<open>internal/stealth/registry.go\<close>) and the
  generation of the self-signed certificate (\<open>generateSelfSigned\<close>): these are calls of libraries with no logic around
  them. Opening the database file and running its migrations (SQLite's; the constraints the migrations
  declare are in \<open>Store\<close>). The rounding of floating-point rates (rates are rational numbers). Unicode case
  mapping and white space (the ASCII ones are used). Containers and installation scripts.
\<close>

section \<open>The running node\<close>

text \<open>
  A started node is the bridge with the server and the database behind it, and the client of the
  control connection if there is one. It takes steps in any order: it serves an HTTP request, it
  handles one event of the control connection (a frame from the gateway, a timer, a failed read or
  write), it refreshes its token, and its background goroutines update what they measure: the probes,
  the speed test, Drop's view of Kubo and Kubo itself, the state of the connection. Each handler is
  one step; \<open>ev\<close>, \<open>world\<close> and \<open>gw\<close>, what a step finds outside, may differ at every step, only the check of token
  signatures \<open>scan\<close> stays. The requests served are recorded.
\<close>

type_synonym ('w, 'k) node = "('w, 'k) GatewayBridge \<times> Client option"

inductive node_run :: "scanner \<Rightarrow> ('w, 'k) node \<Rightarrow> ApiRequest list \<Rightarrow> ('w, 'k) node \<Rightarrow> bool" for scan s0 where
  started: "node_run scan s0 [] s0"
| request: "node_run scan s0 aqs (g, c) \<Longrightarrow> ev_scan ev = scan \<Longrightarrow>
    ev_prov ev = nodeProvisioner (gb_cfg g) ParseKey dr now dev startedAt \<Longrightarrow>
    serve ev aq (gb_srv g) = Some (rep, srv) \<Longrightarrow> node_run scan s0 (aqs @ [aq]) (g\<lparr>gb_srv := srv\<rparr>, c)"
| event: "node_run scan s0 aqs (g, Some c) \<Longrightarrow>
    sessionEvent (bridgeHandler world) None jerr fmt e c (n, g) = (err, out, c', (n', g')) \<Longrightarrow> node_run scan s0 aqs (g', Some c')"
| refreshed: "node_run scan s0 aqs (g, Some c) \<Longrightarrow> nodeRefresher gw jerr (gc_nodeID c) key (n, g) = (r, n', g') \<Longrightarrow>
    node_run scan s0 aqs (g', Some (c\<lparr>gc_nodeToken := case_sum (\<lambda>_. gc_nodeToken c) id r\<rparr>))"
| background: "node_run scan s0 aqs (g, c) \<Longrightarrow>
    node_run scan s0 aqs (g\<lparr>gb_speedtest := sp, gb_agent := ag, gb_srv := (gb_srv g)\<lparr>sv_drop := d, sv_kubo := k\<rparr>\<rparr>,
                          map_option (gc_connected_update up) c)"

inductive_cases node_run_emptyE: "node_run scan s0 [] s"

text \<open>The refresher writes settings and the token of the configuration, nothing else.\<close>

lemma tokenRefresher_config: "tokenRefresher ex jerr url i key cfg st w = (r, cfg', st', w') \<Longrightarrow> \<exists>tok. cfg' = cfg\<lparr>cfg_NodeToken := tok\<rparr>"
  by (auto simp: tokenRefresher_def split: if_splits sum.splits prod.splits intro: exI [of _ "cfg_NodeToken cfg"])

context tables_frame
begin

lemma refresher_P:
  assumes "tokenRefresher ex jerr url i key cfg st w = (r, cfg', st', w')" "P st"
  shows "P st'"
proof -
  obtain tr w1 where t: "RefreshNodeToken ex jerr url i key w = (tr, w1)" by (rule prod.exhaust)
  show ?thesis
  proof (cases tr)
    case (Inl e)
    then show ?thesis using assms t by (auto simp: tokenRefresher_def split: if_splits)
  next
    case (Inr tok)
    obtain oe s1 where "SaveCredentials SetSetting st (Some \<lparr>cr_NodeID = i, cr_NodeToken = tok, cr_NodeKey = key,
        cr_GatewayPublicKey = cfg_GatewayPublicKey cfg\<rparr>) = (oe, s1)" by (rule prod.exhaust)
    then show ?thesis using assms t Inr by (auto simp: tokenRefresher_def dest: save_P split: if_splits)
  qed
qed

end

lemma nodeRefresher_keeps:
  assumes "nodeRefresher gw jerr i key (n, g) = (r, n', g')"
  shows "db_peers (nd_store (gb_nd g')) = db_peers (nd_store (gb_nd g))" "sv_cfg0 (gb_srv g') = sv_cfg0 (gb_srv g)"
    "cfg_WGIPv4Subnet (gb_cfg g') = cfg_WGIPv4Subnet (gb_cfg g)" "bridge_inv g \<Longrightarrow> bridge_inv g'"
proof -
  obtain cfg st where t: "tokenRefresher (\<lambda>w r. (gw n r, w)) jerr (cfg_GatewayURL (gb_cfg g)) i key (gb_cfg g) (nd_store (gb_nd g)) () =
      (r, cfg, st, ())" and g': "g' = setStore st (g\<lparr>gb_srv := (gb_srv g)\<lparr>sv_cfg := cfg\<rparr>\<rparr>)"
    using assms by (auto simp: nodeRefresher_def split: prod.splits)
  obtain tok where cfg: "cfg = (gb_cfg g)\<lparr>cfg_NodeToken := tok\<rparr>" using tokenRefresher_config [OF t] by blast
  show "db_peers (nd_store (gb_nd g')) = db_peers (nd_store (gb_nd g))" using start_rows.refresher_P [OF t] by (simp add: g')
  show "sv_cfg0 (gb_srv g') = sv_cfg0 (gb_srv g)" "cfg_WGIPv4Subnet (gb_cfg g') = cfg_WGIPv4Subnet (gb_cfg g)" by (simp_all add: g' cfg)
  show "bridge_inv g \<Longrightarrow> bridge_inv g'" using start_inv.refresher_P [OF t] by (auto simp: bridge_inv_store g' cfg)
qed

lemma request_inv:
  assumes "bridge_inv g" "ev_prov ev = nodeProvisioner (gb_cfg g) ParseKey dr now dev startedAt" "serve ev aq (gb_srv g) = Some (rep, srv)"
  shows "bridge_inv (g\<lparr>gb_srv := srv\<rparr>)"
  using node_prov.serve_inv [OF assms(2,3)] assms(1) serve_config [OF assms(3)] by (simp add: bridge_inv_def)

lemma node_run_inv:
  assumes "node_run scan s0 aqs s" "bridge_inv (fst s0)"
  shows "bridge_inv (fst s) \<and> cfg_WGIPv4Subnet (gb_cfg (fst s)) = cfg_WGIPv4Subnet (gb_cfg (fst s0)) \<and>
    sv_cfg0 (gb_srv (fst s)) = sv_cfg0 (gb_srv (fst s0))"
  using assms
proof (induction rule: node_run.induct)
  case (request aqs g c ev ParseKey dr now dev startedAt aq rep srv)
  then show ?case using request_inv [OF _ request.hyps(3,4)] serve_config [OF request.hyps(4)] by simp
next
  case (event aqs g c world jerr fmt e n err out c' n' g')
  then show ?case
    using bridge.event_inv [OF _ refl event.hyps(2)] same_subnet.event_inv [OF _ refl event.hyps(2)]
      narrowing.event_inv [OF _ refl event.hyps(2), of "sv_cfg0 (gb_srv g)" UNIV]
    by (simp add: narrowed_def)
next
  case (refreshed aqs g c gw jerr key n r n' g')
  then show ?case using nodeRefresher_keeps [OF refreshed.hyps(2)] by simp
next
  case (background aqs g c sp ag d k up)
  then show ?case by (simp add: bridge_inv_def)
qed simp

text \<open>A new peer comes from a PUT of that very peer that passed the guard.\<close>

lemma route_put: "route d m path = Some (RPutPeer i) \<Longrightarrow> m = ''PUT'' \<and> path = [''api'', ''v2'', ''peers'', i] \<and> i \<noteq> []"
proof -
  assume r: "route d m path = Some (RPutPeer i)"
  have drop: "dropRoute m rest \<noteq> Some (RPutPeer i)" for rest
    by (auto simp: dropRoute_def split: list.splits if_splits)
  obtain a rest where p: "take 2 path = [''api'', ''v2'']" "drop 2 path = a # rest" "a = ''peers''" "peerRoute m rest = Some (RPutPeer i)"
    using r drop by (auto simp: route_def split: if_splits list.splits)
  have "path = take 2 path @ drop 2 path" by simp
  moreover have "m = ''PUT'' \<and> rest = [i] \<and> i \<noteq> []" using p(4) by (auto simp: peerRoute_def split: list.splits if_splits)
  ultimately show ?thesis using p by simp
qed

definition authorised :: "scanner \<Rightarrow> Config \<Rightarrow> ApiRequest \<Rightarrow> bool" where
  "authorised scan cfg0 aq \<longleftrightarrow>
     EffectiveNodeKey cfg0 \<noteq> [] \<and> TrimSpace (header ''X-Erebrus-Node-Key'' (aq_Req aq)) = EffectiveNodeKey cfg0 \<and>
     (\<exists>c. gateway_token scan (cfg_GatewayPublicKey cfg0) (TrimSpace (TrimPrefix (header ''Authorization'' (aq_Req aq)) ''Bearer '')) c)"

lemma request_new_peer:
  assumes "cfg_RunType (sv_cfg0 s) \<noteq> ''debug''" "ev_prov ev = nodeProvisioner cfg ParseKey dr now dev startedAt"
    and "serve ev aq s = Some (rep, s')" "i \<in> node_ids (sv_prov s')" "i \<notin> node_ids (sv_prov s)"
  shows "rq_Method (aq_Req aq) = ''PUT'' \<and> aq_Path aq = [''api'', ''v2'', ''peers'', i] \<and> authorised (ev_scan ev) (sv_cfg0 s) aq"
proof -
  have "node_ids (sv_prov s') \<noteq> node_ids (sv_prov s)" using assms(4,5) by blast
  from node_prov.serve_guarded [OF assms(2,3) this] obtain r where r:
    "route (sv_drop s \<noteq> None) (rq_Method (aq_Req aq)) (aq_Path aq) = Some r" "changes_peers r" "verdictFor ev r aq s = Next" by blast
  have h: "handle ev r aq s = Some (rep, s')" using assms(3) r(1,3) by (simp add: serve_def)
  obtain j where j: "r = RPutPeer j"
  proof (cases r)
    case (RDeletePeer k)
    obtain oe nd where d: "nodeDeletePeer cfg ParseKey (sv_prov s) k = (oe, nd)" by (rule prod.exhaust)
    have "node_ids (sv_prov s') \<subseteq> node_ids (sv_prov s)"
      using h RDeletePeer d nodeDeletePeer_ids [OF d] by (auto simp: assms(2) handleDeletePeer_def nodeProvisioner_def split: option.splits)
    then show ?thesis using assms(4,5) by blast
  qed (use r(2) that in auto)
  note p = route_put [OF r(1) [unfolded j]]
  have "node_ids (sv_prov s') \<subseteq> insert j (node_ids (sv_prov s))"
    using h p by (auto simp: j assms(2) handlePutPeer_def nodeProvisioner_def dest!: nodeUpsertPeer_ids
        split: option.splits if_splits prod.splits sum.splits)
  then have "i = j" using assms(4,5) by blast
  then show ?thesis using p verdict_release [OF assms(1) purposeOf_changes [OF r(2)] r(3)] by (auto simp: authorised_def)
qed

lemma node_run_peers:
  assumes "node_run scan s0 aqs s" "bridge_inv (fst s0)" "cfg_RunType (sv_cfg0 (gb_srv (fst s0))) \<noteq> ''debug''"
  shows "\<forall>i \<in> node_ids (gb_nd (fst s)) - node_ids (gb_nd (fst s0)). \<exists>aq \<in> set aqs.
    rq_Method (aq_Req aq) = ''PUT'' \<and> aq_Path aq = [''api'', ''v2'', ''peers'', i] \<and> authorised scan (sv_cfg0 (gb_srv (fst s0))) aq"
  using assms(1)
proof (induction rule: node_run.induct)
  case (request aqs g c ev ParseKey dr now dev startedAt aq rep srv)
  have cfg0: "sv_cfg0 (gb_srv g) = sv_cfg0 (gb_srv (fst s0))" using node_run_inv [OF request.hyps(1) assms(2)] by simp
  note new = request_new_peer [OF _ request.hyps(3,4), unfolded request.hyps(2) cfg0, OF assms(3)]
  show ?case
  proof
    fix i assume i: "i \<in> node_ids (gb_nd (fst (g\<lparr>gb_srv := srv\<rparr>, c))) - node_ids (gb_nd (fst s0))"
    show "\<exists>aq' \<in> set (aqs @ [aq]). rq_Method (aq_Req aq') = ''PUT'' \<and> aq_Path aq' = [''api'', ''v2'', ''peers'', i] \<and>
        authorised scan (sv_cfg0 (gb_srv (fst s0))) aq'"
      using request.IH new [of i] i by (cases "i \<in> node_ids (gb_nd g)") auto
  qed
next
  case (event aqs g c world jerr fmt e n err out c' n' g')
  have "node_ids (gb_nd g') \<subseteq> node_ids (gb_nd g)"
    using narrowing.event_inv [OF _ refl event.hyps(2), of "sv_cfg0 (gb_srv g)" "node_ids (gb_nd g)"] by (simp add: narrowed_def)
  then show ?case using event.IH by auto
next
  case (refreshed aqs g c gw jerr key n r n' g')
  then show ?case using ids_of_rows [OF nodeRefresher_keeps(1) [OF refreshed.hyps(2)]] by simp
next
  case (background aqs g c sp ag d k up)
  then show ?case by simp
qed simp


section \<open>Properties of the whole node\<close>

text \<open>
  C2. The node is safe while it runs: from a start on a sound database, through any interleaving of
  HTTP requests, gateway frames, timers, token refreshes and background updates, and whatever fails on
  the way, the database stays sound, so that no two peers share an identifier, a key or an address and
  every address is a host of the node's subnet.
\<close>

theorem running_node_sound:
  assumes "startNode ru cfg = Inr r" "ru_open ru = Inr st" "store_inv (cfg_WGIPv4Subnet cfg) st" "ipv4_subnet (cfg_WGIPv4Subnet cfg)"
    and "node_run scan (rn_bridge r, rn_client r) aqs (g, c)"
  shows "store_inv (cfg_WGIPv4Subnet cfg) (nd_store (gb_nd g)) \<and>
    distinct (map col_id (db_peers (nd_store (gb_nd g)))) \<and> distinct (map col_wg_public_key (db_peers (nd_store (gb_nd g)))) \<and>
    distinct (map col_wg_allowed_ip (db_peers (nd_store (gb_nd g)))) \<and>
    (\<forall>row \<in> set (db_peers (nd_store (gb_nd g))). host_cidr (cfg_WGIPv4Subnet cfg) (col_wg_allowed_ip row))"
proof -
  obtain peerID did where r: "r = startComponents ru cfg peerID did st"
    using assms(1,2) by (auto simp: startNode_def split: option.splits sum.splits)
  have "bridge_inv (rn_bridge r)" unfolding r by (rule startComponents_keeps [OF assms(3,4)])
  then have "bridge_inv g" "cfg_WGIPv4Subnet (gb_cfg g) = cfg_WGIPv4Subnet cfg"
    using node_run_inv [OF assms(5)] startComponents_config(1) [of ru cfg peerID did st] by (simp_all add: r)
  then have "store_inv (cfg_WGIPv4Subnet cfg) (nd_store (gb_nd g))" by (simp add: bridge_inv_store)
  then show ?thesis by (auto simp: store_inv_def peers_unique_def)
qed

text \<open>
  C1. Every client goes back to the gateway: if a node that does not run in debug mode has a peer that
  was not in its database at the start, then among the requests it served is a PUT of exactly that peer
  with the node key and a token signed by the gateway. Frames of the control connection, token
  refreshes and background work never add one.
\<close>

theorem new_peers_authorised:
  assumes "startNode ru cfg = Inr r" "ru_open ru = Inr st" "store_inv (cfg_WGIPv4Subnet cfg) st" "ipv4_subnet (cfg_WGIPv4Subnet cfg)"
    and "node_run scan (rn_bridge r, rn_client r) aqs (g, c)" "cfg_RunType (sv_cfg0 (gb_srv (rn_bridge r))) \<noteq> ''debug''"
    and "i \<in> node_ids (gb_nd g)" "i \<notin> col_id ` set (db_peers st)"
  shows "\<exists>aq \<in> set aqs. rq_Method (aq_Req aq) = ''PUT'' \<and> aq_Path aq = [''api'', ''v2'', ''peers'', i] \<and>
    authorised scan (sv_cfg0 (gb_srv (rn_bridge r))) aq"
proof -
  obtain peerID did where r: "r = startComponents ru cfg peerID did st"
    using assms(1,2) by (auto simp: startNode_def split: option.splits sum.splits)
  have "bridge_inv (rn_bridge r)" unfolding r by (rule startComponents_keeps [OF assms(3,4)])
  moreover have "node_ids (gb_nd (rn_bridge r)) = col_id ` set (db_peers st)"
    using start_rows.start_P [of st "db_peers st" ru cfg peerID did] by (simp add: r node_ids_def)
  ultimately show ?thesis using node_run_peers [OF assms(5)] assms(6-8) by auto
qed



section \<open>Witnesses\<close>

definition ex_node_cfg :: Config where
  "ex_node_cfg = ex_auth_cfg\<lparr>cfg_WGIPv4Subnet := ex_subnet, cfg_Mnemonic := ''abandon'', cfg_GatewayURL := []\<rparr>"

definition ex_node_env :: "(unit, unit) GatewayBridge \<Rightarrow> (NodeSvc, unit) Env" where
  "ex_node_env g = ex_ev\<lparr>ev_prov := nodeProvisioner (gb_cfg g) ex_ParseKey ex_draws 9 (Inr []) 0\<rparr>"

text \<open>A node starts, with everything failing that may fail, and serves the PUT of a new peer.\<close>

lemma ex_served:
  "(case startNode ex_run ex_node_cfg of
      Inl _ \<Rightarrow> False
    | Inr r \<Rightarrow> cfg_RunType (sv_cfg0 (gb_srv (rn_bridge r))) \<noteq> ''debug'' \<and>
        (case serve (ex_node_env (rn_bridge r)) ex_put (gb_srv (rn_bridge r)) of
           None \<Rightarrow> False
         | Some (rep, srv) \<Rightarrow> map col_id (db_peers (nd_store (sv_prov srv))) = [''a'', ''b'']))"
  by code_simp

lemma ex_run_of_node:
  obtains r g where "startNode ex_run ex_node_cfg = Inr r" "cfg_RunType (sv_cfg0 (gb_srv (rn_bridge r))) \<noteq> ''debug''"
    "node_run ex_scan (rn_bridge r, rn_client r) [ex_put] (g, rn_client r)" "map col_id (db_peers (nd_store (gb_nd g))) = [''a'', ''b'']"
proof -
  from ex_served obtain r rep srv where r: "startNode ex_run ex_node_cfg = Inr r" "cfg_RunType (sv_cfg0 (gb_srv (rn_bridge r))) \<noteq> ''debug''"
    and s: "serve (ex_node_env (rn_bridge r)) ex_put (gb_srv (rn_bridge r)) = Some (rep, srv)"
    "map col_id (db_peers (nd_store (sv_prov srv))) = [''a'', ''b'']" by (auto split: sum.splits option.splits)
  have "node_run ex_scan (rn_bridge r, rn_client r) ([] @ [ex_put]) ((rn_bridge r)\<lparr>gb_srv := srv\<rparr>, rn_client r)"
    by (rule node_run.request [OF node_run.started _ _ s(1)]) (simp_all add: ex_node_env_def ex_ev_def)
  then show thesis using that [OF r] s(2) by simp
qed

lemma ex_node_store: "ru_open ex_run = Inr ex_store" "store_inv (cfg_WGIPv4Subnet ex_node_cfg) ex_store" "ipv4_subnet (cfg_WGIPv4Subnet ex_node_cfg)"
  using ex_start_store by (simp_all add: ex_run_def ex_node_cfg_def ex_start_cfg_def ex_wg_config_def)

theorem running_node_sound_witness:
  "\<exists>r g. startNode ex_run ex_node_cfg = Inr r \<and> node_run ex_scan (rn_bridge r, rn_client r) [ex_put] (g, rn_client r) \<and>
     store_inv (cfg_WGIPv4Subnet ex_node_cfg) (nd_store (gb_nd g))"
proof -
  obtain r g where r: "startNode ex_run ex_node_cfg = Inr r" "node_run ex_scan (rn_bridge r, rn_client r) [ex_put] (g, rn_client r)"
    by (rule ex_run_of_node)
  show ?thesis using running_node_sound [OF r(1) ex_node_store r(2)] r by blast
qed

theorem new_peers_authorised_witness:
  "\<exists>r. startNode ex_run ex_node_cfg = Inr r \<and> authorised ex_scan (sv_cfg0 (gb_srv (rn_bridge r))) ex_put"
proof -
  obtain r g where r: "startNode ex_run ex_node_cfg = Inr r" "cfg_RunType (sv_cfg0 (gb_srv (rn_bridge r))) \<noteq> ''debug''"
    "node_run ex_scan (rn_bridge r, rn_client r) [ex_put] (g, rn_client r)" "map col_id (db_peers (nd_store (gb_nd g))) = [''a'', ''b'']"
    by (rule ex_run_of_node)
  have "''b'' \<in> set (map col_id (db_peers (nd_store (gb_nd g))))" unfolding r(4) by simp
  then have b: "''b'' \<in> node_ids (gb_nd g)" unfolding node_ids_def by simp
  have "''b'' \<notin> col_id ` set (db_peers ex_store)" by (simp add: ex_store_def ex_row_def)
  from new_peers_authorised [OF r(1) ex_node_store r(3,2) b this] r(1) show ?thesis by auto
qed

end
